(* ===== verification/Go_Strings.thy ===== *)
theory Go_Strings
  imports Prelude
begin

text \<open>
  Go's strings, as far as the program uses them. A Go string is a sequence of bytes, and
  an Isabelle \<open>char\<close> is one byte, so \<open>string\<close> is the Go type and \<open>length\<close> is
  Go's \<open>len\<close>. Ranging over a string decodes UTF-8: \<open>runes\<close> gives the code points,
  with U+FFFD for every byte that starts no valid sequence.
  The functions below model packages \<open>strings\<close>, \<open>strconv\<close>, \<open>unicode/utf8\<close> and the
  purely textual part of \<open>path/filepath\<close> (Unix).
\<close>

subsection \<open>Code points\<close>

definition rune_error :: nat where
  "rune_error = 0xFFFD"

definition cont_byte :: "nat \<Rightarrow> bool" where
  "cont_byte b \<longleftrightarrow> 0x80 \<le> b \<and> b \<le> 0xBF"

text \<open>\<open>utf8.DecodeRune\<close>: the first code point and its width in bytes.\<close>

fun decode_rune :: "nat list \<Rightarrow> nat \<times> nat" where
  "decode_rune [] = (rune_error, 0)"
| "decode_rune (b0 # bs) =
    (if b0 < 0x80 then (b0, 1)
     else if 0xC2 \<le> b0 \<and> b0 \<le> 0xDF then
       (case bs of
          b1 # _ \<Rightarrow> if cont_byte b1 then ((b0 - 0xC0) * 64 + (b1 - 0x80), 2) else (rune_error, 1)
        | _ \<Rightarrow> (rune_error, 1))
     else if 0xE0 \<le> b0 \<and> b0 \<le> 0xEF then
       (case bs of
          b1 # b2 # _ \<Rightarrow>
            if (if b0 = 0xE0 then 0xA0 else 0x80) \<le> b1 \<and> b1 \<le> (if b0 = 0xED then 0x9F else 0xBF)
               \<and> cont_byte b2
            then ((b0 - 0xE0) * 4096 + (b1 - 0x80) * 64 + (b2 - 0x80), 3) else (rune_error, 1)
        | _ \<Rightarrow> (rune_error, 1))
     else if 0xF0 \<le> b0 \<and> b0 \<le> 0xF4 then
       (case bs of
          b1 # b2 # b3 # _ \<Rightarrow>
            if (if b0 = 0xF0 then 0x90 else 0x80) \<le> b1 \<and> b1 \<le> (if b0 = 0xF4 then 0x8F else 0xBF)
               \<and> cont_byte b2 \<and> cont_byte b3
            then ((b0 - 0xF0) * 262144 + (b1 - 0x80) * 4096 + (b2 - 0x80) * 64 + (b3 - 0x80), 4)
            else (rune_error, 1)
        | _ \<Rightarrow> (rune_error, 1))
     else (rune_error, 1))"

lemma decode_rune_width_pos: "bs \<noteq> [] \<Longrightarrow> 0 < snd (decode_rune bs)"
  by (cases bs) (auto split: list.splits)

text \<open>The loop \<open>for _, r := range s\<close>: the decoded code points in order.\<close>

function runes_of :: "nat list \<Rightarrow> nat list" where
  "runes_of [] = []"
| "runes_of (b # bs) =
     (let (r, w) = decode_rune (b # bs) in r # runes_of (drop w (b # bs)))"
  by pat_completeness auto
termination
proof (relation "measure length", goal_cases)
  case (2 b bs x r w)
  then have "0 < w" using decode_rune_width_pos [of "b # bs"] by (metis list.distinct(1) snd_conv)
  then show ?case by (cases w) auto
qed simp

definition runes :: "string \<Rightarrow> nat list" where
  "runes s = runes_of (map of_char s)"

text \<open>\<open>utf8.AppendRune\<close>: surrogates and out-of-range values become U+FFFD.\<close>

definition encode_rune :: "nat \<Rightarrow> string" where
  "encode_rune r =
    (if r < 0x80 then [char_of r]
     else if r < 0x800 then [char_of (0xC0 + r div 64), char_of (0x80 + r mod 64)]
     else if 0x110000 \<le> r \<or> (0xD800 \<le> r \<and> r \<le> 0xDFFF) then map char_of [0xEF, 0xBF, 0xBD :: nat]
     else if r < 0x10000 then
       [char_of (0xE0 + r div 4096), char_of (0x80 + r div 64 mod 64), char_of (0x80 + r mod 64)]
     else [char_of (0xF0 + r div 262144), char_of (0x80 + r div 4096 mod 64),
           char_of (0x80 + r div 64 mod 64), char_of (0x80 + r mod 64)])"

definition encode_runes :: "nat list \<Rightarrow> string" where
  "encode_runes rs = concat (map encode_rune rs)"

definition is_ascii :: "string \<Rightarrow> bool" where
  "is_ascii s \<longleftrightarrow> list_all (\<lambda>c. of_char c < (0x80 :: nat)) s"

lemma runes_ascii: "is_ascii s \<Longrightarrow> runes s = map of_char s"
  by (induction s) (auto simp: runes_def is_ascii_def)

lemma runes_Nil [simp]: "runes [] = []"
  by (simp add: runes_def)

lemma encode_rune_ascii: "r < 0x80 \<Longrightarrow> encode_rune r = [char_of r]"
  by (simp add: encode_rune_def)

subsection \<open>ASCII classes and letter case\<close>

definition upper_rune :: "nat \<Rightarrow> bool" where
  "upper_rune r \<longleftrightarrow> 65 \<le> r \<and> r \<le> 90"

definition lower_letter :: "nat \<Rightarrow> bool" where
  "lower_letter r \<longleftrightarrow> 97 \<le> r \<and> r \<le> 122"

definition digit_rune :: "nat \<Rightarrow> bool" where
  "digit_rune r \<longleftrightarrow> 48 \<le> r \<and> r \<le> 57"

text \<open>
  \<open>unicode.ToLower\<close> as far as its result is an ASCII character: besides the upper-case
  letters only U+0130 and U+212A have an ASCII lower case. Other code points are kept; the
  code compares lowered text with ASCII literals only.
\<close>

definition rune_lower :: "nat \<Rightarrow> nat" where
  "rune_lower r =
    (if upper_rune r then r + 32 else if r = 0x130 then 0x69 else if r = 0x212A then 0x6B else r)"

definition to_lower :: "string \<Rightarrow> string" where
  "to_lower s = encode_runes (map rune_lower (runes s))"

text \<open>
  \<open>strings.EqualFold\<close> against an ASCII text: U+017F folds with s and U+212A with k.
\<close>

definition rune_fold :: "nat \<Rightarrow> nat" where
  "rune_fold r =
    (if upper_rune r then r + 32 else if r = 0x17F then 0x73 else if r = 0x212A then 0x6B else r)"

definition equal_fold :: "string \<Rightarrow> string \<Rightarrow> bool" where
  "equal_fold s t \<longleftrightarrow> map rune_fold (runes s) = map rune_fold (runes t)"

text \<open>\<open>unicode.IsSpace\<close>.\<close>

definition space_rune :: "nat \<Rightarrow> bool" where
  "space_rune r \<longleftrightarrow> (9 \<le> r \<and> r \<le> 13) \<or> r = 32 \<or> r = 0x85 \<or> r = 0xA0 \<or> r = 0x1680
     \<or> (0x2000 \<le> r \<and> r \<le> 0x200A) \<or> r = 0x2028 \<or> r = 0x2029 \<or> r = 0x202F \<or> r = 0x205F \<or> r = 0x3000"

subsection \<open>Searching, splitting and trimming\<close>

definition has_prefix :: "string \<Rightarrow> string \<Rightarrow> bool" where
  "has_prefix s p \<longleftrightarrow> take (length p) s = p"

definition has_suffix :: "string \<Rightarrow> string \<Rightarrow> bool" where
  "has_suffix s p \<longleftrightarrow> has_prefix (rev s) (rev p)"

definition trim_prefix :: "string \<Rightarrow> string \<Rightarrow> string" where
  "trim_prefix s p = (if has_prefix s p then drop (length p) s else s)"

definition trim_suffix :: "string \<Rightarrow> string \<Rightarrow> string" where
  "trim_suffix s p = (if has_suffix s p then take (length s - length p) s else s)"

fun contains_str :: "string \<Rightarrow> string \<Rightarrow> bool" where
  "contains_str [] p \<longleftrightarrow> p = []"
| "contains_str (c # s) p \<longleftrightarrow> has_prefix (c # s) p \<or> contains_str s p"

text \<open>\<open>strings.Split\<close> with a one-byte separator; the result is never empty.\<close>

fun split_on :: "char \<Rightarrow> string \<Rightarrow> string list" where
  "split_on c [] = [[]]"
| "split_on c (x # xs) =
    (if x = c then [] # split_on c xs
     else (case split_on c xs of [] \<Rightarrow> [[x]] | w # ws \<Rightarrow> (x # w) # ws))"

fun join_with :: "char \<Rightarrow> string list \<Rightarrow> string" where
  "join_with c [] = []"
| "join_with c [w] = w"
| "join_with c (w # ws) = w @ c # join_with c ws"

text \<open>\<open>strings.Cut\<close> at the first separator byte.\<close>

definition cut_on :: "char \<Rightarrow> string \<Rightarrow> (string \<times> string) option" where
  "cut_on c s =
    (case dropWhile (\<lambda>x. x \<noteq> c) s of
       [] \<Rightarrow> None
     | _ # rest \<Rightarrow> Some (takeWhile (\<lambda>x. x \<noteq> c) s, rest))"

text \<open>The part after the last occurrence of a byte; the whole string if there is none.\<close>

definition after_last :: "char \<Rightarrow> string \<Rightarrow> string" where
  "after_last c s = rev (takeWhile (\<lambda>x. x \<noteq> c) (rev s))"

text \<open>\<open>strings.TrimLeft\<close>, \<open>TrimRight\<close> and \<open>Trim\<close> with a cutset of ASCII bytes.\<close>

definition trim_left :: "string \<Rightarrow> string \<Rightarrow> string" where
  "trim_left s cset = dropWhile (\<lambda>c. c \<in> set cset) s"

definition trim_right :: "string \<Rightarrow> string \<Rightarrow> string" where
  "trim_right s cset = rev (dropWhile (\<lambda>c. c \<in> set cset) (rev s))"

definition trim_set :: "string \<Rightarrow> string \<Rightarrow> string" where
  "trim_set s cset = trim_right (trim_left s cset) cset"

text \<open>\<open>strings.TrimSpace\<close> works on code points, so the string is split into their bytes.\<close>

function chunks :: "string \<Rightarrow> (nat \<times> string) list" where
  "chunks [] = []"
| "chunks (c # cs) =
    (let (r, w) = decode_rune (map of_char (c # cs))
     in (r, take w (c # cs)) # chunks (drop w (c # cs)))"
  by pat_completeness auto
termination
proof (relation "measure length", goal_cases)
  case (2 c cs x r w)
  then have "0 < w" using decode_rune_width_pos [of "map of_char (c # cs)"]
    by (metis list.distinct(1) list.simps(9) snd_conv)
  then show ?case by (cases w) auto
qed simp

definition trim_space :: "string \<Rightarrow> string" where
  "trim_space s =
    concat (map snd (rev (dropWhile (space_rune \<circ> fst) (rev (dropWhile (space_rune \<circ> fst) (chunks s))))))"

lemma set_trim_left: "set (trim_left s cset) \<subseteq> set s"
  by (auto simp: trim_left_def dest: set_dropWhileD)

lemma set_trim_right: "set (trim_right s cset) \<subseteq> set s"
  by (auto simp: trim_right_def dest: set_dropWhileD)

lemma set_trim_set: "set (trim_set s cset) \<subseteq> set s"
  unfolding trim_set_def using set_trim_left set_trim_right by blast

lemma length_trim_left: "length (trim_left s cset) \<le> length s"
  by (simp add: trim_left_def length_dropWhile_le)

lemma length_trim_right: "length (trim_right s cset) \<le> length s"
  by (metis length_dropWhile_le length_rev trim_right_def)

lemma length_trim_set: "length (trim_set s cset) \<le> length s"
  unfolding trim_set_def using length_trim_left length_trim_right le_trans by blast

lemma split_on_ne [simp]: "split_on c s \<noteq> []"
  by (cases s) (auto split: list.splits)

lemma split_on_no_sep: "w \<in> set (split_on c s) \<Longrightarrow> c \<notin> set w"
  by (induction s arbitrary: w) (fastforce split: if_splits list.splits)+

lemma join_with_Cons: "ws \<noteq> [] \<Longrightarrow> join_with c (w # ws) = w @ c # join_with c ws"
  by (cases ws) auto

lemma join_split_on: "join_with c (split_on c s) = s"
proof (induction s)
  case (Cons x xs)
  show ?case
  proof (cases "split_on c xs")
    case (Cons w ws)
    then show ?thesis using Cons.IH by (cases ws) auto
  qed simp
qed simp

lemma split_on_append: "c \<notin> set w \<Longrightarrow> split_on c (w @ c # s) = w # split_on c s"
  by (induction w) auto

lemma split_on_single: "c \<notin> set w \<Longrightarrow> split_on c w = [w]"
  by (induction w) auto

lemma split_join_on:
  "ws \<noteq> [] \<Longrightarrow> (\<And>w. w \<in> set ws \<Longrightarrow> c \<notin> set w) \<Longrightarrow> split_on c (join_with c ws) = ws"
proof (induction ws rule: join_with.induct)
  case (3 c w v vs)
  then show ?case by (simp add: split_on_append)
qed (simp_all add: split_on_single)

lemma after_last_no_sep: "c \<notin> set (after_last c s)"
  by (auto simp: after_last_def dest: set_takeWhileD)

lemma set_after_last: "set (after_last c s) \<subseteq> set s"
  by (auto simp: after_last_def dest: set_takeWhileD)

lemma has_prefix_iff: "has_prefix s p \<longleftrightarrow> (\<exists>t. s = p @ t)"
  by (auto simp: has_prefix_def) (metis append_take_drop_id)

lemma has_suffix_iff: "has_suffix s p \<longleftrightarrow> (\<exists>t. s = t @ p)"
  unfolding has_suffix_def has_prefix_iff by (metis rev_append rev_rev_ident)

lemma trim_suffix_append [simp]: "trim_suffix (s @ p) p = s"
  by (auto simp: trim_suffix_def has_suffix_iff)

subsection \<open>Numbers\<close>

definition digit_char :: "nat \<Rightarrow> char" where
  "digit_char d = char_of (48 + d)"

fun nat_text :: "nat \<Rightarrow> string" where
  "nat_text n = (if n < 10 then [digit_char n] else nat_text (n div 10) @ [digit_char (n mod 10)])"

declare nat_text.simps [simp del]

text \<open>\<open>strconv.Itoa\<close> and the \<open>%d\<close> verb.\<close>

definition itoa :: "int \<Rightarrow> string" where
  "itoa i = (if i < 0 then CHR ''-'' # nat_text (nat (- i)) else nat_text (nat i))"

fun digits_value :: "nat \<Rightarrow> string \<Rightarrow> nat option" where
  "digits_value acc [] = Some acc"
| "digits_value acc (c # cs) =
    (if digit_rune (of_char c) then digits_value (10 * acc + (of_char c - 48)) cs else None)"

definition max_int64 :: int where
  "max_int64 = 9223372036854775807"

definition min_int64 :: int where
  "min_int64 = - 9223372036854775808"

text \<open>
  \<open>strconv.Atoi\<close> (and \<open>ParseInt\<close> in base 10 with 64 bits): the value and whether the
  error is nil. A syntax error returns 0, a range error the nearest bound.
\<close>

definition atoi :: "string \<Rightarrow> int \<times> bool" where
  "atoi s =
    (let neg = has_prefix s ''-'';
         body = (if neg \<or> has_prefix s ''+'' then drop 1 s else s)
     in if body = [] then (0, False)
        else (case digits_value 0 body of
                None \<Rightarrow> (0, False)
              | Some n \<Rightarrow>
                  (let v = (if neg then - int n else int n)
                   in if max_int64 < v then (max_int64, False)
                      else if v < min_int64 then (min_int64, False)
                      else (v, True))))"

lemma digit_char_of_char: "d < 10 \<Longrightarrow> of_char (digit_char d) = 48 + d"
  by (simp add: digit_char_def)

lemma digits_value_snoc:
  "digits_value acc (ds @ [c]) =
    (case digits_value acc ds of
       None \<Rightarrow> None
     | Some n \<Rightarrow> if digit_rune (of_char c) then Some (10 * n + (of_char c - 48)) else None)"
  by (induction ds arbitrary: acc) auto

lemma digits_value_nat_text: "digits_value 0 (nat_text n) = Some n"
proof (induction n rule: nat_text.induct)
  case (1 n)
  show ?case
  proof (cases "n < 10")
    case True
    then show ?thesis by (simp add: nat_text.simps digit_char_of_char digit_rune_def)
  next
    case False
    with 1 have "digits_value 0 (nat_text (n div 10)) = Some (n div 10)" by simp
    moreover have "n mod 10 < 10" by simp
    ultimately show ?thesis using False
      by (subst nat_text.simps) (simp add: digits_value_snoc digit_char_of_char digit_rune_def)
  qed
qed

lemma nat_text_inj: "nat_text m = nat_text n \<Longrightarrow> m = n"
  by (metis digits_value_nat_text option.inject)

lemma nat_text_ne [simp]: "nat_text n \<noteq> []"
  by (subst nat_text.simps) simp

lemma nat_text_digits: "c \<in> set (nat_text n) \<Longrightarrow> digit_rune (of_char c)"
proof (induction n rule: nat_text.induct)
  case (1 n)
  show ?case
  proof (cases "n < 10")
    case True
    with "1.prems" show ?thesis by (simp add: nat_text.simps digit_char_of_char digit_rune_def)
  next
    case False
    with 1 show ?thesis
      by (subst (asm) (2) nat_text.simps) (auto simp: digit_char_of_char digit_rune_def)
  qed
qed

lemma nat_text_hd_not_sign:
  "\<not> has_prefix (nat_text n) ''-''" "\<not> has_prefix (nat_text n) ''+''"
proof -
  obtain c cs where n: "nat_text n = c # cs" by (meson nat_text_ne neq_Nil_conv)
  then have "digit_rune (of_char c)" using nat_text_digits [of c n] by simp
  then have "c \<noteq> CHR ''-''" "c \<noteq> CHR ''+''" by (auto simp: digit_rune_def)
  then show "\<not> has_prefix (nat_text n) ''-''" "\<not> has_prefix (nat_text n) ''+''"
    by (auto simp: n has_prefix_def)
qed

theorem atoi_itoa: "min_int64 \<le> i \<Longrightarrow> i \<le> max_int64 \<Longrightarrow> atoi (itoa i) = (i, True)"
  by (auto simp: atoi_def itoa_def has_prefix_def [of "_ # _"] nat_text_hd_not_sign digits_value_nat_text)

lemma atoi_bounds: "min_int64 \<le> fst (atoi s) \<and> fst (atoi s) \<le> max_int64"
  by (auto simp: atoi_def Let_def min_int64_def max_int64_def split: option.splits)

end
