(* ===== verification/Go_Paths.thy ===== *)
theory Go_Paths
  imports Go_Strings
begin

text \<open>
  Lexical path operations of \<open>path/filepath\<close> on Unix: \<open>Ext\<close>, \<open>Base\<close>, \<open>Clean\<close>,
  \<open>Join\<close>, \<open>IsAbs\<close> and \<open>Rel\<close>. A cleaned path is a flag (rooted or not) and its list of
  components, and \<open>Rel\<close> compares component lists.
\<close>

abbreviation slash :: char where "slash \<equiv> CHR ''/''"
abbreviation dot :: char where "dot \<equiv> CHR ''.''"

text \<open>\<open>filepath.Ext\<close>: from the last dot of the last element, or nothing.\<close>

definition file_ext :: "string \<Rightarrow> string" where
  "file_ext p = (let e = after_last slash p in if dot \<in> set e then dot # after_last dot e else [])"

definition strip_slashes :: "string \<Rightarrow> string" where
  "strip_slashes p = rev (dropWhile (\<lambda>c. c = slash) (rev p))"

definition file_base :: "string \<Rightarrow> string" where
  "file_base p =
    (if p = [] then ''.''
     else let b = after_last slash (strip_slashes p) in if b = [] then ''/'' else b)"

definition is_abs :: "string \<Rightarrow> bool" where
  "is_abs p = has_prefix p ''/''"

fun clean_acc :: "bool \<Rightarrow> string list \<Rightarrow> string list \<Rightarrow> string list" where
  "clean_acc rooted acc [] = rev acc"
| "clean_acc rooted acc (x # xs) =
    (if x = [] \<or> x = ''.'' then clean_acc rooted acc xs
     else if x = ''..'' then
       (case acc of
          [] \<Rightarrow> if rooted then clean_acc rooted [] xs else clean_acc rooted [x] xs
        | y # ys \<Rightarrow> if y = ''..'' then clean_acc rooted (x # acc) xs else clean_acc rooted ys xs)
     else clean_acc rooted (x # acc) xs)"

definition path_parts :: "string \<Rightarrow> string list" where
  "path_parts p = clean_acc (is_abs p) [] (split_on slash p)"

definition render_path :: "bool \<Rightarrow> string list \<Rightarrow> string" where
  "render_path rooted ps =
    (if rooted then slash # join_with slash ps else if ps = [] then ''.'' else join_with slash ps)"

definition clean_path :: "string \<Rightarrow> string" where
  "clean_path p = (if p = [] then ''.'' else render_path (is_abs p) (path_parts p))"

definition join_path :: "string \<Rightarrow> string \<Rightarrow> string" where
  "join_path d n =
    (if d \<noteq> [] then clean_path (d @ slash # n) else if n \<noteq> [] then clean_path n else [])"

fun strip_common :: "string list \<Rightarrow> string list \<Rightarrow> string list \<times> string list" where
  "strip_common (b # bs) (t # ts) = (if b = t then strip_common bs ts else (b # bs, t # ts))"
| "strip_common bs ts = (bs, ts)"

text \<open>\<open>filepath.Rel\<close>; \<open>None\<close> is the error.\<close>

definition rel_path :: "string \<Rightarrow> string \<Rightarrow> string option" where
  "rel_path base targ =
    (let b = clean_path base; t = clean_path targ
     in if b = t then Some ''.''
        else if is_abs b \<noteq> is_abs t then None
        else let (bs, ts) = strip_common (path_parts b) (path_parts t)
             in if bs \<noteq> [] \<and> hd bs = ''..'' then None
                else Some (join_with slash (replicate (length bs) ''..'' @ ts)))"

subsection \<open>Cleaning\<close>

text \<open>A proper component is a name: not empty, not a dot or dot-dot, without a slash.\<close>

definition plain_name :: "string \<Rightarrow> bool" where
  "plain_name x \<longleftrightarrow> x \<noteq> [] \<and> x \<noteq> ''.'' \<and> x \<noteq> ''..'' \<and> slash \<notin> set x"

lemma clean_acc_snoc:
  "plain_name n \<Longrightarrow> clean_acc r acc (xs @ [n]) = clean_acc r acc xs @ [n]"
proof (induction r acc xs rule: clean_acc.induct)
  case (1 rooted acc)
  then show ?case by (simp add: plain_name_def)
next
  case (2 rooted acc x xs)
  consider (skip) "x = [] \<or> x = ''.''" | (up) "x = ''..''" | (name) "x \<noteq> []" "x \<noteq> ''.''" "x \<noteq> ''..''"
    by blast
  then show ?case
  proof cases
    case skip
    with 2 show ?thesis by simp
  next
    case up
    with 2 show ?thesis by (cases acc) auto
  next
    case name
    with 2 show ?thesis by simp
  qed
qed

lemma clean_acc_no_slash:
  assumes "\<And>x. x \<in> set acc \<union> set xs \<Longrightarrow> slash \<notin> set x" and "y \<in> set (clean_acc r acc xs)"
  shows "y \<noteq> [] \<or> y \<in> set acc" and "slash \<notin> set y"
proof -
  have "(y \<noteq> [] \<or> y \<in> set acc) \<and> slash \<notin> set y"
    using assms by (induction r acc xs rule: clean_acc.induct) (auto split: if_splits list.splits)
  then show "y \<noteq> [] \<or> y \<in> set acc" and "slash \<notin> set y" by simp_all
qed

lemma path_parts_no_slash: "y \<in> set (path_parts p) \<Longrightarrow> y \<noteq> [] \<and> slash \<notin> set y"
  using clean_acc_no_slash [of "[]" "split_on slash p" y "is_abs p"] split_on_no_sep
  unfolding path_parts_def by fastforce

lemma split_on_append_sep: "split_on c (s @ c # t) = split_on c s @ split_on c t"
proof (induction s)
  case (Cons x s)
  then show ?case by (cases "split_on c s") auto
qed simp

lemma is_abs_append: "p \<noteq> [] \<Longrightarrow> is_abs (p @ q) = is_abs p"
  by (cases p) (auto simp: is_abs_def has_prefix_def)

text \<open>Joining a proper name appends one component.\<close>

lemma path_parts_append_name:
  assumes "d \<noteq> []" and "plain_name n"
  shows "path_parts (d @ slash # n) = path_parts d @ [n]"
  using assms
  by (simp add: path_parts_def split_on_append_sep is_abs_append split_on_single plain_name_def
      clean_acc_snoc [unfolded plain_name_def])

lemma join_path_plain:
  assumes "d \<noteq> []" and "plain_name n"
  shows "join_path d n = render_path (is_abs d) (path_parts d @ [n])"
  using assms by (simp add: join_path_def clean_path_def path_parts_append_name is_abs_append)

subsection \<open>The shape of cleaned paths\<close>

text \<open>
  Every cleaned list is some dot-dots (none when rooted) followed by proper names, so
  cleaning it again changes nothing.
\<close>

definition real_name :: "string \<Rightarrow> bool" where
  "real_name x \<longleftrightarrow> x \<noteq> [] \<and> x \<noteq> ''.'' \<and> x \<noteq> ''..''"

definition normal_parts :: "bool \<Rightarrow> string list \<Rightarrow> bool" where
  "normal_parts r ps \<longleftrightarrow>
    (\<exists>k ns. ps = replicate k ''..'' @ ns \<and> (r \<longrightarrow> k = 0) \<and> (\<forall>x\<in>set ns. real_name x))"

lemma normal_parts_Nil: "normal_parts r []"
  by (auto simp: normal_parts_def intro!: exI [of _ 0])

lemma normal_parts_snoc: "normal_parts r ps \<Longrightarrow> real_name x \<Longrightarrow> normal_parts r (ps @ [x])"
  unfolding normal_parts_def
  by (metis Un_insert_right append.right_neutral append_assoc insert_iff list.simps(15) set_append)

lemma normal_parts_up: "normal_parts False (replicate k ''..'')"
  unfolding normal_parts_def by (intro exI [of _ k] exI [of _ "[]"]) simp

lemma snoc_eq_replicate: "ps @ [x] = replicate k y \<Longrightarrow> ps = replicate (k - 1) y \<and> 0 < k"
proof (cases k)
  case (Suc j)
  assume "ps @ [x] = replicate k y"
  then have "ps @ [x] = replicate j y @ [y]" by (simp add: Suc replicate_append_same)
  with Suc show ?thesis by simp
qed simp

lemma normal_parts_butlast: "normal_parts r (ps @ [x]) \<Longrightarrow> normal_parts r ps"
proof -
  assume "normal_parts r (ps @ [x])"
  then obtain k ns where ns: "ps @ [x] = replicate k ''..'' @ ns" "r \<longrightarrow> k = 0" "\<forall>x\<in>set ns. real_name x"
    by (auto simp: normal_parts_def)
  show "normal_parts r ps"
  proof (cases ns rule: rev_cases)
    case Nil
    with ns(1) have "ps = replicate (k - 1) ''..''"
      using snoc_eq_replicate [of ps x k "''..''"] by simp
    with ns(2) show ?thesis
      unfolding normal_parts_def by (intro exI [of _ "k - 1"] exI [of _ "[]"]) simp
  next
    case (snoc ms m)
    with ns have "ps = replicate k ''..'' @ ms" by simp
    with ns snoc show ?thesis unfolding normal_parts_def by auto
  qed
qed

lemma normal_parts_last_up:
  "normal_parts r (ps @ [''..'']) \<Longrightarrow> \<not> r \<and> (\<exists>k. ps = replicate k ''..'')"
proof -
  assume "normal_parts r (ps @ [''..''])"
  then obtain k ns where ns: "ps @ [''..''] = replicate k ''..'' @ ns" "r \<longrightarrow> k = 0" "\<forall>x\<in>set ns. real_name x"
    by (auto simp: normal_parts_def)
  show ?thesis
  proof (cases ns rule: rev_cases)
    case Nil
    with ns(1) have "ps = replicate (k - 1) ''..'' \<and> 0 < k"
      using snoc_eq_replicate [of ps "''..''" k "''..''"] by simp
    with ns(2) show ?thesis by blast
  next
    case (snoc ms m)
    with ns show ?thesis by (auto simp: real_name_def)
  qed
qed

lemma clean_acc_normal: "normal_parts r (rev acc) \<Longrightarrow> normal_parts r (clean_acc r acc xs)"
proof (induction r acc xs rule: clean_acc.induct)
  case (1 r acc)
  then show ?case by simp
next
  case (2 r acc x xs)
  consider (skip) "x = [] \<or> x = ''.''" | (up) "x = ''..''" | (name) "real_name x"
    by (auto simp: real_name_def)
  then show ?case
  proof cases
    case skip
    with 2 show ?thesis by simp
  next
    case up
    show ?thesis
    proof (cases acc)
      case Nil
      with 2 up normal_parts_Nil normal_parts_up [of 1] show ?thesis by (cases r) auto
    next
      case (Cons y ys)
      show ?thesis
      proof (cases "y = ''..''")
        case True
        have "normal_parts r (rev ys @ [''..''])" using "2.prems" Cons True by simp
        then obtain k where "\<not> r" "rev ys = replicate k ''..''"
          using normal_parts_last_up by blast
        then have "normal_parts r (rev (x # acc))"
          using normal_parts_up [of "Suc (Suc k)"] Cons True up
          by (simp add: replicate_append_same)
        with 2 up Cons True show ?thesis by simp
      next
        case False
        have "normal_parts r (rev ys)"
          using "2.prems" Cons by (simp add: normal_parts_butlast)
        with 2 up Cons False show ?thesis by simp
      qed
    qed
  next
    case name
    have "normal_parts r (rev (x # acc))" using "2.prems" name by (simp add: normal_parts_snoc)
    with 2 name show ?thesis by (simp add: real_name_def)
  qed
qed

lemma path_parts_normal: "normal_parts (is_abs p) (path_parts p)"
  by (simp add: path_parts_def clean_acc_normal normal_parts_Nil)

lemma clean_acc_real: "\<forall>x\<in>set ns. real_name x \<Longrightarrow> clean_acc r acc ns = rev acc @ ns"
  by (induction ns arbitrary: acc) (auto simp: real_name_def)

lemma clean_acc_dots:
  "\<not> r \<Longrightarrow> clean_acc r (replicate j ''..'') (replicate k ''..'' @ ns)
     = clean_acc r (replicate (j + k) ''..'') ns"
proof (induction k arbitrary: j)
  case (Suc k)
  have "clean_acc r (replicate j ''..'') (replicate (Suc k) ''..'' @ ns)
      = clean_acc r (replicate (Suc j) ''..'') (replicate k ''..'' @ ns)"
    using Suc.prems by (cases j) auto
  also have "\<dots> = clean_acc r (replicate (Suc j + k) ''..'') ns"
    using Suc.prems by (rule Suc.IH)
  finally show ?case by simp
qed simp

lemma clean_acc_fixed: "normal_parts r ps \<Longrightarrow> clean_acc r [] ps = ps"
proof -
  assume "normal_parts r ps"
  then obtain k ns where ps: "ps = replicate k ''..'' @ ns" "r \<longrightarrow> k = 0" "\<forall>x\<in>set ns. real_name x"
    by (auto simp: normal_parts_def)
  show ?thesis
  proof (cases r)
    case True
    with ps show ?thesis by (simp add: clean_acc_real)
  next
    case False
    with clean_acc_dots [of r 0 k ns] ps show ?thesis by (simp add: clean_acc_real)
  qed
qed

text \<open>Reading back a rendered path gives its flag and its components.\<close>

lemma parts_render_path:
  assumes "normal_parts r ps" and "\<And>x. x \<in> set ps \<Longrightarrow> x \<noteq> [] \<and> slash \<notin> set x" and "ps \<noteq> []"
  shows "is_abs (render_path r ps) = r" and "path_parts (render_path r ps) = ps"
proof -
  obtain w ws where ps: "ps = w # ws" using assms(3) by (cases ps) auto
  then have "\<not> is_abs (join_with slash ps)"
    using assms(2) [of w] by (cases ws; cases w) (auto simp: is_abs_def has_prefix_def)
  then show abs: "is_abs (render_path r ps) = r"
    using assms(3) by (auto simp: render_path_def) (simp add: is_abs_def has_prefix_def)
  have "split_on slash (join_with slash ps) = ps"
    using assms by (intro split_join_on) auto
  then show "path_parts (render_path r ps) = ps"
    using assms abs by (auto simp: path_parts_def render_path_def clean_acc_fixed)
qed

lemma render_path_inj:
  assumes "normal_parts r ps" "normal_parts r' qs" "ps \<noteq> []" "qs \<noteq> []"
    and "\<And>x. x \<in> set ps \<union> set qs \<Longrightarrow> x \<noteq> [] \<and> slash \<notin> set x"
    and "render_path r ps = render_path r' qs"
  shows "r = r' \<and> ps = qs"
  using parts_render_path [of r ps] parts_render_path [of r' qs] assms by auto

end
