(* ===== verification/Go_Errors.thy ===== *)
theory Go_Errors
  imports Go_Strings
begin

text \<open>
  Errors as values. Go errors form trees through \<open>Unwrap\<close>; the constructors are the error
  types the program defines or inspects, and \<open>errors_is\<close> and \<open>errors_as_*\<close> search the
  tree in pre-order as \<open>errors.Is\<close> and \<open>errors.As\<close> do.
  Sources: the error types of \<open>internal/conversion/types.go\<close>, \<open>internal/probe/probe.go\<close>,
  \<open>internal/imageconv/types.go\<close>, \<open>internal/media/*.go\<close> and \<open>internal/runner/runner.go\<close>,
  and the sentinel errors of \<open>internal/jobs\<close> and its \<open>storage\<close>.
\<close>

datatype failure_kind =
    FailureRejection
  | FailureConfiguration
  | FailureProbe
  | FailureConversion
  | FailureValidation
  | FailureCanceled

fun failure_kind_text :: "failure_kind \<Rightarrow> string" where
  "failure_kind_text FailureRejection = ''rejection''"
| "failure_kind_text FailureConfiguration = ''configuration''"
| "failure_kind_text FailureProbe = ''probe''"
| "failure_kind_text FailureConversion = ''conversion''"
| "failure_kind_text FailureValidation = ''validation''"
| "failure_kind_text FailureCanceled = ''canceled''"

lemma failure_kind_text_inj: "failure_kind_text a = failure_kind_text b \<longleftrightarrow> a = b"
  by (cases a; cases b) simp_all

datatype probe_stage = StagePresence | StageVersion | StageFunctional

datatype conversion_stage =
    ConversionStagePrepare
  | ConversionStageCapability
  | ConversionStageEncode
  | ConversionStageProgress
  | ConversionStageProbe
  | ConversionStageValidate
  | ConversionStagePublish

datatype plan_error_code =
    ErrorInvalidRequest
  | ErrorNoUsableVideo
  | ErrorNoSupportedAudio
  | ErrorUnsupportedHDR
  | ErrorUnsupportedLosslessAudio
  | ErrorAccelerationUnavailable

datatype sentinel =
    ErrInvalidID
  | ErrNotFound
  | ErrShuttingDown
  | ErrQueueFull
  | ErrNotStartable
  | ErrNoConvertibleFiles
  | ErrIncompatibleOperation
  | ErrLeased
  | ErrNoFiles
  | ErrTooManyFiles
  | ErrUploadTooLarge
  | ErrInsufficientSpace
  | ErrInvalidUpload
  | ErrUploadStalled
  | ErrOutputExists
  | ContextCanceled
  | ContextDeadlineExceeded
  | OsErrNotExist
  | OsErrExist
  | OsErrInvalid
  | OsErrDeadlineExceeded
  | IoEOF
  | SyscallEINVAL
  | SyscallENOTSUP
  | SyscallESRCH
  | HttpErrServerClosed
  | FlagErrHelp

text \<open>The issues a media validation error carries.\<close>

datatype validation_code =
    ValidationContainer
  | ValidationCodec
  | ValidationStreamCount
  | ValidationPixelFormat
  | ValidationColor
  | ValidationDuration
  | ValidationDimensions
  | ValidationRotation
  | ValidationFastStart
  | ValidationAudioPresence
  | ValidationChannelLayout
  | ValidationSampleRate
  | ValidationMetadata
  | ValidationUndeclaredStream

record validation_issue =
  vi_code :: validation_code
  vi_field :: string
  vi_expected :: string
  vi_actual :: string

datatype err =
    Sentinel sentinel
  | NewError string
  | Wrapped string err
  | Joined "err list"
  | PathError string err
  | LinkError string err
  | SyscallError string err
  | ConversionError failure_kind string string "err option"
  | ProbeError probe_stage err
  | ImageError string string err
  | MediaPlanError plan_error_code string
  | MediaConversionError conversion_stage err
  | MediaValidationError "validation_issue list"
  | RunnerExitError int
  | RunnerContextError err
  | RunnerStartError err
  | RunnerWaitError err
  | MaxBytesError
  | NetError bool

type_synonym 'a result = "err + 'a"

text \<open>An error with everything it unwraps to, in pre-order.\<close>

primrec err_tree :: "err \<Rightarrow> err list" where
  "err_tree (Sentinel s) = [Sentinel s]"
| "err_tree (NewError m) = [NewError m]"
| "err_tree (Wrapped m e) = Wrapped m e # err_tree e"
| "err_tree (Joined es) = Joined es # concat (map err_tree es)"
| "err_tree (PathError op e) = PathError op e # err_tree e"
| "err_tree (LinkError op e) = LinkError op e # err_tree e"
| "err_tree (SyscallError op e) = SyscallError op e # err_tree e"
| "err_tree (ConversionError k c m e) =
     ConversionError k c m e # (case map_option err_tree e of None \<Rightarrow> [] | Some t \<Rightarrow> t)"
| "err_tree (ProbeError s e) = ProbeError s e # err_tree e"
| "err_tree (ImageError c s e) = ImageError c s e # err_tree e"
| "err_tree (MediaPlanError c m) = [MediaPlanError c m]"
| "err_tree (MediaConversionError s e) = MediaConversionError s e # err_tree e"
| "err_tree (MediaValidationError n) = [MediaValidationError n]"
| "err_tree (RunnerExitError n) = [RunnerExitError n]"
| "err_tree (RunnerContextError e) = RunnerContextError e # err_tree e"
| "err_tree (RunnerStartError e) = RunnerStartError e # err_tree e"
| "err_tree (RunnerWaitError e) = RunnerWaitError e # err_tree e"
| "err_tree MaxBytesError = [MaxBytesError]"
| "err_tree (NetError t) = [NetError t]"

definition errors_is :: "err \<Rightarrow> sentinel \<Rightarrow> bool" where
  "errors_is e s \<longleftrightarrow> Sentinel s \<in> set (err_tree e)"

lemma errors_is_simps [simp]:
  "errors_is (Sentinel a) s \<longleftrightarrow> a = s"
  "errors_is (NewError m) s \<longleftrightarrow> False"
  "errors_is (Wrapped m e) s \<longleftrightarrow> errors_is e s"
  "errors_is (Joined es) s \<longleftrightarrow> (\<exists>e\<in>set es. errors_is e s)"
  "errors_is (PathError p e) s \<longleftrightarrow> errors_is e s"
  "errors_is (LinkError p e) s \<longleftrightarrow> errors_is e s"
  "errors_is (SyscallError p e) s \<longleftrightarrow> errors_is e s"
  "errors_is (ConversionError k c m None) s \<longleftrightarrow> False"
  "errors_is (ConversionError k c m (Some e)) s \<longleftrightarrow> errors_is e s"
  "errors_is (ProbeError g e) s \<longleftrightarrow> errors_is e s"
  "errors_is (ImageError c m e) s \<longleftrightarrow> errors_is e s"
  "errors_is (MediaPlanError d m) s \<longleftrightarrow> False"
  "errors_is (MediaConversionError st e) s \<longleftrightarrow> errors_is e s"
  "errors_is (MediaValidationError n) s \<longleftrightarrow> False"
  "errors_is (RunnerExitError x) s \<longleftrightarrow> False"
  "errors_is (RunnerContextError e) s \<longleftrightarrow> errors_is e s"
  "errors_is (RunnerStartError e) s \<longleftrightarrow> errors_is e s"
  "errors_is (RunnerWaitError e) s \<longleftrightarrow> errors_is e s"
  "errors_is MaxBytesError s \<longleftrightarrow> False"
  "errors_is (NetError b) s \<longleftrightarrow> False"
  by (auto simp: errors_is_def)

text \<open>\<open>errors.As\<close> for each error type the program looks for: the first one in the tree.\<close>

definition errors_as :: "(err \<Rightarrow> 'a option) \<Rightarrow> err \<Rightarrow> 'a option" where
  "errors_as f e = (case List.map_filter f (err_tree e) of [] \<Rightarrow> None | x # _ \<Rightarrow> Some x)"

fun as_conversion :: "err \<Rightarrow> (failure_kind \<times> string \<times> string) option" where
  "as_conversion (ConversionError k c m _) = Some (k, c, m)"
| "as_conversion _ = None"

fun as_fs_op :: "err \<Rightarrow> string option" where
  "as_fs_op (PathError op _) = Some op"
| "as_fs_op _ = None"

fun as_link_op :: "err \<Rightarrow> string option" where
  "as_link_op (LinkError op _) = Some op"
| "as_link_op _ = None"

fun as_syscall_op :: "err \<Rightarrow> string option" where
  "as_syscall_op (SyscallError op _) = Some op"
| "as_syscall_op _ = None"

fun as_probe :: "err \<Rightarrow> probe_stage option" where
  "as_probe (ProbeError s _) = Some s"
| "as_probe _ = None"

fun as_image :: "err \<Rightarrow> (string \<times> string) option" where
  "as_image (ImageError c s _) = Some (c, s)"
| "as_image _ = None"

fun as_plan :: "err \<Rightarrow> (plan_error_code \<times> string) option" where
  "as_plan (MediaPlanError c m) = Some (c, m)"
| "as_plan _ = None"

fun as_media_conversion :: "err \<Rightarrow> (conversion_stage \<times> err) option" where
  "as_media_conversion (MediaConversionError s e) = Some (s, e)"
| "as_media_conversion _ = None"

fun as_media_validation :: "err \<Rightarrow> validation_issue list option" where
  "as_media_validation (MediaValidationError is) = Some is"
| "as_media_validation _ = None"

fun as_runner_exit :: "err \<Rightarrow> int option" where
  "as_runner_exit (RunnerExitError n) = Some n"
| "as_runner_exit _ = None"

fun as_max_bytes :: "err \<Rightarrow> unit option" where
  "as_max_bytes MaxBytesError = Some ()"
| "as_max_bytes _ = None"

text \<open>
  \<open>net.Error\<close> values and their \<open>Timeout\<close>. The context and os deadline errors implement
  the interface too.
\<close>

fun as_net_timeout :: "err \<Rightarrow> bool option" where
  "as_net_timeout (NetError t) = Some t"
| "as_net_timeout (Sentinel ContextDeadlineExceeded) = Some True"
| "as_net_timeout (Sentinel OsErrDeadlineExceeded) = Some True"
| "as_net_timeout _ = None"

lemma errors_as_head: "f e = Some x \<Longrightarrow> errors_as f e = Some x"
  by (cases e) (auto simp: errors_as_def map_filter_simps)

lemma errors_as_Sentinel [simp]: "errors_as f (Sentinel s) = f (Sentinel s)"
  by (auto simp: errors_as_def map_filter_simps split: option.splits)

lemma errors_as_Wrapped: "f (Wrapped m e) = None \<Longrightarrow> errors_as f (Wrapped m e) = errors_as f e"
  by (simp add: errors_as_def map_filter_simps)

lemma map_filter_Nil_iff: "List.map_filter f xs = [] \<longleftrightarrow> (\<forall>x\<in>set xs. f x = None)"
  by (induction xs) (auto simp: map_filter_simps split: option.splits)

lemma errors_as_None_iff: "errors_as f e = None \<longleftrightarrow> (\<forall>x\<in>set (err_tree e). f x = None)"
  by (cases "List.map_filter f (err_tree e)") (simp_all add: errors_as_def flip: map_filter_Nil_iff)

end
