(* ===== verification/Profiles.thy ===== *)
theory Profiles
  imports Go_Paths Go_Errors
begin

text \<open>
  The profile registry, \<open>internal/profiles/profiles.go\<close>: the named operations, the table
  of their specifications, lookup and parsing, the profiles that accept a kind of media,
  the recommended one, and the name of the output file.
\<close>

subsection \<open>Data\<close>

text \<open>
  \<open>Operation\<close> is a string type with nine constants; every other string, the empty one
  included, is an \<open>OtherOperation\<close>.
\<close>

datatype operation =
    OperationCompatiblePhoto
  | OperationEmailPhoto
  | OperationSmallerPhoto
  | OperationLosslessImage
  | OperationCompatibleVideo
  | OperationSmallerVideo
  | OperationExtractAudio
  | OperationCompatibleAudio
  | OperationLosslessAudio
  | OtherOperation string

fun operation_text :: "operation \<Rightarrow> string" where
  "operation_text OperationCompatiblePhoto = ''compatible_photo''"
| "operation_text OperationEmailPhoto = ''email_photo''"
| "operation_text OperationSmallerPhoto = ''smaller_photo''"
| "operation_text OperationLosslessImage = ''lossless_image''"
| "operation_text OperationCompatibleVideo = ''compatible_video''"
| "operation_text OperationSmallerVideo = ''smaller_video''"
| "operation_text OperationExtractAudio = ''extract_audio''"
| "operation_text OperationCompatibleAudio = ''compatible_audio''"
| "operation_text OperationLosslessAudio = ''lossless_audio''"
| "operation_text (OtherOperation s) = s"

definition known_operations :: "operation list" where
  "known_operations =
    [OperationCompatiblePhoto, OperationEmailPhoto, OperationSmallerPhoto, OperationLosslessImage,
     OperationCompatibleVideo, OperationSmallerVideo, OperationExtractAudio,
     OperationCompatibleAudio, OperationLosslessAudio]"

text \<open>The conversion \<open>Operation(value)\<close>.\<close>

definition operation_of :: "string \<Rightarrow> operation" where
  "operation_of s =
    (case find (\<lambda>op. operation_text op = s) known_operations of
       Some op \<Rightarrow> op | None \<Rightarrow> OtherOperation s)"

datatype media_kind = MediaImage | MediaAudio | MediaVideo

datatype engine = EngineImage | EngineMedia

record output_spec =
  os_suffix :: string
  os_extension :: string
  os_format_label :: string
  os_mime_type :: string
  os_container :: string

record spec =
  sp_operation :: operation
  sp_label :: string
  sp_engine :: engine
  sp_accepted :: "media_kind list"
  sp_output_kind :: media_kind
  sp_recommended_for :: "media_kind list"
  sp_output :: output_spec

definition registry :: "spec list" where
  "registry =
   [\<lparr>sp_operation = OperationCompatiblePhoto, sp_label = ''Compatible photo'',
     sp_engine = EngineImage, sp_accepted = [MediaImage], sp_output_kind = MediaImage,
     sp_recommended_for = [MediaImage],
     sp_output = \<lparr>os_suffix = ''-compatible.jpg'', os_extension = ''.jpg'',
       os_format_label = ''JPEG'', os_mime_type = ''image/jpeg'', os_container = ''jpeg''\<rparr>\<rparr>,
    \<lparr>sp_operation = OperationEmailPhoto, sp_label = ''Email photo'',
     sp_engine = EngineImage, sp_accepted = [MediaImage], sp_output_kind = MediaImage,
     sp_recommended_for = [],
     sp_output = \<lparr>os_suffix = ''-email.jpg'', os_extension = ''.jpg'',
       os_format_label = ''JPEG'', os_mime_type = ''image/jpeg'', os_container = ''jpeg''\<rparr>\<rparr>,
    \<lparr>sp_operation = OperationSmallerPhoto, sp_label = ''Smaller photo'',
     sp_engine = EngineImage, sp_accepted = [MediaImage], sp_output_kind = MediaImage,
     sp_recommended_for = [],
     sp_output = \<lparr>os_suffix = ''-smaller.webp'', os_extension = ''.webp'',
       os_format_label = ''WebP'', os_mime_type = ''image/webp'', os_container = ''webp''\<rparr>\<rparr>,
    \<lparr>sp_operation = OperationLosslessImage, sp_label = ''Lossless image'',
     sp_engine = EngineImage, sp_accepted = [MediaImage], sp_output_kind = MediaImage,
     sp_recommended_for = [],
     sp_output = \<lparr>os_suffix = ''-lossless.png'', os_extension = ''.png'',
       os_format_label = ''PNG'', os_mime_type = ''image/png'', os_container = ''png''\<rparr>\<rparr>,
    \<lparr>sp_operation = OperationCompatibleVideo, sp_label = ''Compatible video'',
     sp_engine = EngineMedia, sp_accepted = [MediaVideo], sp_output_kind = MediaVideo,
     sp_recommended_for = [MediaVideo],
     sp_output = \<lparr>os_suffix = ''-compatible.mp4'', os_extension = ''.mp4'',
       os_format_label = ''MP4'', os_mime_type = ''video/mp4'', os_container = ''mp4''\<rparr>\<rparr>,
    \<lparr>sp_operation = OperationSmallerVideo, sp_label = ''Smaller video'',
     sp_engine = EngineMedia, sp_accepted = [MediaVideo], sp_output_kind = MediaVideo,
     sp_recommended_for = [],
     sp_output = \<lparr>os_suffix = ''-smaller.mp4'', os_extension = ''.mp4'',
       os_format_label = ''MP4'', os_mime_type = ''video/mp4'', os_container = ''mp4''\<rparr>\<rparr>,
    \<lparr>sp_operation = OperationExtractAudio, sp_label = ''Extract audio'',
     sp_engine = EngineMedia, sp_accepted = [MediaAudio, MediaVideo], sp_output_kind = MediaAudio,
     sp_recommended_for = [],
     sp_output = \<lparr>os_suffix = ''-audio.m4a'', os_extension = ''.m4a'',
       os_format_label = ''M4A'', os_mime_type = ''audio/mp4'', os_container = ''mp4''\<rparr>\<rparr>,
    \<lparr>sp_operation = OperationCompatibleAudio, sp_label = ''Compatible audio'',
     sp_engine = EngineMedia, sp_accepted = [MediaAudio], sp_output_kind = MediaAudio,
     sp_recommended_for = [MediaAudio],
     sp_output = \<lparr>os_suffix = ''-compatible.mp3'', os_extension = ''.mp3'',
       os_format_label = ''MP3'', os_mime_type = ''audio/mpeg'', os_container = ''mp3''\<rparr>\<rparr>,
    \<lparr>sp_operation = OperationLosslessAudio, sp_label = ''Lossless audio'',
     sp_engine = EngineMedia, sp_accepted = [MediaAudio], sp_output_kind = MediaAudio,
     sp_recommended_for = [],
     sp_output = \<lparr>os_suffix = ''-lossless.flac'', os_extension = ''.flac'',
       os_format_label = ''FLAC'', os_mime_type = ''audio/flac'', os_container = ''flac''\<rparr>\<rparr>]"

subsection \<open>Lookup\<close>

text \<open>\<open>byOperation\<close> is filled by ranging over the registry; a later entry would win.\<close>

definition by_operation :: "operation \<rightharpoonup> spec" where
  "by_operation = foldl (\<lambda>m s. m(sp_operation s \<mapsto> s)) Map.empty registry"

text \<open>\<open>cloneSpec\<close> copies the two slices, so in a model without aliasing it is the identity.\<close>

definition clone_spec :: "spec \<Rightarrow> spec" where
  "clone_spec s = s\<lparr>sp_accepted := [] @ sp_accepted s, sp_recommended_for := [] @ sp_recommended_for s\<rparr>"

definition all_specs :: "spec list" where
  "all_specs = map clone_spec registry"

definition lookup_spec :: "operation \<Rightarrow> spec option" where
  "lookup_spec op = (case by_operation op of None \<Rightarrow> None | Some s \<Rightarrow> Some (clone_spec s))"

definition parse_operation :: "string \<Rightarrow> operation result" where
  "parse_operation v =
    (let op = operation_of v
     in if by_operation op = None then Inl (NewError ''unsupported operation'') else Inr op)"

fun contains_kind :: "media_kind list \<Rightarrow> media_kind \<Rightarrow> bool" where
  "contains_kind [] candidate = False"
| "contains_kind (k # ks) candidate = (if k = candidate then True else contains_kind ks candidate)"

definition accepts :: "spec \<Rightarrow> media_kind \<Rightarrow> bool" where
  "accepts s kind = contains_kind (sp_accepted s) kind"

definition compatible_specs :: "media_kind \<Rightarrow> spec list" where
  "compatible_specs kind = map clone_spec (filter (\<lambda>s. accepts s kind) registry)"

text \<open>The first profile recommended for the kind; \<open>None\<close> is the pair \<open>("", false)\<close>.\<close>

definition recommended_for :: "media_kind \<Rightarrow> operation option" where
  "recommended_for kind =
    map_option sp_operation (find (\<lambda>s. contains_kind (sp_recommended_for s) kind) registry)"

subsection \<open>Output names\<close>

text \<open>
  The Unicode tables above ASCII (letters, digits, lower case) are data of Go's standard
  library: a parameter. The ASCII part is written out.
\<close>

record unicode_tables =
  ucd_letter :: "nat \<Rightarrow> bool"
  ucd_digit :: "nat \<Rightarrow> bool"
  ucd_lower :: "nat \<Rightarrow> nat"

definition uni_alnum :: "unicode_tables \<Rightarrow> nat \<Rightarrow> bool" where
  "uni_alnum U r =
    (if r < 0x80 then upper_rune r \<or> lower_letter r \<or> digit_rune r
     else ucd_letter U r \<or> ucd_digit U r)"

definition uni_lower :: "unicode_tables \<Rightarrow> nat \<Rightarrow> nat" where
  "uni_lower U r = (if r < 0x80 then (if upper_rune r then r + 32 else r) else ucd_lower U r)"

text \<open>One step of the loop of \<open>sanitizeStem\<close>: the text built so far and the dash flag.\<close>

definition sanitize_step :: "unicode_tables \<Rightarrow> string \<times> bool \<Rightarrow> nat \<Rightarrow> string \<times> bool" where
  "sanitize_step U st r =
    (let (b, dash) = st
     in if uni_alnum U r then (b @ encode_rune r, False)
        else if b \<noteq> [] \<and> \<not> dash then (b @ ''-'', True)
        else (b, dash))"

definition lower_text :: "unicode_tables \<Rightarrow> string \<Rightarrow> string" where
  "lower_text U s = encode_runes (map (uni_lower U) (runes s))"

definition sanitize_stem :: "unicode_tables \<Rightarrow> string \<Rightarrow> string" where
  "sanitize_stem U stem =
    trim_set (fst (foldl (sanitize_step U) ([], False) (runes (lower_text U stem)))) ''-''"

definition output_name :: "unicode_tables \<Rightarrow> string \<Rightarrow> operation \<Rightarrow> string result" where
  "output_name U input_path op =
    (case lookup_spec op of
       None \<Rightarrow> Inl (NewError ''unsupported operation'')
     | Some s \<Rightarrow>
         let stem0 = sanitize_stem U (trim_suffix (file_base input_path) (file_ext input_path));
             stem = (if stem0 = [] then (if sp_output_kind s = MediaImage then ''image'' else ''media'')
                     else stem0)
         in Inr (stem @ os_suffix (sp_output s)))"

subsection \<open>Registry facts\<close>

lemma operation_of_text: "op \<in> set known_operations \<Longrightarrow> operation_of (operation_text op) = op"
  by (cases op) (simp_all add: known_operations_def operation_of_def)

lemma operation_text_of: "operation_text (operation_of s) = s"
  by (cases "find (\<lambda>op. operation_text op = s) known_operations")
     (auto simp: operation_of_def dest: find_SomeD)

lemma map_of_registry: "by_operation op = map_of (map (\<lambda>s. (sp_operation s, s)) (rev registry)) op"
  unfolding by_operation_def registry_def by simp

lemma by_operation_Some_iff: "by_operation op = Some s \<longleftrightarrow> s \<in> set registry \<and> sp_operation s = op"
proof -
  have "distinct (map fst (map (\<lambda>s. (sp_operation s, s)) (rev registry)))"
    by (simp add: registry_def)
  then show ?thesis
    unfolding map_of_registry by (auto simp: map_of_eq_Some_iff)
qed

lemma by_operation_known: "by_operation op \<noteq> None \<longleftrightarrow> op \<in> set known_operations"
  by (auto simp: map_of_registry registry_def known_operations_def)

lemma clone_spec_id [simp]: "clone_spec s = s"
  by (simp add: clone_spec_def)

lemma lookup_spec_eq: "lookup_spec op = by_operation op"
  by (simp add: lookup_spec_def split: option.splits)

lemma contains_kind_iff [simp]: "contains_kind ks k \<longleftrightarrow> k \<in> set ks"
  by (induction ks) auto

lemma compatible_specs_iff: "s \<in> set (compatible_specs k) \<longleftrightarrow> s \<in> set registry \<and> k \<in> set (sp_accepted s)"
  by (auto simp: compatible_specs_def accepts_def)

lemma lookup_simps [simp]:
  "lookup_spec OperationCompatiblePhoto = Some (registry ! 0)"
  "lookup_spec OperationEmailPhoto = Some (registry ! 1)"
  "lookup_spec OperationSmallerPhoto = Some (registry ! 2)"
  "lookup_spec OperationLosslessImage = Some (registry ! 3)"
  "lookup_spec OperationCompatibleVideo = Some (registry ! 4)"
  "lookup_spec OperationSmallerVideo = Some (registry ! 5)"
  "lookup_spec OperationExtractAudio = Some (registry ! 6)"
  "lookup_spec OperationCompatibleAudio = Some (registry ! 7)"
  "lookup_spec OperationLosslessAudio = Some (registry ! 8)"
  "lookup_spec (OtherOperation x) = None"
  unfolding lookup_spec_eq by (simp_all add: map_of_registry registry_def)

text \<open>
  The contract of the registry that its clients (inspection, planning) rely on: the
  profiles offered for a kind are the registered ones that accept it, in the registry's
  order and without repetition, and a recommended operation is one of them.
\<close>

locale profile_registry =
  fixes lookup :: "operation \<Rightarrow> spec option"
    and compat :: "media_kind \<Rightarrow> spec list"
    and recommended :: "media_kind \<Rightarrow> operation option"
  assumes compat_iff: "s \<in> set (compat k) \<longleftrightarrow> lookup (sp_operation s) = Some s \<and> accepts s k"
    and compat_distinct: "distinct (map sp_operation (compat k))"
    and recommended_compat: "recommended k = Some op \<Longrightarrow> op \<in> sp_operation ` set (compat k)"
    and recommended_total: "recommended k \<noteq> None"
begin

lemma recommended_accepted:
  assumes "recommended k = Some op"
  obtains s where "lookup op = Some s" and "accepts s k" and "s \<in> set (compat k)"
  using assms recommended_compat compat_iff by blast

lemma operation_compat_iff:
  "op \<in> sp_operation ` set (compat k) \<longleftrightarrow> (\<exists>s. lookup op = Some s \<and> sp_operation s = op \<and> accepts s k)"
  using compat_iff by force

lemma compat_lookup: "s \<in> set (compat k) \<Longrightarrow> lookup (sp_operation s) = Some s"
  using compat_iff by blast

lemma compat_ne: "compat k \<noteq> []"
  using recommended_total [of k] recommended_compat [of k] by fastforce

end

interpretation registry_of: profile_registry lookup_spec compatible_specs recommended_for
proof unfold_locales
  fix s k op
  show "s \<in> set (compatible_specs k) \<longleftrightarrow> lookup_spec (sp_operation s) = Some s \<and> accepts s k"
    by (auto simp: compatible_specs_iff lookup_spec_eq by_operation_Some_iff accepts_def)
  show "distinct (map sp_operation (compatible_specs k))"
    by (cases k) (simp_all add: compatible_specs_def registry_def accepts_def)
  show "recommended_for k = Some op \<Longrightarrow> op \<in> sp_operation ` set (compatible_specs k)"
    by (cases k) (auto simp: compatible_specs_def recommended_for_def registry_def accepts_def)
  show "recommended_for k \<noteq> None"
    by (cases k) (simp_all add: recommended_for_def registry_def)
qed

subsection \<open>Bytes of a sanitized stem\<close>

text \<open>A byte a stem may hold: an ASCII letter or digit, a dash, or a byte of a longer code point.\<close>

definition stem_byte :: "char \<Rightarrow> bool" where
  "stem_byte c \<longleftrightarrow>
    (let n = of_char c :: nat
     in upper_rune n \<or> lower_letter n \<or> digit_rune n \<or> n = 45 \<or> 0x80 \<le> n)"

lemma of_char_char_of_lt: "n < 256 \<Longrightarrow> of_char (char_of n) = (n :: nat)"
  by simp

lemma encode_rune_high: "0x80 \<le> r \<Longrightarrow> c \<in> set (encode_rune r) \<Longrightarrow> 0x80 \<le> (of_char c :: nat)"
proof -
  assume r: "0x80 \<le> r" and c: "c \<in> set (encode_rune r)"
  have *: "a mod 64 + 0x80 < 256" for a :: nat
    using mod_less_divisor [of 64 a] by linarith
  show ?thesis
    using r c * [of r] * [of "r div 64"] * [of "r div 4096"]
    by (auto simp: encode_rune_def add.commute split: if_splits)
qed

lemma alnum_stem_byte: "uni_alnum U r \<Longrightarrow> c \<in> set (encode_rune r) \<Longrightarrow> stem_byte c"
proof (cases "r < 0x80")
  case True
  then show "uni_alnum U r \<Longrightarrow> c \<in> set (encode_rune r) \<Longrightarrow> stem_byte c"
    by (auto simp: uni_alnum_def encode_rune_ascii stem_byte_def Let_def)
next
  case False
  then show "c \<in> set (encode_rune r) \<Longrightarrow> stem_byte c"
    using encode_rune_high [of r c] by (auto simp: stem_byte_def Let_def)
qed

lemma sanitize_fold_bytes:
  "list_all stem_byte b \<Longrightarrow> list_all stem_byte (fst (foldl (sanitize_step U) (b, d) rs))"
proof (induction rs arbitrary: b d)
  case (Cons r rs)
  have "list_all stem_byte (fst (sanitize_step U (b, d) r))"
    using Cons.prems alnum_stem_byte [of U r]
    by (auto simp: sanitize_step_def list_all_iff stem_byte_def Let_def)
  then show ?case using Cons.IH by (cases "sanitize_step U (b, d) r") auto
qed simp

lemma sanitize_stem_bytes: "c \<in> set (sanitize_stem U s) \<Longrightarrow> stem_byte c"
  using sanitize_fold_bytes [of "[]" U False] set_trim_set
  unfolding sanitize_stem_def list_all_iff by fastforce

lemma stem_byte_not_special: "stem_byte c \<Longrightarrow> c \<noteq> slash \<and> c \<noteq> dot \<and> c \<noteq> CHR 0x5C"
  by (auto simp: stem_byte_def upper_rune_def lower_letter_def digit_rune_def Let_def)

subsection \<open>Extensions\<close>

lemma takeWhile_rev_until: "c \<notin> set e \<Longrightarrow> rev (takeWhile (\<lambda>x. x \<noteq> c) (rev (a @ c # e))) = e"
  by (simp, subst takeWhile_append2) auto

lemma after_last_cons: "c \<notin> set e \<Longrightarrow> after_last c (a @ c # e) = e"
  unfolding after_last_def by (rule takeWhile_rev_until)

lemma after_last_absent: "c \<notin> set s \<Longrightarrow> after_last c s = s"
proof -
  assume "c \<notin> set s"
  then have "takeWhile (\<lambda>x. x \<noteq> c) (rev s) = rev s"
    by (subst takeWhile_eq_all_conv) auto
  then show ?thesis unfolding after_last_def by (simp only: rev_rev_ident)
qed

lemma file_ext_append:
  assumes "slash \<notin> set a" "slash \<notin> set e" "dot \<notin> set e"
  shows "file_ext (a @ dot # e) = dot # e"
  using assms by (simp add: file_ext_def after_last_absent after_last_cons Let_def)

lemma registry_suffix:
  "s \<in> set registry \<Longrightarrow>
   \<exists>a e. os_suffix (sp_output s) = a @ dot # e \<and> os_extension (sp_output s) = dot # e
     \<and> slash \<notin> set a \<and> slash \<notin> set e \<and> dot \<notin> set e \<and> a \<noteq> []
     \<and> CHR 0x5C \<notin> set a \<union> set e"
  unfolding registry_def
  by (auto intro: exI [of _ "''-compatible''"] exI [of _ "''-email''"] exI [of _ "''-smaller''"]
      exI [of _ "''-lossless''"] exI [of _ "''-audio''"])

subsection \<open>Properties\<close>

lemma output_name_shape:
  assumes "output_name U p op = Inr n"
  shows "\<exists>s st. lookup_spec op = Some s \<and> s \<in> set registry \<and> n = st @ os_suffix (sp_output s)
    \<and> st \<noteq> [] \<and> (\<forall>c\<in>set st. stem_byte c)"
proof -
  obtain s where s: "lookup_spec op = Some s"
    using assms by (auto simp: output_name_def split: option.splits)
  define st where "st = (let stem0 = sanitize_stem U (trim_suffix (file_base p) (file_ext p))
    in if stem0 = [] then (if sp_output_kind s = MediaImage then ''image'' else ''media'') else stem0)"
  have "c \<in> set st \<Longrightarrow> stem_byte c" for c
    unfolding st_def Let_def using sanitize_stem_bytes
    by (auto split: if_splits simp: stem_byte_def lower_letter_def upper_rune_def digit_rune_def)
  moreover have "n = st @ os_suffix (sp_output s)" and "st \<noteq> []"
    using assms s by (auto simp: output_name_def st_def Let_def)
  moreover have "s \<in> set registry"
    using s by (simp add: lookup_spec_eq by_operation_Some_iff)
  ultimately show ?thesis using s by blast
qed

text \<open>Every kind of media has a recommended operation, it is a registered profile, and it is
  one of the compatible profiles offered for that kind.\<close>

theorem recommended_is_compatible:
  "\<exists>op s. recommended_for k = Some op \<and> lookup_spec op = Some s \<and> accepts s k
     \<and> s \<in> set (compatible_specs k)"
proof -
  obtain op where op: "recommended_for k = Some op"
    using registry_of.recommended_total by blast
  with registry_of.recommended_accepted show ?thesis by blast
qed

text \<open>Parsing accepts exactly the texts of the nine operations: it succeeds with an operation
  if and only if that operation is a known one and the text is its name.\<close>

theorem parse_operation_exact:
  "parse_operation v = Inr op \<longleftrightarrow> op \<in> set known_operations \<and> operation_text op = v"
proof -
  have "parse_operation v = Inr op \<longleftrightarrow> operation_of v = op \<and> op \<in> set known_operations"
    using by_operation_known [of "operation_of v"] by (auto simp: parse_operation_def Let_def)
  then show ?thesis using operation_of_text operation_text_of by metis
qed

text \<open>C19: An output name built from any input path is a proper file name: one non-empty component
  without slash or backslash and not a dot or dot-dot. It ends with the profile's suffix and its
  extension is the profile's extension.\<close>

theorem output_name_safe:
  assumes "output_name U p op = Inr n"
  shows "plain_name n \<and> CHR 0x5C \<notin> set n
    \<and> (\<exists>s. lookup_spec op = Some s \<and> has_suffix n (os_suffix (sp_output s))
          \<and> file_ext n = os_extension (sp_output s))"
proof -
  obtain s st where s: "lookup_spec op = Some s" "s \<in> set registry" "n = st @ os_suffix (sp_output s)"
      "st \<noteq> []" and b: "\<forall>c\<in>set st. stem_byte c"
    using output_name_shape [OF assms] by blast
  obtain a e where x: "os_suffix (sp_output s) = a @ dot # e" "os_extension (sp_output s) = dot # e"
      "slash \<notin> set a" "slash \<notin> set e" "dot \<notin> set e" "a \<noteq> []" "CHR 0x5C \<notin> set a \<union> set e"
    using registry_suffix [OF s(2)] by blast
  have st: "slash \<notin> set st" "dot \<notin> set st" "CHR 0x5C \<notin> set st"
    using b stem_byte_not_special by blast+
  have "file_ext n = dot # e"
    using file_ext_append [of "st @ a" e] x st s(3) by simp
  moreover have "plain_name n"
    using s(3,4) st x by (cases st) (auto simp: plain_name_def)
  ultimately show ?thesis using s x st by (auto simp: has_suffix_iff)
qed

theorem output_name_safe_witness:
  "plain_name ''my-photo-compatible.jpg'' \<and> file_ext ''my-photo-compatible.jpg'' = ''.jpg''"
proof -
  have "output_name \<lparr>ucd_letter = (\<lambda>_. False), ucd_digit = (\<lambda>_. False), ucd_lower = (\<lambda>r. r)\<rparr>
      ''in/My Photo!.JPG'' OperationCompatiblePhoto = Inr ''my-photo-compatible.jpg''"
    by code_simp
  from output_name_safe [OF this] show ?thesis by (simp add: registry_def)
qed

end
