(* ===== verification/File_Names.thy ===== *)
theory File_Names
  imports Go_Paths
begin

text \<open>
  Stored file names, \<open>internal/jobs/storage/names.go\<close>: reducing a name sent by a browser to
  a conservative one, making names of a job unique, and the content type an output is served
  with.
\<close>

subsection \<open>Sanitized names\<close>

definition max_file_name_length :: nat where
  "max_file_name_length = 100"

text \<open>\<open>utf8.ValidString\<close>: re-encoding the decoded code points gives the string back.\<close>

definition valid_string :: "string \<Rightarrow> bool" where
  "valid_string s \<longleftrightarrow> encode_runes (runes s) = s"

text \<open>The first statement of \<open>SafeFileName\<close>: \<open>strings.Map\<close> drops control characters.\<close>

definition drop_control :: "string \<Rightarrow> string" where
  "drop_control name = encode_runes (filter (\<lambda>r. \<not> (r < 0x20 \<or> r = 0x7F)) (runes name))"

definition ascii_alnum :: "nat \<Rightarrow> bool" where
  "ascii_alnum r \<longleftrightarrow> upper_rune r \<or> lower_letter r \<or> digit_rune r"

text \<open>One iteration of the loop of \<open>sanitizeToken\<close>: the text built so far and the flag.\<close>

definition token_step :: "string \<times> bool \<Rightarrow> nat \<Rightarrow> string \<times> bool" where
  "token_step st r =
    (let (b, separator) = st
     in if ascii_alnum r then (b @ encode_rune (if upper_rune r then r + 32 else r), False)
        else if r = 46 \<or> r = 45 \<or> r = 95 then
          (if b \<noteq> [] \<and> \<not> separator then (b @ encode_rune r, True) else (b, separator))
        else
          (if b \<noteq> [] \<and> \<not> separator then (b @ ''-'', True) else (b, separator)))"

definition sanitize_token :: "string \<Rightarrow> string" where
  "sanitize_token value =
    trim_set (fst (foldl token_step ([], False) (runes (trim_prefix value ''.'')))) ''-._''"

definition safe_file_name :: "string \<Rightarrow> string \<Rightarrow> string" where
  "safe_file_name name fallback =
    (let cleaned = map (\<lambda>c. if c = CHR 0x5C then slash else c) (drop_control name);
         cleaned = (if slash \<in> set cleaned then after_last slash cleaned else cleaned);
         cleaned = (if \<not> valid_string cleaned then [] else cleaned);
         trimmed = trim_left cleaned ''.'';
         raw_extension = file_ext trimmed;
         extension = sanitize_token raw_extension;
         stem = sanitize_token (trim_suffix trimmed raw_extension);
         stem = (if stem = [] then fallback else stem);
         extension = (if extension \<noteq> [] then take 16 (''.'' @ extension) else extension);
         limit = int max_file_name_length - int (length extension);
         limit = (if limit < 1 then 1 else limit);
         stem = (if limit < int (length stem) then take (nat limit) stem else stem);
         stem = trim_set stem ''-.'';
         stem = (if stem = [] then fallback else stem)
     in stem @ extension)"

subsection \<open>Unique names\<close>

text \<open>
  The loop of \<open>UniqueFileName\<close>: the first counter from 2 on whose candidate is not taken.
  The map \<open>taken\<close> only ever holds true, so it is a set.
\<close>

definition numbered_name :: "string \<Rightarrow> string \<Rightarrow> nat \<Rightarrow> string" where
  "numbered_name stem extension counter = stem @ ''-'' @ nat_text counter @ extension"

partial_function (option) unique_loop ::
  "string set \<Rightarrow> string \<Rightarrow> string \<Rightarrow> nat \<Rightarrow> string option" where
  [code]: "unique_loop taken stem extension counter =
    (if numbered_name stem extension counter \<notin> taken
     then Some (numbered_name stem extension counter)
     else unique_loop taken stem extension (counter + 1))"

text \<open>\<open>None\<close> as first argument is the nil map; the result carries the updated map.\<close>

definition unique_file_name ::
  "string set option \<Rightarrow> string \<Rightarrow> (string \<times> string set option) option" where
  "unique_file_name taken name =
    (case taken of
       None \<Rightarrow> Some (name, None)
     | Some T \<Rightarrow>
         if name \<notin> T then Some (name, Some (insert name T))
         else let extension = file_ext name; stem = trim_suffix name extension
              in (case unique_loop T stem extension 2 of
                    None \<Rightarrow> None
                  | Some candidate \<Rightarrow> Some (candidate, Some (insert candidate T))))"

subsection \<open>Content types\<close>

text \<open>
  The system's table of MIME types (\<open>mime.TypeByExtension\<close>) is a parameter.
\<close>

definition content_type :: "(string \<Rightarrow> string) \<Rightarrow> string \<Rightarrow> string" where
  "content_type mime_of name =
    (let e = to_lower (file_ext name)
     in if e = ''.jpg'' \<or> e = ''.jpeg'' then ''image/jpeg''
        else if e = ''.png'' then ''image/png''
        else if e = ''.webp'' then ''image/webp''
        else if e = ''.avif'' then ''image/avif''
        else if e = ''.heic'' \<or> e = ''.heif'' then ''image/heic''
        else if e = ''.tif'' \<or> e = ''.tiff'' then ''image/tiff''
        else if e = ''.mp4'' \<or> e = ''.m4v'' then ''video/mp4''
        else if e = ''.m4a'' then ''audio/mp4''
        else if e = ''.mp3'' then ''audio/mpeg''
        else if e = ''.flac'' then ''audio/flac''
        else if e = ''.wav'' then ''audio/wav''
        else if e = ''.ogg'' \<or> e = ''.opus'' then ''audio/ogg''
        else if e = ''.zip'' then ''application/zip''
        else let detected = mime_of (file_ext name)
             in if detected \<noteq> [] \<and> \<not> has_prefix detected ''text/html''
                  \<and> \<not> contains_str detected ''javascript'' \<and> \<not> contains_str detected ''xml''
                then detected else ''application/octet-stream'')"

subsection \<open>Characters of a sanitized token\<close>

definition token_char :: "char \<Rightarrow> bool" where
  "token_char c \<longleftrightarrow>
    (let n = of_char c :: nat in lower_letter n \<or> digit_rune n \<or> n = 46 \<or> n = 45 \<or> n = 95)"

lemma token_char_of:
  "r < 128 \<Longrightarrow> lower_letter r \<or> digit_rune r \<or> r = 46 \<or> r = 45 \<or> r = 95 \<Longrightarrow> token_char (char_of r)"
  unfolding token_char_def Let_def by simp

lemma token_step_rune:
  "ascii_alnum r \<Longrightarrow> list_all token_char (encode_rune (if upper_rune r then r + 32 else r))"
  "r = 46 \<or> r = 45 \<or> r = 95 \<Longrightarrow> list_all token_char (encode_rune r)"
proof -
  have single: "list_all token_char (encode_rune q)"
    if "q < 0x80" "lower_letter q \<or> digit_rune q \<or> q = 46 \<or> q = 45 \<or> q = 95" for q
    using that token_char_of [of q] by (simp add: encode_rune_ascii)
  show "list_all token_char (encode_rune (if upper_rune r then r + 32 else r))" if "ascii_alnum r"
  proof (cases "upper_rune r")
    case True
    then show ?thesis using single [of "r + 32"] by (simp add: upper_rune_def lower_letter_def)
  next
    case False
    with that have "r < 0x80" "lower_letter r \<or> digit_rune r"
      by (auto simp: ascii_alnum_def lower_letter_def digit_rune_def)
    then have "list_all token_char (encode_rune r)" by (intro single) auto
    with False show ?thesis by simp
  qed
  show "r = 46 \<or> r = 45 \<or> r = 95 \<Longrightarrow> list_all token_char (encode_rune r)"
    using single [of 46] single [of 45] single [of 95] by (elim disjE) simp_all
qed

lemma token_step_chars:
  assumes "list_all token_char b"
  shows "list_all token_char (fst (token_step (b, s) r))"
proof -
  have dash: "token_char CHR ''-''" by (simp add: token_char_def)
  consider (alnum) "ascii_alnum r" | (sep) "\<not> ascii_alnum r" "r = 46 \<or> r = 45 \<or> r = 95"
    | (other) "\<not> ascii_alnum r" "\<not> (r = 46 \<or> r = 45 \<or> r = 95)" by blast
  then show ?thesis
  proof cases
    case alnum
    have "fst (token_step (b, s) r) = b @ encode_rune (if upper_rune r then r + 32 else r)"
      using alnum by (simp add: token_step_def)
    then show ?thesis using assms token_step_rune(1) [OF alnum] by (simp only: list_all_append simp_thms)
  next
    case sep
    then have "fst (token_step (b, s) r) = b @ encode_rune r \<or> fst (token_step (b, s) r) = b"
      by (simp only: token_step_def Let_def prod.case if_False if_True simp_thms split: if_split) simp
    then show ?thesis using assms token_step_rune(2) [OF sep(2)] by fastforce
  next
    case other
    then show ?thesis using assms dash by (simp add: token_step_def)
  qed
qed

lemma token_fold_chars:
  "list_all token_char b \<Longrightarrow> list_all token_char (fst (foldl token_step (b, s) rs))"
proof (induction rs arbitrary: b s)
  case (Cons r rs)
  then show ?case using token_step_chars [of b s r] by (cases "token_step (b, s) r") auto
qed simp

lemma sanitize_token_chars: "c \<in> set (sanitize_token v) \<Longrightarrow> token_char c"
  using token_fold_chars [of "[]" False] set_trim_set
  unfolding sanitize_token_def list_all_iff by fastforce

lemma token_char_safe: "token_char c \<Longrightarrow> c \<noteq> slash \<and> c \<noteq> CHR 0x5C \<and> 0x20 \<le> (of_char c :: nat)"
  by (auto simp: token_char_def lower_letter_def digit_rune_def Let_def)

lemma hd_trim_right: "trim_right s cs \<noteq> [] \<Longrightarrow> hd (trim_right s cs) = hd s"
proof -
  assume ne: "trim_right s cs \<noteq> []"
  have "rev s = takeWhile (\<lambda>c. c \<in> set cs) (rev s) @ dropWhile (\<lambda>c. c \<in> set cs) (rev s)" by simp
  then have "s = trim_right s cs @ rev (takeWhile (\<lambda>c. c \<in> set cs) (rev s))"
    unfolding trim_right_def by (metis rev_append rev_rev_ident)
  with ne show ?thesis by (metis hd_append2)
qed

lemma hd_trim_set: "trim_set s cs \<noteq> [] \<Longrightarrow> hd (trim_set s cs) \<notin> set cs"
proof -
  assume ne: "trim_set s cs \<noteq> []"
  then have "trim_left s cs \<noteq> []" by (auto simp: trim_set_def trim_right_def)
  then have "hd (trim_left s cs) \<notin> set cs"
    using dropWhile_hd_False [of "\<lambda>c. c \<in> set cs" s] unfolding trim_left_def by simp
  with ne show ?thesis by (simp add: trim_set_def hd_trim_right)
qed

subsection \<open>The shape of a safe name\<close>

text \<open>
  A fallback is acceptable when it could itself be the stem of a stored name. Callers pass
  \<open>file-1\<close>, \<open>file-2\<close> and so on.
\<close>

definition good_fallback :: "string \<Rightarrow> bool" where
  "good_fallback f \<longleftrightarrow> f \<noteq> [] \<and> list_all token_char f \<and> hd f \<noteq> dot \<and> hd f \<noteq> CHR ''-''
     \<and> length f \<le> 84"

lemma safe_file_name_shape:
  "\<exists>stem ext. safe_file_name name fallback = stem @ ext
     \<and> (stem = fallback \<or> stem \<noteq> [] \<and> (list_all token_char fallback \<longrightarrow> list_all token_char stem)
          \<and> hd stem \<noteq> dot \<and> hd stem \<noteq> CHR ''-'' \<and> length stem + length ext \<le> 100)
     \<and> list_all token_char ext \<and> length ext \<le> 16"
proof -
  define cleaned where "cleaned =
    (let cleaned = map (\<lambda>c. if c = CHR 0x5C then slash else c) (drop_control name);
         cleaned = (if slash \<in> set cleaned then after_last slash cleaned else cleaned)
     in (if \<not> valid_string cleaned then [] else cleaned))"
  define trimmed where "trimmed = trim_left cleaned ''.''"
  define e where "e = (let x = sanitize_token (file_ext trimmed)
    in if x \<noteq> [] then take 16 (''.'' @ x) else x)"
  define s0 where "s0 = (let x = sanitize_token (trim_suffix trimmed (file_ext trimmed))
    in if x = [] then fallback else x)"
  define limit where "limit = (let l = int max_file_name_length - int (length e) in if l < 1 then 1 else l)"
  define s1 where "s1 = (if limit < int (length s0) then take (nat limit) s0 else s0)"
  define s2 where "s2 = trim_set s1 ''-.''"
  have eq: "safe_file_name name fallback = (if s2 = [] then fallback else s2) @ e"
    unfolding safe_file_name_def Let_def s2_def s1_def limit_def s0_def e_def trimmed_def cleaned_def
    by simp
  have e16: "length e \<le> 16" by (auto simp: e_def Let_def)
  have etok: "list_all token_char e"
    using sanitize_token_chars
    by (auto simp: e_def Let_def list_all_iff token_char_def dest!: in_set_takeD)
  have lim: "limit = 100 - int (length e)"
    using e16 by (simp add: limit_def max_file_name_length_def Let_def)
  have "list_all token_char fallback \<Longrightarrow> list_all token_char s0"
    using sanitize_token_chars by (auto simp: s0_def Let_def list_all_iff)
  then have s1tok: "list_all token_char fallback \<Longrightarrow> list_all token_char s1"
    by (auto simp: s1_def list_all_iff dest: in_set_takeD)
  have s1len: "length s1 + length e \<le> 100"
    using e16 lim by (auto simp: s1_def)
  have "list_all token_char fallback \<Longrightarrow> list_all token_char s2"
    using s1tok set_trim_set list_all_mono_set unfolding s2_def by blast
  moreover have "length s2 + length e \<le> 100"
    using s1len length_trim_set [of s1 "''-.''"] unfolding s2_def by simp
  moreover have "s2 \<noteq> [] \<Longrightarrow> hd s2 \<noteq> dot \<and> hd s2 \<noteq> CHR ''-''"
    unfolding s2_def using hd_trim_set [of s1 "''-.''"] by auto
  ultimately show ?thesis
    unfolding eq using e16 etok
    by (intro exI [of _ "if s2 = [] then fallback else s2"] exI [of _ e]) auto
qed

subsection \<open>Termination of the search for a free name\<close>

lemma numbered_name_inj: "numbered_name s e i = numbered_name s e j \<Longrightarrow> i = j"
  by (simp add: numbered_name_def nat_text_inj)

lemma unique_loop_step:
  "unique_loop T s e k = (if numbered_name s e k \<notin> T then Some (numbered_name s e k)
     else unique_loop T s e (k + 1))"
  by (rule unique_loop.simps)

text \<open>Candidates from \<open>k\<close> on that are taken are finitely many and one fewer each time.\<close>

lemma unique_loop_finds:
  assumes "finite T"
  shows "\<exists>j\<ge>k. unique_loop T s e k = Some (numbered_name s e j) \<and> numbered_name s e j \<notin> T"
proof (induction "card (T \<inter> numbered_name s e ` {k..})" arbitrary: k rule: less_induct)
  case less
  show ?case
  proof (cases "numbered_name s e k \<in> T")
    case False
    then show ?thesis by (intro exI [of _ k]) (simp add: unique_loop_step)
  next
    case True
    have "T \<inter> numbered_name s e ` {k + 1..} \<subset> T \<inter> numbered_name s e ` {k..}"
    proof
      have "numbered_name s e k \<notin> numbered_name s e ` {k + 1..}"
        using numbered_name_inj by fastforce
      then show "T \<inter> numbered_name s e ` {k + 1..} \<noteq> T \<inter> numbered_name s e ` {k..}"
        using True by blast
    qed auto
    then have "card (T \<inter> numbered_name s e ` {k + 1..}) < card (T \<inter> numbered_name s e ` {k..})"
      using assms by (intro psubset_card_mono) auto
    from less [OF this] obtain j where "k + 1 \<le> j"
      "unique_loop T s e (k + 1) = Some (numbered_name s e j)" "numbered_name s e j \<notin> T"
      by blast
    moreover have "unique_loop T s e k = unique_loop T s e (k + 1)"
      using True by (subst unique_loop_step) simp
    ultimately show ?thesis by (intro exI [of _ j]) simp
  qed
qed

text \<open>
  The contract of a name allocator, for the upload that stores its files under the names it
  returns: it always answers, the answer is new and is recorded, and it is a proper file
  name when the name asked for is one.
\<close>

locale name_allocator =
  fixes alloc :: "'t \<Rightarrow> string \<Rightarrow> (string \<times> 't) option"
    and used :: "'t \<Rightarrow> string set"
    and wf :: "'t \<Rightarrow> bool"
  assumes alloc_total: "wf t \<Longrightarrow> \<exists>m u. alloc t n = Some (m, u)"
    and alloc_fresh: "wf t \<Longrightarrow> alloc t n = Some (m, u) \<Longrightarrow> m \<notin> used t"
    and alloc_records: "wf t \<Longrightarrow> alloc t n = Some (m, u) \<Longrightarrow> wf u \<and> used u = insert m (used t)"
    and alloc_plain: "wf t \<Longrightarrow> plain_name n \<Longrightarrow> alloc t n = Some (m, u) \<Longrightarrow> plain_name m"
begin

fun alloc_all :: "'t \<Rightarrow> string list \<Rightarrow> (string list \<times> 't) option" where
  "alloc_all t [] = Some ([], t)"
| "alloc_all t (n # ns) =
    (case alloc t n of
       None \<Rightarrow> None
     | Some (m, u) \<Rightarrow>
         (case alloc_all u ns of None \<Rightarrow> None | Some (ms, v) \<Rightarrow> Some (m # ms, v)))"

lemma alloc_all_total: "wf t \<Longrightarrow> \<exists>ms u. alloc_all t ns = Some (ms, u)"
proof (induction ns arbitrary: t)
  case (Cons n ns)
  obtain m u where a: "alloc t n = Some (m, u)" using alloc_total [OF Cons.prems] by blast
  then have "wf u" using alloc_records Cons.prems by blast
  from Cons.IH [OF this] a show ?case by fastforce
qed simp

lemma alloc_all_distinct:
  "wf t \<Longrightarrow> alloc_all t ns = Some (ms, u) \<Longrightarrow>
    distinct ms \<and> set ms \<inter> used t = {} \<and> used u = used t \<union> set ms \<and> length ms = length ns"
proof (induction ns arbitrary: t ms u)
  case (Cons n ns)
  obtain m v ms' where a: "alloc t n = Some (m, v)" "alloc_all v ns = Some (ms', u)" "ms = m # ms'"
    using Cons.prems(2) by (auto split: option.splits)
  have v: "wf v" "used v = insert m (used t)" "m \<notin> used t"
    using alloc_records alloc_fresh Cons.prems(1) a(1) by blast+
  from Cons.IH [OF v(1) a(2)] v(2,3) a(3) show ?case by auto
qed auto

lemma alloc_all_plain:
  "wf t \<Longrightarrow> \<forall>n\<in>set ns. plain_name n \<Longrightarrow> alloc_all t ns = Some (ms, u) \<Longrightarrow> \<forall>m\<in>set ms. plain_name m"
proof (induction ns arbitrary: t ms u)
  case (Cons n ns)
  obtain m v ms' where a: "alloc t n = Some (m, v)" "alloc_all v ns = Some (ms', u)" "ms = m # ms'"
    using Cons.prems(3) by (auto split: option.splits)
  have "wf v" using alloc_records [OF Cons.prems(1) a(1)] by simp
  from Cons.IH [OF this _ a(2)] alloc_plain [OF Cons.prems(1) _ a(1)] Cons.prems(2) a(3)
  show ?case by auto
qed auto

end

definition taken_names :: "string set option \<Rightarrow> string set" where
  "taken_names t = (case t of None \<Rightarrow> {} | Some T \<Rightarrow> T)"

definition real_map :: "string set option \<Rightarrow> bool" where
  "real_map t \<longleftrightarrow> (\<exists>T. t = Some T \<and> finite T)"

lemma set_trim_suffix: "set (trim_suffix s p) \<subseteq> set s"
  by (auto simp: trim_suffix_def dest: in_set_takeD)

lemma set_file_ext: "c \<in> set (file_ext p) \<Longrightarrow> c \<noteq> slash"
  using after_last_no_sep set_after_last [of dot] by (fastforce simp: file_ext_def Let_def split: if_splits)

lemma numbered_name_plain:
  assumes "plain_name n"
  shows "plain_name (numbered_name (trim_suffix n (file_ext n)) (file_ext n) k)"
proof -
  have "slash \<notin> set (nat_text k)" using nat_text_digits by (fastforce simp: digit_rune_def)
  then show ?thesis
    using assms set_trim_suffix [of n "file_ext n"] set_file_ext [of slash n] nat_text_ne [of k]
    by (auto simp: plain_name_def numbered_name_def append_eq_Cons_conv Cons_eq_append_conv)
qed

lemma unique_file_name_plain:
  "plain_name n \<Longrightarrow> unique_file_name t n = Some (m, u) \<Longrightarrow> real_map t \<Longrightarrow> plain_name m"
proof -
  assume n: "plain_name n" and u: "unique_file_name t n = Some (m, u)" and "real_map t"
  then obtain T where T: "t = Some T" "finite T" by (auto simp: real_map_def)
  show "plain_name m"
    using u n T unique_loop_finds [OF T(2), of 2 "trim_suffix n (file_ext n)" "file_ext n"]
      numbered_name_plain [OF n]
    by (auto simp: unique_file_name_def Let_def split: if_splits)
qed

lemma unique_file_name_spec:
  assumes "finite T"
  shows "\<exists>m. unique_file_name (Some T) n = Some (m, Some (insert m T)) \<and> m \<notin> T"
  using unique_loop_finds [OF assms, of 2 "trim_suffix n (file_ext n)" "file_ext n"]
  by (auto simp: unique_file_name_def Let_def)

interpretation names: name_allocator unique_file_name taken_names real_map
proof unfold_locales
  fix t u n m
  assume wf: "real_map t"
  then obtain T where T: "t = Some T" "finite T" by (auto simp: real_map_def)
  obtain k where k: "unique_file_name t n = Some (k, Some (insert k T))" "k \<notin> T"
    using unique_file_name_spec [OF T(2)] T(1) by blast
  show "\<exists>m u. unique_file_name t n = Some (m, u)" using k by blast
  assume a: "unique_file_name t n = Some (m, u)"
  show "m \<notin> taken_names t" using a k T by (simp add: taken_names_def)
  show "real_map u \<and> taken_names u = insert m (taken_names t)"
    using a k T by (auto simp: real_map_def taken_names_def)
  show "plain_name n \<Longrightarrow> plain_name m" using a wf by (rule unique_file_name_plain [rotated])
qed

text \<open>Any fallback of letters and digits gives a proper file name.\<close>

lemma safe_file_name_plain:
  assumes "fb \<noteq> []" "list_all token_char fb" "hd fb \<noteq> dot"
  shows "plain_name (safe_file_name n fb)"
proof -
  obtain stem ext where n: "safe_file_name n fb = stem @ ext"
    and stem: "stem = fb \<or> stem \<noteq> [] \<and> (list_all token_char fb \<longrightarrow> list_all token_char stem)
          \<and> hd stem \<noteq> dot \<and> hd stem \<noteq> CHR ''-'' \<and> length stem + length ext \<le> 100"
    and ext: "list_all token_char ext" "length ext \<le> 16"
    using safe_file_name_shape by blast
  have s: "stem \<noteq> []" "list_all token_char stem" "hd stem \<noteq> dot" using stem assms by auto
  have "list_all token_char (stem @ ext)" using s(2) ext(1) by simp
  from this have "slash \<notin> set (stem @ ext)" using token_char_safe unfolding list_all_iff by blast
  then show ?thesis using s unfolding n plain_name_def by (cases stem) auto
qed

subsection \<open>Properties\<close>

text \<open>C20: Whatever name a browser sends, the stored name is a proper single-component file name of at
  most one hundred bytes, made of lower-case letters, digits, dots, dashes and underscores only,
  and it does not start with a dot or a dash (so it is neither hidden nor an option).\<close>

theorem safe_file_name_safe:
  assumes "good_fallback fallback"
  shows "plain_name (safe_file_name name fallback)
    \<and> length (safe_file_name name fallback) \<le> max_file_name_length
    \<and> list_all token_char (safe_file_name name fallback)
    \<and> hd (safe_file_name name fallback) \<noteq> dot \<and> hd (safe_file_name name fallback) \<noteq> CHR ''-''"
proof -
  obtain stem ext where n: "safe_file_name name fallback = stem @ ext"
    and stem: "stem = fallback \<or> stem \<noteq> [] \<and> (list_all token_char fallback \<longrightarrow> list_all token_char stem)
          \<and> hd stem \<noteq> dot \<and> hd stem \<noteq> CHR ''-'' \<and> length stem + length ext \<le> 100"
    and ext: "list_all token_char ext" "length ext \<le> 16"
    using safe_file_name_shape by blast
  have s: "stem \<noteq> []" "list_all token_char stem" "hd stem \<noteq> dot" "hd stem \<noteq> CHR ''-''"
      "length stem + length ext \<le> 100"
    using stem assms ext(2) by (auto simp: good_fallback_def)
  have "list_all token_char (stem @ ext)" using s(2) ext(1) by simp
  moreover from this have "slash \<notin> set (stem @ ext)"
    using token_char_safe unfolding list_all_iff by blast
  moreover have "hd (stem @ ext) = hd stem" using s(1) by simp
  ultimately show ?thesis
    using s unfolding n plain_name_def max_file_name_length_def by (cases stem) auto
qed

theorem safe_file_name_safe_witness:
  "safe_file_name ''../evil/../My Holiday (1).JPEG'' ''file-1'' = ''my-holiday-1.jpeg''
    \<and> plain_name ''my-holiday-1.jpeg''"
proof -
  have n: "safe_file_name ''../evil/../My Holiday (1).JPEG'' ''file-1'' = ''my-holiday-1.jpeg''"
    by code_simp
  have "good_fallback ''file-1''" by code_simp
  from safe_file_name_safe [OF this, of "''../evil/../My Holiday (1).JPEG''"] n
  show ?thesis by simp
qed

text \<open>C21: Making a name unique always ends, with a name that was not taken before and is recorded as
  taken, and a proper file name stays one.\<close>

theorem unique_file_name_fresh:
  assumes "finite T"
  shows "\<exists>m. unique_file_name (Some T) n = Some (m, Some (insert m T)) \<and> m \<notin> T
    \<and> (n \<notin> T \<longrightarrow> m = n) \<and> (plain_name n \<longrightarrow> plain_name m)"
proof -
  obtain m where m: "unique_file_name (Some T) n = Some (m, Some (insert m T))" "m \<notin> T"
    using unique_file_name_spec [OF assms] by blast
  moreover have "plain_name n \<Longrightarrow> plain_name m"
    using names.alloc_plain [of "Some T"] m(1) assms by (auto simp: real_map_def)
  moreover have "n \<notin> T \<Longrightarrow> m = n" using m(1) by (simp add: unique_file_name_def)
  ultimately show ?thesis by blast
qed

theorem unique_file_name_fresh_witness:
  "\<exists>m. unique_file_name (Some {''a.png'', ''a-2.png''}) ''a.png''
      = Some (m, Some {m, ''a.png'', ''a-2.png''}) \<and> m \<notin> {''a.png'', ''a-2.png''}"
  using unique_file_name_fresh [of "{''a.png'', ''a-2.png''}" "''a.png''"] by blast

text \<open>Whatever the system's MIME table says, a stored output is never served as HTML, nor with a
  type that mentions javascript or xml.\<close>

theorem content_type_never_active:
  "\<not> has_prefix (content_type mime_of name) ''text/html''
    \<and> \<not> contains_str (content_type mime_of name) ''javascript''
    \<and> \<not> contains_str (content_type mime_of name) ''xml''"
  by (simp add: content_type_def Let_def has_prefix_def)

text \<open>
  The documented bound of one hundred bytes is that of \<open>safe_file_name\<close>: the counter of
  \<open>unique_file_name\<close> is appended without cutting the stem.
\<close>

lemma unique_name_over_limit:
  "let n = replicate 96 (CHR ''a'') @ ''.png''
   in length n = max_file_name_length
      \<and> map_option (length \<circ> fst) (unique_file_name (Some {n}) n) = Some 102"
proof -
  define n where "n = replicate 96 (CHR ''a'') @ ''.png''"
  have ext: "file_ext n = ''.png''" and stem: "trim_suffix n ''.png'' = replicate 96 (CHR ''a'')"
    unfolding n_def by code_simp+
  have two: "nat_text 2 = ''2''" by code_simp
  have "numbered_name (replicate 96 (CHR ''a'')) ''.png'' 2 \<noteq> n"
    unfolding n_def numbered_name_def two by code_simp
  then have "unique_file_name (Some {n}) n
      = Some (numbered_name (replicate 96 (CHR ''a'')) ''.png'' 2,
              Some {numbered_name (replicate 96 (CHR ''a'')) ''.png'' 2, n})"
    by (simp add: unique_file_name_def ext stem unique_loop_step Let_def)
  then show ?thesis
    unfolding Let_def n_def [symmetric]
    by (simp add: numbered_name_def two) (simp add: n_def max_file_name_length_def)
qed

end
