(* ===== verification/Conversion_Types.thy ===== *)
theory Conversion_Types
  imports Profiles
begin

text \<open>
  The data that crosses component boundaries, \<open>internal/conversion/types.go\<close>: detected
  media, warnings, validation and execution reports and timings. Go's \<open>int\<close> and
  \<open>int64\<close> fields are integers; an optional pointer is an \<open>option\<close>.
\<close>

record detected_stream =
  ds_index :: int
  ds_kind :: string
  ds_codec :: string
  ds_width :: int
  ds_height :: int
  ds_channels :: int
  ds_sample_rate :: int

record detected_media =
  dm_kind :: media_kind
  dm_format :: string
  dm_mime_type :: string
  dm_width :: int
  dm_height :: int
  dm_duration_millis :: int
  dm_streams :: "detected_stream list"

record warning =
  wn_code :: string
  wn_message :: string
  wn_stream_index :: "int option"
  wn_codec :: string

record validation_issue =
  vi_code :: string
  vi_field :: string
  vi_expected :: string
  vi_actual :: string

record validation_result =
  vr_status :: string
  vr_issues :: "validation_issue list"

record execution_result =
  ex_requested :: string
  ex_initial :: string
  ex_final :: string
  ex_fallback_reason :: string
  ex_attempt_count :: int

record timing =
  tm_probe :: int
  tm_conversion :: int
  tm_total :: int

record inspection =
  in_media :: detected_media
  in_recommended :: operation
  in_compatible :: "operation list"

record conversion_request =
  rq_input_path :: string
  rq_output :: string
  rq_operation :: operation
  rq_operation_set :: bool

text \<open>The zero values of the structures.\<close>

definition zero_validation :: validation_result where
  "zero_validation = \<lparr>vr_status = [], vr_issues = []\<rparr>"

definition zero_execution :: execution_result where
  "zero_execution = \<lparr>ex_requested = [], ex_initial = [], ex_final = [], ex_fallback_reason = [],
     ex_attempt_count = 0\<rparr>"

definition no_operation :: operation where
  "no_operation = OtherOperation []"

text \<open>\<open>milliseconds\<close>: \<open>Duration.Milliseconds\<close> truncates towards zero.\<close>

definition milliseconds :: "int \<Rightarrow> int" where
  "milliseconds d = (if 0 \<le> d then d div 1000000 else - (- d div 1000000))"

end
