(* ===== verification/Manifest.thy ===== *)
theory Manifest
  imports Conversion_Types
begin

text \<open>
  The persisted state of a job, \<open>internal/jobs/storage/manifest.go\<close>: the lifecycle states
  with their order, the manifest and its files, job identifiers (base64url of sixteen random
  bytes) and their validation.
\<close>

subsection \<open>Lifecycle states\<close>

datatype job_state =
    JobPending | JobQueued | JobRunning | JobCompleted | JobFailed | JobCanceled | JobInterrupted

definition job_terminal :: "job_state \<Rightarrow> bool" where
  "job_terminal s = (case s of
      JobCompleted \<Rightarrow> True | JobFailed \<Rightarrow> True | JobCanceled \<Rightarrow> True | JobInterrupted \<Rightarrow> True
    | _ \<Rightarrow> False)"

definition job_active :: "job_state \<Rightarrow> bool" where
  "job_active s \<longleftrightarrow> s = JobQueued \<or> s = JobRunning"

datatype file_state =
    FileUploaded | FileInspected | FileQueued | FileRunning | FileCompleted | FileFailed
  | FileCanceled | FileInterrupted

definition file_terminal :: "file_state \<Rightarrow> bool" where
  "file_terminal s = (case s of
      FileCompleted \<Rightarrow> True | FileFailed \<Rightarrow> True | FileCanceled \<Rightarrow> True | FileInterrupted \<Rightarrow> True
    | _ \<Rightarrow> False)"

text \<open>
  The lifecycle is an order: work only moves a state up, and the terminal states are the
  maximal ones.
\<close>

definition job_rank :: "job_state \<Rightarrow> nat" where
  "job_rank s = (case s of JobPending \<Rightarrow> 0 | JobQueued \<Rightarrow> 1 | JobRunning \<Rightarrow> 2 | _ \<Rightarrow> 3)"

definition file_rank :: "file_state \<Rightarrow> nat" where
  "file_rank s = (case s of
      FileUploaded \<Rightarrow> 0 | FileInspected \<Rightarrow> 1 | FileQueued \<Rightarrow> 2 | FileRunning \<Rightarrow> 3 | _ \<Rightarrow> 4)"

instantiation job_state :: order
begin

definition less_eq_job_state :: "job_state \<Rightarrow> job_state \<Rightarrow> bool" where
  "less_eq_job_state a b \<longleftrightarrow> a = b \<or> job_rank a < job_rank b"

definition less_job_state :: "job_state \<Rightarrow> job_state \<Rightarrow> bool" where
  "less_job_state a b \<longleftrightarrow> job_rank a < job_rank b"

instance
  by standard (auto simp: less_eq_job_state_def less_job_state_def)

end

instantiation file_state :: order
begin

definition less_eq_file_state :: "file_state \<Rightarrow> file_state \<Rightarrow> bool" where
  "less_eq_file_state a b \<longleftrightarrow> a = b \<or> file_rank a < file_rank b"

definition less_file_state :: "file_state \<Rightarrow> file_state \<Rightarrow> bool" where
  "less_file_state a b \<longleftrightarrow> file_rank a < file_rank b"

instance
  by standard (auto simp: less_eq_file_state_def less_file_state_def)

end

lemma job_terminal_simps [simp]:
  "job_terminal JobCompleted" "job_terminal JobFailed" "job_terminal JobCanceled"
  "job_terminal JobInterrupted" "\<not> job_terminal JobPending" "\<not> job_terminal JobQueued"
  "\<not> job_terminal JobRunning"
  by (simp_all add: job_terminal_def)

lemma file_terminal_simps [simp]:
  "file_terminal FileCompleted" "file_terminal FileFailed" "file_terminal FileCanceled"
  "file_terminal FileInterrupted" "\<not> file_terminal FileUploaded" "\<not> file_terminal FileInspected"
  "\<not> file_terminal FileQueued" "\<not> file_terminal FileRunning"
  by (simp_all add: file_terminal_def)

lemma job_terminal_maximal: "job_terminal a \<longleftrightarrow> (\<forall>b. a \<le> b \<longrightarrow> b = a)"
proof -
  have "JobCompleted \<noteq> JobPending" "JobCompleted \<noteq> JobQueued" "JobCompleted \<noteq> JobRunning" by simp_all
  then show ?thesis
    by (cases a) (auto simp: less_eq_job_state_def job_rank_def split: job_state.splits
        intro!: exI [of _ JobCompleted])
qed

lemma file_terminal_maximal: "file_terminal a \<longleftrightarrow> (\<forall>b. a \<le> b \<longrightarrow> b = a)"
  by (cases a) (auto simp: less_eq_file_state_def file_rank_def split: file_state.splits
      intro!: exI [of _ FileCompleted])

subsection \<open>Data\<close>

text \<open>A time is an integer of nanoseconds since the zero time of Go, year one.\<close>

type_synonym time = int

record failure =
  fl_kind :: string
  fl_code :: string
  fl_message :: string

record stored_output =
  op_name :: string
  op_size :: int
  op_mime_type :: string

record job_file =
  f_id :: string
  f_name :: string
  f_original_name :: string
  f_size :: int
  f_state :: file_state
  f_media :: "detected_media option"
  f_recommended :: operation
  f_compatible :: "operation list"
  f_selected :: operation
  f_operation_source :: string
  f_validation :: validation_result
  f_warnings :: "warning list"
  f_execution :: execution_result
  f_fallback_reason :: string
  f_error :: "failure option"
  f_output :: "stored_output option"
  f_started_at :: "time option"
  f_finished_at :: "time option"

record manifest =
  m_schema_version :: string
  m_id :: string
  m_state :: job_state
  m_created_at :: time
  m_updated_at :: time
  m_expires_at :: time
  m_total_bytes :: int
  m_files :: "job_file list"
  m_error :: "failure option"

definition manifest_schema_version :: string where
  "manifest_schema_version = ''1.0''"

text \<open>
  \<open>FileByID\<close> gives a pointer into the slice: here the index of the first file with the
  identifier. \<open>update_file\<close> is the assignment through that pointer.
\<close>

fun index_of_file :: "job_file list \<Rightarrow> string \<Rightarrow> nat option" where
  "index_of_file [] i = None"
| "index_of_file (f # fs) i = (if f_id f = i then Some 0 else map_option Suc (index_of_file fs i))"

definition file_by_id :: "manifest \<Rightarrow> string \<Rightarrow> job_file option" where
  "file_by_id m i = map_option (\<lambda>n. m_files m ! n) (index_of_file (m_files m) i)"

definition update_file :: "string \<Rightarrow> (job_file \<Rightarrow> job_file) \<Rightarrow> manifest \<Rightarrow> manifest" where
  "update_file i g m =
    (case index_of_file (m_files m) i of
       None \<Rightarrow> m
     | Some n \<Rightarrow> m\<lparr>m_files := (m_files m)[n := g (m_files m ! n)]\<rparr>)"

definition completed_outputs :: "manifest \<Rightarrow> job_file list" where
  "completed_outputs m = filter (\<lambda>f. f_state f = FileCompleted \<and> f_output f \<noteq> None) (m_files m)"

definition manifest_expired :: "manifest \<Rightarrow> time \<Rightarrow> bool" where
  "manifest_expired m now \<longleftrightarrow> m_expires_at m \<noteq> 0 \<and> m_expires_at m < now"

lemma index_of_file_Some:
  "index_of_file fs i = Some n \<Longrightarrow> n < length fs \<and> f_id (fs ! n) = i \<and> (\<forall>j<n. f_id (fs ! j) \<noteq> i)"
proof (induction fs arbitrary: n)
  case (Cons f fs)
  show ?case
  proof (cases "f_id f = i")
    case True
    with Cons.prems show ?thesis by auto
  next
    case False
    with Cons.prems obtain j where j: "index_of_file fs i = Some j" "n = Suc j" by auto
    have "f_id ((f # fs) ! k) \<noteq> i" if "k < n" for k
      using that Cons.IH [OF j(1)] False j(2) by (cases k) auto
    with Cons.IH [OF j(1)] j(2) show ?thesis by simp
  qed
qed simp

lemma index_of_file_None: "index_of_file fs i = None \<longleftrightarrow> i \<notin> f_id ` set fs"
  by (induction fs) auto

text \<open>With distinct identifiers the pointer assignment is a map over the files.\<close>

lemma update_file_map:
  assumes "distinct (map f_id (m_files m))"
  shows "update_file i g m = m\<lparr>m_files := map (\<lambda>f. if f_id f = i then g f else f) (m_files m)\<rparr>"
proof (cases "index_of_file (m_files m) i")
  case None
  then have "map (\<lambda>f. if f_id f = i then g f else f) (m_files m) = m_files m"
    by (intro map_idI) (auto simp: index_of_file_None)
  then show ?thesis by (simp add: update_file_def None)
next
  case (Some n)
  have n: "n < length (m_files m)" "f_id (m_files m ! n) = i" using index_of_file_Some [OF Some] by auto
  have "(m_files m)[n := g (m_files m ! n)] = map (\<lambda>f. if f_id f = i then g f else f) (m_files m)"
  proof (rule nth_equalityI)
    fix j assume j: "j < length ((m_files m)[n := g (m_files m ! n)])"
    have "j \<noteq> n \<Longrightarrow> f_id (m_files m ! j) \<noteq> i"
      using assms n j by (metis distinct_conv_nth length_list_update length_map nth_map)
    then show "(m_files m)[n := g (m_files m ! n)] ! j
        = map (\<lambda>f. if f_id f = i then g f else f) (m_files m) ! j"
      using n j by (cases "j = n") auto
  qed simp
  then show ?thesis by (simp add: update_file_def Some)
qed

subsection \<open>Job identifiers\<close>

definition id_bytes :: nat where
  "id_bytes = 16"

text \<open>Package \<open>encoding/base64\<close>, \<open>RawURLEncoding\<close>: the URL alphabet without padding.\<close>

definition b64_char :: "nat \<Rightarrow> char" where
  "b64_char v =
    (if v < 26 then char_of (65 + v) else if v < 52 then char_of (71 + v)
     else if v < 62 then char_of (v - 4) else if v = 62 then CHR ''-'' else CHR ''_'')"

definition b64_value :: "char \<Rightarrow> nat option" where
  "b64_value c =
    (let n = of_char c :: nat
     in if upper_rune n then Some (n - 65) else if lower_letter n then Some (n - 71)
        else if digit_rune n then Some (n + 4) else if n = 45 then Some 62
        else if n = 95 then Some 63 else None)"

fun b64_encode :: "nat list \<Rightarrow> string" where
  "b64_encode [] = []"
| "b64_encode [x] = [b64_char (x div 4), b64_char (x mod 4 * 16)]"
| "b64_encode [x, y] =
    [b64_char (x div 4), b64_char (x mod 4 * 16 + y div 16), b64_char (y mod 16 * 4)]"
| "b64_encode (x # y # z # bs) =
    b64_char (x div 4) # b64_char (x mod 4 * 16 + y div 16)
      # b64_char (y mod 16 * 4 + z div 64) # b64_char (z mod 64) # b64_encode bs"

text \<open>Decoding of a list of digits; a single digit at the end is an error.\<close>

fun b64_digits :: "nat list \<Rightarrow> nat list option" where
  "b64_digits [] = Some []"
| "b64_digits [a] = None"
| "b64_digits [a, b] = Some [a * 4 + b div 16]"
| "b64_digits [a, b, c] = Some [a * 4 + b div 16, b mod 16 * 16 + c div 4]"
| "b64_digits (a # b # c # d # ds) =
    map_option (\<lambda>bs. (a * 4 + b div 16) # (b mod 16 * 16 + c div 4) # (c mod 4 * 64 + d) # bs)
      (b64_digits ds)"

definition b64_decode :: "string \<Rightarrow> nat list option" where
  "b64_decode s =
    (let vs = map b64_value (filter (\<lambda>c. c \<noteq> CHR 0x0A \<and> c \<noteq> CHR 0x0D) s)
     in if None \<in> set vs then None else b64_digits (map the vs))"

definition b64_encoded_len :: "nat \<Rightarrow> nat" where
  "b64_encoded_len n = n div 3 * 4 + (n mod 3 * 8 + 5) div 6"

text \<open>\<open>NewID\<close>: the random buffer is the argument; \<open>None\<close> is a failing \<open>rand.Read\<close>.\<close>

definition new_id :: "nat list option \<Rightarrow> string result" where
  "new_id buffer =
    (case buffer of
       None \<Rightarrow> Inl (NewError ''storage: generate job id'')
     | Some bs \<Rightarrow> Inr (b64_encode bs))"

definition id_rune :: "nat \<Rightarrow> bool" where
  "id_rune r \<longleftrightarrow> lower_letter r \<or> upper_rune r \<or> digit_rune r \<or> r = 45 \<or> r = 95"

definition validate_id :: "string \<Rightarrow> err option" where
  "validate_id i =
    (if length i \<noteq> b64_encoded_len id_bytes then Some (Sentinel ErrInvalidID)
     else if \<not> list_all id_rune (runes i) then Some (Sentinel ErrInvalidID)
     else case b64_decode i of
            None \<Rightarrow> Some (Sentinel ErrInvalidID)
          | Some decoded \<Rightarrow>
              if length decoded \<noteq> id_bytes then Some (Sentinel ErrInvalidID) else None)"

definition file_id_rune :: "nat \<Rightarrow> bool" where
  "file_id_rune r \<longleftrightarrow> lower_letter r \<or> digit_rune r \<or> r = 45"

definition validate_file_id :: "string \<Rightarrow> err option" where
  "validate_file_id i =
    (if i = [] \<or> 24 < length i then Some (Sentinel ErrInvalidID)
     else if \<not> list_all file_id_rune (runes i) then Some (Sentinel ErrInvalidID)
     else if contains_str i ''..'' then Some (Sentinel ErrInvalidID)
     else None)"

subsection \<open>Round trip of the encoding\<close>

lemma b64_char_cases:
  assumes "v < 64"
  obtains (upper) "v < 26" "of_char (b64_char v) = 65 + v"
    | (lower) "26 \<le> v" "v < 52" "of_char (b64_char v) = 71 + v"
    | (digit) k where "k < 10" "v = 52 + k" "of_char (b64_char v) = 48 + k"
    | (dash) "v = 62" "of_char (b64_char v) = (45 :: nat)"
    | (underscore) "v = 63" "of_char (b64_char v) = (95 :: nat)"
proof -
  consider (a) "v < 26" | (b) "26 \<le> v" "v < 52" | (c) "52 \<le> v" "v < 62" | (d) "v = 62" | (e) "v = 63"
    using assms by linarith
  then show thesis
  proof cases
    case c
    then have "v = 52 + (v - 52)" "v - 52 < 10" by auto
    with c show ?thesis by (intro digit [of "v - 52"]) (auto simp: b64_char_def)
  qed (auto simp: b64_char_def intro: upper lower dash underscore)
qed

lemma b64_value_char: "v < 64 \<Longrightarrow> b64_value (b64_char v) = Some v"
  by (erule b64_char_cases)
     (simp_all add: b64_value_def upper_rune_def lower_letter_def digit_rune_def)

lemma b64_char_rune: "v < 64 \<Longrightarrow> id_rune (of_char (b64_char v)) \<and> of_char (b64_char v) < (128 :: nat)"
  by (erule b64_char_cases) (simp_all add: id_rune_def upper_rune_def lower_letter_def digit_rune_def)

lemma b64_encode_digits:
  "\<forall>b\<in>set bs. b < 256 \<Longrightarrow>
    \<exists>vs. b64_encode bs = map b64_char vs \<and> (\<forall>v\<in>set vs. v < 64) \<and> b64_digits vs = Some bs"
proof (induction bs rule: b64_encode.induct)
  case (2 x)
  then show ?case by (intro exI [of _ "[x div 4, x mod 4 * 16]"]) auto
next
  case (3 x y)
  have "x mod 4 * 16 + y div 16 < 64" using "3.prems" by auto
  with 3 show ?case
    by (intro exI [of _ "[x div 4, x mod 4 * 16 + y div 16, y mod 16 * 4]"]) auto
next
  case (4 x y z bs)
  then obtain vs where vs: "b64_encode bs = map b64_char vs" "\<forall>v\<in>set vs. v < 64" "b64_digits vs = Some bs"
    by auto
  have "x mod 4 * 16 + y div 16 < 64" "y mod 16 * 4 + z div 64 < 64" using "4.prems" by auto
  with vs 4 show ?case
    by (intro exI [of _ "x div 4 # (x mod 4 * 16 + y div 16) # (y mod 16 * 4 + z div 64) # z mod 64 # vs"])
       auto
qed simp

lemma b64_char_not_newline: "v < 64 \<Longrightarrow> b64_char v \<noteq> CHR 0x0A \<and> b64_char v \<noteq> CHR 0x0D"
  by (auto simp: dest: b64_value_char simp: b64_value_def upper_rune_def lower_letter_def digit_rune_def)

lemma b64_decode_chars:
  "\<forall>v\<in>set vs. v < 64 \<Longrightarrow> b64_decode (map b64_char vs) = b64_digits vs"
proof -
  assume vs: "\<forall>v\<in>set vs. v < 64"
  then have "filter (\<lambda>c. c \<noteq> CHR 0x0A \<and> c \<noteq> CHR 0x0D) (map b64_char vs) = map b64_char vs"
    using b64_char_not_newline by (auto intro!: filter_True)
  moreover have "map b64_value (map b64_char vs) = map Some vs"
    using vs b64_value_char by simp
  moreover have "map the (map Some vs) = vs" by (simp add: comp_def)
  ultimately show ?thesis by (simp only: b64_decode_def Let_def) auto
qed

lemma b64_roundtrip: "\<forall>b\<in>set bs. b < 256 \<Longrightarrow> b64_decode (b64_encode bs) = Some bs"
  using b64_encode_digits [of bs] b64_decode_chars by fastforce

lemma b64_encode_length: "length (b64_encode bs) = b64_encoded_len (length bs)"
proof (induction bs rule: b64_encode.induct)
  case (4 x y z bs)
  have "Suc (Suc (Suc (length bs))) div 3 = length bs div 3 + 1" by presburger
  moreover have "Suc (Suc (Suc (length bs))) mod 3 = length bs mod 3" by presburger
  ultimately show ?case using 4 by (simp add: b64_encoded_len_def)
qed (simp_all add: b64_encoded_len_def)

subsection \<open>What validation guarantees\<close>

lemma decode_rune_low: "b < 0x80 \<Longrightarrow> decode_rune (b # bs) = (b, 1)"
  by simp

lemma decode_rune_two:
  assumes "0x80 \<le> b" "b \<le> 0xDF"
  shows "0x80 \<le> fst (decode_rune (b # bs))"
proof -
  have "0xC2 \<le> b \<Longrightarrow> 0x80 \<le> (b - 0xC0) * 64 + x" for x by arith
  with assms show ?thesis by (cases bs) (simp_all add: rune_error_def)
qed

lemma decode_rune_three:
  assumes "0xE0 \<le> b" "b \<le> 0xEF"
  shows "0x80 \<le> fst (decode_rune (b # bs))"
proof (cases "\<exists>x y r. bs = x # y # r")
  case True
  then obtain x y r where bs: "bs = x # y # r" by blast
  have eq: "decode_rune (b # x # y # r) =
      (if (if b = 0xE0 then 0xA0 else 0x80) \<le> x \<and> x \<le> (if b = 0xED then 0x9F else 0xBF) \<and> cont_byte y
       then ((b - 0xE0) * 4096 + (x - 0x80) * 64 + (y - 0x80), 3) else (rune_error, 1))"
    using assms by (simp del: if_cancel if_split cong: if_cong)
  have "0x80 \<le> (b - 0xE0) * 4096 + (x - 0x80) * 64 + (y - 0x80)"
    if "(if b = 0xE0 then 0xA0 else 0x80) \<le> x"
  proof (cases "b = 0xE0")
    case True
    with that have "0x20 \<le> x - 0x80" by auto
    then have "0x20 * 64 \<le> (x - 0x80) * 64" by (rule mult_le_mono1)
    then show ?thesis by linarith
  next
    case False
    with assms have "1 \<le> b - 0xE0" by auto
    then have "1 * 4096 \<le> (b - 0xE0) * 4096" by (rule mult_le_mono1)
    then show ?thesis by linarith
  qed
  then show ?thesis unfolding bs eq by (auto simp: rune_error_def)
next
  case False
  then have "decode_rune (b # bs) = (rune_error, 1)"
    using assms by (cases bs; cases "tl bs") auto
  then show ?thesis by (simp add: rune_error_def)
qed

lemma decode_rune_four:
  assumes "0xF0 \<le> b"
  shows "0x80 \<le> fst (decode_rune (b # bs))"
proof (cases "b \<le> 0xF4 \<and> (\<exists>x y z r. bs = x # y # z # r)")
  case True
  then obtain x y z r where bs: "bs = x # y # z # r" by blast
  have eq: "decode_rune (b # x # y # z # r) =
      (if (if b = 0xF0 then 0x90 else 0x80) \<le> x \<and> x \<le> (if b = 0xF4 then 0x8F else 0xBF)
          \<and> cont_byte y \<and> cont_byte z
       then ((b - 0xF0) * 262144 + (x - 0x80) * 4096 + (y - 0x80) * 64 + (z - 0x80), 4)
       else (rune_error, 1))"
    using assms True by (simp del: if_cancel if_split cong: if_cong)
  have "0x80 \<le> (b - 0xF0) * 262144 + (x - 0x80) * 4096 + (y - 0x80) * 64 + (z - 0x80)"
    if "(if b = 0xF0 then 0x90 else 0x80) \<le> x"
  proof (cases "b = 0xF0")
    case True
    with that have "0x10 \<le> x - 0x80" by auto
    then have "0x10 * 4096 \<le> (x - 0x80) * 4096" by (rule mult_le_mono1)
    then show ?thesis by linarith
  next
    case False
    with assms have "1 \<le> b - 0xF0" by auto
    then have "1 * 262144 \<le> (b - 0xF0) * 262144" by (rule mult_le_mono1)
    then show ?thesis by linarith
  qed
  then show ?thesis unfolding bs eq by (auto simp: rune_error_def)
next
  case False
  then have "decode_rune (b # bs) = (rune_error, 1)"
    using assms by (cases bs; cases "tl bs"; cases "tl (tl bs)") auto
  then show ?thesis by (simp add: rune_error_def)
qed

lemma decode_rune_high: "0x80 \<le> b \<Longrightarrow> 0x80 \<le> fst (decode_rune (b # bs))"
proof -
  assume "0x80 \<le> b"
  then consider "0x80 \<le> b" "b \<le> 0xDF" | "0xE0 \<le> b" "b \<le> 0xEF" | "0xF0 \<le> b" by linarith
  then show ?thesis
    by cases (rule decode_rune_two decode_rune_three decode_rune_four; assumption)+
qed

lemma runes_of_low: "\<forall>r\<in>set (runes_of bs). r < 0x80 \<Longrightarrow> runes_of bs = bs"
proof (induction bs rule: runes_of.induct)
  case (2 b bs)
  obtain r w where rw: "decode_rune (b # bs) = (r, w)" by fastforce
  then have r: "runes_of (b # bs) = r # runes_of (drop w (b # bs))"
    by (simp del: decode_rune.simps)
  with "2.prems" have "r < 0x80" by (simp del: decode_rune.simps runes_of.simps)
  then have "b < 0x80" using decode_rune_high [of b bs] rw
    by (metis fst_conv not_less)
  then have "r = b" "w = 1" using rw decode_rune_low [of b bs] by simp_all
  with r have e: "runes_of (b # bs) = b # runes_of bs" by (simp del: decode_rune.simps runes_of.simps)
  have "runes_of bs = bs"
    using "2.IH" [of "(r, w)" r w] rw \<open>w = 1\<close> "2.prems" e
    by (simp del: decode_rune.simps runes_of.simps)
  with e show ?case by (simp del: decode_rune.simps runes_of.simps)
qed simp

lemma runes_low_bytes:
  assumes "list_all P (runes s)" and "\<And>r. P r \<Longrightarrow> r < 0x80"
  shows "list_all (\<lambda>c. P (of_char c)) s"
proof -
  have "runes s = map of_char s"
    unfolding runes_def using assms by (intro runes_of_low) (auto simp: list_all_iff runes_def)
  with assms(1) show ?thesis by (simp add: list.pred_map comp_def)
qed

lemma id_rune_low: "id_rune r \<Longrightarrow> r < 0x80"
  by (auto simp: id_rune_def upper_rune_def lower_letter_def digit_rune_def)

lemma validate_id_chars: "validate_id i = None \<Longrightarrow> list_all (\<lambda>c. id_rune (of_char c)) i"
  by (intro runes_low_bytes) (auto simp: validate_id_def id_rune_low split: if_splits)

lemma validate_id_plain: "validate_id i = None \<Longrightarrow> plain_name i"
proof -
  assume v: "validate_id i = None"
  then have "length i = 22"
    by (auto simp: validate_id_def b64_encoded_len_def id_bytes_def split: if_splits)
  moreover have "slash \<notin> set i"
    using validate_id_chars [OF v]
    by (auto simp: list_all_iff id_rune_def upper_rune_def lower_letter_def digit_rune_def)
  ultimately show ?thesis by (auto simp: plain_name_def)
qed

lemma new_id_valid_aux:
  assumes "length bs = id_bytes" and "\<forall>b\<in>set bs. b < 256"
  shows "validate_id (b64_encode bs) = None"
proof -
  obtain vs where vs: "b64_encode bs = map b64_char vs" "\<forall>v\<in>set vs. v < 64"
    using b64_encode_digits [OF assms(2)] by blast
  have "is_ascii (b64_encode bs)"
    using vs b64_char_rune by (auto simp: is_ascii_def list_all_iff)
  then have "list_all id_rune (runes (b64_encode bs))"
    using vs b64_char_rune by (auto simp: runes_ascii list_all_iff)
  then show ?thesis
    using b64_roundtrip [OF assms(2)] assms(1) by (simp add: validate_id_def b64_encode_length)
qed

text \<open>The identifier of the bytes 0 to 15.\<close>

lemma sample_id: "b64_encode [0..<16] = ''AAECAwQFBgcICQoLDA0ODw''"
  by (simp add: b64_char_def upt_rec char_of_def bit_Suc_0_iff)

lemma sample_id_valid: "validate_id ''AAECAwQFBgcICQoLDA0ODw'' = None"
  using new_id_valid_aux [of "[0..<16]"] by (simp add: id_bytes_def flip: sample_id)

subsection \<open>Properties\<close>

text \<open>C22: A generated job identifier passes validation, it decodes to the random bytes it was made from,
  so that different bytes give different identifiers, and it is a proper file name.\<close>

theorem new_id_validates:
  assumes "length bs = id_bytes" and "\<forall>b\<in>set bs. b < 256" and "new_id (Some bs) = Inr i"
  shows "validate_id i = None \<and> b64_decode i = Some bs \<and> plain_name i"
proof -
  have "i = b64_encode bs" using assms(3) by (simp add: new_id_def)
  with new_id_valid_aux [OF assms(1,2)] b64_roundtrip [OF assms(2)] validate_id_plain
  show ?thesis by simp
qed

theorem new_id_validates_witness:
  "validate_id ''AAECAwQFBgcICQoLDA0ODw'' = None"
proof -
  have "new_id (Some [0..<16]) = Inr ''AAECAwQFBgcICQoLDA0ODw''"
    by (simp add: new_id_def flip: sample_id)
  from new_id_validates [OF _ _ this] show ?thesis by (simp add: id_bytes_def)
qed

text \<open>
  Validation is weaker than the encoding is: the last digit carries four bits that decoding
  drops, so a text that \<open>new_id\<close> never returns is accepted.
\<close>

lemma validate_id_not_canonical:
  "validate_id ''AAAAAAAAAAAAAAAAAAAAAB'' = None \<and> b64_encode (replicate 16 0) \<noteq> ''AAAAAAAAAAAAAAAAAAAAAB''"
  by code_simp

end
