(* ===== verification/Store.thy ===== *)
theory Store
  imports Manifest
begin

text \<open>
  The job tree on disk, \<open>internal/jobs/storage/store.go\<close>: saving a manifest through a
  temporary file and a rename, loading, updating, listing and deleting jobs, and resolving
  a file name inside a job directory.

  The disk maps a job identifier to its directory. Every system call that can fail takes its
  outcome from an environment record, so an operation is a function of the environment and
  the disk, and a property over all environments covers every fault.
\<close>

subsection \<open>The disk\<close>

datatype payload = Document manifest | Garbage

record job_dir =
  jd_manifest :: "payload option"
  jd_input :: "string \<rightharpoonup> int"
  jd_output :: "string \<rightharpoonup> int"
  jd_temp :: "string \<rightharpoonup> int"

type_synonym disk = "string \<rightharpoonup> job_dir"

definition empty_dir :: job_dir where
  "empty_dir = \<lparr>jd_manifest = None, jd_input = Map.empty, jd_output = Map.empty, jd_temp = Map.empty\<rparr>"

text \<open>The error of each system call of \<open>Save\<close>, in the order of the calls.\<close>

record save_env =
  sv_encode :: "err option"
  sv_create_temp :: "err option"
  sv_write :: "err option"
  sv_sync :: "err option"
  sv_chmod :: "err option"
  sv_close :: "err option"
  sv_rename :: "err option"
  sv_open_dir :: "err option"
  sv_sync_dir :: "err option"
  sv_close_dir :: "err option"

definition no_save_faults :: save_env where
  "no_save_faults = \<lparr>sv_encode = None, sv_create_temp = None, sv_write = None, sv_sync = None,
     sv_chmod = None, sv_close = None, sv_rename = None, sv_open_dir = None, sv_sync_dir = None,
     sv_close_dir = None\<rparr>"

subsection \<open>Paths\<close>

text \<open>
  \<open>NewStore\<close> gives the absolute root. The working directory (or the error of asking for
  it) and the error of \<open>MkdirAll\<close> come from the system.
\<close>

definition new_store :: "string result \<Rightarrow> err option \<Rightarrow> string \<Rightarrow> string result" where
  "new_store cwd mkdir_err root =
    (if trim_space root = [] then Inl (NewError ''storage: data directory must not be empty'')
     else case (if is_abs root then Inr (clean_path root)
                else case cwd of Inl e \<Rightarrow> Inl e | Inr w \<Rightarrow> Inr (join_path w root)) of
            Inl e \<Rightarrow> Inl (Wrapped ''storage: resolve data directory'' e)
          | Inr absolute \<Rightarrow>
              (case mkdir_err of
                 Some e \<Rightarrow> Inl (Wrapped ''storage: create job directory'' e)
               | None \<Rightarrow> Inr absolute))"

definition job_dir_path :: "string \<Rightarrow> string \<Rightarrow> string result" where
  "job_dir_path root i =
    (case validate_id i of
       Some e \<Rightarrow> Inl e
     | None \<Rightarrow> Inr (join_path (join_path root ''jobs'') i))"

definition sub_dir_path :: "string \<Rightarrow> string \<Rightarrow> string \<Rightarrow> string result" where
  "sub_dir_path sub root i =
    (case job_dir_path root i of Inl e \<Rightarrow> Inl e | Inr d \<Rightarrow> Inr (join_path d sub))"

definition input_dir_path :: "string \<Rightarrow> string \<Rightarrow> string result" where
  "input_dir_path root i = sub_dir_path ''input'' root i"

definition output_dir_path :: "string \<Rightarrow> string \<Rightarrow> string result" where
  "output_dir_path root i = sub_dir_path ''output'' root i"

definition temp_dir_path :: "string \<Rightarrow> string \<Rightarrow> string result" where
  "temp_dir_path root i = sub_dir_path ''tmp'' root i"

definition path_contains :: "string \<Rightarrow> string \<Rightarrow> bool" where
  "path_contains parent candidate =
    (let cp = clean_path parent; cc = clean_path candidate
     in if cp = cc then True
        else case rel_path cp cc of
               None \<Rightarrow> False
             | Some relative \<Rightarrow>
                 if relative = ''..'' \<or> has_prefix relative ''../'' then False
                 else \<not> is_abs relative)"

definition resolve :: "string \<Rightarrow> string \<Rightarrow> string result" where
  "resolve dir name =
    (if name = [] then Inl (NewError ''storage: file name must not be empty'')
     else if slash \<in> set name \<or> CHR 0x5C \<in> set name \<or> is_abs name
       then Inl (NewError ''storage: file name must not contain a path'')
     else if name = ''.'' \<or> name = ''..'' then Inl (NewError ''storage: file name is not permitted'')
     else let joined = join_path dir name
          in if \<not> path_contains dir joined
             then Inl (NewError ''storage: file name escapes its job directory'')
             else Inr joined)"

subsection \<open>Saving\<close>

text \<open>
  \<open>directorySyncError\<close>: a directory that cannot be synced at all is no failure.
\<close>

definition directory_sync_error :: "err option \<Rightarrow> err option \<Rightarrow> err option" where
  "directory_sync_error sync_err close_err =
    (case sync_err of
       Some e \<Rightarrow>
         if \<not> errors_is e OsErrInvalid \<and> \<not> errors_is e SyscallEINVAL \<and> \<not> errors_is e SyscallENOTSUP
         then Some (Wrapped ''storage: sync job directory'' e)
         else map_option (Wrapped ''storage: close job directory'') close_err
     | None \<Rightarrow> map_option (Wrapped ''storage: close job directory'') close_err)"

definition sync_dir :: "save_env \<Rightarrow> err option" where
  "sync_dir env =
    (case sv_open_dir env of
       Some e \<Rightarrow> Some (Wrapped ''storage: open job directory'' e)
     | None \<Rightarrow> directory_sync_error (sv_sync_dir env) (sv_close_dir env))"

definition not_exist :: "string \<Rightarrow> err" where
  "not_exist op = PathError op (Sentinel OsErrNotExist)"

definition put_manifest :: "string \<Rightarrow> payload \<Rightarrow> disk \<Rightarrow> disk" where
  "put_manifest i p d = (case d i of None \<Rightarrow> d | Some j \<Rightarrow> d(i \<mapsto> j\<lparr>jd_manifest := Some p\<rparr>))"

definition store_save :: "save_env \<Rightarrow> manifest \<Rightarrow> disk \<Rightarrow> err option \<times> disk" where
  "store_save env m d =
    (case validate_id (m_id m) of
       Some e \<Rightarrow> (Some e, d)
     | None \<Rightarrow>
    let m' = (if m_schema_version m = [] then m\<lparr>m_schema_version := manifest_schema_version\<rparr> else m)
    in case sv_encode env of
       Some e \<Rightarrow> (Some (Wrapped ''storage: encode manifest'' e), d)
     | None \<Rightarrow>
    case (if d (m_id m) = None then Some (not_exist ''open'') else sv_create_temp env) of
       Some e \<Rightarrow> (Some (Wrapped ''storage: create temporary manifest'' e), d)
     | None \<Rightarrow>
    case sv_write env of
       Some e \<Rightarrow> (Some (Wrapped ''storage: write temporary manifest'' e), d)
     | None \<Rightarrow>
    case sv_sync env of
       Some e \<Rightarrow> (Some (Wrapped ''storage: sync temporary manifest'' e), d)
     | None \<Rightarrow>
    case sv_chmod env of
       Some e \<Rightarrow> (Some (Wrapped ''storage: set manifest permissions'' e), d)
     | None \<Rightarrow>
    case sv_close env of
       Some e \<Rightarrow> (Some (Wrapped ''storage: close temporary manifest'' e), d)
     | None \<Rightarrow>
    case sv_rename env of
       Some e \<Rightarrow> (Some (Wrapped ''storage: publish manifest'' e), d)
     | None \<Rightarrow> (sync_dir env, put_manifest (m_id m) (Document m') d))"

subsection \<open>Loading, creating and updating\<close>

text \<open>The read error of \<open>Load\<close>, other than a missing file, is its argument.\<close>

definition store_load :: "err option \<Rightarrow> string \<Rightarrow> disk \<Rightarrow> manifest result" where
  "store_load read_err i d =
    (case validate_id i of
       Some e \<Rightarrow> Inl e
     | None \<Rightarrow>
    let read = (case d i of
                  None \<Rightarrow> Inl (not_exist ''open'')
                | Some j \<Rightarrow> (case jd_manifest j of
                               None \<Rightarrow> Inl (not_exist ''open'')
                             | Some p \<Rightarrow> (case read_err of Some e \<Rightarrow> Inl e | None \<Rightarrow> Inr p)))
    in case read of
       Inl e \<Rightarrow> if errors_is e OsErrNotExist then Inl (Sentinel ErrNotFound)
                else Inl (Wrapped ''storage: read manifest'' e)
     | Inr Garbage \<Rightarrow> Inl (Wrapped ''storage: decode manifest'' (NewError ''invalid character''))
     | Inr (Document m) \<Rightarrow>
         if m_id m \<noteq> i then Inl (NewError ''storage: manifest id mismatch'') else Inr m)"

definition new_manifest :: "string \<Rightarrow> time \<Rightarrow> int \<Rightarrow> manifest" where
  "new_manifest i now ttl =
    \<lparr>m_schema_version = manifest_schema_version, m_id = i, m_state = JobPending,
     m_created_at = now, m_updated_at = now, m_expires_at = now + ttl, m_total_bytes = 0,
     m_files = [], m_error = None\<rparr>"

text \<open>
  \<open>Create\<close>: the identifier's random bytes, the errors of the two kinds of \<open>Mkdir\<close> and the
  outcomes of the save. The deferred removal takes the directory away again on an error.
\<close>

definition store_create ::
  "nat list option \<Rightarrow> err option \<Rightarrow> err option \<Rightarrow> save_env \<Rightarrow> time \<Rightarrow> int \<Rightarrow> disk
    \<Rightarrow> manifest result \<times> disk" where
  "store_create rand mkdir_err sub_err env now ttl d =
    (case new_id rand of
       Inl e \<Rightarrow> (Inl e, d)
     | Inr i \<Rightarrow>
    case (if d i \<noteq> None then Some (PathError ''mkdir'' (Sentinel OsErrExist)) else mkdir_err) of
       Some e \<Rightarrow> (Inl (Wrapped ''storage: create job directory'' e), d)
     | None \<Rightarrow>
    let d1 = d(i \<mapsto> empty_dir)
    in case sub_err of
       Some e \<Rightarrow> (Inl (Wrapped ''storage: create job subdirectory'' e), d1(i := None))
     | None \<Rightarrow>
    let m = new_manifest i now ttl
    in case store_save env m d1 of
         (Some e, d2) \<Rightarrow> (Inl e, d2(i := None))
       | (None, d2) \<Rightarrow> (Inr m, d2))"

text \<open>\<open>mutate\<close> is \<open>None\<close> for nil; it returns the changed manifest or its error.\<close>

definition store_update ::
  "err option \<Rightarrow> save_env \<Rightarrow> string \<Rightarrow> time \<Rightarrow> (manifest \<Rightarrow> manifest result) option \<Rightarrow> disk
    \<Rightarrow> manifest result \<times> disk" where
  "store_update read_err env i now mutate d =
    (case store_load read_err i d of
       Inl e \<Rightarrow> (Inl e, d)
     | Inr m \<Rightarrow>
    case (case mutate of None \<Rightarrow> Inr m | Some f \<Rightarrow> f m) of
       Inl e \<Rightarrow> (Inl e, d)
     | Inr m1 \<Rightarrow>
    let m2 = m1\<lparr>m_updated_at := now\<rparr>
    in case store_save env m2 d of
         (Some e, d') \<Rightarrow> (Inl e, d')
       | (None, d') \<Rightarrow> (Inr m2, d'))"

subsection \<open>Listing and deleting\<close>

text \<open>
  \<open>List\<close>: the directory entries (name and whether it is a directory) or the error of
  \<open>ReadDir\<close>, and the read error of each manifest. Newest first; \<open>sort.Slice\<close> leaves the
  order of equal creation times open, here they keep the order of the entries.
\<close>

definition store_list ::
  "(err + (string \<times> bool) list) \<Rightarrow> (string \<Rightarrow> err option) \<Rightarrow> disk \<Rightarrow> manifest list result" where
  "store_list entries read_err d =
    (case entries of
       Inl e \<Rightarrow> if errors_is e OsErrNotExist then Inr [] else Inl (Wrapped ''storage: list jobs'' e)
     | Inr es \<Rightarrow>
         Inr (sort_key (\<lambda>m. - m_created_at m)
           (List.map_filter (\<lambda>(n, is_dir).
              if \<not> is_dir then None
              else if validate_id n \<noteq> None then None
              else (case store_load (read_err n) n d of Inl e \<Rightarrow> None | Inr m \<Rightarrow> Some m)) es)))"

text \<open>
  \<open>Delete\<close>: a failing \<open>RemoveAll\<close> has removed an arbitrary part of the directory, given
  with its error.
\<close>

record removal =
  rm_manifest :: bool
  rm_input :: "string set"
  rm_output :: "string set"
  rm_temp :: "string set"

definition leftover :: "removal \<Rightarrow> job_dir \<Rightarrow> job_dir" where
  "leftover r j =
    \<lparr>jd_manifest = (if rm_manifest r then None else jd_manifest j),
     jd_input = jd_input j |` (- rm_input r), jd_output = jd_output j |` (- rm_output r),
     jd_temp = jd_temp j |` (- rm_temp r)\<rparr>"

record delete_env =
  de_stat :: "err option"
  de_read :: "err option"
  de_remove :: "(err \<times> removal) option"
  de_save :: save_env

definition store_delete :: "delete_env \<Rightarrow> string \<Rightarrow> disk \<Rightarrow> err option \<times> disk" where
  "store_delete env i d =
    (case validate_id i of
       Some e \<Rightarrow> (Some e, d)
     | None \<Rightarrow>
    case (if d i = None then Some (not_exist ''stat'') else de_stat env) of
       Some e \<Rightarrow>
         (if errors_is e OsErrNotExist then (Some (Sentinel ErrNotFound), d)
          else (Some (Wrapped ''storage: inspect job directory'' e), d))
     | None \<Rightarrow>
    let loaded = store_load (de_read env) i d
    in case de_remove env of
         None \<Rightarrow> (None, d(i := None))
       | Some (e, r) \<Rightarrow>
           let remove_err = Wrapped ''storage: remove job directory'' e;
               d1 = d(i := map_option (leftover r) (d i))
           in case loaded of
                Inr m \<Rightarrow>
                  if m_files m = []
                  then (case store_save (de_save env) m d1 of
                          (Some se, d2) \<Rightarrow>
                            (Some (Joined [remove_err,
                               Wrapped ''storage: preserve empty manifest after failed removal'' se]), d2)
                        | (None, d2) \<Rightarrow> (Some remove_err, d2))
                  else (Some remove_err, d1)
              | Inl _ \<Rightarrow> (Some remove_err, d1))"

subsection \<open>The contract of a manifest store\<close>

text \<open>The manifest as it is written: an empty schema version is filled in.\<close>

definition written :: "manifest \<Rightarrow> manifest" where
  "written m = (if m_schema_version m = [] then m\<lparr>m_schema_version := manifest_schema_version\<rparr> else m)"

lemma written_sel [simp]:
  "m_id (written m) = m_id m" "m_state (written m) = m_state m" "m_files (written m) = m_files m"
  "m_total_bytes (written m) = m_total_bytes m" "m_expires_at (written m) = m_expires_at m"
  "m_updated_at (written m) = m_updated_at m" "m_error (written m) = m_error m"
  by (simp_all add: written_def)

text \<open>
  What the job manager relies on: a save is all or nothing whatever fails, a save that reports
  no error is what the next load returns, and other jobs are not touched.
\<close>

locale manifest_store =
  fixes save :: "'e \<Rightarrow> manifest \<Rightarrow> 'd \<Rightarrow> err option \<times> 'd"
    and load :: "string \<Rightarrow> 'd \<Rightarrow> manifest result"
  assumes save_ok: "save e m d = (None, d') \<Longrightarrow> load (m_id m) d' = Inr (written m)"
    and save_atomic: "save e m d = (r, d') \<Longrightarrow>
      load (m_id m) d' = load (m_id m) d \<or> load (m_id m) d' = Inr (written m)"
    and save_frame: "save e m d = (r, d') \<Longrightarrow> i \<noteq> m_id m \<Longrightarrow> load i d' = load i d"
    and load_id: "load i d = Inr m \<Longrightarrow> m_id m = i"
begin

text \<open>Reading, changing and writing back one manifest.\<close>

definition rewrite :: "'e \<Rightarrow> string \<Rightarrow> (manifest \<Rightarrow> manifest result) \<Rightarrow> 'd \<Rightarrow> manifest result \<times> 'd" where
  "rewrite e i f d =
    (case load i d of
       Inl x \<Rightarrow> (Inl x, d)
     | Inr m \<Rightarrow> (case f m of
         Inl x \<Rightarrow> (Inl x, d)
       | Inr m' \<Rightarrow> (case save e m' d of (Some x, d') \<Rightarrow> (Inl x, d') | (None, d') \<Rightarrow> (Inr m', d'))))"

lemma rewrite_Inr:
  assumes "rewrite e i f d = (Inr m', d')" and "\<And>m m'. f m = Inr m' \<Longrightarrow> m_id m' = m_id m"
  shows "\<exists>m. load i d = Inr m \<and> f m = Inr m' \<and> load i d' = Inr (written m')"
proof -
  obtain m where m: "load i d = Inr m" "f m = Inr m'" "save e m' d = (None, d')"
    using assms(1) by (auto simp: rewrite_def split: sum.splits prod.splits option.splits)
  have "m_id m' = i" using assms(2) [OF m(2)] load_id [OF m(1)] by simp
  with save_ok [OF m(3)] m show ?thesis by auto
qed

lemma rewrite_cases:
  assumes "rewrite e i f d = (r, d')" and "\<And>m m'. f m = Inr m' \<Longrightarrow> m_id m' = m_id m"
  shows "load i d' = load i d \<or> (\<exists>m m'. load i d = Inr m \<and> f m = Inr m' \<and> load i d' = Inr (written m'))"
proof (cases "\<exists>m m'. load i d = Inr m \<and> f m = Inr m'")
  case True
  then obtain m m' where m: "load i d = Inr m" "f m = Inr m'" by blast
  then obtain x where x: "save e m' d = (x, d')"
    using assms(1) by (auto simp: rewrite_def split: prod.splits option.splits)
  have "m_id m' = i" using assms(2) [OF m(2)] load_id [OF m(1)] by simp
  with save_atomic [OF x] m show ?thesis by auto
next
  case False
  then show ?thesis using assms(1) by (auto simp: rewrite_def split: sum.splits)
qed

lemma rewrite_frame:
  assumes "rewrite e i f d = (r, d')" and "\<And>m m'. f m = Inr m' \<Longrightarrow> m_id m' = m_id m" and "k \<noteq> i"
  shows "load k d' = load k d"
proof (cases "\<exists>m m'. load i d = Inr m \<and> f m = Inr m'")
  case True
  then obtain m m' where m: "load i d = Inr m" "f m = Inr m'" by blast
  then obtain x where x: "save e m' d = (x, d')"
    using assms(1) by (auto simp: rewrite_def split: prod.splits option.splits)
  have "m_id m' = i" using assms(2) [OF m(2)] load_id [OF m(1)] by simp
  with save_frame [OF x] assms(3) show ?thesis by blast
next
  case False
  then show ?thesis using assms(1) by (auto simp: rewrite_def split: sum.splits)
qed

text \<open>
  A relation between manifests that every change respects holds between what is loaded
  before and after, even if the save reported an error.
\<close>

lemma rewrite_relation:
  assumes "rewrite e i f d = (r, d')" and "load i d = Inr m"
    and "\<And>m m'. f m = Inr m' \<Longrightarrow> m_id m' = m_id m"
    and "\<And>m'. f m = Inr m' \<Longrightarrow> R m (written m')" and "R m m"
  shows "\<exists>n. load i d' = Inr n \<and> R m n"
  using rewrite_cases [OF assms(1,3)] assms(2,4,5) by auto

end

lemma put_manifest_simps [simp]:
  "k \<noteq> i \<Longrightarrow> put_manifest i p d k = d k"
  "d i = Some j \<Longrightarrow> put_manifest i p d i = Some (j\<lparr>jd_manifest := Some p\<rparr>)"
  "put_manifest i p d i = None \<longleftrightarrow> d i = None"
  by (auto simp: put_manifest_def split: option.splits)

text \<open>A save either leaves the disk alone and reports an error, or publishes.\<close>

lemma store_save_cases:
  assumes "store_save env m d = (r, d')"
  shows "d' = d \<and> r \<noteq> None
    \<or> d' = put_manifest (m_id m) (Document (written m)) d \<and> validate_id (m_id m) = None \<and> d (m_id m) \<noteq> None"
  using assms unfolding store_save_def Let_def written_def
  by (auto split: option.splits if_splits)

lemma store_load_put:
  "validate_id (m_id m) = None \<Longrightarrow> d (m_id m) \<noteq> None \<Longrightarrow>
    store_load None (m_id m) (put_manifest (m_id m) (Document (written m)) d) = Inr (written m)"
  by (auto simp: store_load_def Let_def)

lemma store_load_frame: "d' i = d i \<Longrightarrow> store_load e i d' = store_load e i d"
  by (simp add: store_load_def split: option.split)

lemma store_load_id: "store_load e i d = Inr m \<Longrightarrow> m_id m = i"
  by (auto simp: store_load_def Let_def split: option.splits sum.splits payload.splits if_splits)

interpretation disk_store: manifest_store store_save "store_load None"
proof unfold_locales
  fix e m d r d' i
  show "store_load None (m_id m) d' = Inr (written m)" if "store_save e m d = (None, d')"
    using store_save_cases [OF that] store_load_put by auto
  show "store_load None (m_id m) d' = store_load None (m_id m) d
      \<or> store_load None (m_id m) d' = Inr (written m)" if "store_save e m d = (r, d')"
    using store_save_cases [OF that] store_load_put by auto
  show "store_load None i d' = store_load None i d" if "store_save e m d = (r, d')" "i \<noteq> m_id m"
    using store_save_cases [OF that(1)] that(2) by (auto intro: store_load_frame)
  show "store_load None i d = Inr m \<Longrightarrow> m_id m = i" by (rule store_load_id)
qed

lemma store_update_rewrite:
  "store_update None env i now mutate d =
    disk_store.rewrite env i
      (\<lambda>m. case (case mutate of None \<Rightarrow> Inr m | Some f \<Rightarrow> f m) of
             Inl e \<Rightarrow> Inl e | Inr m1 \<Rightarrow> Inr (m1\<lparr>m_updated_at := now\<rparr>)) d"
  unfolding store_update_def disk_store.rewrite_def Let_def
  by (auto split: sum.splits option.splits prod.splits)

text \<open>A delete refuses, removes the directory, or leaves a part of it, with its empty manifest.\<close>

lemma store_delete_cases:
  assumes "store_delete env i d = (r, d')"
  obtains (refused) "d' = d" "r \<noteq> None"
    | (removed) "d' = d(i := None)" "r = None"
    | (partial) x where "d' = d(i := map_option (leftover x) (d i))" "r \<noteq> None"
    | (restored) x e m q where "store_load (de_read env) i d = Inr m" "m_files m = []"
        "store_save e m (d(i := map_option (leftover x) (d i))) = (q, d')" "r \<noteq> None"
proof (cases "validate_id i")
  case (Some e)
  then have "store_delete env i d = (Some e, d)" by (simp add: store_delete_def)
  then show thesis using assms refused by auto
next
  case None
  show thesis
  proof (cases "if d i = None then Some (not_exist ''stat'') else de_stat env")
    case (Some e)
    with None assms refused show thesis by (auto simp: store_delete_def split: if_splits)
  next
    case stat: None
    show thesis
    proof (cases "de_remove env")
      case remove: None
      with None stat assms removed show thesis by (auto simp: store_delete_def split: if_splits)
    next
      case (Some p)
      obtain e x where p: "p = (e, x)" by (cases p)
      let ?d1 = "d(i := map_option (leftover x) (d i))"
      show thesis
      proof (cases "store_load (de_read env) i d")
        case (Inl y)
        with None stat Some p assms partial [of x] show thesis
          by (auto simp: store_delete_def Let_def split: if_splits)
      next
        case (Inr m)
        obtain q d2 where s: "store_save (de_save env) m ?d1 = (q, d2)" by fastforce
        have "r \<noteq> None \<and> d' = (if m_files m = [] then d2 else ?d1)"
          using None stat Some p assms Inr s
          by (cases q) (auto simp: store_delete_def Let_def split: if_splits)
        with Inr s partial [of x] restored [of m "de_save env" x q] show thesis by (cases "m_files m = []") auto
      qed
    qed
  qed
qed

subsection \<open>Resolving names\<close>

lemma clean_path_parts:
  assumes "p \<noteq> []"
  shows "path_parts (clean_path p) = path_parts p" and "is_abs (clean_path p) = is_abs p"
    and "clean_path p \<noteq> []"
proof -
  have *: "path_parts (clean_path p) = path_parts p \<and> is_abs (clean_path p) = is_abs p \<and> clean_path p \<noteq> []"
  proof (cases "path_parts p = []")
    case True
    then show ?thesis
      using assms
      by (cases "is_abs p") (simp_all add: clean_path_def render_path_def is_abs_def has_prefix_def path_parts_def)
  next
    case False
    then show ?thesis
      using parts_render_path [OF path_parts_normal [of p] path_parts_no_slash [of _ p] False] assms
      by (auto simp: clean_path_def) (auto simp: render_path_def path_parts_def is_abs_def has_prefix_def)
  qed
  then show "path_parts (clean_path p) = path_parts p" and "is_abs (clean_path p) = is_abs p"
    and "clean_path p \<noteq> []" by simp_all
qed

lemma clean_path_idem: "clean_path (clean_path p) = clean_path p"
proof (cases "p = []")
  case True
  then show ?thesis by (simp add: clean_path_def render_path_def path_parts_def is_abs_def has_prefix_def)
next
  case False
  have "clean_path (clean_path p) = render_path (is_abs p) (path_parts p)"
    using clean_path_parts [OF False] by (simp add: clean_path_def [of "clean_path p"])
  then show ?thesis using False by (simp add: clean_path_def)
qed

lemma strip_common_append: "strip_common xs (xs @ ys) = ([], ys)"
  by (induction xs) (cases ys; simp)+

lemma clean_join_plain:
  assumes "d \<noteq> []" "plain_name n"
  shows "clean_path (join_path d n) = join_path d n"
    and "path_parts (join_path d n) = path_parts d @ [n]" and "is_abs (join_path d n) = is_abs d"
proof -
  have j: "join_path d n = clean_path (d @ slash # n)" using assms by (simp add: join_path_def)
  show "clean_path (join_path d n) = join_path d n" unfolding j by (rule clean_path_idem)
  show "path_parts (join_path d n) = path_parts d @ [n]"
    unfolding j by (simp add: clean_path_parts path_parts_append_name assms)
  show "is_abs (join_path d n) = is_abs d"
    unfolding j by (simp add: clean_path_parts is_abs_append assms)
qed

lemma rel_path_child:
  assumes "d \<noteq> []" "plain_name n"
  shows "rel_path (clean_path d) (clean_path (join_path d n)) = Some n"
proof -
  let ?j = "join_path d n"
  have ne: "clean_path d \<noteq> ?j"
    using clean_path_parts(1) [OF assms(1)] clean_join_plain(2) [OF assms] by force
  have "strip_common (path_parts (clean_path d)) (path_parts ?j) = ([], [n])"
    using clean_path_parts(1) [OF assms(1)] clean_join_plain(2) [OF assms] strip_common_append by simp
  then show ?thesis
    using ne clean_path_parts(2) [OF assms(1)] clean_join_plain [OF assms]
    by (simp add: rel_path_def clean_path_idem Let_def)
qed

lemma path_contains_child:
  assumes "d \<noteq> []" "plain_name n"
  shows "path_contains d (join_path d n)"
proof -
  have "\<not> has_prefix n ''../''" "\<not> is_abs n"
    using assms(2) by (auto simp: plain_name_def has_prefix_iff is_abs_def)
  then show ?thesis
    using rel_path_child [OF assms] assms(2) by (simp add: path_contains_def Let_def plain_name_def)
qed

lemma resolve_Inr:
  assumes "d \<noteq> []"
  shows "resolve d n = Inr p \<longleftrightarrow> plain_name n \<and> CHR 0x5C \<notin> set n \<and> p = join_path d n"
proof (cases "plain_name n")
  case True
  then have "\<not> is_abs n" by (auto simp: plain_name_def is_abs_def has_prefix_iff)
  with True path_contains_child [OF assms True] show ?thesis
    by (auto simp: resolve_def Let_def plain_name_def)
next
  case False
  then show ?thesis by (auto simp: resolve_def Let_def plain_name_def)
qed

text \<open>The three subdirectories of a job are below its directory, one level each.\<close>

lemma job_dir_path_Inr:
  assumes "root \<noteq> []"
  shows "job_dir_path root i = Inr p \<longleftrightarrow> validate_id i = None \<and> p = join_path (join_path root ''jobs'') i"
  by (auto simp: job_dir_path_def split: option.splits)

lemma job_dir_parts:
  assumes "root \<noteq> []" "job_dir_path root i = Inr p"
  shows "path_parts p = path_parts root @ [''jobs'', i] \<and> p \<noteq> [] \<and> is_abs p = is_abs root"
proof -
  have p: "plain_name i" "p = join_path (join_path root ''jobs'') i"
    using assms validate_id_plain by (auto simp: job_dir_path_def split: option.splits)
  have jobs: "plain_name ''jobs''" by (simp add: plain_name_def)
  let ?j = "join_path root ''jobs''"
  have "?j \<noteq> []" using clean_join_plain(2) [OF assms(1) jobs] by (auto simp: path_parts_def)
  moreover from this have "join_path ?j i \<noteq> []"
    using clean_join_plain(2) [OF _ p(1), of ?j] by (auto simp: path_parts_def)
  ultimately show ?thesis
    using clean_join_plain [OF assms(1) jobs] clean_join_plain [OF _ p(1), of ?j] p(2) by simp
qed

subsection \<open>Properties\<close>

text \<open>C23: Resolving a name inside a directory succeeds exactly for proper file names without backslash,
  and the result is the directory's cleaned path with that one component added, so it can never
  leave the directory.\<close>

theorem resolve_exact:
  assumes "d \<noteq> []"
  shows "(resolve d n = Inr p \<longleftrightarrow> plain_name n \<and> CHR 0x5C \<notin> set n \<and> p = join_path d n)
    \<and> (resolve d n = Inr p \<longrightarrow> path_parts p = path_parts d @ [n] \<and> is_abs p = is_abs d
         \<and> path_contains d p)"
proof (cases "resolve d n = Inr p")
  case True
  then have n: "plain_name n" "CHR 0x5C \<notin> set n" "p = join_path d n"
    using resolve_Inr [OF assms, of n p] by simp_all
  then show ?thesis
    using True clean_join_plain [OF assms n(1)] path_contains_child [OF assms n(1)] by simp
next
  case False
  then show ?thesis using resolve_Inr [OF assms, of n p] by blast
qed

theorem resolve_exact_witness:
  "resolve ''/data/jobs/x/input'' ''a.png'' = Inr ''/data/jobs/x/input/a.png''
    \<and> path_contains ''/data/jobs/x/input'' ''/data/jobs/x/input/a.png''"
proof -
  have j: "join_path ''/data/jobs/x/input'' ''a.png'' = ''/data/jobs/x/input/a.png''"
    by (simp add: join_path_def clean_path_def path_parts_def is_abs_def has_prefix_def render_path_def)
  have "plain_name ''a.png''" by (simp add: plain_name_def)
  with j resolve_exact [of "''/data/jobs/x/input''" "''a.png''" "''/data/jobs/x/input/a.png''"]
  show ?thesis by simp
qed



end
