(* ===== verification/Transitions.thy ===== *)
theory Transitions
  imports Store File_Names
begin

text \<open>
  The manifest changes of the job manager, \<open>internal/jobs/manager.go\<close>, and its error
  classification, \<open>internal/jobs/logging.go\<close>: each closure the manager passes to
  \<open>Store.Update\<close> is a function on manifests, with its error returns.
  The lemmas show that every change keeps the manifest well formed, only moves states up in
  their lifecycle, and leaves a terminal job as it is.
\<close>

subsection \<open>Error classification\<close>

definition canceled_failure :: failure where
  "canceled_failure = \<lparr>fl_kind = failure_kind_text FailureCanceled, fl_code = ''canceled'',
     fl_message = ''conversion was canceled''\<rparr>"

definition failure_from :: "err \<Rightarrow> failure" where
  "failure_from e =
    (case errors_as as_conversion e of
       Some (k, c, m) \<Rightarrow> \<lparr>fl_kind = failure_kind_text k, fl_code = c, fl_message = m\<rparr>
     | None \<Rightarrow>
         if errors_is e ContextCanceled then canceled_failure
         else if errors_is e ContextDeadlineExceeded then
           \<lparr>fl_kind = failure_kind_text FailureConversion, fl_code = ''timeout'',
            fl_message = ''conversion exceeded the command timeout''\<rparr>
         else \<lparr>fl_kind = failure_kind_text FailureConversion, fl_code = ''conversion_failed'',
            fl_message = ''conversion failed''\<rparr>)"

definition filesystem_operation :: "err \<Rightarrow> string" where
  "filesystem_operation e =
    (case errors_as as_fs_op e of
       Some op \<Rightarrow> op
     | None \<Rightarrow> (case errors_as as_link_op e of
         Some op \<Rightarrow> op
       | None \<Rightarrow> (case errors_as as_syscall_op e of Some call \<Rightarrow> call | None \<Rightarrow> [])))"

definition safe_log_category :: "err \<Rightarrow> string" where
  "safe_log_category e =
    (case errors_as as_conversion e of
       Some (k, c, m) \<Rightarrow> failure_kind_text k
     | None \<Rightarrow>
         if errors_is e ContextCanceled then ''canceled''
         else if errors_is e ContextDeadlineExceeded then ''timeout''
         else if errors_is e ErrInvalidID then ''invalid_id''
         else if errors_is e ErrNotFound then ''not_found''
         else if errors_is e ErrLeased then ''leased''
         else if errors_is e ErrNotStartable then ''invalid_state''
         else if errors_is e ErrQueueFull then ''queue_full''
         else if errors_is e ErrShuttingDown then ''shutting_down''
         else if filesystem_operation e \<noteq> [] then ''filesystem''
         else ''internal'')"

definition safe_log_fields :: "err \<Rightarrow> (string \<times> string) list" where
  "safe_log_fields e =
    (let fields = [(''category'', safe_log_category e)];
         op = filesystem_operation e;
         fields = (if op \<noteq> [] then fields @ [(''fs_op'', op)] else fields)
     in case errors_as as_conversion e of
          Some (k, c, m) \<Rightarrow> if c \<noteq> [] then fields @ [(''code'', c)] else fields
        | None \<Rightarrow> fields)"

subsection \<open>Start\<close>

fun contains_operation :: "operation list \<Rightarrow> operation \<Rightarrow> bool" where
  "contains_operation [] candidate = False"
| "contains_operation (op # ops) candidate =
    (if op = candidate then True else contains_operation ops candidate)"

text \<open>The loop of \<open>Start\<close> over the files: the changed files and the convertible count.\<close>

fun start_files :: "(string \<rightharpoonup> operation) \<Rightarrow> job_file list \<Rightarrow> (job_file list \<times> nat) result" where
  "start_files selections [] = Inr ([], 0)"
| "start_files selections (f # fs) =
    (if f_state f \<noteq> FileInspected then
       map_sum (\<lambda>e. e) (\<lambda>(gs, n). (f # gs, n)) (start_files selections fs)
     else
       let requested = selections (f_id f)
       in if requested \<noteq> None \<and> the requested \<noteq> no_operation then
            (if \<not> contains_operation (f_compatible f) (the requested)
             then Inl (Wrapped (operation_text (the requested)) (Sentinel ErrIncompatibleOperation))
             else map_sum (\<lambda>e. e)
               (\<lambda>(gs, n). (f\<lparr>f_selected := the requested, f_operation_source := ''requested'',
                              f_state := FileQueued\<rparr> # gs, n + 1))
               (start_files selections fs))
          else map_sum (\<lambda>e. e)
            (\<lambda>(gs, n). (f\<lparr>f_selected := f_recommended f, f_operation_source := ''recommended'',
                           f_state := FileQueued\<rparr> # gs, n + 1))
            (start_files selections fs))"

definition start_change :: "(string \<rightharpoonup> operation) \<Rightarrow> bool \<Rightarrow> manifest \<Rightarrow> manifest result" where
  "start_change selections queue_is_full m =
    (if m_state m \<noteq> JobPending then Inl (Sentinel ErrNotStartable)
     else case start_files selections (m_files m) of
            Inl e \<Rightarrow> Inl e
          | Inr (files, convertible) \<Rightarrow>
              if convertible = 0 then Inl (Sentinel ErrNoConvertibleFiles)
              else if queue_is_full then Inl (Sentinel ErrQueueFull)
              else Inr (m\<lparr>m_files := files, m_state := JobQueued\<rparr>))"

subsection \<open>Cancel and recover\<close>

definition cancel_file :: "time \<Rightarrow> job_file \<Rightarrow> job_file" where
  "cancel_file finished f =
    (if file_terminal (f_state f) then f
     else f\<lparr>f_state := FileCanceled, f_finished_at := Some finished,
            f_error := (if f_error f = None then Some canceled_failure else f_error f)\<rparr>)"

definition cancel_change :: "time \<Rightarrow> manifest \<Rightarrow> manifest" where
  "cancel_change finished m =
    (if job_terminal (m_state m) then m
     else m\<lparr>m_files := map (cancel_file finished) (m_files m), m_state := JobCanceled\<rparr>)"

definition interrupted_failure :: "string \<Rightarrow> failure" where
  "interrupted_failure message =
    \<lparr>fl_kind = failure_kind_text FailureConversion, fl_code = ''interrupted'', fl_message = message\<rparr>"

definition interrupt_file :: "time \<Rightarrow> job_file \<Rightarrow> job_file" where
  "interrupt_file finished f =
    (if file_terminal (f_state f) then f
     else f\<lparr>f_state := FileInterrupted, f_finished_at := Some finished,
            f_error := Some (interrupted_failure ''conversion was interrupted by a service restart'')\<rparr>)"

definition interrupt_change :: "time \<Rightarrow> manifest \<Rightarrow> manifest" where
  "interrupt_change finished m =
    m\<lparr>m_files := map (interrupt_file finished) (m_files m), m_state := JobInterrupted,
      m_error := Some (interrupted_failure ''the service restarted before this job finished'')\<rparr>"

subsection \<open>Worker changes\<close>

definition claim_change :: "manifest \<Rightarrow> manifest result" where
  "claim_change m =
    (if m_state m \<noteq> JobQueued then Inl (Sentinel ErrNotStartable) else Inr (m\<lparr>m_state := JobRunning\<rparr>))"

definition begin_file_change :: "string \<Rightarrow> time \<Rightarrow> manifest \<Rightarrow> manifest result" where
  "begin_file_change fid started m =
    (case file_by_id m fid of
       None \<Rightarrow> Inl (Sentinel ErrNotStartable)
     | Some target \<Rightarrow>
         if m_state m \<noteq> JobRunning \<or> f_state target \<noteq> FileQueued then Inl (Sentinel ErrNotStartable)
         else Inr (update_file fid (\<lambda>t. t\<lparr>f_state := FileRunning, f_started_at := Some started\<rparr>) m))"

text \<open>
  What \<open>Convert\<close> returned, as far as the manager uses it, and the size of the output file
  when \<open>successfulOutputInfo\<close> found one.
\<close>

record convert_result =
  cr_output_path :: string
  cr_validation :: validation_result
  cr_warnings :: "warning list"
  cr_execution :: execution_result

definition finish_file_change ::
  "(string \<Rightarrow> string) \<Rightarrow> string \<Rightarrow> time \<Rightarrow> convert_result \<Rightarrow> int result \<Rightarrow> manifest \<Rightarrow> manifest" where
  "finish_file_change mime_of fid finished r outcome m =
    (case file_by_id m fid of
       None \<Rightarrow> m
     | Some target \<Rightarrow>
         if job_terminal (m_state m) \<or> file_terminal (f_state target) then m
         else update_file fid (\<lambda>t.
           let t = t\<lparr>f_finished_at := Some finished, f_validation := cr_validation r,
                     f_warnings := cr_warnings r, f_execution := cr_execution r,
                     f_fallback_reason := ex_fallback_reason (cr_execution r)\<rparr>
           in case outcome of
                Inl e \<Rightarrow>
                  let fl = failure_from e
                  in t\<lparr>f_error := Some fl,
                       f_state := (if fl_kind fl = failure_kind_text FailureCanceled
                                   then FileCanceled else FileFailed)\<rparr>
              | Inr bytes \<Rightarrow>
                  let name = file_base (cr_output_path r)
                  in t\<lparr>f_state := FileCompleted,
                       f_output := Some \<lparr>op_name = name, op_size = bytes,
                                         op_mime_type = content_type mime_of name\<rparr>\<rparr>) m)"

definition record_cancel_change :: "string \<Rightarrow> time \<Rightarrow> manifest \<Rightarrow> manifest" where
  "record_cancel_change fid finished m =
    (case file_by_id m fid of
       None \<Rightarrow> m
     | Some target \<Rightarrow>
         if file_terminal (f_state target) then m
         else update_file fid (\<lambda>t. t\<lparr>f_state := FileCanceled, f_finished_at := Some finished,
                                     f_error := Some canceled_failure\<rparr>) m)"

definition record_failure_change :: "string \<Rightarrow> time \<Rightarrow> failure \<Rightarrow> manifest \<Rightarrow> manifest" where
  "record_failure_change fid finished fl m =
    (case file_by_id m fid of
       None \<Rightarrow> m
     | Some target \<Rightarrow>
         if file_terminal (f_state target) then m
         else update_file fid (\<lambda>t. t\<lparr>f_state := FileFailed, f_finished_at := Some finished,
                                     f_error := Some fl\<rparr>) m)"

definition count_state :: "file_state \<Rightarrow> job_file list \<Rightarrow> nat" where
  "count_state st fs = length (filter (\<lambda>f. f_state f = st) fs)"

definition finalize_change :: "bool \<Rightarrow> time \<Rightarrow> manifest \<Rightarrow> manifest" where
  "finalize_change canceled finished m =
    (if job_terminal (m_state m) then m
     else let files = map (cancel_file finished) (m_files m);
              completed = count_state FileCompleted files;
              failed = count_state FileFailed files
          in m\<lparr>m_files := files,
               m_state := (if 0 < completed then JobCompleted
                           else if canceled then JobCanceled
                           else if 0 < failed then JobFailed
                           else JobCanceled)\<rparr>)"

subsection \<open>Upload changes\<close>

text \<open>
  The last update of \<open>Accept\<close> publishes the received files, canceled if the job was
  canceled meanwhile. Here an existing error is overwritten.
\<close>

definition cancel_received :: "time \<Rightarrow> job_file \<Rightarrow> job_file" where
  "cancel_received finished f =
    (if file_terminal (f_state f) then f
     else f\<lparr>f_state := FileCanceled, f_finished_at := Some finished, f_error := Some canceled_failure\<rparr>)"

definition accept_change :: "job_file list \<Rightarrow> int \<Rightarrow> time \<Rightarrow> manifest \<Rightarrow> manifest" where
  "accept_change files sum_bytes finished m =
    (let m1 = m\<lparr>m_files := files, m_total_bytes := sum_bytes\<rparr>
     in if m_state m1 = JobCanceled
        then m1\<lparr>m_files := map (cancel_received finished) (m_files m1)\<rparr> else m1)"

text \<open>The manifest without one file, as \<open>RemoveFile\<close> writes it.\<close>

definition remove_file_change :: "nat \<Rightarrow> time \<Rightarrow> manifest \<Rightarrow> manifest" where
  "remove_file_change index now m =
    m\<lparr>m_files := take index (m_files m) @ drop (index + 1) (m_files m),
      m_total_bytes := m_total_bytes m - f_size (m_files m ! index), m_updated_at := now\<rparr>"

subsection \<open>Well-formed manifests\<close>

text \<open>
  Files have distinct identifiers, a completed file has its output, the files of a job have
  states that fit its state, and a completed job has a completed file.
\<close>

definition fits :: "job_state \<Rightarrow> file_state \<Rightarrow> bool" where
  "fits js fs =
    (case js of
       JobPending \<Rightarrow> fs \<in> {FileUploaded, FileInspected, FileFailed}
     | JobQueued \<Rightarrow> fs \<in> {FileUploaded, FileQueued, FileFailed}
     | JobRunning \<Rightarrow> True
     | _ \<Rightarrow> file_terminal fs)"

definition manifest_ok :: "manifest \<Rightarrow> bool" where
  "manifest_ok m \<longleftrightarrow>
    distinct (map f_id (m_files m))
    \<and> (\<forall>f\<in>set (m_files m). f_state f = FileCompleted \<longrightarrow> f_output f \<noteq> None)
    \<and> (\<forall>f\<in>set (m_files m). fits (m_state m) (f_state f))
    \<and> (m_state m = JobCompleted \<longrightarrow> (\<exists>f\<in>set (m_files m). f_state f = FileCompleted))
    \<and> (job_active (m_state m) \<longrightarrow> m_files m \<noteq> [])"

text \<open>
  The order of life cycles: the job's state goes up, a job that was started keeps having
  files, and a job that has ended with its files keeps them as they are.
\<close>

definition later :: "manifest \<Rightarrow> manifest \<Rightarrow> bool" where
  "later m m' \<longleftrightarrow> m_state m \<le> m_state m' \<and> m_id m' = m_id m
    \<and> (m_state m \<noteq> JobPending \<and> m_files m \<noteq> [] \<longrightarrow> m_files m' \<noteq> [])
    \<and> (job_terminal (m_state m) \<and> m_files m \<noteq> [] \<longrightarrow> m_files m' = m_files m \<and> m_error m' = m_error m)"

lemma job_active_simps [simp]:
  "job_active JobQueued" "job_active JobRunning" "\<not> job_active JobPending"
  "job_terminal s \<Longrightarrow> \<not> job_active s"
  by (auto simp: job_active_def)

lemma later_refl [simp]: "later m m"
  by (simp add: later_def)

lemma terminal_le: "job_terminal a \<Longrightarrow> a \<le> b \<Longrightarrow> b = a"
  using job_terminal_maximal by blast

lemma pending_least: "s \<le> JobPending \<longleftrightarrow> s = JobPending"
  by (cases s) (simp_all add: less_eq_job_state_def job_rank_def)

lemma later_trans: "later a b \<Longrightarrow> later b c \<Longrightarrow> later a c"
  unfolding later_def by (metis order_trans terminal_le pending_least)

lemma fits_terminal: "file_terminal fs \<Longrightarrow> job_terminal js \<Longrightarrow> fits js fs"
  by (cases js) (simp_all add: fits_def)

lemma fits_terminalD: "fits js fs \<Longrightarrow> job_terminal js \<Longrightarrow> file_terminal fs"
  by (cases js) (simp_all add: fits_def)

lemma state_le_simps [simp]:
  "JobPending \<le> s" "JobQueued \<le> JobRunning" "JobRunning \<le> JobRunning" "JobQueued \<le> JobQueued"
  "\<not> job_terminal s \<Longrightarrow> job_terminal t \<Longrightarrow> s \<le> t"
  "JobRunning \<le> s \<longleftrightarrow> s = JobRunning \<or> job_terminal s"
  by (cases s; auto simp: less_eq_job_state_def job_rank_def split: job_state.splits)+

lemma written_ok [simp]: "manifest_ok (written m) = manifest_ok m" "later a (written m) = later a m"
  by (simp_all add: manifest_ok_def later_def)

lemma updated_ok [simp]:
  "manifest_ok (m\<lparr>m_updated_at := t\<rparr>) = manifest_ok m" "later a (m\<lparr>m_updated_at := t\<rparr>) = later a m"
  by (simp_all add: manifest_ok_def later_def)

lemma file_by_id_Some:
  "file_by_id m i = Some f \<Longrightarrow> f \<in> set (m_files m) \<and> f_id f = i"
  using index_of_file_Some by (fastforce simp: file_by_id_def)

lemma update_file_sel [simp]:
  "m_state (update_file i g m) = m_state m" "m_id (update_file i g m) = m_id m"
  "m_error (update_file i g m) = m_error m"
  by (simp_all add: update_file_def split: option.splits)

lemma update_file_files:
  "manifest_ok m \<Longrightarrow>
    m_files (update_file i g m) = map (\<lambda>f. if f_id f = i then g f else f) (m_files m)"
  by (simp add: update_file_map manifest_ok_def)

text \<open>
  Assigning through the pointer of a file keeps a manifest well formed if the new value is
  well formed, and is a later manifest if the job is not terminal.
\<close>

lemma update_file_ok:
  assumes "manifest_ok m" and "\<not> job_terminal (m_state m)"
    and "\<And>f. f \<in> set (m_files m) \<Longrightarrow> f_id f = i \<Longrightarrow>
      f_id (g f) = i \<and> fits (m_state m) (f_state (g f)) \<and> (f_state (g f) = FileCompleted \<longrightarrow> f_output (g f) \<noteq> None)"
  shows "manifest_ok (update_file i g m) \<and> later m (update_file i g m)"
proof -
  have "map f_id (map (\<lambda>f. if f_id f = i then g f else f) (m_files m)) = map f_id (m_files m)"
    using assms(3) by auto
  then have "distinct (map f_id (m_files (update_file i g m)))"
    using assms(1) unfolding update_file_files [OF assms(1)] by (simp only: manifest_ok_def)
  then show ?thesis
    using assms by (auto simp: manifest_ok_def later_def update_file_map)
qed

subsection \<open>Every change keeps a manifest well formed and moves it up\<close>

lemma contains_operation_iff [simp]: "contains_operation ops op \<longleftrightarrow> op \<in> set ops"
  by (induction ops) auto

text \<open>How \<open>Start\<close> changes one file.\<close>

definition started :: "job_file \<Rightarrow> job_file \<Rightarrow> bool" where
  "started f g \<longleftrightarrow> f_output g = f_output f \<and> f_id g = f_id f \<and> f_name g = f_name f \<and>
    (if f_state f = FileInspected
     then f_state g = FileQueued \<and> (f_selected g = f_recommended f \<or> f_selected g \<in> set (f_compatible f))
     else g = f)"

lemma start_files_Inr:
  "start_files sel fs = Inr (gs, n) \<Longrightarrow> list_all2 started fs gs \<and> n = count_state FileInspected fs"
proof (induction fs arbitrary: gs n)
  case Nil
  then show ?case by (simp add: count_state_def)
next
  case (Cons f fs)
  obtain hs k where h: "start_files sel fs = Inr (hs, k)"
    using Cons.prems by (cases "start_files sel fs") (auto simp: Let_def split: if_splits)
  obtain g where g: "gs = g # hs" "started f g" "n = (if f_state f = FileInspected then k + 1 else k)"
    using Cons.prems h by (auto simp: Let_def started_def split: if_splits)
  with Cons.IH [OF h] show ?case by (simp add: count_state_def)
qed

lemma started_ids: "list_all2 started fs gs \<Longrightarrow> map f_id gs = map f_id fs"
  by (induction rule: list_all2_induct) (simp_all add: started_def)

lemma start_change_ok:
  assumes "start_change sel full m = Inr m'" and "manifest_ok m"
  shows "manifest_ok m' \<and> later m m' \<and> m_id m' = m_id m"
proof -
  obtain fs n where fs: "start_files sel (m_files m) = Inr (fs, n)" "m_state m = JobPending"
      "m' = m\<lparr>m_files := fs, m_state := JobQueued\<rparr>"
    using assms(1) by (auto simp: start_change_def split: if_splits sum.splits)
  have S: "list_all2 started (m_files m) fs" using start_files_Inr [OF fs(1)] by simp
  have "fits JobQueued (f_state g) \<and> (f_state g = FileCompleted \<longrightarrow> f_output g \<noteq> None)"
    if g: "g \<in> set fs" for g
  proof -
    obtain f where f: "f \<in> set (m_files m)" "started f g"
      using S g by (metis in_set_conv_nth list_all2_conv_all_nth)
    have "fits JobPending (f_state f)" using assms(2) f fs(2) by (auto simp: manifest_ok_def)
    with f show ?thesis by (auto simp: fits_def started_def split: if_splits)
  qed
  moreover have "distinct (map f_id fs)"
    using started_ids [OF S] assms(2) by (simp add: manifest_ok_def)
  moreover have "fs \<noteq> []"
    using assms(1) fs(1) S by (auto simp: start_change_def count_state_def split: if_splits
        dest!: start_files_Inr)
  ultimately show ?thesis using fs by (auto simp: manifest_ok_def later_def)
qed

lemma cancel_file_simps [simp]:
  "f_id (cancel_file t f) = f_id f" "file_terminal (f_state (cancel_file t f))"
  "f_output (cancel_file t f) = f_output f"
  "f_state (cancel_file t f) = FileCompleted \<longleftrightarrow> f_state f = FileCompleted"
  by (auto simp: cancel_file_def)

lemma interrupt_file_simps [simp]:
  "f_id (interrupt_file t f) = f_id f" "file_terminal (f_state (interrupt_file t f))"
  "f_output (interrupt_file t f) = f_output f"
  "f_state (interrupt_file t f) = FileCompleted \<longleftrightarrow> f_state f = FileCompleted"
  by (auto simp: interrupt_file_def)

lemma cancel_received_simps [simp]:
  "f_id (cancel_received t f) = f_id f" "file_terminal (f_state (cancel_received t f))"
  "f_output (cancel_received t f) = f_output f"
  "f_state (cancel_received t f) = FileCompleted \<longleftrightarrow> f_state f = FileCompleted"
  by (auto simp: cancel_received_def)

text \<open>Ending every file and the job: the common part of cancel, recover and finalize.\<close>

lemma end_files_ok:
  assumes "manifest_ok m" and "\<not> job_terminal (m_state m)" and "job_terminal js"
    and g: "\<And>f. f_id (g f) = f_id f \<and> file_terminal (f_state (g f)) \<and> f_output (g f) = f_output f
      \<and> (f_state (g f) = FileCompleted \<longleftrightarrow> f_state f = FileCompleted)"
    and "js = JobCompleted \<Longrightarrow> \<exists>f\<in>set (m_files m). f_state f = FileCompleted"
    and m': "m_files m' = map g (m_files m)" "m_state m' = js" "m_id m' = m_id m"
  shows "manifest_ok m' \<and> later m m'"
proof -
  have "map f_id (map g (m_files m)) = map f_id (m_files m)" using g by simp
  then have "distinct (map f_id (m_files m'))"
    using assms(1) by (simp only: m' manifest_ok_def)
  then show ?thesis
    using assms fits_terminal by (auto simp: manifest_ok_def later_def)
qed

lemma cancel_change_ok:
  "manifest_ok m \<Longrightarrow> manifest_ok (cancel_change t m) \<and> later m (cancel_change t m)"
  using end_files_ok [of m JobCanceled "cancel_file t" "cancel_change t m"]
  by (cases "job_terminal (m_state m)") (simp_all add: cancel_change_def)

lemma interrupt_change_ok:
  "manifest_ok m \<Longrightarrow> \<not> job_terminal (m_state m) \<Longrightarrow>
    manifest_ok (interrupt_change t m) \<and> later m (interrupt_change t m)"
  using end_files_ok [of m JobInterrupted "interrupt_file t" "interrupt_change t m"]
  by (simp add: interrupt_change_def)

lemma finalize_state:
  assumes "\<not> job_terminal (m_state m)"
  shows "m_state (finalize_change c t m) =
    (if \<exists>f\<in>set (m_files m). f_state f = FileCompleted then JobCompleted
     else if c then JobCanceled
     else if \<exists>f\<in>set (m_files m). f_state f = FileFailed then JobFailed
     else JobCanceled)"
proof -
  have C: "0 < count_state FileCompleted (map (cancel_file t) fs)
      \<longleftrightarrow> (\<exists>f\<in>set fs. f_state f = FileCompleted)" for fs
    by (auto simp: count_state_def filter_empty_conv)
  have "f_state (cancel_file t f) = FileFailed \<longleftrightarrow> f_state f = FileFailed" for f
    by (auto simp: cancel_file_def)
  then have F: "0 < count_state FileFailed (map (cancel_file t) fs)
      \<longleftrightarrow> (\<exists>f\<in>set fs. f_state f = FileFailed)" for fs
    by (auto simp: count_state_def filter_empty_conv)
  show ?thesis using assms by (simp only: finalize_change_def Let_def C F) simp
qed

lemma finalize_change_ok:
  "manifest_ok m \<Longrightarrow> manifest_ok (finalize_change c t m) \<and> later m (finalize_change c t m)"
proof (cases "job_terminal (m_state m)")
  case False
  assume ok: "manifest_ok m"
  show ?thesis
  proof (rule end_files_ok [where js = "m_state (finalize_change c t m)" and g = "cancel_file t"])
    show "m_files (finalize_change c t m) = map (cancel_file t) (m_files m)"
      using False by (simp add: finalize_change_def Let_def)
    show "m_id (finalize_change c t m) = m_id m" by (simp add: finalize_change_def Let_def)
    show "\<exists>f\<in>set (m_files m). f_state f = FileCompleted"
      if "m_state (finalize_change c t m) = JobCompleted"
      using that by (simp add: finalize_state [OF False] split: if_splits)
  qed (use ok False in \<open>simp_all add: finalize_state\<close>)
qed (simp add: finalize_change_def)

lemma claim_change_ok:
  "claim_change m = Inr m' \<Longrightarrow> manifest_ok m \<Longrightarrow>
    manifest_ok m' \<and> later m m' \<and> m_state m' = JobRunning"
  by (auto simp: claim_change_def manifest_ok_def later_def fits_def split: if_splits)

lemma begin_file_change_ok:
  assumes "begin_file_change fid t m = Inr m'" and "manifest_ok m"
  shows "manifest_ok m' \<and> later m m'"
proof -
  have m': "m' = update_file fid (\<lambda>f. f\<lparr>f_state := FileRunning, f_started_at := Some t\<rparr>) m"
    and s: "m_state m = JobRunning"
    using assms(1) by (auto simp: begin_file_change_def split: option.splits if_splits)
  show ?thesis unfolding m' using assms(2) s by (intro update_file_ok) (auto simp: fits_def)
qed

lemma finish_file_change_ok:
  assumes "manifest_ok m" and "JobRunning \<le> m_state m"
  shows "manifest_ok (finish_file_change mt fid t r out m) \<and> later m (finish_file_change mt fid t r out m)"
proof (cases "job_terminal (m_state m)")
  case True
  then show ?thesis using assms by (simp add: finish_file_change_def split: option.splits)
next
  case False
  then have s: "m_state m = JobRunning" using assms(2) by simp
  show ?thesis
  proof (cases "file_by_id m fid")
    case None
    then show ?thesis using assms(1) by (simp add: finish_file_change_def)
  next
    case (Some f)
    show ?thesis
    proof (cases "file_terminal (f_state f)")
      case True
      then show ?thesis using assms(1) Some by (simp add: finish_file_change_def)
    next
      case f: False
      show ?thesis
        unfolding finish_file_change_def using Some f False assms(1)
        by (simp only: option.case if_False simp_thms, intro update_file_ok)
           (auto simp: fits_def Let_def s split: sum.splits)
    qed
  qed
qed

lemma end_file_ok:
  assumes "manifest_ok m" and "JobRunning \<le> m_state m" and "file_by_id m fid = Some f"
    and "\<not> file_terminal (f_state f)"
    and g: "\<And>f. f_id (g f) = f_id f \<and> file_terminal (f_state (g f)) \<and> f_state (g f) \<noteq> FileCompleted"
  shows "manifest_ok (update_file fid g m) \<and> later m (update_file fid g m)"
proof -
  have "\<not> job_terminal (m_state m)"
    using assms(1,4) file_by_id_Some [OF assms(3)] fits_terminalD by (auto simp: manifest_ok_def)
  moreover from this have "m_state m = JobRunning" using assms(2) by simp
  ultimately show ?thesis
    using assms(1) g by (intro update_file_ok) (simp_all add: fits_def)
qed

lemma record_cancel_change_ok:
  "manifest_ok m \<Longrightarrow> JobRunning \<le> m_state m \<Longrightarrow>
    manifest_ok (record_cancel_change fid t m) \<and> later m (record_cancel_change fid t m)"
  unfolding record_cancel_change_def
  by (cases "file_by_id m fid") (use end_file_ok [of m fid] in auto)

lemma record_failure_change_ok:
  "manifest_ok m \<Longrightarrow> JobRunning \<le> m_state m \<Longrightarrow>
    manifest_ok (record_failure_change fid t fl m) \<and> later m (record_failure_change fid t fl m)"
  unfolding record_failure_change_def
  by (cases "file_by_id m fid") (use end_file_ok [of m fid] in auto)

text \<open>
  An upload in progress owns a job without files that is pending, or canceled meanwhile. What
  it publishes at its end are received files: distinct, not started and without output.
\<close>

definition intake_ok :: "manifest \<Rightarrow> bool" where
  "intake_ok m \<longleftrightarrow> m_files m = [] \<and> (m_state m = JobPending \<or> m_state m = JobCanceled)"

definition received_ok :: "job_file list \<Rightarrow> bool" where
  "received_ok fs \<longleftrightarrow> distinct (map f_id fs) \<and> fs \<noteq> []
    \<and> (\<forall>f\<in>set fs. f_state f \<in> {FileUploaded, FileInspected, FileFailed})"

lemma accept_change_ok:
  assumes "intake_ok m" and "received_ok fs"
  shows "manifest_ok (accept_change fs n t m) \<and> later m (accept_change fs n t m)"
proof -
  have d: "distinct (map f_id (map (cancel_received t) fs))"
    using assms(2) by (simp add: received_ok_def comp_def)
  have c: "f_state (cancel_received t f) = FileCompleted \<longrightarrow> f_output (cancel_received t f) \<noteq> None"
    if "f \<in> set fs" for f
    using assms(2) that by (auto simp: received_ok_def)
  show ?thesis
  proof (cases "m_state m = JobCanceled")
    case True
    then have a: "accept_change fs n t m
        = m\<lparr>m_files := map (cancel_received t) fs, m_total_bytes := n\<rparr>"
      by (simp add: accept_change_def Let_def)
    show ?thesis using True d c assms
      unfolding a by (auto simp: manifest_ok_def later_def fits_def intake_ok_def job_active_def)
  next
    case False
    then show ?thesis
      using assms by (auto simp: accept_change_def Let_def manifest_ok_def later_def fits_def
          intake_ok_def received_ok_def job_active_def)
  qed
qed

lemma intake_ok_simps [simp]:
  "intake_ok (written m) = intake_ok m" "intake_ok (m\<lparr>m_updated_at := t\<rparr>) = intake_ok m"
  by (simp_all add: intake_ok_def)

text \<open>No other change starts a job that an upload owns.\<close>

lemma intake_changes:
  assumes "intake_ok m"
  shows "start_change sel full m \<noteq> Inr m'" "intake_ok (cancel_change t m)" "claim_change m \<noteq> Inr m'"
    "begin_file_change fid t m \<noteq> Inr m'" "finish_file_change mt fid t r out m = m"
    "record_cancel_change fid t m = m" "record_failure_change fid t fl m = m"
    "intake_ok (finalize_change c t m)"
  using assms
  by (auto simp: intake_ok_def start_change_def cancel_change_def claim_change_def begin_file_change_def
      finish_file_change_def record_cancel_change_def record_failure_change_def finalize_change_def
      file_by_id_def count_state_def split: if_splits)

subsection \<open>File states only move up\<close>

definition file_up :: "job_file \<Rightarrow> job_file \<Rightarrow> bool" where
  "file_up f g \<longleftrightarrow> f_id g = f_id f \<and> f_name g = f_name f \<and> f_state f \<le> f_state g"

definition files_up :: "manifest \<Rightarrow> manifest \<Rightarrow> bool" where
  "files_up m m' \<longleftrightarrow> list_all2 file_up (m_files m) (m_files m')"

lemma file_up_refl [simp]: "file_up f f"
  by (simp add: file_up_def)

lemma files_up_refl [simp]: "files_up m m"
  by (simp add: files_up_def list.rel_refl)

lemma file_le_terminal: "\<not> file_terminal a \<Longrightarrow> file_terminal b \<Longrightarrow> a \<le> b"
  by (cases a; cases b) (simp_all add: less_eq_file_state_def file_rank_def)

lemma files_up_map: "(\<And>f. file_up f (g f)) \<Longrightarrow> m_files m' = map g (m_files m) \<Longrightarrow> files_up m m'"
  by (simp add: files_up_def list_all2_conv_all_nth)

text \<open>Changing the file found by its identifier moves it up if the change does.\<close>

lemma files_up_update:
  assumes "file_by_id m fid = Some t" and "file_up t (g t)"
  shows "files_up m (update_file fid g m)"
proof -
  obtain n where n: "index_of_file (m_files m) fid = Some n" "t = m_files m ! n"
    using assms(1) by (auto simp: file_by_id_def)
  then show ?thesis
    using assms(2) index_of_file_Some [OF n(1)]
    by (auto simp: files_up_def update_file_def list_all2_conv_all_nth nth_list_update)
qed

lemma files_up_start: "start_change sel full m = Inr m' \<Longrightarrow> files_up m m'"
proof -
  assume "start_change sel full m = Inr m'"
  then obtain fs n where fs: "start_files sel (m_files m) = Inr (fs, n)" "m' = m\<lparr>m_files := fs, m_state := JobQueued\<rparr>"
    by (auto simp: start_change_def split: if_splits sum.splits)
  have S: "list_all2 started (m_files m) fs" using start_files_Inr [OF fs(1)] by simp
  have "file_up f g" if "(f, g) \<in> set (zip (m_files m) fs)" for f g
  proof -
    have "started f g" using S that by (auto simp: list_all2_iff)
    then show ?thesis
      by (auto simp: started_def file_up_def less_eq_file_state_def file_rank_def split: if_splits)
  qed
  then show ?thesis using S fs(2) by (auto simp: files_up_def list_all2_iff)
qed

lemma files_up_end:
  "files_up m (cancel_change t m)" "files_up m (interrupt_change t m)" "files_up m (finalize_change c t m)"
proof -
  have c: "file_up f (cancel_file t f)" and i: "file_up f (interrupt_file t f)" for f
    by (auto simp: file_up_def cancel_file_def interrupt_file_def file_le_terminal)
  show "files_up m (cancel_change t m)" using files_up_map [OF c] by (simp add: cancel_change_def)
  show "files_up m (interrupt_change t m)" using files_up_map [OF i] by (simp add: interrupt_change_def)
  show "files_up m (finalize_change c t m)"
    using files_up_map [OF c] by (simp add: finalize_change_def Let_def)
qed

lemma files_up_begin: "begin_file_change fid t m = Inr m' \<Longrightarrow> files_up m m'"
  by (auto simp: begin_file_change_def file_up_def less_eq_file_state_def file_rank_def
      intro!: files_up_update split: option.splits if_splits)

lemma files_up_record:
  "files_up m (record_cancel_change fid t m)" "files_up m (record_failure_change fid t fl m)"
  by (auto simp: record_cancel_change_def record_failure_change_def file_up_def file_le_terminal
      intro!: files_up_update split: option.splits)

lemma files_up_finish: "files_up m (finish_file_change mt fid t r out m)"
  by (auto simp: finish_file_change_def file_up_def file_le_terminal Let_def
      intro!: files_up_update split: option.splits sum.splits)

subsection \<open>Properties\<close>


definition sample_file :: job_file where
  "sample_file = \<lparr>f_id = ''f001'', f_name = ''a.png'', f_original_name = ''a.png'', f_size = 9,
     f_state = FileInspected, f_media = None, f_recommended = OperationCompatiblePhoto,
     f_compatible = [OperationCompatiblePhoto, OperationSmallerPhoto],
     f_selected = OperationCompatiblePhoto, f_operation_source = ''recommended'',
     f_validation = zero_validation, f_warnings = [], f_execution = zero_execution,
     f_fallback_reason = [], f_error = None, f_output = None, f_started_at = None,
     f_finished_at = None\<rparr>"

definition sample_manifest :: manifest where
  "sample_manifest = (new_manifest ''AAECAwQFBgcICQoLDA0ODw'' 5 7)\<lparr>m_files := [sample_file]\<rparr>"


text \<open>Starting succeeds only for a pending job with a free queue slot and at least one inspected
  file; then exactly the inspected files are queued, each with its recommended operation or with one
  of the operations that fit it, and all other files are unchanged.\<close>

theorem start_selects_compatible:
  assumes "start_change sel full m = Inr m'"
  shows "m_state m = JobPending \<and> \<not> full \<and> m_state m' = JobQueued
    \<and> (\<exists>f\<in>set (m_files m). f_state f = FileInspected)
    \<and> list_all2 (\<lambda>f g. if f_state f = FileInspected
         then f_state g = FileQueued \<and> f_selected g \<in> insert (f_recommended f) (set (f_compatible f))
         else g = f) (m_files m) (m_files m')"
proof -
  obtain fs n where fs: "start_files sel (m_files m) = Inr (fs, n)" "n \<noteq> 0" "\<not> full"
      "m_state m = JobPending" "m' = m\<lparr>m_files := fs, m_state := JobQueued\<rparr>"
    using assms by (auto simp: start_change_def split: if_splits sum.splits)
  note S = start_files_Inr [OF fs(1)]
  have "\<exists>f\<in>set (m_files m). f_state f = FileInspected"
    using S fs(2) by (auto simp: count_state_def filter_empty_conv)
  moreover have "list_all2 (\<lambda>f g. if f_state f = FileInspected
         then f_state g = FileQueued \<and> f_selected g \<in> insert (f_recommended f) (set (f_compatible f))
         else g = f) (m_files m) fs"
    using S by (auto elim!: list.rel_mono_strong simp: started_def split: if_splits)
  ultimately show ?thesis using fs by simp
qed

theorem start_selects_compatible_witness:
  "\<exists>m'. start_change [''f001'' \<mapsto> OperationSmallerPhoto] False sample_manifest = Inr m'
     \<and> m_state m' = JobQueued"
proof -
  obtain m' where "start_change [''f001'' \<mapsto> OperationSmallerPhoto] False sample_manifest = Inr m'"
    by (simp add: start_change_def sample_manifest_def sample_file_def new_manifest_def no_operation_def)
  with start_selects_compatible [of "[''f001'' \<mapsto> OperationSmallerPhoto]" False sample_manifest m']
  show ?thesis by blast
qed



text \<open>Log fields are safe: whatever the error, its category is one of a fixed list of words, and the
  keys logged are among category, fs_op and code.\<close>

theorem safe_log_fields_closed:
  "safe_log_category e \<in> failure_kind_text ` UNIV \<union> {''timeout'', ''invalid_id'', ''not_found'', ''leased'',
      ''invalid_state'', ''queue_full'', ''shutting_down'', ''filesystem'', ''internal''}
    \<and> fst ` set (safe_log_fields e) \<subseteq> {''category'', ''fs_op'', ''code''}
    \<and> map_of (safe_log_fields e) ''category'' = Some (safe_log_category e)"
proof (intro conjI)
  have c: "''canceled'' \<in> failure_kind_text ` UNIV"
    using rangeI [of failure_kind_text FailureCanceled] by simp
  show "safe_log_category e \<in> failure_kind_text ` UNIV \<union> {''timeout'', ''invalid_id'', ''not_found'', ''leased'',
      ''invalid_state'', ''queue_full'', ''shutting_down'', ''filesystem'', ''internal''}"
  proof (cases "errors_as as_conversion e")
    case None
    with c show ?thesis
      unfolding safe_log_category_def None option.case
      by (simp only: Un_iff insert_iff simp_thms split: if_split)
  next
    case (Some p)
    then show ?thesis by (simp add: safe_log_category_def split: prod.split)
  qed
  show "fst ` set (safe_log_fields e) \<subseteq> {''category'', ''fs_op'', ''code''}"
  proof (cases "errors_as as_conversion e")
    case (Some p)
    then show ?thesis by (cases p) (simp add: safe_log_fields_def Let_def)
  qed (simp add: safe_log_fields_def Let_def)
  show "map_of (safe_log_fields e) ''category'' = Some (safe_log_category e)"
  proof (cases "errors_as as_conversion e")
    case (Some p)
    then show ?thesis by (cases p) (simp add: safe_log_fields_def Let_def)
  qed (simp add: safe_log_fields_def Let_def)
qed

end
