(* ===== verification/Manager.thy ===== *)
theory Manager
  imports Transitions "HOL-Library.Multiset"
begin

text \<open>
  The job manager, \<open>internal/jobs/manager.go\<close>: its state and its operations. Every section of
  the code that runs under the lock of one job (or under the manager's mutex) is one function
  on the state; the worker's goroutine is a program counter with one function for each of its
  sections. What the system decides (times, outcomes of system calls, what the converter
  returns) are arguments.
\<close>

subsection \<open>State\<close>

text \<open>What a worker is about to write about the file it has in hand.\<close>

datatype verdict =
    VerdictCancel
  | VerdictFailure failure
  | VerdictResult convert_result "int result"

text \<open>
  The program counter of \<open>work\<close>, \<open>process\<close> and \<open>convertFile\<close>. The flag says whether the
  worker found a control for the job; without one the job's context is the base context.
\<close>

datatype worker =
    Idle
  | Exited
  | Received string
  | Starting string bool
  | Claiming string bool
  | Looping string bool "job_file list"
  | Beginning string bool job_file "job_file list"
  | Waiting string bool job_file "job_file list"
  | Holding string bool job_file "job_file list"
  | Recording string bool job_file "job_file list" verdict bool
  | Finalizing string bool bool
  | Releasing string bool
  | Ending string bool

text \<open>
  \<open>g_controls\<close> are the keys of the control map and \<open>g_stopped\<close> the jobs whose context was
  canceled. The lease map is a multiset. \<open>g_closed\<close> says that \<open>Shutdown\<close> closed the queue
  and canceled the base context. Four fields have no counterpart in the code:
  \<open>g_downloads\<close> (leases held by callers of \<open>Lease\<close>), \<open>g_intakes\<close> (uploads in progress),
  \<open>g_budgets\<close> (their reserved bytes) and \<open>g_used\<close> (identifiers handed out) record who holds
  what.
\<close>

record mgr =
  g_disk :: disk
  g_accepting :: bool
  g_closed :: bool
  g_queue :: "string list"
  g_depth :: nat
  g_controls :: "string set"
  g_stopped :: "string set"
  g_leases :: "string multiset"
  g_uploads :: int
  g_queued :: int
  g_running :: int
  g_slots :: nat
  g_max :: nat
  g_workers :: "worker list"
  g_probes :: nat
  g_downloads :: "string multiset"
  g_intakes :: "string multiset"
  g_used :: "string set"
  g_budgets :: "int multiset"

text \<open>The system's part in one read-change-write of a manifest.\<close>

record io_env =
  io_read :: "err option"
  io_save :: save_env
  io_now :: time
  io_finished :: time

record options =
  o_store :: bool
  o_converter :: bool
  o_max_processes :: int
  o_max_files :: int
  o_max_upload :: int
  o_min_free :: int
  o_ttl :: int
  o_timeout :: int
  o_queue_depth :: int

definition new_manager :: "options \<Rightarrow> disk \<Rightarrow> mgr result" where
  "new_manager opt d =
    (if \<not> o_store opt then Inl (NewError ''jobs: store must not be nil'')
     else if \<not> o_converter opt then Inl (NewError ''jobs: converter must not be nil'')
     else if o_max_processes opt < 1 then Inl (NewError ''jobs: max concurrent processes must be at least 1'')
     else if o_max_files opt < 1 then Inl (NewError ''jobs: max files per job must be at least 1'')
     else if o_max_upload opt < 1 then Inl (NewError ''jobs: max upload size must be positive'')
     else if o_min_free opt < 0 then Inl (NewError ''jobs: min free space must not be negative'')
     else if o_ttl opt \<le> 0 then Inl (NewError ''jobs: job ttl must be positive'')
     else if o_timeout opt \<le> 0 then Inl (NewError ''jobs: command timeout must be positive'')
     else let depth = (if o_queue_depth opt \<le> 0 then 128 else o_queue_depth opt)
       in Inr \<lparr>g_disk = d, g_accepting = True, g_closed = False, g_queue = [], g_depth = nat depth,
            g_controls = {}, g_stopped = {}, g_leases = {#}, g_uploads = 0, g_queued = 0,
            g_running = 0, g_slots = 0, g_max = nat (o_max_processes opt),
            g_workers = replicate (nat (o_max_processes opt)) Idle, g_probes = 0,
            g_downloads = {#}, g_intakes = {#}, g_used = dom d, g_budgets = {#}\<rparr>)"

subsection \<open>Leases, statistics and intake\<close>

definition leased :: "string \<Rightarrow> mgr \<Rightarrow> bool" where
  "leased i s \<longleftrightarrow> 0 < count (g_leases s) i"

definition acquire_lease :: "string \<Rightarrow> mgr \<Rightarrow> mgr" where
  "acquire_lease i s = s\<lparr>g_leases := add_mset i (g_leases s)\<rparr>"

definition release_lease :: "string \<Rightarrow> mgr \<Rightarrow> mgr" where
  "release_lease i s = s\<lparr>g_leases := g_leases s - {#i#}\<rparr>"

definition load_job :: "err option \<Rightarrow> string \<Rightarrow> mgr \<Rightarrow> manifest result" where
  "load_job re i s = store_load re i (g_disk s)"

definition lease_job :: "err option \<Rightarrow> string \<Rightarrow> mgr \<Rightarrow> err option \<times> mgr" where
  "lease_job re i s =
    (case load_job re i s of Inl e \<Rightarrow> (Some e, s) | Inr m \<Rightarrow> (None, acquire_lease i s))"

record stats =
  st_queued :: int
  st_running :: int
  st_capacity :: nat
  st_queue_depth :: nat
  st_accepting :: bool
  st_leases :: nat

definition stats_of :: "mgr \<Rightarrow> stats" where
  "stats_of s = \<lparr>st_queued = g_queued s, st_running = g_running s, st_capacity = g_max s,
     st_queue_depth = g_depth s, st_accepting = g_accepting s,
     st_leases = card (set_mset (g_leases s))\<rparr>"

definition stop_intake :: "mgr \<Rightarrow> mgr" where
  "stop_intake s = s\<lparr>g_accepting := False\<rparr>"

text \<open>The once-only part of \<open>Shutdown\<close>; draining is the workers' exit.\<close>

definition shutdown :: "mgr \<Rightarrow> mgr" where
  "shutdown s = (stop_intake s)\<lparr>g_closed := True\<rparr>"

subsection \<open>Updating a manifest\<close>

definition update_job :: "io_env \<Rightarrow> string \<Rightarrow> (manifest \<Rightarrow> manifest result) \<Rightarrow> mgr \<Rightarrow> manifest result \<times> mgr" where
  "update_job io i f s =
    (case store_update (io_read io) (io_save io) i (io_now io) (Some f) (g_disk s) of
       (r, d) \<Rightarrow> (r, s\<lparr>g_disk := d\<rparr>))"

subsection \<open>Starting, canceling and deleting\<close>

definition start_job :: "io_env \<Rightarrow> (string \<rightharpoonup> operation) \<Rightarrow> string \<Rightarrow> mgr \<Rightarrow> manifest result \<times> mgr" where
  "start_job io selections i s =
    (if \<not> g_accepting s then (Inl (Sentinel ErrShuttingDown), s)
     else case update_job io i (start_change selections (length (g_queue s) = g_depth s)) s of
            (Inl e, s1) \<Rightarrow> (Inl e, s1)
          | (Inr m, s1) \<Rightarrow>
              (Inr m, s1\<lparr>g_controls := insert i (g_controls s1), g_queued := g_queued s1 + 1,
                         g_queue := g_queue s1 @ [i]\<rparr>))"

definition stop_control :: "string \<Rightarrow> mgr \<Rightarrow> mgr" where
  "stop_control i s = (if i \<in> g_controls s then s\<lparr>g_stopped := insert i (g_stopped s)\<rparr> else s)"

definition cancel_job :: "io_env \<Rightarrow> string \<Rightarrow> mgr \<Rightarrow> manifest result \<times> mgr" where
  "cancel_job io i s =
    (case load_job (io_read io) i s of
       Inl e \<Rightarrow> (Inl e, s)
     | Inr m \<Rightarrow>
         if job_terminal (m_state m) then (Inr m, s)
         else update_job io i (\<lambda>m. Inr (cancel_change (io_finished io) m)) (stop_control i s))"

text \<open>The first locked section of \<open>Delete\<close>.\<close>

definition delete_begin :: "err option \<Rightarrow> string \<Rightarrow> mgr \<Rightarrow> err option \<times> mgr" where
  "delete_begin re i s =
    (case validate_id i of
       Some e \<Rightarrow> (Some e, s)
     | None \<Rightarrow> (case load_job re i s of Inl e \<Rightarrow> (Some e, s) | Inr m \<Rightarrow> (None, stop_control i s)))"

text \<open>
  \<open>waitForLeaseRelease\<close>: what the select of each round saw. The ticker and the timer come
  with the answer of \<open>Leased\<close> at that moment; \<open>None\<close> is a wait that has not ended.
\<close>

datatype wait_event = ContextDone err | Tick bool | GraceOver bool

fun wait_rounds :: "wait_event list \<Rightarrow> err option option" where
  "wait_rounds [] = None"
| "wait_rounds (ContextDone e # evs) = Some (Some e)"
| "wait_rounds (Tick held # evs) = (if \<not> held then Some None else wait_rounds evs)"
| "wait_rounds (GraceOver held # evs) = (if held then Some (Some (Sentinel ErrLeased)) else Some None)"

definition wait_for_lease_release :: "bool \<Rightarrow> wait_event list \<Rightarrow> err option option" where
  "wait_for_lease_release held evs = (if \<not> held then Some None else wait_rounds evs)"

text \<open>The second locked section of \<open>Delete\<close>.\<close>

definition delete_finish :: "delete_env \<Rightarrow> string \<Rightarrow> mgr \<Rightarrow> err option \<times> mgr" where
  "delete_finish env i s =
    (if leased i s then (Some (Sentinel ErrLeased), s)
     else let s1 = stop_control i s
          in case store_delete env i (g_disk s1) of
               (Some e, d) \<Rightarrow> (Some e, s1\<lparr>g_disk := d\<rparr>)
             | (None, d) \<Rightarrow> (None, s1\<lparr>g_disk := d, g_controls := g_controls s1 - {i}\<rparr>))"

subsection \<open>Recovery and cleanup\<close>

definition recover_job :: "io_env \<Rightarrow> string \<Rightarrow> mgr \<Rightarrow> manifest result \<times> mgr" where
  "recover_job io i s = update_job io i (\<lambda>m. Inr (interrupt_change (io_finished io) m)) s"

text \<open>\<open>RecoverInterrupted\<close>: the snapshot of the listing is walked once.\<close>

fun recover_all :: "(string \<Rightarrow> io_env) \<Rightarrow> manifest list \<Rightarrow> mgr \<Rightarrow> (string list \<times> err option) \<times> mgr" where
  "recover_all io [] s = (([], None), s)"
| "recover_all io (m # ms) s =
    (if job_terminal (m_state m) then recover_all io ms s
     else case recover_job (io (m_id m)) (m_id m) s of
            (Inl e, s1) \<Rightarrow> (([], Some e), s1)
          | (Inr _, s1) \<Rightarrow>
              (case recover_all io ms s1 of ((changed, e), s2) \<Rightarrow> ((m_id m # changed, e), s2)))"

definition recover_interrupted ::
  "manifest list result \<Rightarrow> (string \<Rightarrow> io_env) \<Rightarrow> mgr \<Rightarrow> (string list \<times> err option) \<times> mgr" where
  "recover_interrupted listing io s =
    (case listing of Inl e \<Rightarrow> (([], Some e), s) | Inr ms \<Rightarrow> recover_all io ms s)"

text \<open>The locked section of \<open>CleanupExpired\<close> for one job: whether the job was removed.\<close>

definition cleanup_job :: "err option \<Rightarrow> delete_env \<Rightarrow> time \<Rightarrow> string \<Rightarrow> mgr \<Rightarrow> bool \<times> mgr" where
  "cleanup_job re env now i s =
    (case load_job re i s of
       Inl e \<Rightarrow> (False, s)
     | Inr current \<Rightarrow>
         if \<not> manifest_expired current now \<or> job_active (m_state current) \<or> leased i s then (False, s)
         else case store_delete env i (g_disk s) of
                (r, d) \<Rightarrow>
                  if r \<noteq> None \<and> \<not> errors_is (the r) ErrNotFound then (False, s\<lparr>g_disk := d\<rparr>)
                  else (True, s\<lparr>g_disk := d, g_controls := g_controls s - {i}\<rparr>))"

fun cleanup_all ::
  "(string \<Rightarrow> err option) \<Rightarrow> (string \<Rightarrow> delete_env) \<Rightarrow> time \<Rightarrow> manifest list \<Rightarrow> mgr \<Rightarrow> string list \<times> mgr" where
  "cleanup_all re env now [] s = ([], s)"
| "cleanup_all re env now (m # ms) s =
    (if \<not> manifest_expired m now \<or> leased (m_id m) s \<or> job_active (m_state m)
     then cleanup_all re env now ms s
     else case cleanup_job (re (m_id m)) (env (m_id m)) now (m_id m) s of
            (gone, s1) \<Rightarrow>
              (case cleanup_all re env now ms s1 of
                 (removed, s2) \<Rightarrow> (if gone then m_id m # removed else removed, s2)))"

definition cleanup_expired ::
  "manifest list result \<Rightarrow> (string \<Rightarrow> err option) \<Rightarrow> (string \<Rightarrow> delete_env) \<Rightarrow> time \<Rightarrow> mgr
    \<Rightarrow> string list result \<times> mgr" where
  "cleanup_expired listing re env now s =
    (case listing of
       Inl e \<Rightarrow> (Inl e, s)
     | Inr ms \<Rightarrow> (case cleanup_all re env now ms s of (removed, s1) \<Rightarrow> (Inr removed, s1)))"

subsection \<open>The worker\<close>

definition context_done :: "string \<Rightarrow> bool \<Rightarrow> mgr \<Rightarrow> bool" where
  "context_done i c s \<longleftrightarrow> g_closed s \<or> c \<and> i \<in> g_stopped s"

text \<open>
  \<open>successfulOutputInfo\<close>: the outcome of \<open>Stat\<close> is an error, or whether the file is
  regular and its size.
\<close>

definition successful_output_info :: "(bool \<times> int) result \<Rightarrow> int result" where
  "successful_output_info stat =
    (case stat of
       Inl e \<Rightarrow> Inl (ConversionError FailureConversion ''output_missing''
                  ''converted output is unavailable'' (Some e))
     | Inr (regular, bytes) \<Rightarrow>
         if \<not> regular then Inl (ConversionError FailureConversion ''output_not_regular''
                  ''converted output is not a regular file'' None)
         else Inr bytes)"

text \<open>What the environment contributes to one conversion.\<close>

record convert_env =
  ce_mkdir :: "err option"
  ce_error :: "err option"
  ce_result :: convert_result
  ce_stat :: "(bool \<times> int) result"

text \<open>
  \<open>convertFile\<close> between acquiring the slot and writing the result: the paths, the output
  directory and the conversion, whose request is built from the input path, the output
  directory and the selected operation.
\<close>

definition conversion_paths :: "string \<Rightarrow> string \<Rightarrow> job_file \<Rightarrow> (string \<times> string) result" where
  "conversion_paths root i f =
    (case input_dir_path root i of Inl e \<Rightarrow> Inl e | Inr input_dir \<Rightarrow>
     case resolve input_dir (f_name f) of Inl e \<Rightarrow> Inl e | Inr input_path \<Rightarrow>
     case output_dir_path root i of Inl e \<Rightarrow> Inl e | Inr output_root \<Rightarrow>
     case resolve output_root (f_id f) of Inl e \<Rightarrow> Inl e | Inr output_dir \<Rightarrow>
       Inr (input_path, output_dir))"

definition convert_verdict :: "string \<Rightarrow> (conversion_request \<Rightarrow> convert_env) \<Rightarrow> string \<Rightarrow> job_file \<Rightarrow> verdict" where
  "convert_verdict root conv i f =
    (case conversion_paths root i f of
       Inl e \<Rightarrow> VerdictFailure (failure_from e)
     | Inr (input_path, output_dir) \<Rightarrow>
         let env = conv \<lparr>rq_input_path = input_path, rq_output = output_dir,
                         rq_operation = f_selected f, rq_operation_set = True\<rparr>
         in if ce_mkdir env \<noteq> None
            then VerdictFailure \<lparr>fl_kind = failure_kind_text FailureConfiguration,
                   fl_code = ''output_unavailable'',
                   fl_message = ''the output directory could not be created''\<rparr>
            else VerdictResult (ce_result env)
                   (case ce_error env of
                      Some e \<Rightarrow> Inl e
                    | None \<Rightarrow> successful_output_info (ce_stat env)))"

definition verdict_change :: "(string \<Rightarrow> string) \<Rightarrow> string \<Rightarrow> time \<Rightarrow> verdict \<Rightarrow> manifest \<Rightarrow> manifest" where
  "verdict_change mime_of fid finished v m =
    (case v of
       VerdictCancel \<Rightarrow> record_cancel_change fid finished m
     | VerdictFailure fl \<Rightarrow> record_failure_change fid finished fl m
     | VerdictResult r outcome \<Rightarrow> finish_file_change mime_of fid finished r outcome m)"

text \<open>
  The environment of one worker step. \<open>we_give_up\<close> is the choice of a select whose two cases
  are ready.
\<close>

record worker_env =
  we_io :: io_env
  we_root :: string
  we_mime :: "string \<Rightarrow> string"
  we_give_up :: bool
  we_convert :: "conversion_request \<Rightarrow> convert_env"

text \<open>
  One section of the worker: its next program counter and the next state. \<open>None\<close> is a
  worker that blocks here (an empty open queue, no free slot) or has exited.
\<close>

fun worker_step :: "worker_env \<Rightarrow> worker \<Rightarrow> mgr \<Rightarrow> (worker \<times> mgr) option" where
  "worker_step env Idle s =
    (case g_queue s of
       i # q \<Rightarrow> Some (Received i, s\<lparr>g_queue := q\<rparr>)
     | [] \<Rightarrow> if g_closed s then Some (Exited, s) else None)"
| "worker_step env Exited s = None"
| "worker_step env (Received i) s =
    Some (Starting i (i \<in> g_controls s), s\<lparr>g_queued := g_queued s - 1, g_running := g_running s + 1\<rparr>)"
| "worker_step env (Starting i c) s =
    (case lease_job (io_read (we_io env)) i s of
       (Some e, s1) \<Rightarrow> Some (Ending i c, s1)
     | (None, s1) \<Rightarrow> Some (Claiming i c, s1))"
| "worker_step env (Claiming i c) s =
    (case update_job (we_io env) i claim_change s of
       (Inl e, s1) \<Rightarrow> Some (Releasing i c, s1)
     | (Inr m, s1) \<Rightarrow> Some (Looping i c (m_files m), s1))"
| "worker_step env (Looping i c []) s = Some (Finalizing i c (context_done i c s), s)"
| "worker_step env (Looping i c (f # fs)) s =
    (if f_state f \<noteq> FileQueued then Some (Looping i c fs, s)
     else if context_done i c s then Some (Finalizing i c (context_done i c s), s)
     else Some (Beginning i c f fs, s))"
| "worker_step env (Beginning i c f fs) s =
    (case update_job (we_io env) i (begin_file_change (f_id f) (io_finished (we_io env))) s of
       (Inl e, s1) \<Rightarrow> Some (Looping i c fs, s1)
     | (Inr m, s1) \<Rightarrow> Some (Waiting i c f fs, s1))"
| "worker_step env (Waiting i c f fs) s =
    (if context_done i c s \<and> (we_give_up env \<or> g_max s \<le> g_slots s)
     then Some (Recording i c f fs VerdictCancel False, s)
     else if g_slots s < g_max s then Some (Holding i c f fs, s\<lparr>g_slots := g_slots s + 1\<rparr>)
     else None)"
| "worker_step env (Holding i c f fs) s =
    (if context_done i c s then Some (Recording i c f fs VerdictCancel True, s)
     else Some (Recording i c f fs (convert_verdict (we_root env) (we_convert env) i f) True, s))"
| "worker_step env (Recording i c f fs v slot) s =
    (case update_job (we_io env) i
        (\<lambda>m. Inr (verdict_change (we_mime env) (f_id f) (io_finished (we_io env)) v m)) s of
       (_, s1) \<Rightarrow> Some (Looping i c fs, if slot then s1\<lparr>g_slots := g_slots s1 - 1\<rparr> else s1))"
| "worker_step env (Finalizing i c canceled) s =
    (case update_job (we_io env) i
        (\<lambda>m. Inr (finalize_change canceled (io_finished (we_io env)) m)) s of
       (_, s1) \<Rightarrow> Some (Releasing i c, s1))"
| "worker_step env (Releasing i c) s = Some (Ending i c, release_lease i s)"
| "worker_step env (Ending i c) s =
    Some (Idle, s\<lparr>g_running := g_running s - 1, g_controls := g_controls s - {i},
                  g_stopped := (if c then insert i (g_stopped s) else g_stopped s)\<rparr>)"

text \<open>The step of the worker with index \<open>k\<close>.\<close>

definition run_worker :: "worker_env \<Rightarrow> nat \<Rightarrow> mgr \<Rightarrow> mgr option" where
  "run_worker env k s =
    (if k < length (g_workers s) then
       (case worker_step env (g_workers s ! k) s of
          None \<Rightarrow> None
        | Some (w, s1) \<Rightarrow> Some (s1\<lparr>g_workers := (g_workers s)[k := w]\<rparr>))
     else None)"

text \<open>Several steps of one worker, with the environment of each.\<close>

fun worker_runs :: "worker_env list \<Rightarrow> nat \<Rightarrow> mgr \<Rightarrow> mgr option" where
  "worker_runs [] k s = Some s"
| "worker_runs (env # envs) k s =
    (case run_worker env k s of None \<Rightarrow> None | Some s1 \<Rightarrow> worker_runs envs k s1)"

subsection \<open>Uploads in progress\<close>

text \<open>
  The state changes of \<open>Accept\<close> around receiving and inspecting the files: reserving bytes,
  creating the job with its lease, and the two ends.
\<close>

record upload_budget =
  ub_bytes :: int
  ub_limit_err :: err

definition reserve_upload_budget ::
  "int \<Rightarrow> int \<Rightarrow> int result \<Rightarrow> mgr \<Rightarrow> upload_budget result \<times> mgr" where
  "reserve_upload_budget max_upload min_free free_space s =
    (if \<not> g_accepting s then (Inl (Sentinel ErrShuttingDown), s)
     else case free_space of
       Inl e \<Rightarrow> (Inl e, s)
     | Inr free \<Rightarrow>
         if free \<le> min_free \<or> free - min_free \<le> g_uploads s then (Inl (Sentinel ErrInsufficientSpace), s)
         else let usable = free - min_free - g_uploads s;
                  budget = (if usable < max_upload
                    then \<lparr>ub_bytes = usable, ub_limit_err = Sentinel ErrInsufficientSpace\<rparr>
                    else \<lparr>ub_bytes = max_upload, ub_limit_err = Sentinel ErrUploadTooLarge\<rparr>)
              in (Inr budget, s\<lparr>g_uploads := g_uploads s + ub_bytes budget\<rparr>))"

definition release_budget :: "upload_budget \<Rightarrow> mgr \<Rightarrow> mgr" where
  "release_budget b s = s\<lparr>g_uploads := g_uploads s - ub_bytes b\<rparr>"

definition accept_create ::
  "nat list option \<Rightarrow> err option \<Rightarrow> err option \<Rightarrow> save_env \<Rightarrow> time \<Rightarrow> int \<Rightarrow> mgr
    \<Rightarrow> manifest result \<times> mgr" where
  "accept_create rand mkdir_err sub_err env now ttl s =
    (case store_create rand mkdir_err sub_err env now ttl (g_disk s) of
       (Inl e, d) \<Rightarrow> (Inl e, s\<lparr>g_disk := d\<rparr>)
     | (Inr m, d) \<Rightarrow> (Inr m, acquire_lease (m_id m) (s\<lparr>g_disk := d\<rparr>)))"

text \<open>A failed upload: the directory is removed, whatever that gives, and the lease released.\<close>

definition accept_fail :: "delete_env \<Rightarrow> string \<Rightarrow> mgr \<Rightarrow> mgr" where
  "accept_fail env i s = release_lease i (s\<lparr>g_disk := snd (store_delete env i (g_disk s))\<rparr>)"

definition accept_finish ::
  "io_env \<Rightarrow> delete_env \<Rightarrow> job_file list \<Rightarrow> int \<Rightarrow> string \<Rightarrow> mgr \<Rightarrow> manifest result \<times> mgr" where
  "accept_finish io env files sum_bytes i s =
    (case update_job io i (\<lambda>m. Inr (accept_change files sum_bytes (io_finished io) m)) s of
       (Inl e, s1) \<Rightarrow> (Inl e, accept_fail env i s1)
     | (Inr m, s1) \<Rightarrow> (Inr m, release_lease i s1))"

end
