(* ===== verification/Remove_File.thy ===== *)
theory Remove_File
  imports Manager
begin

text \<open>
  Removing one uploaded file from a pending job, \<open>internal/jobs/remove.go\<close>. The operation
  writes the disk up to four times (the new manifest, the unlink, a rollback or the removal
  of the job), so the model returns every disk it passes through: the disks a crash can
  leave behind.
\<close>

record remove_env =
  re_read :: "err option"
  re_save :: save_env
  re_unlink :: "err option"
  re_rollback :: save_env
  re_delete :: delete_env
  re_now :: time

text \<open>\<open>os.Remove\<close> of an input: a missing file is an error, any other error is given.\<close>

definition unlink_input :: "err option \<Rightarrow> string \<Rightarrow> string \<Rightarrow> disk \<Rightarrow> err option \<times> disk" where
  "unlink_input fault i name d =
    (case d i of
       None \<Rightarrow> (Some (not_exist ''remove''), d)
     | Some j \<Rightarrow>
         if jd_input j name = None then (Some (not_exist ''remove''), d)
         else case fault of
                Some e \<Rightarrow> (Some e, d)
              | None \<Rightarrow> (None, d(i \<mapsto> j\<lparr>jd_input := (jd_input j)(name := None)\<rparr>)))"

definition rollback_save ::
  "save_env \<Rightarrow> manifest \<Rightarrow> err \<Rightarrow> disk \<Rightarrow> err \<times> disk" where
  "rollback_save env m cause d =
    (case store_save env m d of
       (Some e, d1) \<Rightarrow>
         (Joined [cause, Wrapped ''jobs: restore manifest after failed file removal'' e], d1)
     | (None, d1) \<Rightarrow> (cause, d1))"

text \<open>
  The part of \<open>RemoveFile\<close> that writes: the answer (\<open>Inr None\<close> when the whole job is gone)
  and the disks passed through, the last one last.
\<close>

definition remove_writes ::
  "remove_env \<Rightarrow> string \<Rightarrow> manifest \<Rightarrow> nat \<Rightarrow> disk \<Rightarrow> manifest option result \<times> disk list" where
  "remove_writes env i m index d =
    (let updated = remove_file_change index (re_now env) m;
         name = f_name (m_files m ! index)
     in case store_save (re_save env) updated d of
          (Some e, d1) \<Rightarrow>
            (case rollback_save (re_rollback env) m e d1 of (e', d2) \<Rightarrow> (Inl e', [d1, d2]))
        | (None, d1) \<Rightarrow>
            (case unlink_input (re_unlink env) i name d1 of
               (Some e, d2) \<Rightarrow>
                 let e1 = (if errors_is e OsErrNotExist then Joined [Sentinel ErrNotFound, e] else e)
                 in (case rollback_save (re_rollback env) m (Wrapped ''jobs: remove uploaded file'' e1) d2 of
                       (e', d3) \<Rightarrow> (Inl e', [d1, d2, d3]))
             | (None, d2) \<Rightarrow>
                 if m_files updated = [] then
                   (case store_delete (re_delete env) i d2 of
                      (Some e, d3) \<Rightarrow> (Inl e, [d1, d2, d3])
                    | (None, d3) \<Rightarrow> (Inr None, [d1, d2, d3]))
                 else (Inr (Some updated), [d1, d2])))"

definition remove_file_trace ::
  "remove_env \<Rightarrow> string \<Rightarrow> string \<Rightarrow> string \<Rightarrow> mgr \<Rightarrow> manifest option result \<times> disk list" where
  "remove_file_trace env root i fid s =
    (case validate_id i of Some e \<Rightarrow> (Inl e, []) | None \<Rightarrow>
     case validate_file_id fid of Some e \<Rightarrow> (Inl e, []) | None \<Rightarrow>
     case load_job (re_read env) i s of Inl e \<Rightarrow> (Inl e, []) | Inr m \<Rightarrow>
       if m_state m \<noteq> JobPending then (Inl (Sentinel ErrNotStartable), [])
       else if leased i s then (Inl (Sentinel ErrLeased), [])
       else case index_of_file (m_files m) fid of
              None \<Rightarrow> (Inl (Wrapped ''jobs: uploaded file not found'' (Sentinel ErrNotFound)), [])
            | Some index \<Rightarrow>
     case input_dir_path root i of Inl e \<Rightarrow> (Inl e, []) | Inr input_dir \<Rightarrow>
     case resolve input_dir (f_name (m_files m ! index)) of Inl e \<Rightarrow> (Inl e, []) | Inr input_path \<Rightarrow>
       remove_writes env i m index (g_disk s))"

definition remove_file :: "remove_env \<Rightarrow> string \<Rightarrow> string \<Rightarrow> string \<Rightarrow> mgr \<Rightarrow> manifest option result \<times> mgr" where
  "remove_file env root i fid s =
    (case remove_file_trace env root i fid s of
       (r, ds) \<Rightarrow> (r, s\<lparr>g_disk := last (g_disk s # ds)\<rparr>))"

subsection \<open>Inputs on disk\<close>

text \<open>Every file a stored manifest lists has its input on disk, under a name of its own.\<close>

definition inputs_present :: "manifest \<Rightarrow> job_dir \<Rightarrow> bool" where
  "inputs_present m j \<longleftrightarrow>
    distinct (map f_name (m_files m)) \<and> (\<forall>f\<in>set (m_files m). jd_input j (f_name f) \<noteq> None)"

definition job_consistent :: "string \<Rightarrow> disk \<Rightarrow> bool" where
  "job_consistent i d \<longleftrightarrow>
    (\<forall>j m. d i = Some j \<longrightarrow> jd_manifest j = Some (Document m) \<longrightarrow> inputs_present m j)"

lemma inputs_present_written [simp]: "inputs_present (written m) j = inputs_present m j"
  by (simp add: inputs_present_def)

lemma inputs_present_input: "jd_input k = jd_input j \<Longrightarrow> inputs_present m k = inputs_present m j"
  by (simp add: inputs_present_def)

lemma without_index_set: "n < length xs \<Longrightarrow> set (take n xs @ drop (n + 1) xs) \<subseteq> set xs"
  using set_take_subset set_drop_subset by fastforce

lemma without_index_distinct:
  assumes "distinct (map f xs)" "n < length xs"
  shows "distinct (map f (take n xs @ drop (n + 1) xs))
    \<and> f (xs ! n) \<notin> f ` set (take n xs @ drop (n + 1) xs)"
proof -
  have "xs = take n xs @ xs ! n # drop (n + 1) xs"
    using assms(2) id_take_nth_drop by fastforce
  then have "distinct (map f (take n xs @ xs ! n # drop (n + 1) xs))" using assms(1) by simp
  then show ?thesis by auto
qed

lemma inputs_present_removed:
  assumes "inputs_present m j" "n < length (m_files m)"
  shows "inputs_present (remove_file_change n t m) j"
    and "inputs_present (remove_file_change n t m)
           (j\<lparr>jd_input := (jd_input j)(f_name (m_files m ! n) := None)\<rparr>)"
proof -
  let ?fs = "take n (m_files m) @ drop (n + 1) (m_files m)"
  have d: "distinct (map f_name ?fs)" "\<forall>f\<in>set ?fs. f_name f \<noteq> f_name (m_files m ! n)"
    using assms(1) without_index_distinct [OF _ assms(2), of f_name]
    unfolding inputs_present_def by (blast, metis image_eqI)
  have i: "\<forall>f\<in>set ?fs. jd_input j (f_name f) \<noteq> None"
    using assms(1) without_index_set [OF assms(2)] unfolding inputs_present_def by blast
  have fs: "m_files (remove_file_change n t m) = ?fs" by (simp add: remove_file_change_def)
  show "inputs_present (remove_file_change n t m) j"
    unfolding inputs_present_def fs using d(1) i by blast
  show "inputs_present (remove_file_change n t m)
           (j\<lparr>jd_input := (jd_input j)(f_name (m_files m ! n) := None)\<rparr>)"
    unfolding inputs_present_def fs using d i by simp
qed

text \<open>Publishing a manifest whose inputs are there keeps the job consistent.\<close>

lemma save_consistent:
  assumes "store_save env m d = (r, d')" and "job_consistent (m_id m) d"
    and "\<And>j. d (m_id m) = Some j \<Longrightarrow> inputs_present m j"
  shows "job_consistent (m_id m) d'
    \<and> map_option jd_input (d' (m_id m)) = map_option jd_input (d (m_id m))"
  using store_save_cases [OF assms(1)]
proof
  assume "d' = d \<and> r \<noteq> None"
  then show ?thesis using assms(2) by simp
next
  assume p: "d' = put_manifest (m_id m) (Document (written m)) d \<and> validate_id (m_id m) = None
    \<and> d (m_id m) \<noteq> None"
  then obtain j where j: "d (m_id m) = Some j" by auto
  have "inputs_present m (j\<lparr>jd_manifest := Some (Document (written m))\<rparr>)"
    using assms(3) [OF j] inputs_present_input by (metis job_dir.select_convs(2) job_dir.surjective job_dir.update_convs(1))
  then show ?thesis using p j by (auto simp: job_consistent_def)
qed

lemma delete_empty_consistent:
  assumes "store_delete env i d = (r, d')" and "job_consistent i d"
    and "\<And>j m. d i = Some j \<Longrightarrow> jd_manifest j = Some (Document m) \<Longrightarrow> m_files m = []"
  shows "job_consistent i d'"
proof -
  have R: "job_consistent i (d(i := map_option (leftover x) (d i)))" for x
    using assms(3) by (auto simp: job_consistent_def inputs_present_def leftover_def split: if_splits)
  show ?thesis
    using assms(1)
  proof (cases rule: store_delete_cases)
    case (restored x e m q)
    have "m_id m = i" using restored(1) by (rule store_load_id)
    then show ?thesis
      using save_consistent [OF restored(3)] R restored(2) by (simp add: inputs_present_def)
  qed (use assms(2) R in \<open>auto simp: job_consistent_def\<close>)
qed

lemma rollback_disk: "snd (rollback_save env m e d) = snd (store_save env m d)"
  by (simp add: rollback_save_def split: prod.splits option.splits)

text \<open>The first save publishes a manifest without the file; a rollback is always safe after it.\<close>

lemma first_save:
  assumes "d i = Some j" "jd_manifest j = Some (Document m)" "m_id m = i" "inputs_present m j"
    and "n < length (m_files m)" and "store_save env (remove_file_change n t m) d = (x, d1)"
  shows "job_consistent i d1" and "\<exists>j1. d1 i = Some j1 \<and> jd_input j1 = jd_input j
    \<and> (x = None \<longrightarrow> jd_manifest j1 = Some (Document (written (remove_file_change n t m))))"
proof -
  have id: "m_id (remove_file_change n t m) = i" using assms(3) by (simp add: remove_file_change_def)
  have "job_consistent i d" using assms(1,2,4) by (simp add: job_consistent_def)
  then have S: "job_consistent i d1 \<and> map_option jd_input (d1 i) = map_option jd_input (d i)"
    using save_consistent [OF assms(6)] inputs_present_removed(1) [OF assms(4,5)] assms(1) id by simp
  then show "job_consistent i d1" by simp
  show "\<exists>j1. d1 i = Some j1 \<and> jd_input j1 = jd_input j
    \<and> (x = None \<longrightarrow> jd_manifest j1 = Some (Document (written (remove_file_change n t m))))"
    using S assms(1) store_save_cases [OF assms(6)] id by auto
qed

lemma rollback_consistent:
  assumes "job_consistent i d1" "d1 i = Some j1" "inputs_present m j1" "m_id m = i"
    and "rollback_save env m e d1 = (e', d2)"
  shows "job_consistent i d2"
proof -
  obtain q where "store_save env m d1 = (q, d2)"
    using assms(5) rollback_disk [of env m e d1] by (metis prod.collapse snd_conv)
  from save_consistent [OF this] assms show ?thesis by simp
qed

lemma remove_writes_safe:
  assumes "d i = Some j" "jd_manifest j = Some (Document m)" "m_id m = i" "inputs_present m j"
    and "n < length (m_files m)" and "remove_writes env i m n d = (r, ds)"
  shows "(\<forall>d'\<in>set ds. job_consistent i d') \<and> (r = Inr None \<longrightarrow> last (d # ds) i = None)
    \<and> (\<forall>m'. r = Inr (Some m') \<longrightarrow> m' = remove_file_change n (re_now env) m \<and> m_files m' \<noteq> [])"
proof -
  let ?u = "remove_file_change n (re_now env) m"
  let ?name = "f_name (m_files m ! n)"
  obtain x d1 where s1: "store_save (re_save env) ?u d = (x, d1)" by fastforce
  note F = first_save [OF assms(1-5) s1]
  obtain j1 where j1: "d1 i = Some j1" "jd_input j1 = jd_input j"
      "x = None \<longrightarrow> jd_manifest j1 = Some (Document (written ?u))" using F(2) by blast
  have m1: "inputs_present m j1" using assms(4) j1(2) inputs_present_input by blast
  show ?thesis
  proof (cases x)
    case (Some e)
    then show ?thesis
      using assms(6) s1 F(1) rollback_consistent [OF F(1) j1(1) m1 assms(3)]
      by (auto simp: remove_writes_def split: prod.splits)
  next
    case None
    obtain y d2 where u: "unlink_input (re_unlink env) i ?name d1 = (y, d2)" by fastforce
    show ?thesis
    proof (cases y)
      case (Some e)
      then have "d2 = d1" using u by (auto simp: unlink_input_def split: option.splits if_splits)
      then show ?thesis
        using assms(6) s1 None u Some F(1) rollback_consistent [OF F(1) j1(1) m1 assms(3)]
        by (auto simp: remove_writes_def Let_def split: prod.splits)
    next
      case unlinked: None
      let ?j2 = "j1\<lparr>jd_input := (jd_input j1)(?name := None)\<rparr>"
      have d2: "d2 = d1(i \<mapsto> ?j2)"
        using u unlinked j1(1) by (auto simp: unlink_input_def split: option.splits if_splits)
      have c2: "job_consistent i d2"
        using d2 None j1(3) inputs_present_removed(2) [OF m1 assms(5)] by (simp add: job_consistent_def)
      have c3: "job_consistent i d3"
        if "m_files ?u = []" "store_delete (re_delete env) i d2 = (q, d3)" for q d3
        by (rule delete_empty_consistent [OF that(2) c2]) (use d2 None j1(3) that(1) in auto)
      have g: "d3 i = None" if "store_delete (re_delete env) i d2 = (None, d3)" for d3
        using that by (cases rule: store_delete_cases) auto
      show ?thesis
        using assms(6) s1 None u unlinked F(1) c2 c3 g
        by (auto simp: remove_writes_def Let_def split: prod.splits if_splits option.splits)
    qed
  qed
qed

lemma store_load_document:
  "store_load re i d = Inr m \<Longrightarrow> \<exists>j. d i = Some j \<and> jd_manifest j = Some (Document m) \<and> m_id m = i"
  by (auto simp: store_load_def Let_def split: option.splits sum.splits payload.splits if_splits)

subsection \<open>Properties\<close>

text \<open>C9: Removing a file is crash safe: whichever of its disk operations fail, on every disk it passes
  through every file that the stored manifest lists still has its input. When it returns a manifest,
  exactly the named file was dropped from it; when it returns none, the job is gone.\<close>

theorem remove_file_crash_safe:
  assumes "remove_file_trace env root i fid s = (r, ds)" and "job_consistent i (g_disk s)"
  shows "(\<forall>d\<in>set ds. job_consistent i d)
    \<and> (r = Inr None \<longrightarrow> last (g_disk s # ds) i = None)
    \<and> (\<forall>m'. r = Inr (Some m') \<longrightarrow>
        (\<exists>m n. load_job (re_read env) i s = Inr m \<and> index_of_file (m_files m) fid = Some n
           \<and> m' = remove_file_change n (re_now env) m \<and> m_files m' \<noteq> []))"
proof (cases "\<exists>e. (r, ds) = (Inl e, [])")
  case True
  then show ?thesis by auto
next
  case False
  then obtain m n where m: "load_job (re_read env) i s = Inr m" "index_of_file (m_files m) fid = Some n"
      "remove_writes env i m n (g_disk s) = (r, ds)"
    using assms(1) unfolding remove_file_trace_def
    by (auto split: option.splits sum.splits if_splits)
  obtain j where j: "g_disk s i = Some j" "jd_manifest j = Some (Document m)" "m_id m = i"
    using m(1) store_load_document unfolding load_job_def by blast
  have "inputs_present m j" using assms(2) j by (simp add: job_consistent_def)
  from remove_writes_safe [OF j this _ m(3)] index_of_file_Some [OF m(2)] m show ?thesis by auto
qed

definition sample_disk :: disk where
  "sample_disk = [''AAECAwQFBgcICQoLDA0ODw'' \<mapsto>
     empty_dir\<lparr>jd_manifest := Some (Document sample_manifest), jd_input := [''a.png'' \<mapsto> 9]\<rparr>]"

definition sample_manager :: mgr where
  "sample_manager = \<lparr>g_disk = sample_disk, g_accepting = True, g_closed = False, g_queue = [],
     g_depth = 1, g_controls = {}, g_stopped = {}, g_leases = {#}, g_uploads = 0, g_queued = 0,
     g_running = 0, g_slots = 0, g_max = 1, g_workers = [Idle], g_probes = 0, g_downloads = {#},
     g_intakes = {#}, g_used = {''AAECAwQFBgcICQoLDA0ODw''},
     g_budgets = {#}\<rparr>"

lemma load_sample: "load_job None ''AAECAwQFBgcICQoLDA0ODw'' sample_manager = Inr sample_manifest"
  by (simp add: load_job_def store_load_def sample_id_valid sample_manager_def sample_disk_def
      sample_manifest_def new_manifest_def)

theorem remove_file_crash_safe_witness:
  "\<exists>ds. remove_file_trace
      \<lparr>re_read = None, re_save = no_save_faults, re_unlink = None, re_rollback = no_save_faults,
       re_delete = \<lparr>de_stat = None, de_read = None, de_remove = None, de_save = no_save_faults\<rparr>,
       re_now = 8\<rparr> ''/data'' ''AAECAwQFBgcICQoLDA0ODw'' ''f001'' sample_manager = (Inr None, ds)
    \<and> length ds = 3 \<and> (\<forall>d\<in>set ds. job_consistent ''AAECAwQFBgcICQoLDA0ODw'' d)"
proof -
  let ?i = "''AAECAwQFBgcICQoLDA0ODw''"
  let ?env = "\<lparr>re_read = None, re_save = no_save_faults, re_unlink = None, re_rollback = no_save_faults,
       re_delete = \<lparr>de_stat = None, de_read = None, de_remove = None, de_save = no_save_faults\<rparr>,
       re_now = 8\<rparr>"
  have fid: "validate_file_id ''f001'' = None" by code_simp
  have dir: "input_dir_path ''/data'' ?i = Inr ''/data/jobs/AAECAwQFBgcICQoLDA0ODw/input''"
    by (simp add: input_dir_path_def sub_dir_path_def job_dir_path_def sample_id_valid join_path_def
        clean_path_def path_parts_def is_abs_def has_prefix_def render_path_def)
  have res: "\<exists>p. resolve ''/data/jobs/AAECAwQFBgcICQoLDA0ODw/input'' ''a.png'' = Inr p"
    by (simp add: resolve_Inr plain_name_def)
  have w: "\<exists>ds. remove_writes ?env ?i sample_manifest 0 sample_disk = (Inr None, ds) \<and> length ds = 3"
    by (simp add: remove_writes_def remove_file_change_def sample_manifest_def new_manifest_def
        store_save_def no_save_faults_def sample_disk_def sync_dir_def directory_sync_error_def Let_def
        unlink_input_def put_manifest_def store_delete_def sample_id_valid sample_file_def)
  have sel: "m_state sample_manifest = JobPending" "index_of_file (m_files sample_manifest) ''f001'' = Some 0"
      "f_name (m_files sample_manifest ! 0) = ''a.png''" "\<not> leased ?i sample_manager"
      "g_disk sample_manager = sample_disk"
    by (simp_all add: sample_manifest_def sample_file_def new_manifest_def leased_def sample_manager_def)
  obtain p where p: "resolve ''/data/jobs/AAECAwQFBgcICQoLDA0ODw/input'' ''a.png'' = Inr p"
    using res by blast
  obtain ds where ds: "remove_writes ?env ?i sample_manifest 0 sample_disk = (Inr None, ds)" "length ds = 3"
    using w by blast
  have t: "remove_file_trace ?env ''/data'' ?i ''f001'' sample_manager = (Inr None, ds)"
    by (simp add: remove_file_trace_def sample_id_valid fid load_sample sel dir p ds)
  have "job_consistent ?i (g_disk sample_manager)"
    by (simp add: job_consistent_def sample_manager_def sample_disk_def inputs_present_def
        sample_manifest_def sample_file_def)
  from remove_file_crash_safe [OF t this] t ds(2) show ?thesis by blast
qed

end
