(* ===== verification/Manager_Safety.thy ===== *)
theory Manager_Safety
  imports Remove_File
begin

text \<open>
  The job manager as a transition system: every locked section of its operations is one
  step, in any order and with any outcome of the system calls. The invariant ties the
  counters, the leases and the semaphore to the workers, and the stored manifests to the
  workers and uploads that own them.
\<close>

subsection \<open>Steps\<close>

inductive mstep :: "mgr \<Rightarrow> mgr \<Rightarrow> bool" where
  step_start: "start_job io sel i s = (r, t) \<Longrightarrow> mstep s t"
| step_cancel: "cancel_job io i s = (r, t) \<Longrightarrow> mstep s t"
| step_delete_begin: "delete_begin re i s = (r, t) \<Longrightarrow> mstep s t"
| step_delete_finish: "delete_finish env i s = (r, t) \<Longrightarrow> mstep s t"
| step_lease: "lease_job re i s = (None, t) \<Longrightarrow> mstep s (t\<lparr>g_downloads := add_mset i (g_downloads t)\<rparr>)"
| step_release: "i \<in># g_downloads s \<Longrightarrow>
    mstep s ((release_lease i s)\<lparr>g_downloads := g_downloads s - {#i#}\<rparr>)"
| step_remove: "remove_file env root i fid s = (r, t) \<Longrightarrow> mstep s t"
| step_cleanup: "cleanup_job re env now i s = (b, t) \<Longrightarrow> mstep s t"
| step_stop: "mstep s (stop_intake s)"
| step_shutdown: "mstep s (shutdown s)"
| step_worker: "run_worker env k s = Some t \<Longrightarrow> mstep s t"
| step_reserve: "reserve_upload_budget mu mf free s = (Inr b, t) \<Longrightarrow>
    mstep s (t\<lparr>g_budgets := add_mset (ub_bytes b) (g_budgets t)\<rparr>)"
| step_unreserve: "ub_bytes b \<in># g_budgets s \<Longrightarrow>
    mstep s ((release_budget b s)\<lparr>g_budgets := g_budgets s - {#ub_bytes b#}\<rparr>)"
| step_create: "accept_create rand mk sub env now ttl s = (Inr m, t) \<Longrightarrow> m_id m \<notin> g_used s \<Longrightarrow>
    mstep s (t\<lparr>g_intakes := add_mset (m_id m) (g_intakes t), g_used := insert (m_id m) (g_used t)\<rparr>)"
| step_create_error: "accept_create rand mk sub env now ttl s = (Inl e, t) \<Longrightarrow> mstep s t"
| step_accept_fail: "i \<in># g_intakes s \<Longrightarrow>
    mstep s ((accept_fail env i s)\<lparr>g_intakes := g_intakes s - {#i#}\<rparr>)"
| step_accept_finish: "i \<in># g_intakes s \<Longrightarrow> received_ok fs \<Longrightarrow>
    accept_finish io env fs n i s = (r, t) \<Longrightarrow> mstep s (t\<lparr>g_intakes := g_intakes s - {#i#}\<rparr>)"
| step_probe: "g_slots s < g_max s \<Longrightarrow>
    mstep s (s\<lparr>g_slots := g_slots s + 1, g_probes := g_probes s + 1\<rparr>)"
| step_probe_end: "0 < g_probes s \<Longrightarrow>
    mstep s (s\<lparr>g_slots := g_slots s - 1, g_probes := g_probes s - 1\<rparr>)"
| step_content: "g_disk s i = Some j \<Longrightarrow> jd_manifest k = jd_manifest j \<Longrightarrow>
    mstep s (s\<lparr>g_disk := (g_disk s)(i \<mapsto> k)\<rparr>)"

text \<open>
  The last rule is an upload storing a part or the converter writing an output: files of a
  job beside its manifest. \<open>RecoverInterrupted\<close> is no step: the server runs it before it
  listens, so its effect is part of the start state.
\<close>

subsection \<open>What a worker holds\<close>

fun worker_lease :: "worker \<Rightarrow> string multiset" where
  "worker_lease (Claiming i c) = {#i#}"
| "worker_lease (Looping i c fs) = {#i#}"
| "worker_lease (Beginning i c f fs) = {#i#}"
| "worker_lease (Waiting i c f fs) = {#i#}"
| "worker_lease (Holding i c f fs) = {#i#}"
| "worker_lease (Recording i c f fs v b) = {#i#}"
| "worker_lease (Finalizing i c b) = {#i#}"
| "worker_lease (Releasing i c) = {#i#}"
| "worker_lease _ = {#}"

text \<open>The job a worker has set running and not yet finalized.\<close>

fun worker_claim :: "worker \<Rightarrow> string option" where
  "worker_claim (Looping i c fs) = Some i"
| "worker_claim (Beginning i c f fs) = Some i"
| "worker_claim (Waiting i c f fs) = Some i"
| "worker_claim (Holding i c f fs) = Some i"
| "worker_claim (Recording i c f fs v b) = Some i"
| "worker_claim (Finalizing i c b) = Some i"
| "worker_claim _ = None"

fun worker_slot :: "worker \<Rightarrow> nat" where
  "worker_slot (Holding i c f fs) = 1"
| "worker_slot (Recording i c f fs v b) = (if b then 1 else 0)"
| "worker_slot _ = 0"

fun worker_received :: "worker \<Rightarrow> int" where
  "worker_received (Received i) = 1"
| "worker_received _ = 0"

fun worker_busy :: "worker \<Rightarrow> int" where
  "worker_busy Idle = 0"
| "worker_busy Exited = 0"
| "worker_busy (Received i) = 0"
| "worker_busy _ = 1"

lemma sum_list_update_eq:
  fixes g :: "'a \<Rightarrow> 'b :: comm_monoid_add"
  shows "k < length ws \<Longrightarrow> sum_list (map g (ws[k := w])) + g (ws ! k) = sum_list (map g ws) + g w"
  by (induction ws arbitrary: k) (auto simp: nth_Cons' ac_simps split: nat.splits)

lemma sum_list_mset_member: "w \<in> set ws \<Longrightarrow> g w \<subseteq># sum_list (map g ws)"
  by (induction ws) (auto intro: subset_mset.add_increasing subset_mset.add_increasing2)

lemma sum_list_nat_member: "w \<in> set ws \<Longrightarrow> (g w :: nat) \<le> sum_list (map g ws)"
  by (induction ws) auto

subsection \<open>The invariant of the counters\<close>

definition counters_good :: "mgr \<Rightarrow> bool" where
  "counters_good s \<longleftrightarrow>
    length (g_queue s) \<le> g_depth s
    \<and> g_queued s = int (length (g_queue s)) + sum_list (map worker_received (g_workers s))
    \<and> g_running s = sum_list (map worker_busy (g_workers s))
    \<and> g_leases s = g_downloads s + g_intakes s + sum_list (map worker_lease (g_workers s))
    \<and> g_slots s = g_probes s + sum_list (map worker_slot (g_workers s))
    \<and> g_slots s \<le> g_max s
    \<and> g_uploads s = sum_mset (g_budgets s)"

text \<open>The fields no update of a manifest touches.\<close>

lemma update_job_frame:
  assumes "update_job io i f s = (r, t)"
  shows "t = s\<lparr>g_disk := g_disk t\<rparr>"
  using assms by (auto simp: update_job_def split: prod.splits)

text \<open>
  One step of a worker, seen by the counters: what it takes from the state it holds itself.
\<close>

lemma worker_step_counters:
  assumes "worker_step env w s = Some (w', t)"
  shows "int (length (g_queue t)) + worker_received w' - g_queued t
      = int (length (g_queue s)) + worker_received w - g_queued s"
    and "length (g_queue t) \<le> length (g_queue s)"
    and "worker_busy w' - g_running t = worker_busy w - g_running s"
    and "g_leases s = A + worker_lease w \<Longrightarrow> g_leases t = A + worker_lease w'"
    and "g_slots s = n + worker_slot w \<Longrightarrow> g_slots t = n + worker_slot w'"
    and "g_slots s \<le> g_max s \<Longrightarrow> g_slots t \<le> g_max t"
    and "g_workers t = g_workers s \<and> g_depth t = g_depth s \<and> g_max t = g_max s
      \<and> g_probes t = g_probes s \<and> g_downloads t = g_downloads s \<and> g_intakes t = g_intakes s
      \<and> g_uploads t = g_uploads s \<and> g_budgets t = g_budgets s \<and> g_used t = g_used s"
proof -
  have *: "int (length (g_queue t)) + worker_received w' - g_queued t
      = int (length (g_queue s)) + worker_received w - g_queued s
    \<and> length (g_queue t) \<le> length (g_queue s)
    \<and> worker_busy w' - g_running t = worker_busy w - g_running s
    \<and> (g_leases s = A + worker_lease w \<longrightarrow> g_leases t = A + worker_lease w')
    \<and> (g_slots s = n + worker_slot w \<longrightarrow> g_slots t = n + worker_slot w')
    \<and> (g_slots s \<le> g_max s \<longrightarrow> g_slots t \<le> g_max t)
    \<and> g_workers t = g_workers s \<and> g_depth t = g_depth s \<and> g_max t = g_max s
      \<and> g_probes t = g_probes s \<and> g_downloads t = g_downloads s \<and> g_intakes t = g_intakes s
      \<and> g_uploads t = g_uploads s \<and> g_budgets t = g_budgets s \<and> g_used t = g_used s"
    using assms
    by (cases rule: worker_step.cases [of "(env, w, s)"])
       (auto simp: update_job_def lease_job_def acquire_lease_def release_lease_def
         split: prod.splits sum.splits list.splits if_splits option.splits)
  then show "int (length (g_queue t)) + worker_received w' - g_queued t
      = int (length (g_queue s)) + worker_received w - g_queued s"
    and "length (g_queue t) \<le> length (g_queue s)"
    and "worker_busy w' - g_running t = worker_busy w - g_running s"
    and "g_leases s = A + worker_lease w \<Longrightarrow> g_leases t = A + worker_lease w'"
    and "g_slots s = n + worker_slot w \<Longrightarrow> g_slots t = n + worker_slot w'"
    and "g_slots s \<le> g_max s \<Longrightarrow> g_slots t \<le> g_max t"
    and "g_workers t = g_workers s \<and> g_depth t = g_depth s \<and> g_max t = g_max s
      \<and> g_probes t = g_probes s \<and> g_downloads t = g_downloads s \<and> g_intakes t = g_intakes s
      \<and> g_uploads t = g_uploads s \<and> g_budgets t = g_budgets s \<and> g_used t = g_used s"
    by blast+
qed

lemma run_worker_Some:
  "run_worker env k s = Some t \<Longrightarrow> k < length (g_workers s) \<and>
    (\<exists>w t0. worker_step env (g_workers s ! k) s = Some (w, t0) \<and> t = t0\<lparr>g_workers := (g_workers s)[k := w]\<rparr>)"
  by (auto simp: run_worker_def split: if_splits option.splits)

lemma counters_worker:
  assumes "run_worker env k s = Some t" and "counters_good s"
  shows "counters_good t"
proof -
  obtain w t0 where k: "k < length (g_workers s)"
    and w: "worker_step env (g_workers s ! k) s = Some (w, t0)"
    and t: "t = t0\<lparr>g_workers := (g_workers s)[k := w]\<rparr>"
    using run_worker_Some [OF assms(1)] by blast
  let ?ws = "g_workers s"
  let ?ws' = "?ws[k := w]"
  note U = sum_list_update_eq [OF k]
  note S = worker_step_counters [OF w]
  have q: "length (g_queue t) \<le> g_depth t"
    using S(2,7) assms(2) by (simp add: t counters_good_def)
  have queued: "g_queued t = int (length (g_queue t)) + sum_list (map worker_received ?ws')"
    using S(1) U [of worker_received w] assms(2) by (simp add: t counters_good_def)
  have running: "g_running t = sum_list (map worker_busy ?ws')"
    using S(3) U [of worker_busy w] assms(2) by (simp add: t counters_good_def)
  have le: "worker_lease (?ws ! k) \<subseteq># sum_list (map worker_lease ?ws)"
    using k by (intro sum_list_mset_member) simp
  then obtain B where B: "sum_list (map worker_lease ?ws) = worker_lease (?ws ! k) + B"
    by (auto simp: subset_mset.le_iff_add)
  have "g_leases s = (g_downloads s + g_intakes s + B) + worker_lease (?ws ! k)"
    using assms(2) B by (simp add: counters_good_def ac_simps)
  then have "g_leases t = (g_downloads s + g_intakes s + B) + worker_lease w" using S(4) by (simp add: t)
  moreover have "sum_list (map worker_lease ?ws') = B + worker_lease w"
    using U [of worker_lease w] B by (simp add: ac_simps)
  ultimately have leases: "g_leases t = g_downloads t + g_intakes t + sum_list (map worker_lease ?ws')"
    using S(7) by (simp add: t ac_simps)
  have sle: "worker_slot (?ws ! k) \<le> sum_list (map worker_slot ?ws)"
    using k by (intro sum_list_nat_member) simp
  define n where "n = g_probes s + (sum_list (map worker_slot ?ws) - worker_slot (?ws ! k))"
  have "g_slots s = n + worker_slot (?ws ! k)"
    using sle assms(2) by (simp add: n_def counters_good_def)
  then have "g_slots t = n + worker_slot w" using S(5) by (simp add: t)
  then have slots: "g_slots t = g_probes t + sum_list (map worker_slot ?ws')"
    using U [of worker_slot w] sle S(7) by (simp add: t n_def)
  have "g_slots t \<le> g_max t" "g_uploads t = sum_mset (g_budgets t)"
    using S(6,7) assms(2) by (auto simp: t counters_good_def)
  then show ?thesis
    using q queued running leases slots by (simp add: counters_good_def t)
qed

text \<open>Operations that change none of the counted fields.\<close>

lemma counters_cong:
  assumes "counters_good s" and "g_queue t = g_queue s" "g_depth t = g_depth s" "g_queued t = g_queued s"
    "g_running t = g_running s" "g_leases t = g_leases s" "g_downloads t = g_downloads s"
    "g_intakes t = g_intakes s" "g_slots t = g_slots s" "g_probes t = g_probes s" "g_max t = g_max s"
    "g_uploads t = g_uploads s" "g_budgets t = g_budgets s" "g_workers t = g_workers s"
  shows "counters_good t"
  using assms by (simp add: counters_good_def)

lemma stop_control_frame [simp]:
  "g_queue (stop_control i s) = g_queue s" "g_depth (stop_control i s) = g_depth s"
  "g_queued (stop_control i s) = g_queued s" "g_running (stop_control i s) = g_running s"
  "g_leases (stop_control i s) = g_leases s" "g_downloads (stop_control i s) = g_downloads s"
  "g_intakes (stop_control i s) = g_intakes s" "g_slots (stop_control i s) = g_slots s"
  "g_probes (stop_control i s) = g_probes s" "g_max (stop_control i s) = g_max s"
  "g_uploads (stop_control i s) = g_uploads s" "g_budgets (stop_control i s) = g_budgets s"
  "g_workers (stop_control i s) = g_workers s" "g_disk (stop_control i s) = g_disk s"
  "g_used (stop_control i s) = g_used s" "g_controls (stop_control i s) = g_controls s"
  by (simp_all add: stop_control_def)

lemma counters_start:
  assumes "start_job io sel i s = (r, t)" and "counters_good s"
  shows "counters_good t"
proof (cases "\<exists>m. r = Inr m")
  case False
  then show ?thesis
    using assms
    by (auto simp: start_job_def update_job_def split: if_splits prod.splits sum.splits
        elim!: counters_cong)
next
  case True
  then obtain m s1 where m: "update_job io i (start_change sel (length (g_queue s) = g_depth s)) s = (Inr m, s1)"
    and t: "t = s1\<lparr>g_controls := insert i (g_controls s1), g_queued := g_queued s1 + 1,
        g_queue := g_queue s1 @ [i]\<rparr>"
    using assms(1) by (auto simp: start_job_def split: if_splits prod.splits sum.splits)
  have "\<exists>m0 m'. start_change sel (length (g_queue s) = g_depth s) m0 = Inr m'"
    using m by (auto simp: update_job_def store_update_def Let_def split: sum.splits prod.splits option.splits)
  then have "length (g_queue s) \<noteq> g_depth s"
    by (auto simp: start_change_def split: if_splits sum.splits)
  then have "length (g_queue s) < g_depth s" using assms(2) by (simp add: counters_good_def)
  moreover obtain d where "s1 = s\<lparr>g_disk := d\<rparr>" using update_job_frame [OF m] by blast
  ultimately show ?thesis
    using assms(2) by (simp add: t counters_good_def)
qed

lemma counters_disk [simp]: "counters_good (s\<lparr>g_disk := d\<rparr>) = counters_good s"
  by (simp add: counters_good_def)

lemma counters_stop_control [simp]: "counters_good (stop_control i s) = counters_good s"
  by (simp add: counters_good_def)

lemma counters_update:
  "update_job io i f s = (r, t) \<Longrightarrow> counters_good t = counters_good s"
  using update_job_frame [of io i f s r t] counters_disk by metis

lemma sum_mset_remove: "(b :: int) \<in># B \<Longrightarrow> sum_mset (B - {#b#}) = sum_mset B - b"
  by (simp add: sum_mset_diff)

lemma counters_intake_end:
  assumes "counters_good s" and "i \<in># g_intakes s"
  shows "counters_good ((release_lease i s)\<lparr>g_intakes := g_intakes s - {#i#}\<rparr>)"
  using assms by (simp add: counters_good_def release_lease_def)

lemma counters_step:
  assumes "mstep s t" and "counters_good s"
  shows "counters_good t"
  using assms(1)
proof cases
  case (step_start io sel i r)
  then show ?thesis using counters_start assms(2) by blast
next
  case (step_cancel io i r)
  then show ?thesis
    using assms(2) counters_update by (fastforce simp: cancel_job_def split: sum.splits if_splits)
next
  case (step_delete_begin re i r)
  then show ?thesis using assms(2) by (auto simp: delete_begin_def split: option.splits sum.splits)
next
  case (step_delete_finish env i r)
  then show ?thesis
    using assms(2)
    by (auto simp: delete_finish_def Let_def split: if_splits prod.splits option.splits elim!: counters_cong)
next
  case (step_lease re i u)
  then show ?thesis
    using assms(2) by (auto simp: lease_job_def acquire_lease_def counters_good_def split: sum.splits)
next
  case (step_release i)
  then show ?thesis
    using assms(2) by (simp add: release_lease_def counters_good_def)
next
  case (step_remove env root i fid r)
  then show ?thesis using assms(2) by (auto simp: remove_file_def split: prod.splits)
next
  case (step_cleanup re env now i b)
  then show ?thesis
    using assms(2)
    by (auto simp: cleanup_job_def split: sum.splits if_splits prod.splits elim!: counters_cong)
next
  case step_stop
  then show ?thesis using assms(2) by (auto simp: stop_intake_def elim!: counters_cong)
next
  case step_shutdown
  then show ?thesis using assms(2) by (auto simp: shutdown_def stop_intake_def elim!: counters_cong)
next
  case (step_worker env k)
  then show ?thesis using counters_worker assms(2) by blast
next
  case (step_reserve mu mf free b u)
  then show ?thesis
    using assms(2) by (auto simp: reserve_upload_budget_def Let_def counters_good_def split: if_splits sum.splits)
next
  case (step_unreserve b)
  then show ?thesis
    using assms(2) by (simp add: release_budget_def counters_good_def sum_mset_remove)
next
  case (step_create rand mk sub env now ttl m u)
  then show ?thesis
    using assms(2)
    by (auto simp: accept_create_def acquire_lease_def counters_good_def split: prod.splits sum.splits)
next
  case (step_create_error rand mk sub env now ttl e)
  then show ?thesis using assms(2) by (auto simp: accept_create_def split: prod.splits sum.splits)
next
  case (step_accept_fail i env)
  then show ?thesis
    using counters_intake_end [of "s\<lparr>g_disk := snd (store_delete env i (g_disk s))\<rparr>" i] assms(2)
    by (simp add: accept_fail_def release_lease_def)
next
  case (step_accept_finish i fs io env n r u)
  obtain q s1 where q: "update_job io i (\<lambda>m. Inr (accept_change fs n (io_finished io) m)) s = (q, s1)"
    by fastforce
  obtain d1 where s1: "s1 = s\<lparr>g_disk := d1\<rparr>" using update_job_frame [OF q] by blast
  have "\<exists>d. u = release_lease i (s\<lparr>g_disk := d\<rparr>)"
    using step_accept_finish(4) q s1
    by (auto simp: accept_finish_def accept_fail_def split: sum.splits prod.splits)
  then obtain d where u: "u = release_lease i (s\<lparr>g_disk := d\<rparr>)" by blast
  then show ?thesis
    using counters_intake_end [of "s\<lparr>g_disk := d\<rparr>" i] assms(2) step_accept_finish(1,2)
    by (simp add: release_lease_def)
next
  case step_probe
  then show ?thesis using assms(2) by (auto simp: counters_good_def)
next
  case step_probe_end
  then show ?thesis using assms(2) by (auto simp: counters_good_def)
next
  case (step_content i j k)
  then show ?thesis using assms(2) by simp
qed

subsection \<open>The invariant of the stored manifests\<close>

definition stored :: "string \<Rightarrow> disk \<Rightarrow> manifest result" where
  "stored i d = store_load None i d"

definition evolves :: "manifest \<Rightarrow> manifest \<Rightarrow> bool" where
  "evolves m m' \<longleftrightarrow> (manifest_ok m \<longrightarrow> manifest_ok m' \<and> later m m')"

text \<open>
  The effect of an operation on the disk: only job \<open>i\<close> changes, what can be loaded of it
  evolved from what could be loaded before, and no directory appears.
\<close>

definition changes :: "string \<Rightarrow> disk \<Rightarrow> disk \<Rightarrow> bool" where
  "changes i d d' \<longleftrightarrow> (\<forall>k. k \<noteq> i \<longrightarrow> d' k = d k) \<and> (d' i \<noteq> None \<longrightarrow> d i \<noteq> None)
    \<and> (\<forall>m'. stored i d' = Inr m' \<longrightarrow> (\<exists>m. stored i d = Inr m \<and> evolves m m'))"

definition keeps :: "string \<Rightarrow> disk \<Rightarrow> disk \<Rightarrow> bool" where
  "keeps i d d' \<longleftrightarrow> (\<forall>m. stored i d = Inr m \<longrightarrow> (\<exists>m'. stored i d' = Inr m'))"

definition intake_kept :: "string \<Rightarrow> disk \<Rightarrow> disk \<Rightarrow> bool" where
  "intake_kept i d d' \<longleftrightarrow>
    (\<forall>m m'. stored i d = Inr m \<longrightarrow> stored i d' = Inr m' \<longrightarrow> intake_ok m \<longrightarrow> intake_ok m')"

lemma evolves_refl [simp]: "evolves m m"
  by (simp add: evolves_def)

lemma evolves_trans: "evolves a b \<Longrightarrow> evolves b c \<Longrightarrow> evolves a c"
  unfolding evolves_def using later_trans by blast

lemma evolves_written [simp]: "evolves a (written b) = evolves a b"
  by (simp add: evolves_def)

lemma changes_refl [simp]: "changes i d d" "keeps i d d" "intake_kept i d d"
  by (auto simp: changes_def keeps_def intake_kept_def)

lemma changes_trans: "changes i a b \<Longrightarrow> changes i b c \<Longrightarrow> changes i a c"
  unfolding changes_def using evolves_trans by (metis (no_types, lifting))

lemma stored_frame: "d' k = d k \<Longrightarrow> stored k d' = stored k d"
  unfolding stored_def by (rule store_load_frame)

lemma stored_id: "stored i d = Inr m \<Longrightarrow> m_id m = i"
  unfolding stored_def by (rule store_load_id)

text \<open>One update of a manifest, for a change that is correct on the manifest stored.\<close>

lemma store_save_disk_frame: "store_save env m d = (r, d') \<Longrightarrow> k \<noteq> m_id m \<Longrightarrow> d' k = d k"
  using store_save_cases by fastforce

lemma store_save_dir: "store_save env m d = (r, d') \<Longrightarrow> d' k = None \<longleftrightarrow> d k = None"
  using store_save_cases [of env m d r d'] by (cases "k = m_id m") auto

lemma update_changes:
  assumes "update_job io i f s = (r, t)"
    and f: "\<And>m m'. stored i (g_disk s) = Inr m \<Longrightarrow> f m = Inr m' \<Longrightarrow> manifest_ok m \<Longrightarrow>
      manifest_ok m' \<and> later m m'"
    and id: "\<And>m m'. f m = Inr m' \<Longrightarrow> m_id m' = m_id m"
  shows "changes i (g_disk s) (g_disk t)" and "keeps i (g_disk s) (g_disk t)"
    and "\<And>m'. r = Inr m' \<Longrightarrow> \<exists>m m1. stored i (g_disk s) = Inr m \<and> f m = Inr m1
      \<and> m' = m1\<lparr>m_updated_at := io_now io\<rparr> \<and> stored i (g_disk t) = Inr (written m')"
    and "(\<And>m m'. f m = Inr m' \<Longrightarrow> intake_ok m \<Longrightarrow> intake_ok m') \<Longrightarrow> intake_kept i (g_disk s) (g_disk t)"
proof -
  let ?d = "g_disk s" and ?d' = "g_disk t"
  have cases: "(?d' = ?d \<and> (\<forall>m'. r \<noteq> Inr m')) \<or> (\<exists>m m1 x.
      stored i ?d = Inr m \<and> f m = Inr m1
      \<and> store_save (io_save io) (m1\<lparr>m_updated_at := io_now io\<rparr>) ?d = (x, ?d')
      \<and> (\<forall>m'. r = Inr m' \<longrightarrow> x = None \<and> m' = m1\<lparr>m_updated_at := io_now io\<rparr>))"
  proof (cases "io_read io")
    case None
    then show ?thesis
      using assms(1) unfolding update_job_def store_update_def stored_def Let_def
      by (auto split: sum.splits option.splits prod.splits)
  next
    case (Some e)
    have "\<exists>x. store_load (Some e) i ?d = Inl x"
      by (auto simp: store_load_def Let_def split: option.splits sum.splits payload.splits)
    then show ?thesis
      using assms(1) Some unfolding update_job_def store_update_def by auto
  qed
  have main: "changes i ?d ?d' \<and> keeps i ?d ?d'
    \<and> ((\<forall>m m'. f m = Inr m' \<longrightarrow> intake_ok m \<longrightarrow> intake_ok m') \<longrightarrow> intake_kept i ?d ?d')
    \<and> (\<forall>m'. r = Inr m' \<longrightarrow> (\<exists>m m1. stored i ?d = Inr m \<and> f m = Inr m1
      \<and> m' = m1\<lparr>m_updated_at := io_now io\<rparr> \<and> stored i ?d' = Inr (written m')))"
    using cases
  proof (elim disjE exE conjE)
    assume "?d' = ?d" "\<forall>m'. r \<noteq> Inr m'"
    then show ?thesis by simp
  next
    fix m m1 :: manifest and x :: "err option"
    let ?n = "m1\<lparr>m_updated_at := io_now io\<rparr>"
    assume m: "stored i ?d = Inr m" "f m = Inr m1" "store_save (io_save io) ?n ?d = (x, ?d')"
      and r: "\<forall>m'. r = Inr m' \<longrightarrow> x = None \<and> m' = ?n"
    have i: "m_id ?n = i" using id [OF m(2)] stored_id [OF m(1)] by simp
    have e: "evolves m ?n" using f [OF m(1,2)] by (simp add: evolves_def)
    have L: "stored i ?d' = Inr m \<or> stored i ?d' = Inr (written ?n)"
      using disk_store.save_atomic [OF m(3)] m(1) i unfolding stored_def by simp
    have ok: "x = None \<Longrightarrow> stored i ?d' = Inr (written ?n)"
      using disk_store.save_ok m(3) i unfolding stored_def by metis
    have "changes i ?d ?d'"
      using store_save_disk_frame [OF m(3)] store_save_dir [OF m(3)] i L e m(1)
      unfolding changes_def by (metis evolves_refl evolves_written sum.inject(2))
    moreover have "keeps i ?d ?d'" using L by (auto simp: keeps_def)
    moreover have "intake_kept i ?d ?d'" if "\<forall>m m'. f m = Inr m' \<longrightarrow> intake_ok m \<longrightarrow> intake_ok m'"
      using L m(1,2) that by (auto simp: intake_kept_def)
    ultimately show ?thesis using r ok m(1,2) by blast
  qed
  show "changes i ?d ?d'" "keeps i ?d ?d'" using main by blast+
  show "\<exists>m m1. stored i ?d = Inr m \<and> f m = Inr m1
      \<and> m' = m1\<lparr>m_updated_at := io_now io\<rparr> \<and> stored i ?d' = Inr (written m')" if "r = Inr m'" for m'
    using main that by blast
  show "intake_kept i ?d ?d'" if "\<And>m m'. f m = Inr m' \<Longrightarrow> intake_ok m \<Longrightarrow> intake_ok m'"
    using main that by blast
qed

lemma delete_changes:
  assumes "store_delete env i d = (r, d')"
  shows "changes i d d'"
proof -
  have part: "changes i d (d(i := map_option (leftover x) (d i)))" for x
  proof -
    let ?d1 = "d(i := map_option (leftover x) (d i))"
    have "stored i ?d1 = stored i d \<or> (\<exists>e. stored i ?d1 = Inl e)"
    proof (cases "d i")
      case None
      then show ?thesis by (simp add: fun_upd_idem)
    next
      case (Some j)
      then show ?thesis
        by (cases "rm_manifest x"; cases "validate_id i")
           (simp_all add: stored_def store_load_def Let_def leftover_def)
    qed
    then show ?thesis unfolding changes_def by (cases "stored i d") auto
  qed
  show ?thesis
    using assms
  proof (cases rule: store_delete_cases)
    case removed
    then show ?thesis
      by (auto simp: changes_def stored_def store_load_def Let_def split: option.splits)
  next
    case (partial x)
    then show ?thesis using part by simp
  next
    case (restored x e m q)
    let ?d1 = "d(i := map_option (leftover x) (d i))"
    have i: "m_id m = i" using restored(1) by (rule store_load_id)
    have m: "stored i d = Inr m"
      using restored(1) store_load_document [OF restored(1)]
      by (auto simp: stored_def store_load_def split: option.splits)
    have "stored i d' = stored i ?d1 \<or> stored i d' = Inr (written m)"
      using disk_store.save_atomic [OF restored(3)] i unfolding stored_def by simp
    then have "\<exists>n. stored i d = Inr n \<and> evolves n m'" if "stored i d' = Inr m'" for m'
      using that m part [of x] unfolding changes_def by auto
    moreover have "d' k = d k" if "k \<noteq> i" for k
      using store_save_disk_frame [OF restored(3), of k] i that by simp
    moreover have "d' i \<noteq> None \<longrightarrow> d i \<noteq> None"
      using store_save_dir [OF restored(3), of i] by simp
    ultimately show ?thesis unfolding changes_def by blast
  qed simp
qed

lemma remove_changes:
  assumes "stored i d = Inr m" and "m_state m = JobPending" and "n < length (m_files m)"
    and "remove_writes env i m n d = (r, ds)"
  shows "changes i d (last (d # ds))"
proof -
  let ?u = "remove_file_change n (re_now env) m"
  have id: "m_id m = i" "m_id ?u = i"
    using stored_id [OF assms(1)] by (simp_all add: remove_file_change_def)
  have u: "evolves m ?u"
  proof -
    have "manifest_ok ?u" if "manifest_ok m"
      using that without_index_distinct [of f_id "m_files m" n] without_index_set [OF assms(3)] assms(2,3)
      unfolding manifest_ok_def remove_file_change_def by auto
    then show ?thesis using assms(2) by (simp add: evolves_def later_def remove_file_change_def)
  qed
  text \<open>The disks passed through hold one of the two manifests, or none.\<close>
  define near where "near e \<longleftrightarrow> (\<forall>k. k \<noteq> i \<longrightarrow> e k = d k) \<and> (e i \<noteq> None \<longrightarrow> d i \<noteq> None)
    \<and> (\<forall>m'. stored i e = Inr m' \<longrightarrow> evolves m m')" for e
  have near_changes: "near e \<Longrightarrow> changes i d e" for e
    using assms(1) by (auto simp: near_def changes_def)
  have near_d: "near d" using assms(1) by (simp add: near_def)
  have near_save: "near e'" if "near e" "store_save sv n e = (x, e')" "m_id n = i" "evolves m n" for e e' sv n x
  proof -
    have "stored i e' = stored i e \<or> stored i e' = Inr (written n)"
      using disk_store.save_atomic [OF that(2)] that(3) unfolding stored_def by simp
    then show ?thesis
      using that(1,3,4) store_save_disk_frame [OF that(2)] store_save_dir [OF that(2)]
      unfolding near_def by (metis evolves_written sum.inject(2))
  qed
  have near_unlink: "near e'" if "near e" "unlink_input fault i name e = (x, e')" for e e' fault name x
  proof -
    have "stored i e' = stored i e \<and> (\<forall>k. k \<noteq> i \<longrightarrow> e' k = e k) \<and> (e' i = None \<longleftrightarrow> e i = None)"
      using that(2) by (auto simp: unlink_input_def stored_def store_load_def split: option.splits if_splits)
    then show ?thesis using that(1) by (auto simp: near_def)
  qed
  have near_delete: "near e'" if "near e" "store_delete de i e = (x, e')" for e e' de x
    using that(1) delete_changes [OF that(2)] evolves_trans
    unfolding near_def changes_def by (metis (no_types, lifting))
  have near_rollback: "near e'" if "near e" "rollback_save sv m c e = (x, e')" for e e' sv c x
    using near_save [OF that(1) _ id(1)] rollback_disk [of sv m c e] that(2)
    by (metis evolves_refl prod.collapse snd_conv)
  obtain x d1 where s1: "store_save (re_save env) ?u d = (x, d1)" by fastforce
  have n1: "near d1" by (rule near_save [OF near_d s1 id(2) u])
  show ?thesis
  proof (cases x)
    case (Some e)
    obtain q d2 where r: "rollback_save (re_rollback env) m e d1 = (q, d2)" by fastforce
    have "ds = [d1, d2]" using assms(4) s1 Some r by (simp add: remove_writes_def)
    then show ?thesis using near_changes [OF near_rollback [OF n1 r]] by simp
  next
    case None
    obtain y d2 where ul: "unlink_input (re_unlink env) i (f_name (m_files m ! n)) d1 = (y, d2)" by fastforce
    have n2: "near d2" by (rule near_unlink [OF n1 ul])
    show ?thesis
      using assms(4) s1 None ul near_changes near_rollback [OF n2] near_delete [OF n2] n2
      by (auto simp: remove_writes_def Let_def split: prod.splits option.splits if_splits)
  qed
qed

subsection \<open>The invariant of jobs and their owners\<close>

definition claims :: "worker list \<Rightarrow> string set" where
  "claims ws = {i. \<exists>w\<in>set ws. worker_claim w = Some i}"

definition started_job :: "string \<Rightarrow> disk \<Rightarrow> bool" where
  "started_job i d \<longleftrightarrow> (\<exists>m. stored i d = Inr m \<and> JobRunning \<le> m_state m \<and> m_files m \<noteq> [])"

definition intake_job :: "string \<Rightarrow> disk \<Rightarrow> bool" where
  "intake_job i d \<longleftrightarrow> (\<exists>m. stored i d = Inr m \<and> intake_ok m)"

definition disk_good :: "mgr \<Rightarrow> bool" where
  "disk_good s \<longleftrightarrow>
    (\<forall>i m. stored i (g_disk s) = Inr m \<longrightarrow> manifest_ok m)
    \<and> (\<forall>i\<in>claims (g_workers s). started_job i (g_disk s))
    \<and> (\<forall>i. i \<in># g_intakes s \<longrightarrow> count (g_intakes s) i = 1 \<and> intake_job i (g_disk s))
    \<and> dom (g_disk s) \<subseteq> g_used s"

text \<open>A job cannot be both started and in the hands of an upload.\<close>

lemma started_not_intake: "started_job i d \<Longrightarrow> \<not> intake_job i d"
  by (auto simp: started_job_def intake_job_def intake_ok_def)

lemma started_kept:
  assumes "started_job i d" "changes i d d'" "keeps i d d'" "\<And>m. stored i d = Inr m \<Longrightarrow> manifest_ok m"
  shows "started_job i d'"
proof -
  obtain m where m: "stored i d = Inr m" "JobRunning \<le> m_state m" "m_files m \<noteq> []"
    using assms(1) by (auto simp: started_job_def)
  then obtain m' where m': "stored i d' = Inr m'" "evolves m m'"
    using assms(2,3) unfolding changes_def keeps_def by fastforce
  then have "later m m'" using assms(4) m(1) by (simp add: evolves_def)
  moreover have "m_state m \<noteq> JobPending" using m(2) by auto
  ultimately have "m_state m \<le> m_state m'" "m_files m' \<noteq> []"
    using m(3) by (auto simp: later_def)
  with m(2) m'(1) show ?thesis unfolding started_job_def by (meson order_trans)
qed

lemma changes_ok:
  assumes "changes i d d'" and "\<And>k m. stored k d = Inr m \<Longrightarrow> manifest_ok m" and "stored k d' = Inr m'"
  shows "manifest_ok m'"
proof (cases "k = i")
  case True
  then obtain m where "stored i d = Inr m" "evolves m m'"
    using assms(1,3) by (auto simp: changes_def)
  then show ?thesis using assms(2) [of i m] by (simp add: evolves_def)
next
  case False
  then have "stored k d' = stored k d"
    using assms(1) by (intro stored_frame) (simp add: changes_def)
  then show ?thesis using assms(3) by (intro assms(2) [of k]) simp
qed

text \<open>
  The main step: a change of one job keeps the invariant if that job is kept whenever someone
  owns it, and every newly claimed job was started.
\<close>

lemma disk_good_changes:
  assumes good: "disk_good s" and ch: "changes i (g_disk s) (g_disk t)"
    and k: "i \<in> claims (g_workers s) \<or> i \<in># g_intakes t \<Longrightarrow> keeps i (g_disk s) (g_disk t)"
    and int: "i \<in># g_intakes t \<Longrightarrow> intake_kept i (g_disk s) (g_disk t)"
    and ws: "claims (g_workers t) \<subseteq> claims (g_workers s) \<union> {j. started_job j (g_disk t)}"
    and sub: "g_intakes t \<subseteq># g_intakes s" and used: "g_used t = g_used s"
  shows "disk_good t"
proof -
  have ok: "stored j (g_disk s) = Inr m \<Longrightarrow> manifest_ok m" for j m
    using good by (simp add: disk_good_def)
  have frame: "j \<noteq> i \<Longrightarrow> stored j (g_disk t) = stored j (g_disk s)" for j
    using ch by (intro stored_frame) (simp add: changes_def)
  have "started_job j (g_disk t)" if "j \<in> claims (g_workers t)" for j
  proof (cases "started_job j (g_disk t)")
    case False
    then have j: "j \<in> claims (g_workers s)" using that ws by blast
    then have "started_job j (g_disk s)" using good by (simp add: disk_good_def)
    show ?thesis
    proof (cases "j = i")
      case True
      have "keeps i (g_disk s) (g_disk t)" using k j True by blast
      with \<open>started_job j (g_disk s)\<close> show ?thesis
        unfolding True by (rule started_kept [OF _ ch]) (erule ok)
    next
      case False
      then show ?thesis using \<open>started_job j (g_disk s)\<close> frame by (simp add: started_job_def)
    qed
  qed
  moreover have "count (g_intakes t) j = 1 \<and> intake_job j (g_disk t)" if j: "j \<in># g_intakes t" for j
  proof -
    have js: "j \<in># g_intakes s" using j sub by (rule mset_subset_eqD [rotated])
    then have c: "count (g_intakes s) j = 1" and ij: "intake_job j (g_disk s)"
      using good by (auto simp: disk_good_def)
    have "count (g_intakes t) j = 1"
    proof -
      have "0 < count (g_intakes t) j" using j by simp
      moreover have "count (g_intakes t) j \<le> 1" using mset_subset_eq_count [OF sub, of j] c by simp
      ultimately show ?thesis by linarith
    qed
    moreover have "intake_job j (g_disk t)"
    proof (cases "j = i")
      case True
      then show ?thesis
        using ij k int j unfolding intake_job_def keeps_def intake_kept_def by blast
    next
      case False
      then show ?thesis using ij frame by (simp add: intake_job_def)
    qed
    ultimately show ?thesis by blast
  qed
  moreover have "dom (g_disk t) \<subseteq> g_used t"
  proof -
    have "dom (g_disk t) \<subseteq> dom (g_disk s)"
    proof
      fix j assume "j \<in> dom (g_disk t)"
      then show "j \<in> dom (g_disk s)"
        using ch unfolding changes_def by (cases "j = i") (auto simp: domIff)
    qed
    then show ?thesis using good used by (simp add: disk_good_def) blast
  qed
  moreover have "manifest_ok m'" if "stored k (g_disk t) = Inr m'" for k m'
    by (rule changes_ok [OF ch _ that]) (erule ok)
  ultimately show ?thesis unfolding disk_good_def by blast
qed

text \<open>A change of the workers or counters alone.\<close>

lemma disk_good_same:
  assumes "disk_good s" and "g_disk t = g_disk s"
    and "claims (g_workers t) \<subseteq> claims (g_workers s) \<union> {j. started_job j (g_disk t)}"
    and "g_intakes t = g_intakes s" and "g_used t = g_used s"
  shows "disk_good t"
  using disk_good_changes [OF assms(1), of "[]" t] assms(2-5) by simp

lemma claims_update: "k < length ws \<Longrightarrow> claims (ws[k := w]) \<subseteq> claims ws \<union> {i. worker_claim w = Some i}"
  unfolding claims_def using set_update_subset_insert [of ws k w] by blast

text \<open>Claimed jobs, jobs in the hands of an upload and downloads hold leases.\<close>

lemma claim_lease: "worker_claim w = Some i \<Longrightarrow> i \<in># worker_lease w"
  by (cases w) auto

lemma claims_leased: "counters_good s \<Longrightarrow> i \<in> claims (g_workers s) \<Longrightarrow> leased i s"
proof -
  assume c: "counters_good s" and "i \<in> claims (g_workers s)"
  then obtain w where w: "w \<in> set (g_workers s)" "i \<in># worker_lease w"
    using claim_lease by (auto simp: claims_def)
  then have "i \<in># sum_list (map worker_lease (g_workers s))"
    using sum_list_mset_member [OF w(1), of worker_lease] mset_subset_eqD by metis
  then show ?thesis using c by (simp add: leased_def counters_good_def)
qed

lemma intakes_leased: "counters_good s \<Longrightarrow> i \<in># g_intakes s \<Longrightarrow> leased i s"
  by (simp add: leased_def counters_good_def)

lemma disk_good_unleased:
  assumes "disk_good s" "counters_good s" "\<not> leased i s" "changes i (g_disk s) (g_disk t)"
    and "g_workers t = g_workers s" "g_intakes t = g_intakes s" "g_used t = g_used s"
  shows "disk_good t"
  using assms claims_leased intakes_leased
  by (intro disk_good_changes [OF assms(1,4)]) auto

text \<open>A change is correct on a manifest if it evolves it and leaves an upload's job alone.\<close>

definition correct_change :: "(manifest \<Rightarrow> manifest result) \<Rightarrow> manifest \<Rightarrow> bool" where
  "correct_change f m \<longleftrightarrow> (\<forall>m'. f m = Inr m' \<longrightarrow> manifest_ok m \<longrightarrow> manifest_ok m' \<and> later m m')"

definition plain_change :: "(manifest \<Rightarrow> manifest result) \<Rightarrow> bool" where
  "plain_change f \<longleftrightarrow>
    (\<forall>m m'. f m = Inr m' \<longrightarrow> m_id m' = m_id m \<and> (intake_ok m \<longrightarrow> intake_ok m'))"

lemma disk_good_update:
  assumes "disk_good s" and "update_job io i f s = (r, s1)"
    and "\<And>m. stored i (g_disk s) = Inr m \<Longrightarrow> correct_change f m" and "plain_change f"
    and "g_disk t = g_disk s1" "g_intakes t = g_intakes s" "g_used t = g_used s"
    and "claims (g_workers t) \<subseteq> claims (g_workers s) \<union> {j. started_job j (g_disk t)}"
  shows "disk_good t"
proof -
  have f: "\<And>m m'. stored i (g_disk s) = Inr m \<Longrightarrow> f m = Inr m' \<Longrightarrow> manifest_ok m \<Longrightarrow> manifest_ok m' \<and> later m m'"
    using assms(3) by (auto simp: correct_change_def)
  have id: "\<And>m m'. f m = Inr m' \<Longrightarrow> m_id m' = m_id m" and int: "\<And>m m'. f m = Inr m' \<Longrightarrow> intake_ok m \<Longrightarrow> intake_ok m'"
    using assms(4) by (auto simp: plain_change_def)
  have ch: "changes i (g_disk s) (g_disk t)" unfolding assms(5)
    by (rule update_changes(1) [OF assms(2)]) (rule f id; assumption)+
  have k: "keeps i (g_disk s) (g_disk t)" unfolding assms(5)
    by (rule update_changes(2) [OF assms(2)]) (rule f id; assumption)+
  have ik: "intake_kept i (g_disk s) (g_disk t)" unfolding assms(5)
    by (rule update_changes(4) [OF assms(2)]) (rule f id int; assumption)+
  have sub: "g_intakes t \<subseteq># g_intakes s" by (simp add: assms(6))
  show ?thesis by (rule disk_good_changes [OF assms(1) ch k ik assms(8) sub assms(7)])
qed

lemma plain_changes:
  "plain_change (start_change sel full)" "plain_change claim_change"
  "plain_change (begin_file_change fid t)" "plain_change (\<lambda>m. Inr (cancel_change t m))"
  "plain_change (\<lambda>m. Inr (finalize_change c t m))"
  "plain_change (\<lambda>m. Inr (verdict_change mt fid t v m))"
proof -
  show "plain_change (start_change sel full)"
    by (auto simp: plain_change_def start_change_def intake_ok_def split: if_splits sum.splits)
  show "plain_change claim_change"
    by (auto simp: plain_change_def claim_change_def intake_ok_def split: if_splits)
  show "plain_change (begin_file_change fid t)"
    by (auto simp: plain_change_def begin_file_change_def intake_ok_def split: if_splits option.splits)
  show "plain_change (\<lambda>m. Inr (cancel_change t m))"
    using intake_changes(2) by (auto simp: plain_change_def cancel_change_def)
  show "plain_change (\<lambda>m. Inr (finalize_change c t m))"
    using intake_changes(8) by (auto simp: plain_change_def finalize_change_def Let_def)
  show "plain_change (\<lambda>m. Inr (verdict_change mt fid t v m))"
    using intake_changes(5-7)
    by (cases v)
       (auto simp: plain_change_def verdict_change_def record_cancel_change_def record_failure_change_def
          finish_file_change_def split: option.splits)
qed

lemma correct_changes:
  "correct_change (start_change sel full) m" "correct_change claim_change m"
  "correct_change (begin_file_change fid t) m" "correct_change (\<lambda>m. Inr (cancel_change t m)) m"
  "correct_change (\<lambda>m. Inr (finalize_change c t m)) m"
  "JobRunning \<le> m_state m \<Longrightarrow> correct_change (\<lambda>m. Inr (verdict_change mt fid t v m)) m"
  unfolding correct_change_def
  using start_change_ok claim_change_ok begin_file_change_ok cancel_change_ok finalize_change_ok
  by (blast, blast, blast, simp, simp)
     (cases v; simp add: verdict_change_def record_cancel_change_ok record_failure_change_ok finish_file_change_ok)

lemma claim_starts:
  assumes "disk_good s" and "update_job io i claim_change s = (Inr m, s1)"
  shows "started_job i (g_disk s1)"
proof -
  obtain m0 m1 where m: "stored i (g_disk s) = Inr m0" "claim_change m0 = Inr m1"
      "m = m1\<lparr>m_updated_at := io_now io\<rparr>" "stored i (g_disk s1) = Inr (written m)"
    using update_changes(3) [OF assms(2)] correct_changes(2) plain_changes(2)
    unfolding correct_change_def plain_change_def by blast
  have "manifest_ok m0" using assms(1) m(1) by (simp add: disk_good_def)
  then have "m_state m1 = JobRunning" "m_files m1 \<noteq> []"
    using m(2) by (auto simp: claim_change_def manifest_ok_def split: if_splits)
  then show ?thesis using m(3,4) by (simp add: started_job_def)
qed

lemma disk_good_worker:
  assumes "run_worker env k s = Some t" and good: "disk_good s"
  shows "disk_good t"
proof -
  obtain w t0 where k: "k < length (g_workers s)"
    and w: "worker_step env (g_workers s ! k) s = Some (w, t0)"
    and t: "t = t0\<lparr>g_workers := (g_workers s)[k := w]\<rparr>"
    using run_worker_Some [OF assms(1)] by blast
  have cl: "claims (g_workers t) \<subseteq> claims (g_workers s) \<union> {i. worker_claim w = Some i}"
    unfolding t using claims_update [OF k] by simp
  have own: "i \<in> claims (g_workers s)" if "worker_claim (g_workers s ! k) = Some i" for i
    using that k by (auto simp: claims_def)
  have frame: "g_intakes t = g_intakes s" "g_used t = g_used s"
    using worker_step_counters(7) [OF w] by (simp_all add: t)
  have same: "disk_good t" if "g_disk t0 = g_disk s" "worker_claim w = None \<or> worker_claim w = worker_claim (g_workers s ! k)"
  proof -
    have "{i. worker_claim w = Some i} \<subseteq> claims (g_workers s)" using that(2) own by auto
    with cl have c: "claims (g_workers t) \<subseteq> claims (g_workers s) \<union> {j. started_job j (g_disk t)}" by blast
    show ?thesis by (rule disk_good_same [OF good _ c frame]) (simp add: t that(1))
  qed
  have upd: "disk_good t" if u: "update_job io i f s = (r, s1)" and d: "g_disk t0 = g_disk s1"
    and f: "\<And>m. stored i (g_disk s) = Inr m \<Longrightarrow> correct_change f m" and p: "plain_change f"
    and c: "worker_claim w = None \<or> worker_claim w = worker_claim (g_workers s ! k)
      \<or> (\<exists>j. worker_claim w = Some j \<and> started_job j (g_disk s1))" for io i f r s1
  proof -
    have td: "g_disk t = g_disk s1" using d by (simp add: t)
    have "{i. worker_claim w = Some i} \<subseteq> claims (g_workers s) \<union> {j. started_job j (g_disk t)}"
      using c own by (auto simp: td)
    with cl have c': "claims (g_workers t) \<subseteq> claims (g_workers s) \<union> {j. started_job j (g_disk t)}" by blast
    show ?thesis by (rule disk_good_update [OF good u f p td frame c'])
  qed
  show ?thesis
  proof (cases "g_workers s ! k")
    case (Claiming i c)
    obtain r s1 where u: "update_job (we_io env) i claim_change s = (r, s1)" by fastforce
    show ?thesis
    proof (rule upd [OF u _ correct_changes(2) plain_changes(2)])
      show "g_disk t0 = g_disk s1" using w u Claiming by (auto split: sum.splits)
      show "worker_claim w = None \<or> worker_claim w = worker_claim (g_workers s ! k)
          \<or> (\<exists>j. worker_claim w = Some j \<and> started_job j (g_disk s1))"
        using w u Claiming claim_starts [OF good] by (auto split: sum.splits)
    qed
  next
    case (Beginning i c f fs)
    obtain r s1 where u: "update_job (we_io env) i
        (begin_file_change (f_id f) (io_finished (we_io env))) s = (r, s1)" by fastforce
    show ?thesis
      by (rule upd [OF u _ correct_changes(3) plain_changes(3)])
         (use w u Beginning in \<open>auto split: sum.splits\<close>)
  next
    case (Recording i c f fs v b)
    obtain r s1 where u: "update_job (we_io env) i
        (\<lambda>m. Inr (verdict_change (we_mime env) (f_id f) (io_finished (we_io env)) v m)) s = (r, s1)"
      by fastforce
    have "started_job i (g_disk s)"
      using own [of i] Recording good by (auto simp: disk_good_def)
    then have "correct_change (\<lambda>m. Inr (verdict_change (we_mime env) (f_id f) (io_finished (we_io env)) v m)) m"
      if "stored i (g_disk s) = Inr m" for m
      using that correct_changes(6) [of m] by (simp add: started_job_def)
    from upd [OF u _ this plain_changes(6)] show ?thesis
      using w u Recording by auto
  next
    case (Finalizing i c b)
    obtain r s1 where u: "update_job (we_io env) i
        (\<lambda>m. Inr (finalize_change b (io_finished (we_io env)) m)) s = (r, s1)" by fastforce
    show ?thesis
      by (rule upd [OF u _ correct_changes(5) plain_changes(5)])
         (use w u Finalizing in auto)
  next
    case (Looping i c fs)
    then show ?thesis using w by (intro same) (cases fs; auto split: if_splits)+
  qed (use w in \<open>auto intro!: same simp: lease_job_def acquire_lease_def release_lease_def
        split: list.splits if_splits sum.splits option.splits prod.splits\<close>)
qed

lemma disk_good_start:
  assumes "start_job io sel i s = (r, t)" and "disk_good s"
  shows "disk_good t"
proof (cases "g_accepting s")
  case False
  then show ?thesis using assms by (simp add: start_job_def)
next
  case True
  obtain q s1 where u: "update_job io i (start_change sel (length (g_queue s) = g_depth s)) s = (q, s1)"
    by fastforce
  obtain d where d: "s1 = s\<lparr>g_disk := d\<rparr>" using update_job_frame [OF u] by blast
  have "g_disk t = g_disk s1 \<and> g_intakes t = g_intakes s \<and> g_used t = g_used s \<and> g_workers t = g_workers s"
    using assms(1) True u d by (auto simp: start_job_def split: sum.splits)
  then show ?thesis
    by (intro disk_good_update [OF assms(2) u correct_changes(1) plain_changes(1)]) auto
qed

lemma disk_good_cancel:
  assumes "cancel_job io i s = (r, t)" and "disk_good s"
  shows "disk_good t"
proof (cases "\<exists>m. load_job (io_read io) i s = Inr m \<and> \<not> job_terminal (m_state m)")
  case False
  then show ?thesis using assms by (auto simp: cancel_job_def split: sum.splits if_splits)
next
  case True
  then have u: "update_job io i (\<lambda>m. Inr (cancel_change (io_finished io) m)) (stop_control i s) = (r, t)"
    using assms(1) by (auto simp: cancel_job_def)
  have s: "disk_good (stop_control i s)"
    by (rule disk_good_same [OF assms(2)]) auto
  obtain d where "t = (stop_control i s)\<lparr>g_disk := d\<rparr>" using update_job_frame [OF u] by blast
  then show ?thesis
    by (intro disk_good_update [OF s u correct_changes(4) plain_changes(4)]) auto
qed

lemma disk_good_remove:
  assumes "remove_file env root i fid s = (r, t)" and "disk_good s" and "counters_good s"
  shows "disk_good t"
proof -
  obtain ds where tr: "remove_file_trace env root i fid s = (r, ds)"
    and t: "t = s\<lparr>g_disk := last (g_disk s # ds)\<rparr>"
    using assms(1) by (auto simp: remove_file_def split: prod.splits)
  show ?thesis
  proof (cases "ds = []")
    case True
    then show ?thesis using assms(2) t by simp
  next
    case False
    then obtain m n where m: "load_job (re_read env) i s = Inr m" "m_state m = JobPending" "\<not> leased i s"
        "index_of_file (m_files m) fid = Some n" "remove_writes env i m n (g_disk s) = (r, ds)"
      using tr unfolding remove_file_trace_def by (auto split: option.splits sum.splits if_splits)
    have "stored i (g_disk s) = Inr m"
      using m(1) store_load_document [of "re_read env" i "g_disk s" m]
      by (auto simp: load_job_def stored_def store_load_def split: option.splits)
    then have "changes i (g_disk s) (g_disk t)"
      using remove_changes [OF _ m(2) _ m(5)] index_of_file_Some [OF m(4)] t by simp
    then show ?thesis
      by (rule disk_good_unleased [OF assms(2,3) m(3)]) (simp_all add: t)
  qed
qed

lemma disk_good_delete_finish:
  assumes "delete_finish env i s = (r, t)" and "disk_good s" and "counters_good s"
  shows "disk_good t"
proof (cases "leased i s")
  case True
  then show ?thesis using assms(1,2) by (simp add: delete_finish_def)
next
  case False
  obtain q d where d: "store_delete env i (g_disk s) = (q, d)" by fastforce
  have "g_disk t = d \<and> g_workers t = g_workers s \<and> g_intakes t = g_intakes s \<and> g_used t = g_used s"
    using assms(1) False d by (auto simp: delete_finish_def Let_def split: option.splits)
  then show ?thesis
    using disk_good_unleased [OF assms(2,3) False, of t] delete_changes [OF d] by simp
qed

lemma disk_good_cleanup:
  assumes "cleanup_job re env now i s = (b, t)" and "disk_good s" and "counters_good s"
  shows "disk_good t"
proof (cases "t = s")
  case True
  then show ?thesis using assms(2) by simp
next
  case False
  then have l: "\<not> leased i s" using assms(1) by (auto simp: cleanup_job_def split: sum.splits if_splits)
  obtain q d where d: "store_delete env i (g_disk s) = (q, d)" by fastforce
  have "g_disk t = d \<and> g_workers t = g_workers s \<and> g_intakes t = g_intakes s \<and> g_used t = g_used s"
    using assms(1) False d by (auto simp: cleanup_job_def split: sum.splits if_splits)
  then show ?thesis
    using disk_good_unleased [OF assms(2,3) l, of t] delete_changes [OF d] by simp
qed

text \<open>Creating a job: its identifier is new, and what it stores is an empty pending job.\<close>

lemma create_disk:
  assumes "store_create rand mk sub env now ttl d = (r, d')"
  shows "(\<exists>e. r = Inl e) \<and> d' = d
    \<or> (\<exists>m. r = Inr m \<and> m = new_manifest (m_id m) now ttl \<and> d (m_id m) = None
         \<and> (\<forall>k. k \<noteq> m_id m \<longrightarrow> d' k = d k) \<and> stored (m_id m) d' = Inr m \<and> d' (m_id m) \<noteq> None)"
proof (cases "new_id rand")
  case (Inl e)
  then show ?thesis using assms by (auto simp: store_create_def)
next
  case (Inr i)
  show ?thesis
  proof (cases "if d i \<noteq> None then Some (PathError ''mkdir'' (Sentinel OsErrExist)) else mk")
    case (Some e)
    then show ?thesis using assms Inr by (auto simp: store_create_def)
  next
    case None
    then have di: "d i = None" by (simp split: if_splits)
    have gone: "e(i := None) = d" if "\<forall>k. k \<noteq> i \<longrightarrow> e k = (d(i \<mapsto> empty_dir)) k" for e
      using that di by (intro ext) simp
    show ?thesis
    proof (cases sub)
      case (Some e)
      then show ?thesis using assms Inr None gone [of "d(i \<mapsto> empty_dir)"]
        by (auto simp: store_create_def Let_def)
    next
      case sub: None
      let ?m = "new_manifest i now ttl"
      obtain x d2 where sv: "store_save env ?m (d(i \<mapsto> empty_dir)) = (x, d2)" by fastforce
      have id: "m_id ?m = i" by (simp add: new_manifest_def)
      have fr: "\<forall>k. k \<noteq> i \<longrightarrow> d2 k = (d(i \<mapsto> empty_dir)) k"
        using store_save_disk_frame [OF sv] id by simp
      show ?thesis
      proof (cases x)
        case (Some e)
        then show ?thesis using assms Inr None sub sv gone [OF fr]
          by (auto simp: store_create_def Let_def)
      next
        case x: None
        have st: "stored i d2 = Inr ?m"
          using disk_store.save_ok [of env ?m "d(i \<mapsto> empty_dir)" d2] sv x id
          by (simp add: stored_def written_def new_manifest_def manifest_schema_version_def)
        have "d2 i \<noteq> None" using store_save_dir [OF sv, of i] by simp
        moreover have "r = Inr ?m" "d' = d2"
          using assms Inr None sub sv x by (simp_all add: store_create_def Let_def)
        ultimately show ?thesis using st fr di id by auto
      qed
    qed
  qed
qed

lemma disk_good_create:
  assumes "accept_create rand mk sub env now ttl s = (Inr m, t)" and "m_id m \<notin> g_used s"
    and good: "disk_good s"
  shows "disk_good (t\<lparr>g_intakes := add_mset (m_id m) (g_intakes t), g_used := insert (m_id m) (g_used t)\<rparr>)"
proof -
  let ?i = "m_id m"
  obtain d where c: "store_create rand mk sub env now ttl (g_disk s) = (Inr m, d)"
    and t: "t = acquire_lease ?i (s\<lparr>g_disk := d\<rparr>)"
    using assms(1) by (auto simp: accept_create_def split: prod.splits sum.splits)
  have m: "m = new_manifest ?i now ttl" "\<forall>k. k \<noteq> ?i \<longrightarrow> d k = g_disk s k" "stored ?i d = Inr m" "d ?i \<noteq> None"
    using create_disk [OF c] by auto
  have new: "g_disk s ?i = None" using assms(2) good by (auto simp: disk_good_def)
  have none: "stored ?i (g_disk s) \<noteq> Inr n" for n
    using new by (auto simp: stored_def store_load_def Let_def split: option.splits)
  have frame: "k \<noteq> ?i \<Longrightarrow> stored k d = stored k (g_disk s)" for k
    using m(2) by (intro stored_frame) simp
  have m_ok: "manifest_ok m" "intake_ok m"
    by (subst m(1), simp add: manifest_ok_def intake_ok_def new_manifest_def)+
  have "manifest_ok n" if "stored k d = Inr n" for k n
    using that frame [of k] m(3) m_ok(1) good by (cases "k = ?i") (auto simp: disk_good_def)
  moreover have "started_job k d" if "k \<in> claims (g_workers s)" for k
  proof -
    have "started_job k (g_disk s)" using that good by (simp add: disk_good_def)
    moreover from this have "k \<noteq> ?i" using none by (auto simp: started_job_def)
    ultimately show ?thesis using frame by (simp add: started_job_def)
  qed
  moreover have "count (add_mset ?i (g_intakes s)) k = 1 \<and> intake_job k d"
    if "k \<in># add_mset ?i (g_intakes s)" for k
  proof -
    have old: "count (g_intakes s) k = 1 \<and> intake_job k (g_disk s)" if "k \<in># g_intakes s" for k
      using that good by (simp add: disk_good_def)
    then have "?i \<notin># g_intakes s" using none by (auto simp: intake_job_def)
    then show ?thesis
      using that old [of k] m(3) m_ok(2) frame [of k]
      by (cases "k = ?i") (auto simp: intake_job_def not_in_iff)
  qed
  moreover have "dom d \<subseteq> insert ?i (g_used s)"
  proof
    fix k assume "k \<in> dom d"
    then show "k \<in> insert ?i (g_used s)" using m(2) good by (cases "k = ?i") (auto simp: disk_good_def)
  qed
  ultimately show ?thesis
    unfolding disk_good_def t acquire_lease_def by simp
qed

text \<open>Files beside the manifest do not change what is stored.\<close>

lemma content_stored: "d i = Some j \<Longrightarrow> jd_manifest k = jd_manifest j \<Longrightarrow> stored x (d(i \<mapsto> k)) = stored x d"
  by (cases "x = i") (auto simp: stored_def store_load_def Let_def split: option.splits)

lemma content_changes:
  assumes "d i = Some j" and "jd_manifest k = jd_manifest j"
  shows "changes i d (d(i \<mapsto> k))" "keeps i d (d(i \<mapsto> k))" "intake_kept i d (d(i \<mapsto> k))"
  using content_stored [of d i j k, OF assms] assms(1) by (auto simp: changes_def keeps_def intake_kept_def)

text \<open>The end of an upload gives up its job, which nobody else owns.\<close>

lemma disk_good_intake_end:
  assumes good: "disk_good s" and i: "i \<in># g_intakes s" and ch: "changes i (g_disk s) d"
    and t: "g_disk t = d" "g_workers t = g_workers s" "g_used t = g_used s"
      "g_intakes t = g_intakes s - {#i#}"
  shows "disk_good t"
proof -
  have one: "count (g_intakes s) i = 1" and int: "intake_job i (g_disk s)"
    using good i by (auto simp: disk_good_def)
  have not_in: "i \<notin># g_intakes t" using one by (simp add: t not_in_iff)
  have "i \<notin> claims (g_workers s)"
    using good int started_not_intake by (auto simp: disk_good_def)
  then show ?thesis
    using not_in ch t by (intro disk_good_changes [OF good]) auto
qed

lemma accept_fail_changes:
  "changes i (g_disk s) (g_disk (accept_fail env i s))"
  using delete_changes [of env i "g_disk s"] by (auto simp: accept_fail_def release_lease_def intro: prod.collapse [symmetric])

lemma accept_finish_changes:
  assumes "accept_finish io env fs n i s = (r, t)" and "received_ok fs" and "intake_job i (g_disk s)"
  shows "changes i (g_disk s) (g_disk t)"
proof -
  let ?f = "\<lambda>m. Inr (accept_change fs n (io_finished io) m)"
  obtain q s1 where u: "update_job io i ?f s = (q, s1)" by fastforce
  have c: "changes i (g_disk s) (g_disk s1)"
  proof (rule update_changes(1) [OF u])
    fix m m' :: manifest
    assume m: "stored i (g_disk s) = Inr m" "Inr (accept_change fs n (io_finished io) m) = (Inr m' :: manifest result)"
    have "intake_ok m" using assms(3) m(1) by (auto simp: intake_job_def)
    then show "manifest_ok m' \<and> later m m'" using accept_change_ok [OF _ assms(2)] m(2) by auto
  next
    fix m m' :: manifest
    assume "Inr (accept_change fs n (io_finished io) m) = (Inr m' :: manifest result)"
    then show "m_id m' = m_id m" by (auto simp: accept_change_def Let_def)
  qed
  show ?thesis
  proof (cases q)
    case (Inl e)
    then have "t = accept_fail env i s1" using assms(1) u by (simp add: accept_finish_def)
    then show ?thesis using c accept_fail_changes changes_trans by blast
  next
    case (Inr m)
    then show ?thesis using assms(1) u c by (auto simp: accept_finish_def release_lease_def)
  qed
qed

lemma accept_finish_frame:
  assumes "accept_finish io env fs n i s = (r, t)"
  shows "g_workers t = g_workers s" "g_used t = g_used s"
proof -
  obtain q s1 where u: "update_job io i (\<lambda>m. Inr (accept_change fs n (io_finished io) m)) s = (q, s1)"
    by fastforce
  obtain d where "s1 = s\<lparr>g_disk := d\<rparr>" using update_job_frame [OF u] by blast
  then show "g_workers t = g_workers s" "g_used t = g_used s"
    using assms u by (auto simp: accept_finish_def accept_fail_def release_lease_def split: sum.splits)
qed

lemma disk_good_step:
  assumes "mstep s t" and "disk_good s" and "counters_good s"
  shows "disk_good t"
  using assms(1)
proof cases
  case (step_start io sel i r)
  then show ?thesis using disk_good_start assms(2) by blast
next
  case (step_cancel io i r)
  then show ?thesis using disk_good_cancel assms(2) by blast
next
  case (step_delete_begin re i r)
  then have "t = s \<or> t = stop_control i s"
    by (auto simp: delete_begin_def split: option.splits sum.splits)
  then show ?thesis using disk_good_same [OF assms(2), of t] assms(2) by auto
next
  case (step_delete_finish env i r)
  then show ?thesis using disk_good_delete_finish assms(2,3) by blast
next
  case (step_lease re i u)
  then have "u = acquire_lease i s" by (auto simp: lease_job_def split: sum.splits)
  then show ?thesis using step_lease(1) by (intro disk_good_same [OF assms(2)]) (auto simp: acquire_lease_def)
next
  case (step_release i)
  then show ?thesis by (intro disk_good_same [OF assms(2)]) (auto simp: release_lease_def)
next
  case (step_remove env root i fid r)
  then show ?thesis using disk_good_remove assms(2,3) by blast
next
  case (step_cleanup re env now i b)
  then show ?thesis using disk_good_cleanup assms(2,3) by blast
next
  case step_stop
  then show ?thesis by (intro disk_good_same [OF assms(2)]) (auto simp: stop_intake_def)
next
  case step_shutdown
  then show ?thesis by (intro disk_good_same [OF assms(2)]) (auto simp: shutdown_def stop_intake_def)
next
  case (step_worker env k)
  then show ?thesis using disk_good_worker assms(2) by blast
next
  case (step_reserve mu mf free b u)
  then show ?thesis
    by (intro disk_good_same [OF assms(2)])
       (auto simp: reserve_upload_budget_def Let_def split: if_splits sum.splits)
next
  case (step_unreserve b)
  then show ?thesis by (intro disk_good_same [OF assms(2)]) (auto simp: release_budget_def)
next
  case (step_create rand mk sub env now ttl m u)
  then show ?thesis using disk_good_create assms(2) by blast
next
  case (step_create_error rand mk sub env now ttl e)
  obtain d where c: "store_create rand mk sub env now ttl (g_disk s) = (Inl e, d)" "t = s\<lparr>g_disk := d\<rparr>"
    using step_create_error by (auto simp: accept_create_def split: prod.splits sum.splits)
  then have "d = g_disk s" using create_disk [OF c(1)] by auto
  then show ?thesis using c(2) by (intro disk_good_same [OF assms(2)]) auto
next
  case (step_accept_fail i env)
  show ?thesis
    by (rule disk_good_intake_end [OF assms(2) step_accept_fail(2) accept_fail_changes [of i s env]])
       (simp_all add: step_accept_fail(1) accept_fail_def release_lease_def)
next
  case (step_accept_finish i fs io env n r u)
  have "intake_job i (g_disk s)" using assms(2) step_accept_finish(2) by (simp add: disk_good_def)
  then have "changes i (g_disk s) (g_disk u)"
    using accept_finish_changes step_accept_finish(3,4) by blast
  then show ?thesis
    by (rule disk_good_intake_end [OF assms(2) step_accept_finish(2)])
       (use step_accept_finish accept_finish_frame [OF step_accept_finish(4)] in simp_all)
next
  case step_probe
  then show ?thesis by (intro disk_good_same [OF assms(2)]) auto
next
  case step_probe_end
  then show ?thesis by (intro disk_good_same [OF assms(2)]) auto
next
  case (step_content i j k)
  then show ?thesis
    using content_changes [of "g_disk s" i j k, OF step_content(2,3)]
    by (intro disk_good_changes [OF assms(2), of i]) simp_all
qed

subsection \<open>The manager as an invariant system\<close>

text \<open>A fresh manager on a disk whose manifests are well formed.\<close>

definition manager_init :: "mgr \<Rightarrow> bool" where
  "manager_init s \<longleftrightarrow>
    (\<exists>opt d. new_manager opt d = Inr s \<and> (\<forall>i m. stored i d = Inr m \<longrightarrow> manifest_ok m))"

definition manager_good :: "mgr \<Rightarrow> bool" where
  "manager_good s \<longleftrightarrow> counters_good s \<and> disk_good s"

lemma sum_list_replicate_zero: "sum_list (replicate n (0 :: 'a :: comm_monoid_add)) = 0"
  by (induction n) auto

lemma manager_init_good: "manager_init s \<Longrightarrow> manager_good s"
proof -
  assume "manager_init s"
  then obtain opt d where o: "new_manager opt d = Inr s" and d: "\<forall>i m. stored i d = Inr m \<longrightarrow> manifest_ok m"
    by (auto simp: manager_init_def)
  show ?thesis
    using o d
    by (auto simp: new_manager_def Let_def manager_good_def counters_good_def disk_good_def claims_def
        sum_list_replicate_zero
        split: if_splits)
qed

interpretation manager: invariant_system manager_init mstep manager_good
proof unfold_locales
  show "manager_init s \<Longrightarrow> manager_good s" for s by (rule manager_init_good)
  show "manager_good s \<Longrightarrow> mstep s t \<Longrightarrow> manager_good t" for s t
    using counters_step disk_good_step unfolding manager_good_def by blast
qed

subsection \<open>The effect of a step on the stored jobs\<close>

text \<open>
  Every step but a creation changes at most one job, which evolves, and which can disappear
  only when nobody but an upload holds a lease on it.
\<close>

definition tame :: "mgr \<Rightarrow> mgr \<Rightarrow> bool" where
  "tame s t \<longleftrightarrow> g_used t = g_used s \<and>
    (\<exists>i. changes i (g_disk s) (g_disk t)
       \<and> (keeps i (g_disk s) (g_disk t) \<or> \<not> leased i s \<or> i \<in># g_intakes s))"

lemma tame_same: "g_disk t = g_disk s \<Longrightarrow> g_used t = g_used s \<Longrightarrow> tame s t"
  by (auto simp: tame_def)

lemma tame_update:
  assumes u: "update_job io i f s = (r, s1)"
    and f: "\<And>m. stored i (g_disk s) = Inr m \<Longrightarrow> correct_change f m" and p: "plain_change f"
    and t: "g_disk t = g_disk s1" "g_used t = g_used s"
  shows "tame s t"
proof -
  have "\<And>m m'. stored i (g_disk s) = Inr m \<Longrightarrow> f m = Inr m' \<Longrightarrow> manifest_ok m \<Longrightarrow> manifest_ok m' \<and> later m m'"
    using f by (auto simp: correct_change_def)
  moreover have "\<And>m m'. f m = Inr m' \<Longrightarrow> m_id m' = m_id m" using p by (auto simp: plain_change_def)
  ultimately have "changes i (g_disk s) (g_disk s1) \<and> keeps i (g_disk s) (g_disk s1)"
    using update_changes(1,2) [OF u] by blast
  then show ?thesis unfolding tame_def using t by auto
qed

lemma worker_tame:
  assumes "run_worker env k s = Some t" and good: "disk_good s"
  shows "tame s t"
proof -
  obtain w t0 where k: "k < length (g_workers s)"
    and w: "worker_step env (g_workers s ! k) s = Some (w, t0)"
    and t: "t = t0\<lparr>g_workers := (g_workers s)[k := w]\<rparr>"
    using run_worker_Some [OF assms(1)] by blast
  have used: "g_used t = g_used s" using worker_step_counters(7) [OF w] by (simp add: t)
  have same: "tame s t" if "g_disk t0 = g_disk s"
    by (rule tame_same) (simp_all add: t used [unfolded t] that)
  show ?thesis
  proof (cases "g_workers s ! k")
    case (Claiming i c)
    obtain r s1 where u: "update_job (we_io env) i claim_change s = (r, s1)" by fastforce
    show ?thesis
      by (rule tame_update [OF u correct_changes(2) plain_changes(2) _ used])
         (use w u Claiming in \<open>auto simp: t split: sum.splits\<close>)
  next
    case (Beginning i c f fs)
    obtain r s1 where u: "update_job (we_io env) i
        (begin_file_change (f_id f) (io_finished (we_io env))) s = (r, s1)" by fastforce
    show ?thesis
      by (rule tame_update [OF u correct_changes(3) plain_changes(3) _ used])
         (use w u Beginning in \<open>auto simp: t split: sum.splits\<close>)
  next
    case (Recording i c f fs v b)
    obtain r s1 where u: "update_job (we_io env) i
        (\<lambda>m. Inr (verdict_change (we_mime env) (f_id f) (io_finished (we_io env)) v m)) s = (r, s1)"
      by fastforce
    have "i \<in> claims (g_workers s)" using nth_mem [OF k] Recording unfolding claims_def by force
    then have "started_job i (g_disk s)" using good by (auto simp: disk_good_def)
    then have f: "correct_change (\<lambda>m. Inr (verdict_change (we_mime env) (f_id f) (io_finished (we_io env)) v m)) m"
      if "stored i (g_disk s) = Inr m" for m
      using that correct_changes(6) [of m] by (simp add: started_job_def)
    show ?thesis
      by (rule tame_update [OF u f plain_changes(6) _ used]) (use w u Recording in \<open>auto simp: t\<close>)
  next
    case (Finalizing i c b)
    obtain r s1 where u: "update_job (we_io env) i
        (\<lambda>m. Inr (finalize_change b (io_finished (we_io env)) m)) s = (r, s1)" by fastforce
    show ?thesis
      by (rule tame_update [OF u correct_changes(5) plain_changes(5) _ used])
         (use w u Finalizing in \<open>auto simp: t\<close>)
  next
    case (Looping i c fs)
    then show ?thesis using w by (intro same) (cases fs; auto split: if_splits)
  qed ((rule same; use w in \<open>auto simp: lease_job_def acquire_lease_def release_lease_def
        split: list.splits if_splits sum.splits option.splits prod.splits\<close>)+)
qed

lemma start_tame: "start_job io sel i s = (r, t) \<Longrightarrow> tame s t"
proof (cases "g_accepting s")
  case True
  assume a: "start_job io sel i s = (r, t)"
  obtain q s1 where u: "update_job io i (start_change sel (length (g_queue s) = g_depth s)) s = (q, s1)"
    by fastforce
  obtain d where d: "s1 = s\<lparr>g_disk := d\<rparr>" using update_job_frame [OF u] by blast
  show ?thesis
    by (rule tame_update [OF u correct_changes(1) plain_changes(1)])
       (use a True u d in \<open>auto simp: start_job_def split: sum.splits\<close>)
qed (auto simp: start_job_def intro: tame_same)

lemma cancel_tame: "cancel_job io i s = (r, t) \<Longrightarrow> tame s t"
proof (cases "\<exists>m. load_job (io_read io) i s = Inr m \<and> \<not> job_terminal (m_state m)")
  case True
  assume "cancel_job io i s = (r, t)"
  with True have u: "update_job io i (\<lambda>m. Inr (cancel_change (io_finished io) m)) (stop_control i s) = (r, t)"
    by (auto simp: cancel_job_def)
  obtain d where "t = (stop_control i s)\<lparr>g_disk := d\<rparr>" using update_job_frame [OF u] by blast
  then have "tame (stop_control i s) t"
    by (intro tame_update [OF u correct_changes(4) plain_changes(4)]) auto
  then show ?thesis by (simp add: tame_def leased_def)
next
  case False
  assume "cancel_job io i s = (r, t)"
  with False have "t = s" by (auto simp: cancel_job_def split: sum.splits if_splits)
  then show ?thesis by (simp add: tame_same)
qed

lemma delete_tame:
  "store_delete env i (g_disk s) = (q, d) \<Longrightarrow> \<not> leased i s \<Longrightarrow> g_disk t = d \<Longrightarrow> g_used t = g_used s \<Longrightarrow> tame s t"
  by (drule delete_changes) (auto simp: tame_def)

lemma remove_tame:
  assumes "remove_file env root i fid s = (r, t)"
  shows "tame s t"
proof -
  obtain ds where tr: "remove_file_trace env root i fid s = (r, ds)"
    and t: "t = s\<lparr>g_disk := last (g_disk s # ds)\<rparr>"
    using assms by (auto simp: remove_file_def split: prod.splits)
  show ?thesis
  proof (cases "ds = []")
    case True
    then show ?thesis using t by (simp add: tame_same)
  next
    case False
    then obtain m n where m: "load_job (re_read env) i s = Inr m" "m_state m = JobPending" "\<not> leased i s"
        "index_of_file (m_files m) fid = Some n" "remove_writes env i m n (g_disk s) = (r, ds)"
      using tr unfolding remove_file_trace_def by (auto split: option.splits sum.splits if_splits)
    have "stored i (g_disk s) = Inr m"
      using m(1) store_load_document [of "re_read env" i "g_disk s" m]
      by (auto simp: load_job_def stored_def store_load_def split: option.splits)
    then have "changes i (g_disk s) (g_disk t)"
      using remove_changes [OF _ m(2) _ m(5)] index_of_file_Some [OF m(4)] t by simp
    then show ?thesis using m(3) t by (auto simp: tame_def)
  qed
qed

lemma step_effect:
  assumes "mstep s t" and good: "manager_good s"
  shows "tame s t \<or> (\<exists>i. i \<notin> g_used s \<and> g_used t = insert i (g_used s)
    \<and> (\<forall>k. k \<noteq> i \<longrightarrow> g_disk t k = g_disk s k))"
  using assms(1)
proof cases
  case (step_start io sel i r)
  then show ?thesis using start_tame by blast
next
  case (step_cancel io i r)
  then show ?thesis using cancel_tame by blast
next
  case (step_delete_begin re i r)
  then have "t = s \<or> t = stop_control i s"
    by (auto simp: delete_begin_def split: option.splits sum.splits)
  then show ?thesis by (auto intro: tame_same)
next
  case (step_delete_finish env i r)
  show ?thesis
  proof (cases "leased i s")
    case False
    obtain q d where d: "store_delete env i (g_disk s) = (q, d)" by fastforce
    show ?thesis
      using delete_tame [OF d False] step_delete_finish False d
      by (auto simp: delete_finish_def Let_def split: option.splits)
  qed (use step_delete_finish in \<open>simp add: delete_finish_def tame_same\<close>)
next
  case (step_lease re i u)
  then show ?thesis
    by (intro disjI1 tame_same) (auto simp: lease_job_def acquire_lease_def split: sum.splits)
next
  case (step_remove env root i fid r)
  then show ?thesis using remove_tame by blast
next
  case (step_cleanup re env now i b)
  show ?thesis
  proof (cases "t = s")
    case False
    then have l: "\<not> leased i s" using step_cleanup by (auto simp: cleanup_job_def split: sum.splits if_splits)
    obtain q d where d: "store_delete env i (g_disk s) = (q, d)" by fastforce
    have "g_disk t = d" "g_used t = g_used s"
      using step_cleanup False d by (auto simp: cleanup_job_def split: sum.splits if_splits)
    then show ?thesis using delete_tame [OF d l] by blast
  qed (simp add: tame_same)
next
  case (step_worker env k)
  then show ?thesis using worker_tame good by (auto simp: manager_good_def)
next
  case (step_reserve mu mf free b u)
  then show ?thesis
    by (intro disjI1 tame_same) (auto simp: reserve_upload_budget_def Let_def split: if_splits sum.splits)
next
  case (step_create rand mk sub env now ttl m u)
  obtain d where c: "store_create rand mk sub env now ttl (g_disk s) = (Inr m, d)"
    and u: "u = acquire_lease (m_id m) (s\<lparr>g_disk := d\<rparr>)"
    using step_create(2) by (auto simp: accept_create_def split: prod.splits sum.splits)
  then show ?thesis
    using create_disk [OF c] step_create(1,3) by (auto simp: acquire_lease_def)
next
  case (step_create_error rand mk sub env now ttl e)
  then obtain d where c: "store_create rand mk sub env now ttl (g_disk s) = (Inl e, d)" "t = s\<lparr>g_disk := d\<rparr>"
    by (auto simp: accept_create_def split: prod.splits sum.splits)
  then show ?thesis using create_disk [OF c(1)] by (auto intro: tame_same)
next
  case (step_accept_fail i env)
  then show ?thesis
    using accept_fail_changes [of i s env]
    by (auto simp: tame_def accept_fail_def release_lease_def)
next
  case (step_accept_finish i fs io env n r u)
  have "intake_job i (g_disk s)" using good step_accept_finish(2) by (simp add: manager_good_def disk_good_def)
  then have "changes i (g_disk s) (g_disk u)"
    using accept_finish_changes step_accept_finish(3,4) by blast
  then show ?thesis
    using step_accept_finish accept_finish_frame [OF step_accept_finish(4)] by (auto simp: tame_def)
next
  case (step_content i j k)
  then show ?thesis using content_changes [of "g_disk s" i j k, OF step_content(2,3)] by (auto simp: tame_def)
qed (auto intro!: tame_same simp: release_lease_def stop_intake_def shutdown_def release_budget_def)

text \<open>What a later state stores of a job known in an earlier one evolved from what was stored then.\<close>

definition descends :: "mgr \<Rightarrow> mgr \<Rightarrow> bool" where
  "descends s t \<longleftrightarrow> g_used s \<subseteq> g_used t \<and>
    (\<forall>i m'. i \<in> g_used s \<longrightarrow> stored i (g_disk t) = Inr m' \<longrightarrow>
       (\<exists>m. stored i (g_disk s) = Inr m \<and> evolves m m'))"

lemma descends_trans: "descends s t \<Longrightarrow> descends t u \<Longrightarrow> descends s u"
  unfolding descends_def using evolves_trans by (metis (no_types, lifting) subset_iff)

lemma step_descends: "manager_good s \<Longrightarrow> mstep s t \<Longrightarrow> descends s t"
proof -
  assume good: "manager_good s" and step: "mstep s t"
  show ?thesis
    using step_effect [OF step good]
  proof
    assume "tame s t"
    then obtain i where i: "changes i (g_disk s) (g_disk t)" "g_used t = g_used s" by (auto simp: tame_def)
    have "\<exists>m. stored k (g_disk s) = Inr m \<and> evolves m m'" if "stored k (g_disk t) = Inr m'" for k m'
    proof (cases "k = i")
      case False
      then have "stored k (g_disk t) = stored k (g_disk s)"
        using i(1) by (intro stored_frame) (simp add: changes_def)
      then show ?thesis using that by (intro exI [of _ m']) simp
    qed (use i(1) that in \<open>simp add: changes_def\<close>)
    then show ?thesis using i(2) by (auto simp: descends_def)
  next
    assume "\<exists>i. i \<notin> g_used s \<and> g_used t = insert i (g_used s) \<and> (\<forall>k. k \<noteq> i \<longrightarrow> g_disk t k = g_disk s k)"
    then obtain i where i: "i \<notin> g_used s" "g_used t = insert i (g_used s)" "\<forall>k. k \<noteq> i \<longrightarrow> g_disk t k = g_disk s k"
      by blast
    have "stored k (g_disk t) = stored k (g_disk s)" if "k \<in> g_used s" for k
      using that i by (intro stored_frame) auto
    then show ?thesis using i(2) by (auto simp: descends_def)
  qed
qed

lemma descends_refl: "descends s s"
  by (auto simp: descends_def)

lemma run_descends: "mstep\<^sup>*\<^sup>* s t \<Longrightarrow> manager_good s \<Longrightarrow> descends s t"
  by (erule manager.run_relation, assumption)
     (rule descends_refl, erule (1) descends_trans, erule (1) step_descends)

lemma stored_used: "manager_good s \<Longrightarrow> stored i (g_disk s) = Inr m \<Longrightarrow> i \<in> g_used s"
proof -
  assume "manager_good s" and "stored i (g_disk s) = Inr m"
  then obtain j where "g_disk s i = Some j" "dom (g_disk s) \<subseteq> g_used s"
    using store_load_document [of None i "g_disk s" m]
    by (auto simp: stored_def manager_good_def disk_good_def)
  then show ?thesis by blast
qed

subsection \<open>Properties\<close>




text \<open>C8: Every manifest a reachable state stores is well formed: file identifiers are distinct, every
  completed file has its output, the files of an ended job have all ended, a completed job has a
  completed file, and a queued or running job has files.\<close>

theorem stored_manifests_well_formed:
  assumes "manager_init s0" and "mstep\<^sup>*\<^sup>* s0 s" and "stored i (g_disk s) = Inr m"
  shows "distinct (map f_id (m_files m))
    \<and> (\<forall>f\<in>set (m_files m). f_state f = FileCompleted \<longrightarrow> f_output f \<noteq> None)
    \<and> (job_terminal (m_state m) \<longrightarrow> (\<forall>f\<in>set (m_files m). file_terminal (f_state f)))
    \<and> (m_state m = JobCompleted \<longrightarrow> (\<exists>f\<in>set (m_files m). f_state f = FileCompleted))
    \<and> (job_active (m_state m) \<longrightarrow> m_files m \<noteq> [])"
proof -
  have ok: "manifest_ok m"
    using manager.reachable_good [OF assms(1,2)] assms(3) by (simp add: manager_good_def disk_good_def)
  then have "file_terminal (f_state f)" if "job_terminal (m_state m)" "f \<in> set (m_files m)" for f
    using that fits_terminalD by (auto simp: manifest_ok_def)
  with ok show ?thesis by (simp add: manifest_ok_def)
qed

subsection \<open>Witnesses\<close>

definition quiet_io :: io_env where
  "quiet_io = \<lparr>io_read = None, io_save = no_save_faults, io_now = 20, io_finished = 19\<rparr>"

lemma sample_manifest_ok: "manifest_ok sample_manifest"
  by (simp add: manifest_ok_def sample_manifest_def sample_file_def new_manifest_def fits_def)

lemma sample_init: "manager_init sample_manager"
proof -
  let ?opt = "\<lparr>o_store = True, o_converter = True, o_max_processes = 1, o_max_files = 1, o_max_upload = 1,
    o_min_free = 0, o_ttl = 1, o_timeout = 1, o_queue_depth = 1\<rparr>"
  have "new_manager ?opt sample_disk = Inr sample_manager"
    by (simp add: new_manager_def sample_manager_def sample_disk_def)
  moreover have "manifest_ok m" if "stored i sample_disk = Inr m" for i m
    using that sample_manifest_ok
    by (auto simp: stored_def store_load_def Let_def sample_disk_def split: option.splits if_splits)
  ultimately show ?thesis unfolding manager_init_def by blast
qed

text \<open>Canceling the sample job takes it from pending to canceled.\<close>

definition canceled_manager :: mgr where
  "canceled_manager = snd (cancel_job quiet_io ''AAECAwQFBgcICQoLDA0ODw'' sample_manager)"

lemma cancel_sample_step: "mstep sample_manager canceled_manager"
  unfolding canceled_manager_def by (rule step_cancel [OF surjective_pairing])

lemma canceled_sample:
  "\<exists>m. stored ''AAECAwQFBgcICQoLDA0ODw'' (g_disk canceled_manager) = Inr m
    \<and> m_state m = JobCanceled \<and> m_files m \<noteq> []"
proof -
  let ?i = "''AAECAwQFBgcICQoLDA0ODw''"
  have st: "m_state sample_manifest = JobPending" and id: "m_id sample_manifest = ?i"
    and fs: "m_files sample_manifest \<noteq> []"
    by (simp_all add: sample_manifest_def new_manifest_def)
  let ?f = "\<lambda>m. Inr (cancel_change 19 m)"
  obtain q s1 where u: "update_job quiet_io ?i ?f (stop_control ?i sample_manager) = (q, s1)" by fastforce
  have c: "canceled_manager = s1"
    using u st load_sample by (simp add: canceled_manager_def cancel_job_def quiet_io_def)
  have "\<exists>m'. q = Inr m'"
    using u load_sample st id
    by (auto simp: update_job_def store_update_def quiet_io_def load_job_def Let_def cancel_change_def
        store_save_def no_save_faults_def sync_dir_def directory_sync_error_def sample_id_valid
        sample_manager_def sample_disk_def split: prod.splits sum.splits if_splits)
  then obtain m' where q: "q = Inr m'" by blast
  have "\<And>m m'. ?f m = Inr m' \<Longrightarrow> m_id m' = m_id m" by (auto simp: cancel_change_def)
  moreover have "\<And>m m'. ?f m = Inr m' \<Longrightarrow> manifest_ok m \<Longrightarrow> manifest_ok m' \<and> later m m'"
    using cancel_change_ok by auto
  ultimately obtain m where m: "stored ?i (g_disk sample_manager) = Inr m"
      "stored ?i (g_disk s1) = Inr (written ((cancel_change 19 m)\<lparr>m_updated_at := 20\<rparr>))"
    using update_changes(3) [OF u _ _ q] by (auto simp: quiet_io_def)
  have "m = sample_manifest" using m(1) load_sample by (simp add: load_job_def stored_def)
  then show ?thesis using m(2) c st fs by (simp add: cancel_change_def)
qed




theorem stored_manifests_well_formed_witness:
  "\<exists>m. stored ''AAECAwQFBgcICQoLDA0ODw'' (g_disk canceled_manager) = Inr m
    \<and> (\<forall>f\<in>set (m_files m). file_terminal (f_state f))"
proof -
  obtain m where m: "stored ''AAECAwQFBgcICQoLDA0ODw'' (g_disk canceled_manager) = Inr m" "m_state m = JobCanceled"
    using canceled_sample by blast
  have "mstep\<^sup>*\<^sup>* sample_manager canceled_manager" using cancel_sample_step by blast
  from stored_manifests_well_formed [OF sample_init this m(1)] m show ?thesis by simp
qed

end
