(* ===== verification/Uploads.thy ===== *)
theory Uploads
  imports Manager_Safety
begin

text \<open>
  Uploads, \<open>internal/jobs/upload.go\<close>: storing the parts of a multipart body in a new job
  directory within a byte budget, probing the stored files, and publishing the manifest.
  The body is the list of parts the multipart reader delivers before it ends; each part says
  how many bytes it carries and how it ends. What system calls and the prober answer comes
  from environment records.
\<close>

subsection \<open>Errors of an upload\<close>

definition invalid_upload :: "string \<Rightarrow> err" where
  "invalid_upload detail = Wrapped detail (Sentinel ErrInvalidUpload)"

definition upload_limit_error :: "err \<Rightarrow> err option" where
  "upload_limit_error e =
    (if errors_as as_max_bytes e \<noteq> None then Some (Sentinel ErrUploadTooLarge)
     else if errors_is e OsErrDeadlineExceeded then Some (Sentinel ErrUploadStalled)
     else if errors_as as_net_timeout e = Some True then Some (Sentinel ErrUploadStalled)
     else None)"

text \<open>The error of a failed read of the body: the limit that caused it, or an invalid upload.\<close>

definition body_error :: "string \<Rightarrow> err \<Rightarrow> err" where
  "body_error detail e =
    (case upload_limit_error e of Some l \<Rightarrow> l | None \<Rightarrow> invalid_upload detail)"

definition probe_wait_failure :: "err \<Rightarrow> failure" where
  "probe_wait_failure e =
    (if errors_is e ContextDeadlineExceeded
     then \<lparr>fl_kind = failure_kind_text FailureProbe, fl_code = ''probe_backpressure'',
           fl_message = ''content probing timed out while waiting for capacity''\<rparr>
     else failure_from e)"

subsection \<open>Reading parts\<close>

text \<open>
  A part delivers \<open>pt_bytes\<close> bytes and then ends, with \<open>pt_end = None\<close> for the regular
  end of file; \<open>pt_close\<close> is the error of closing it. The other record has the outcomes of
  the calls made while it is stored: the request context before it is read, creating,
  writing (an error after that many bytes), syncing and closing the staging file, removing
  it, and renaming it into place.
\<close>

record part =
  pt_name :: string
  pt_bytes :: nat
  pt_end :: "err option"
  pt_close :: "err option"

record part_io =
  pi_ctx :: "err option"
  pi_open :: "err option"
  pi_write :: "(nat \<times> err) option"
  pi_sync :: "err option"
  pi_close :: "err option"
  pi_unlink :: "err option"
  pi_rename :: "err option"

text \<open>\<open>io.Copy\<close> from \<open>io.LimitReader(part, limit)\<close>: bytes copied and the error.\<close>

definition read_limited :: "nat \<Rightarrow> part \<Rightarrow> nat \<times> err option" where
  "read_limited limit p =
    (if pt_bytes p < limit then (pt_bytes p, pt_end p) else (limit, None))"

definition copy_limited :: "nat \<Rightarrow> part \<Rightarrow> (nat \<times> err) option \<Rightarrow> nat \<times> err option" where
  "copy_limited limit p write_fault =
    (case write_fault of
       Some (k, e) \<Rightarrow> if k < fst (read_limited limit p) then (k, Some e) else read_limited limit p
     | None \<Rightarrow> read_limited limit p)"

text \<open>The probing read after the copy: \<open>None\<close> for a byte beyond the budget.\<close>

definition overflow_error :: "nat \<Rightarrow> part \<Rightarrow> err option option" where
  "overflow_error limit p =
    (if limit < pt_bytes p then None
     else Some (case pt_end p of
                  Some e \<Rightarrow> if errors_is e IoEOF then None else Some e
                | None \<Rightarrow> None))"

definition write_part :: "part \<Rightarrow> part_io \<Rightarrow> int \<Rightarrow> err option \<Rightarrow> nat \<times> err option" where
  "write_part p io remaining limit_err =
    (let limit_err = (case limit_err of None \<Rightarrow> Sentinel ErrUploadTooLarge | Some e \<Rightarrow> e)
     in if remaining \<le> 0 then (0, Some limit_err)
        else case pi_open io of
          Some e \<Rightarrow> (0, Some (Wrapped ''jobs: create upload part'' e))
        | None \<Rightarrow>
          (case copy_limited (nat remaining) p (pi_write io) of (stored_bytes, copy_err) \<Rightarrow>
             if copy_err = None \<and> overflow_error (nat remaining) p = None
             then (stored_bytes, Some limit_err)
             else let copy_err = (case copy_err of
                                    Some e \<Rightarrow> Some e
                                  | None \<Rightarrow> the (overflow_error (nat remaining) p))
                  in case copy_err of
                       Some e \<Rightarrow> (stored_bytes, Some (body_error ''file part could not be stored'' e))
                     | None \<Rightarrow>
                       (case pi_sync io of
                          Some e \<Rightarrow> (stored_bytes, Some (Wrapped ''jobs: flush upload part'' e))
                        | None \<Rightarrow>
                          (case pi_close io of
                             Some e \<Rightarrow> (stored_bytes, Some (Wrapped ''jobs: close upload part'' e))
                           | None \<Rightarrow>
                             if stored_bytes = 0 then (0, Some (invalid_upload ''file part was empty''))
                             else (stored_bytes, None)))))"

definition max_form_fields :: nat where
  "max_form_fields = 32"

definition max_form_field_bytes :: nat where
  "max_form_field_bytes = 65536"

definition drain_part :: "part \<Rightarrow> err option" where
  "drain_part p =
    (case read_limited (max_form_field_bytes + 1) p of
       (n, Some e) \<Rightarrow> Some (body_error ''form field could not be read'' e)
     | (n, None) \<Rightarrow>
         if max_form_field_bytes < n
         then Some (invalid_upload ''form field exceeds the field size limit'')
         else if pt_close p \<noteq> None then Some (invalid_upload ''form field could not be closed'')
         else None)"

subsection \<open>Receiving a body\<close>

text \<open>\<open>fmt.Sprintf("f%03d", count)\<close>.\<close>

definition file_id_of :: "nat \<Rightarrow> string" where
  "file_id_of n = CHR ''f'' # replicate (3 - length (nat_text n)) (CHR ''0'') @ nat_text n"

text \<open>The local variables of \<open>receive\<close> with the job's directory and the manifest's fields.\<close>

record intake =
  ik_dir :: job_dir
  ik_files :: "job_file list"
  ik_sum :: int
  ik_taken :: "string set option"
  ik_remaining :: int
  ik_count :: nat
  ik_fields :: nat

definition received_file :: "string \<Rightarrow> string \<Rightarrow> string \<Rightarrow> int \<Rightarrow> job_file" where
  "received_file fid stored_name display stored_bytes =
    \<lparr>f_id = fid, f_name = stored_name, f_original_name = display, f_size = stored_bytes,
     f_state = FileUploaded, f_media = None, f_recommended = no_operation, f_compatible = [],
     f_selected = no_operation, f_operation_source = [],
     f_validation = \<lparr>vr_status = ''not_run'', vr_issues = []\<rparr>, f_warnings = [],
     f_execution = zero_execution, f_fallback_reason = [], f_error = None, f_output = None,
     f_started_at = None, f_finished_at = None\<rparr>"

definition put_temp :: "string \<Rightarrow> int option \<Rightarrow> intake \<Rightarrow> intake" where
  "put_temp name content st = st\<lparr>ik_dir := (ik_dir st)\<lparr>jd_temp := (jd_temp (ik_dir st))(name := content)\<rparr>\<rparr>"

text \<open>The staging file after a failure: gone, unless it exists and cannot be removed.\<close>

definition drop_temp :: "part_io \<Rightarrow> string \<Rightarrow> nat \<Rightarrow> intake \<Rightarrow> intake" where
  "drop_temp io name stored_bytes st =
    (if pi_open io \<noteq> None then st
     else put_temp name (if pi_unlink io = None then None else Some (int stored_bytes)) st)"

text \<open>
  One file part. \<open>None\<close> would be a loop of the name allocator that does not end. The error
  is the one \<open>receive\<close> returns.
\<close>

definition receive_file ::
  "string \<Rightarrow> string \<Rightarrow> int \<Rightarrow> err option \<Rightarrow> part \<Rightarrow> part_io \<Rightarrow> intake \<Rightarrow> (err option \<times> intake) option" where
  "receive_file input_dir temp_dir max_files limit_err p io st =
    (let count = ik_count st + 1; st = st\<lparr>ik_count := count\<rparr>
     in if max_files < int count then Some (Some (Sentinel ErrTooManyFiles), st)
        else let fid = file_id_of count; display = safe_file_name (pt_name p) fid
        in case unique_file_name (ik_taken st) display of
             None \<Rightarrow> None
           | Some (stored_name, taken) \<Rightarrow>
             let st = st\<lparr>ik_taken := taken\<rparr>; temp = fid @ ''.part''
             in case resolve input_dir stored_name of
                  Inl e \<Rightarrow> Some (Some (invalid_upload ''file name is not usable''), st)
                | Inr target_path \<Rightarrow>
             case resolve temp_dir temp of
                  Inl e \<Rightarrow> Some (Some (invalid_upload ''temporary name is not usable''), st)
                | Inr temp_path \<Rightarrow>
             case write_part p io (ik_remaining st) limit_err of
                  (stored_bytes, Some e) \<Rightarrow>
                    Some (Some e, if ik_remaining st \<le> 0 then st else drop_temp io temp stored_bytes st)
                | (stored_bytes, None) \<Rightarrow>
             case pt_close p of
                  Some e \<Rightarrow>
                    Some (Some (body_error ''file part could not be closed'' e), drop_temp io temp stored_bytes st)
                | None \<Rightarrow>
             case pi_rename io of
                  Some e \<Rightarrow>
                    Some (Some (Wrapped ''jobs: publish uploaded file'' e), drop_temp io temp stored_bytes st)
                | None \<Rightarrow>
                    Some (None, (put_temp temp None st)\<lparr>
                      ik_dir := (ik_dir (put_temp temp None st))\<lparr>
                        jd_input := (jd_input (ik_dir st))(stored_name \<mapsto> int stored_bytes)\<rparr>,
                      ik_remaining := ik_remaining st - int stored_bytes,
                      ik_files := ik_files st @ [received_file fid stored_name display (int stored_bytes)],
                      ik_sum := ik_sum st + int stored_bytes\<rparr>))"

definition receive_field :: "part \<Rightarrow> intake \<Rightarrow> err option \<times> intake" where
  "receive_field p st =
    (let fields = ik_fields st + 1; st = st\<lparr>ik_fields := fields\<rparr>
     in if max_form_fields < fields
        then (Some (invalid_upload ''upload carried too many form fields''), st)
        else (drain_part p, st))"

text \<open>
  The body: its parts, the context error and the answer of \<open>NextPart\<close> after the last one,
  and the outcomes of clearing and recreating the staging directory.
\<close>

record body =
  bd_parts :: "(part \<times> part_io) list"
  bd_ctx :: "err option"
  bd_end :: err
  bd_clear :: "err option"
  bd_recreate :: "err option"

fun receive_parts ::
  "string \<Rightarrow> string \<Rightarrow> int \<Rightarrow> err option \<Rightarrow> err option \<Rightarrow> err \<Rightarrow> (part \<times> part_io) list \<Rightarrow> intake
    \<Rightarrow> (err option \<times> intake) option" where
  "receive_parts input_dir temp_dir max_files limit_err ctx at_end [] st =
    (if ctx \<noteq> None then Some (ctx, st)
     else if errors_is at_end IoEOF then Some (None, st)
     else Some (Some (body_error ''multipart stream ended unexpectedly'' at_end), st))"
| "receive_parts input_dir temp_dir max_files limit_err ctx at_end ((p, io) # ps) st =
    (if pi_ctx io \<noteq> None then Some (pi_ctx io, st)
     else case (if pt_name p = [] then Some (receive_field p st)
                else receive_file input_dir temp_dir max_files limit_err p io st) of
            None \<Rightarrow> None
          | Some (Some e, st1) \<Rightarrow> Some (Some e, st1)
          | Some (None, st1) \<Rightarrow> receive_parts input_dir temp_dir max_files limit_err ctx at_end ps st1)"

definition start_intake :: "int \<Rightarrow> manifest \<Rightarrow> job_dir \<Rightarrow> intake" where
  "start_intake budget m j =
    \<lparr>ik_dir = j, ik_files = m_files m, ik_sum = m_total_bytes m, ik_taken = Some {},
     ik_remaining = budget, ik_count = 0, ik_fields = 0\<rparr>"

definition receive ::
  "string \<Rightarrow> int \<Rightarrow> upload_budget \<Rightarrow> body \<Rightarrow> manifest \<Rightarrow> job_dir \<Rightarrow> (err option \<times> intake) option" where
  "receive root max_files budget b m j =
    (case input_dir_path root (m_id m) of
       Inl e \<Rightarrow> Some (Some e, start_intake (ub_bytes budget) m j)
     | Inr input_dir \<Rightarrow>
     case temp_dir_path root (m_id m) of
       Inl e \<Rightarrow> Some (Some e, start_intake (ub_bytes budget) m j)
     | Inr temp_dir \<Rightarrow>
     case receive_parts input_dir temp_dir max_files (Some (ub_limit_err budget)) (bd_ctx b) (bd_end b)
            (bd_parts b) (start_intake (ub_bytes budget) m j) of
       None \<Rightarrow> None
     | Some (Some e, st) \<Rightarrow> Some (Some e, st)
     | Some (None, st) \<Rightarrow>
         if ik_count st = 0 then Some (Some (Sentinel ErrNoFiles), st)
         else case bd_clear b of
           Some e \<Rightarrow> Some (Some (Wrapped ''jobs: clear upload staging directory'' e), st)
         | None \<Rightarrow>
           let st = st\<lparr>ik_dir := (ik_dir st)\<lparr>jd_temp := Map.empty\<rparr>\<rparr>
           in Some (map_option (Wrapped ''jobs: recreate upload staging directory'') (bd_recreate b), st))"

subsection \<open>Probing the files\<close>

text \<open>
  For one file: the error of waiting for a slot (or a slot), what the converter's
  \<open>Inspect\<close> returned, and the time it is recorded.
\<close>

record inspect_io =
  ii_wait :: "err option"
  ii_result :: "inspection result"
  ii_now :: time

definition fail_file :: "time \<Rightarrow> failure \<Rightarrow> job_file \<Rightarrow> job_file" where
  "fail_file finished fl f =
    f\<lparr>f_state := FileFailed, f_finished_at := Some finished, f_error := Some fl\<rparr>"

definition inspect_file :: "string \<Rightarrow> (string \<Rightarrow> inspect_io) \<Rightarrow> job_file \<Rightarrow> job_file" where
  "inspect_file input_dir env f =
    (let io = env (f_id f)
     in case resolve input_dir (f_name f) of
          Inl e \<Rightarrow> fail_file (ii_now io)
            \<lparr>fl_kind = failure_kind_text FailureConfiguration, fl_code = ''invalid_input'',
             fl_message = ''the uploaded file could not be located''\<rparr> f
        | Inr path \<Rightarrow>
            (case ii_wait io of
               Some e \<Rightarrow> fail_file (ii_now io) (probe_wait_failure e) f
             | None \<Rightarrow>
                (case ii_result io of
                   Inl e \<Rightarrow> fail_file (ii_now io) (failure_from e) f
                 | Inr ins \<Rightarrow>
                     f\<lparr>f_media := Some (in_media ins), f_recommended := in_recommended ins,
                       f_compatible := in_compatible ins, f_selected := in_recommended ins,
                       f_operation_source := ''recommended'', f_state := FileInspected\<rparr>)))"

definition inspect_files :: "string \<Rightarrow> string \<Rightarrow> (string \<Rightarrow> inspect_io) \<Rightarrow> job_file list \<Rightarrow> job_file list" where
  "inspect_files root i env fs =
    (case input_dir_path root i of Inl e \<Rightarrow> fs | Inr input_dir \<Rightarrow> map (inspect_file input_dir env) fs)"

subsection \<open>Accepting an upload\<close>

record accept_env =
  ae_reader :: bool
  ae_free :: "int result"
  ae_rand :: "nat list option"
  ae_mkdir :: "err option"
  ae_sub :: "err option"
  ae_save :: save_env
  ae_now :: time
  ae_body :: body
  ae_inspect :: "string \<Rightarrow> inspect_io"
  ae_finish :: io_env
  ae_delete :: delete_env

text \<open>
  \<open>Accept\<close> without interleaving. The deferred calls release the lease first and the
  reservation last.
\<close>

definition accept_upload ::
  "options \<Rightarrow> string \<Rightarrow> accept_env \<Rightarrow> mgr \<Rightarrow> (manifest result \<times> mgr) option" where
  "accept_upload opt root env s =
    (if \<not> ae_reader env then Some (Inl (Sentinel ErrInvalidUpload), s)
     else if \<not> g_accepting s then Some (Inl (Sentinel ErrShuttingDown), s)
     else case reserve_upload_budget (o_max_upload opt) (o_min_free opt) (ae_free env) s of
       (Inl e, s1) \<Rightarrow> Some (Inl e, s1)
     | (Inr budget, s1) \<Rightarrow>
     case accept_create (ae_rand env) (ae_mkdir env) (ae_sub env) (ae_save env) (ae_now env) (o_ttl opt) s1 of
       (Inl e, s2) \<Rightarrow> Some (Inl e, release_budget budget s2)
     | (Inr m, s2) \<Rightarrow>
     case receive root (o_max_files opt) budget (ae_body env) m (the (g_disk s2 (m_id m))) of
       None \<Rightarrow> None
     | Some (failed, st) \<Rightarrow>
       let i = m_id m; s3 = s2\<lparr>g_disk := (g_disk s2)(i \<mapsto> ik_dir st)\<rparr>
       in case failed of
            Some e \<Rightarrow> Some (Inl e, release_budget budget (accept_fail (ae_delete env) i s3))
          | None \<Rightarrow>
              (case accept_finish (ae_finish env) (ae_delete env)
                      (inspect_files root i (ae_inspect env) (ik_files st)) (ik_sum st) i s3 of
                 (r, s4) \<Rightarrow> Some (r, release_budget budget s4)))"

text \<open>The path of a completed output.\<close>

definition output_path :: "string \<Rightarrow> string \<Rightarrow> job_file \<Rightarrow> string result" where
  "output_path root job_id f =
    (case f_output f of
       None \<Rightarrow> Inl (NewError (''jobs: file '' @ CHR 0x22 # f_id f @ CHR 0x22 # '' has no output''))
     | Some out \<Rightarrow>
     case output_dir_path root job_id of Inl e \<Rightarrow> Inl e | Inr output_root \<Rightarrow>
     case resolve output_root (f_id f) of Inl e \<Rightarrow> Inl e | Inr file_dir \<Rightarrow>
       resolve file_dir (file_base (op_name out)))"

subsection \<open>Identifiers\<close>

lemma digits_value_zeros: "digits_value 0 (replicate k (CHR ''0'') @ t) = digits_value 0 t"
  by (induction k) (simp_all add: digit_rune_def)

lemma file_id_of_inj: "file_id_of a = file_id_of b \<Longrightarrow> a = b"
proof -
  assume "file_id_of a = file_id_of b"
  then have "digits_value 0 (nat_text a) = digits_value 0 (nat_text b)"
    unfolding file_id_of_def by (metis digits_value_zeros list.inject)
  then show "a = b" by (simp add: digits_value_nat_text)
qed

lemma file_id_of_good: "file_id_of n \<noteq> [] \<and> list_all token_char (file_id_of n) \<and> hd (file_id_of n) \<noteq> dot"
  using nat_text_digits [of _ n]
  by (auto simp: file_id_of_def list_all_iff token_char_def digit_rune_def lower_letter_def upper_rune_def)

lemma stored_name_plain:
  assumes "unique_file_name (Some T) (safe_file_name n (file_id_of k)) = Some (m, u)" and "finite T"
  shows "plain_name m"
  using names.alloc_plain [OF _ safe_file_name_plain assms(1)] file_id_of_good assms(2)
  by (auto simp: real_map_def)

subsection \<open>Storing one part\<close>

lemma read_limited_le: "fst (read_limited k p) \<le> k \<and> fst (read_limited k p) \<le> pt_bytes p"
  by (auto simp: read_limited_def)

lemma copy_limited_le: "copy_limited k p w = (n, e) \<Longrightarrow> n \<le> k"
  using read_limited_le [of k p] by (auto simp: copy_limited_def split: option.splits prod.splits if_splits)

lemma write_part_le: "write_part p io r l = (n, e) \<Longrightarrow> 0 < r \<Longrightarrow> int n \<le> r"
  using copy_limited_le [of "nat r" p "pi_write io"]
  by (auto simp: write_part_def Let_def split: option.splits prod.splits if_splits)

text \<open>No write fault happens before all bytes of the part are written.\<close>

definition writes_all :: "part \<Rightarrow> part_io \<Rightarrow> bool" where
  "writes_all p io \<longleftrightarrow> (case pi_write io of None \<Rightarrow> True | Some (k, e) \<Rightarrow> pt_bytes p \<le> k)"

text \<open>The part ends regularly; an error that is the end of file counts when no byte is left to ask for.\<close>

definition ends_regularly :: "int \<Rightarrow> part \<Rightarrow> bool" where
  "ends_regularly r p \<longleftrightarrow>
    (case pt_end p of None \<Rightarrow> True | Some e \<Rightarrow> int (pt_bytes p) = r \<and> errors_is e IoEOF)"

lemma copy_limited_all:
  "int (pt_bytes p) \<le> r \<Longrightarrow> writes_all p io \<Longrightarrow>
    copy_limited (nat r) p (pi_write io) = (pt_bytes p, if int (pt_bytes p) < r then pt_end p else None)"
  by (auto simp: copy_limited_def read_limited_def writes_all_def nat_less_iff split: option.splits)

lemma write_part_stores:
  "write_part p io r l = (n, None) \<longleftrightarrow>
    n = pt_bytes p \<and> 0 < pt_bytes p \<and> int (pt_bytes p) \<le> r \<and> pi_open io = None \<and> pi_sync io = None
    \<and> pi_close io = None \<and> writes_all p io \<and> ends_regularly r p"
  (is "?L = ?R")
proof
  assume L: ?L
  then have r: "0 < r" and op: "pi_open io = None"
    by (auto simp: write_part_def Let_def split: if_splits option.splits)
  obtain k e where c: "copy_limited (nat r) p (pi_write io) = (k, e)" by fastforce
  have e: "e = None" and ov: "overflow_error (nat r) p = Some None" and fl: "pi_sync io = None" "pi_close io = None"
    and k: "n = k" "0 < k"
    using L r op c by (auto simp: write_part_def Let_def split: if_splits option.splits)
  have b: "int (pt_bytes p) \<le> r" using ov r by (auto simp: overflow_error_def split: if_splits)
  have w: "writes_all p io"
    using c e b r by (auto simp: copy_limited_def read_limited_def writes_all_def split: option.splits if_splits)
  have "k = pt_bytes p" "int (pt_bytes p) < r \<Longrightarrow> pt_end p = None"
    using copy_limited_all [OF b w] c e by (auto split: if_splits)
  moreover have "ends_regularly r p"
    using calculation(2) b ov by (fastforce simp: ends_regularly_def overflow_error_def split: option.splits if_splits)
  ultimately show ?R using k b op fl w by simp
next
  assume R: ?R
  then have "overflow_error (nat r) p = Some None"
    by (auto simp: overflow_error_def ends_regularly_def split: option.splits)
  moreover have "copy_limited (nat r) p (pi_write io) = (pt_bytes p, None)"
    using copy_limited_all [of p r io] R by (auto simp: ends_regularly_def split: option.splits)
  ultimately show ?L using R by (auto simp: write_part_def Let_def)
qed

text \<open>A part that does not fit is refused with the error of the limit that applies.\<close>

lemma write_part_overflow:
  assumes "r < int (pt_bytes p)" and "0 < r \<Longrightarrow> pi_open io = None \<and> writes_all p io"
  shows "\<exists>n. write_part p io r (Some l) = (n, Some l)"
proof (cases "0 < r")
  case True
  then have "copy_limited (nat r) p (pi_write io) = (nat r, None)"
    using assms by (auto simp: copy_limited_def read_limited_def writes_all_def split: option.splits)
  moreover have "overflow_error (nat r) p = None" using assms(1) True by (simp add: overflow_error_def)
  ultimately show ?thesis using True assms(2) by (simp add: write_part_def)
qed (simp add: write_part_def)

subsection \<open>The invariant of a body in progress\<close>

definition file_bytes :: "(string \<rightharpoonup> int) \<Rightarrow> int" where
  "file_bytes c = (\<Sum>x\<in>dom c. the (c x))"

lemma file_bytes_empty [simp]: "file_bytes Map.empty = 0"
  by (simp add: file_bytes_def)

lemma file_bytes_upd: "finite (dom c) \<Longrightarrow> x \<notin> dom c \<Longrightarrow> file_bytes (c(x \<mapsto> n)) = n + file_bytes c"
proof -
  assume "finite (dom c)" and x: "x \<notin> dom c"
  moreover have "(\<Sum>y\<in>dom c. the ((c(x \<mapsto> n)) y)) = (\<Sum>y\<in>dom c. the (c y))"
    using x by (intro sum.cong) auto
  ultimately show ?thesis by (simp add: file_bytes_def)
qed

text \<open>
  What holds between two parts: the files of the manifest are exactly the files in the input
  directory, with distinct plain names and the identifiers in order, and their sizes and what
  is left of the budget add up.
\<close>

definition intake_inv :: "int \<Rightarrow> intake \<Rightarrow> bool" where
  "intake_inv budget st \<longleftrightarrow>
    map f_id (ik_files st) = map file_id_of [1..<ik_count st + 1]
    \<and> ik_taken st = Some (f_name ` set (ik_files st))
    \<and> distinct (map f_name (ik_files st))
    \<and> (\<forall>f\<in>set (ik_files st). plain_name (f_name f) \<and> 0 < f_size f \<and> f_state f = FileUploaded
         \<and> jd_input (ik_dir st) (f_name f) = Some (f_size f))
    \<and> dom (jd_input (ik_dir st)) = f_name ` set (ik_files st)
    \<and> ik_sum st = sum_list (map f_size (ik_files st))
    \<and> file_bytes (jd_input (ik_dir st)) = ik_sum st
    \<and> ik_sum st + ik_remaining st = budget \<and> 0 \<le> ik_remaining st
    \<and> jd_temp (ik_dir st) = Map.empty"

text \<open>What a failed part may leave behind: one staging file within the remaining budget.\<close>

definition within_budget :: "int \<Rightarrow> job_dir \<Rightarrow> bool" where
  "within_budget budget j \<longleftrightarrow> file_bytes (jd_input j) + file_bytes (jd_temp j) \<le> budget"

lemma intake_inv_within: "intake_inv budget st \<Longrightarrow> within_budget budget (ik_dir st)"
  by (simp add: intake_inv_def within_budget_def)

lemma file_bytes_single [simp]: "file_bytes [x \<mapsto> n] = n"
  by (simp add: file_bytes_def)

lemma drop_temp_within:
  assumes "intake_inv budget st" and "int n \<le> ik_remaining st"
  shows "within_budget budget (ik_dir (drop_temp io x n (st\<lparr>ik_count := c, ik_taken := t\<rparr>)))"
  using assms by (auto simp: drop_temp_def put_temp_def within_budget_def intake_inv_def)

lemma receive_file_total:
  assumes "intake_inv B st"
  shows "receive_file input_dir temp_dir mf le p io st \<noteq> None"
proof -
  let ?T = "f_name ` set (ik_files st)"
  obtain m where "unique_file_name (Some ?T) (safe_file_name (pt_name p) (file_id_of (ik_count st + 1)))
      = Some (m, Some (insert m ?T))"
    using unique_file_name_spec [of ?T] by blast
  then show ?thesis
    using assms by (auto simp: receive_file_def Let_def intake_inv_def split: sum.splits option.splits prod.splits)
qed

lemma receive_file_step:
  assumes inv: "intake_inv B st" and a: "receive_file input_dir temp_dir mf le p io st = Some (r, st')"
  shows "(case r of
      None \<Rightarrow> intake_inv B st' \<and> ik_count st' = ik_count st + 1 \<and> int (ik_count st') \<le> mf
    | Some e \<Rightarrow> within_budget B (ik_dir st'))
    \<and> jd_manifest (ik_dir st') = jd_manifest (ik_dir st)"
proof -
  let ?T = "f_name ` set (ik_files st)" and ?c = "ik_count st + 1"
  let ?fid = "file_id_of ?c"
  let ?d = "safe_file_name (pt_name p) ?fid"
  have T: "ik_taken st = Some ?T" using inv by (simp add: intake_inv_def)
  obtain m where m: "unique_file_name (Some ?T) ?d = Some (m, Some (insert m ?T))" "m \<notin> ?T"
    using unique_file_name_spec [of ?T ?d] by auto
  have plain: "plain_name m" by (rule stored_name_plain [OF m(1)]) simp
  let ?st = "st\<lparr>ik_count := ?c, ik_taken := Some (insert m ?T)\<rparr>"
  have w: "within_budget B (ik_dir ?st)" using intake_inv_within [OF inv] by simp
  show ?thesis
  proof (cases "mf < int ?c")
    case True
    then show ?thesis using a w by (auto simp: receive_file_def Let_def)
  next
    case mf: False
    obtain n e where wp: "write_part p io (ik_remaining st) le = (n, e)" by fastforce
    have n: "0 < ik_remaining st \<Longrightarrow> int n \<le> ik_remaining st" using write_part_le [OF wp] .
    have dropped: "within_budget B (ik_dir (drop_temp io x n ?st))" if "0 < ik_remaining st" for x
      using drop_temp_within [OF inv n [OF that]] .
    consider (bad) e1 where "resolve input_dir m = Inl e1" | (bad2) e1 where "resolve temp_dir (?fid @ ''.part'') = Inl e1"
      | (ok) t1 t2 where "resolve input_dir m = Inr t1" "resolve temp_dir (?fid @ ''.part'') = Inr t2"
      by (meson sum.exhaust)
    then show ?thesis
    proof cases
      case ok
      show ?thesis
      proof (cases e)
        case (Some e1)
        then have "r = Some e1" "st' = (if ik_remaining st \<le> 0 then ?st else drop_temp io (?fid @ ''.part'') n ?st)"
          using a mf T m ok wp by (auto simp: receive_file_def Let_def)
        then show ?thesis using w dropped by (auto simp: drop_temp_def put_temp_def)
      next
        case None
        have rem: "0 < ik_remaining st" using wp None write_part_stores by fastforce
        have size: "0 < n" using wp None by (simp add: write_part_stores)
        show ?thesis
        proof (cases "pt_close p = None \<and> pi_rename io = None")
          case True
          then have r: "r = None" and st': "st' = (put_temp (?fid @ ''.part'') None ?st)\<lparr>
                ik_dir := (ik_dir (put_temp (?fid @ ''.part'') None ?st))\<lparr>
                  jd_input := (jd_input (ik_dir st))(m \<mapsto> int n)\<rparr>,
                ik_remaining := ik_remaining st - int n,
                ik_files := ik_files st @ [received_file ?fid m ?d (int n)],
                ik_sum := ik_sum st + int n\<rparr>"
            using a mf T m ok wp None by (auto simp: receive_file_def Let_def)
          have "file_bytes ((jd_input (ik_dir st))(m \<mapsto> int n)) = int n + file_bytes (jd_input (ik_dir st))"
            using inv m(2) by (intro file_bytes_upd) (auto simp: intake_inv_def)
          then have "intake_inv B st'"
            using inv m(2) plain n [OF rem] size unfolding st'
            by (auto simp: intake_inv_def received_file_def put_temp_def fun_upd_idem)
          then show ?thesis using mf r by (simp add: st' put_temp_def)
        next
          case False
          then have "r \<noteq> None" "st' = drop_temp io (?fid @ ''.part'') n ?st"
            using a mf T m ok wp None by (auto simp: receive_file_def Let_def split: option.splits)
          then show ?thesis using dropped [OF rem] by (auto simp: drop_temp_def put_temp_def)
        qed
      qed
    qed (use a mf T m w in \<open>auto simp: receive_file_def Let_def split: sum.splits\<close>)
  qed
qed

text \<open>A whole body.\<close>

lemma receive_field_frame: "receive_field p st = (r, st') \<Longrightarrow> st' = st\<lparr>ik_fields := ik_fields st + 1\<rparr>"
  by (auto simp: receive_field_def Let_def split: if_splits)

lemma intake_inv_fields [simp]: "intake_inv B (st\<lparr>ik_fields := k\<rparr>) = intake_inv B st"
  by (simp add: intake_inv_def)

lemma receive_parts_inv:
  assumes "intake_inv B st" and "int (ik_count st) \<le> mf \<or> ik_count st = 0"
  shows "\<exists>r st'. receive_parts input_dir temp_dir mf le ctx at_end ps st = Some (r, st')
    \<and> (case r of None \<Rightarrow> intake_inv B st' \<and> (int (ik_count st') \<le> mf \<or> ik_count st' = 0)
        | Some e \<Rightarrow> within_budget B (ik_dir st'))
    \<and> jd_manifest (ik_dir st') = jd_manifest (ik_dir st)"
  using assms
proof (induction ps arbitrary: st)
  case Nil
  then show ?case using intake_inv_within by (auto split: option.splits)
next
  case (Cons q ps)
  obtain p io where q: "q = (p, io)" by (cases q)
  show ?case
  proof (cases "pi_ctx io")
    case (Some e)
    then show ?thesis using Cons.prems intake_inv_within q by auto
  next
    case None
    obtain r st1 where one: "(if pt_name p = [] then Some (receive_field p st)
        else receive_file input_dir temp_dir mf le p io st) = Some (r, st1)"
      using receive_file_total [OF Cons.prems(1)] by fastforce
    have step: "case r of None \<Rightarrow> intake_inv B st1 \<and> (int (ik_count st1) \<le> mf \<or> ik_count st1 = 0)
        | Some e \<Rightarrow> within_budget B (ik_dir st1)" "jd_manifest (ik_dir st1) = jd_manifest (ik_dir st)"
      using one receive_field_frame [of p st r st1] receive_file_step [OF Cons.prems(1), of input_dir temp_dir mf le p io r st1]
        Cons.prems intake_inv_within [OF Cons.prems(1)]
      by (auto split: if_splits option.splits)
    show ?thesis
    proof (cases r)
      case (Some e)
      then show ?thesis using one step q None by auto
    next
      case r: None
      then show ?thesis
        using Cons.IH [of st1] step one q None by auto
    qed
  qed
qed

lemma start_intake_inv:
  "m_files m = [] \<Longrightarrow> m_total_bytes m = 0 \<Longrightarrow> 0 \<le> B \<Longrightarrow> jd_input j = Map.empty \<Longrightarrow> jd_temp j = Map.empty \<Longrightarrow>
    intake_inv B (start_intake B m j)"
  by (simp add: intake_inv_def start_intake_def)

lemma intake_inv_ids:
  "intake_inv B st \<Longrightarrow> distinct (map f_id (ik_files st)) \<and> length (ik_files st) = ik_count st"
proof -
  assume inv: "intake_inv B st"
  then have "map f_id (ik_files st) = map file_id_of [1..<ik_count st + 1]" by (simp add: intake_inv_def)
  moreover from this have "length (ik_files st) = ik_count st" by (metis diff_add_inverse2 length_map length_upt)
  moreover have "distinct (map file_id_of [1..<ik_count st + 1])"
    using file_id_of_inj by (auto simp: distinct_map inj_on_def)
  ultimately show ?thesis by simp
qed

text \<open>What \<open>receive\<close> returns and leaves, for a fresh job.\<close>

lemma receive_result:
  assumes m: "m_files m = []" "m_total_bytes m = 0" and j: "jd_input j = Map.empty" "jd_temp j = Map.empty"
    and B: "0 \<le> ub_bytes budget"
  shows "\<exists>r st. receive root mf budget b m j = Some (r, st) \<and> within_budget (ub_bytes budget) (ik_dir st)
    \<and> jd_manifest (ik_dir st) = jd_manifest j
    \<and> (r = None \<longrightarrow> intake_inv (ub_bytes budget) st \<and> ik_files st \<noteq> [] \<and> int (length (ik_files st)) \<le> mf)"
proof -
  let ?st = "start_intake (ub_bytes budget) m j"
  have inv: "intake_inv (ub_bytes budget) ?st" using start_intake_inv assms by blast
  have man: "jd_manifest (ik_dir ?st) = jd_manifest j" and z: "ik_count ?st = 0" by (simp_all add: start_intake_def)
  consider e where "input_dir_path root (m_id m) = Inl e" | e where "temp_dir_path root (m_id m) = Inl e"
    | i t where "input_dir_path root (m_id m) = Inr i" "temp_dir_path root (m_id m) = Inr t"
    by (meson sum.exhaust)
  then show ?thesis
  proof cases
    case (3 i t)
    obtain r st where rp: "receive_parts i t mf (Some (ub_limit_err budget)) (bd_ctx b) (bd_end b) (bd_parts b) ?st
        = Some (r, st)"
      and step: "case r of None \<Rightarrow> intake_inv (ub_bytes budget) st \<and> (int (ik_count st) \<le> mf \<or> ik_count st = 0)
        | Some e \<Rightarrow> within_budget (ub_bytes budget) (ik_dir st)" "jd_manifest (ik_dir st) = jd_manifest j"
      using receive_parts_inv [OF inv, of mf i t "Some (ub_limit_err budget)" "bd_ctx b" "bd_end b" "bd_parts b"] z man by auto
    show ?thesis
    proof (cases r)
      case (Some e)
      then show ?thesis using 3 rp step by (simp add: receive_def)
    next
      case None
      then have ok: "intake_inv (ub_bytes budget) st" "int (ik_count st) \<le> mf \<or> ik_count st = 0"
        using step by auto
      have w: "within_budget (ub_bytes budget) (ik_dir st)" using intake_inv_within [OF ok(1)] .
      have same: "st\<lparr>ik_dir := ik_dir st\<lparr>jd_temp := Map.empty\<rparr>\<rparr> = st"
        using ok(1) by (simp add: intake_inv_def)
      have ne: "ik_count st \<noteq> 0 \<Longrightarrow> ik_files st \<noteq> []" and len: "length (ik_files st) = ik_count st"
        using intake_inv_ids [OF ok(1)] by auto
      show ?thesis
        using 3 rp None ok w ne len step
        by (auto simp: receive_def Let_def same split: option.splits)
    qed
  qed (use inv intake_inv_within man in \<open>auto simp: receive_def split: sum.splits\<close>)
qed

subsection \<open>Probed files\<close>

lemma inspect_file_frame:
  "f_id (inspect_file dir env f) = f_id f" "f_name (inspect_file dir env f) = f_name f"
  "f_size (inspect_file dir env f) = f_size f"
  "f_state (inspect_file dir env f) = FileInspected \<or> f_state (inspect_file dir env f) = FileFailed"
  by (auto simp: inspect_file_def fail_file_def Let_def split: sum.splits option.splits)

lemma inspect_files_received:
  assumes "intake_inv B st" and "ik_files st \<noteq> []"
  shows "received_ok (inspect_files root i env (ik_files st))"
proof (cases "input_dir_path root i")
  case (Inl e)
  then show ?thesis
    using assms intake_inv_ids [OF assms(1)] by (auto simp: inspect_files_def received_ok_def intake_inv_def)
next
  case (Inr dir)
  have "f_id \<circ> inspect_file dir env = f_id" by (simp add: fun_eq_iff inspect_file_frame(1))
  then show ?thesis
    using assms(2) intake_inv_ids [OF assms(1)] Inr inspect_file_frame(4)
    by (auto simp: inspect_files_def received_ok_def)
qed

subsection \<open>Accept as a run of the manager\<close>

text \<open>
  The fields that record who holds what are not written by the code; adding to them what
  \<open>Accept\<close> holds for a while turns it into steps of the manager.
\<close>

lemma reserve_frame:
  "reserve_upload_budget mu mf free s = (r, t) \<Longrightarrow>
    (case r of Inl e \<Rightarrow> t = s
     | Inr b \<Rightarrow> t = s\<lparr>g_uploads := g_uploads s + ub_bytes b\<rparr> \<and> (0 < mu \<longrightarrow> 0 < ub_bytes b) \<and> ub_bytes b \<le> mu
        \<and> (\<exists>f. free = Inr f \<and> g_uploads t + mf \<le> f))"
  by (auto simp: reserve_upload_budget_def Let_def split: if_splits sum.splits)

lemma created_dir:
  assumes "store_create rand mk sub env now ttl d = (Inr m, d')"
  shows "new_id rand = Inr (m_id m) \<and> d (m_id m) = None \<and> m = new_manifest (m_id m) now ttl
    \<and> d' = d(m_id m \<mapsto> empty_dir\<lparr>jd_manifest := Some (Document (written m))\<rparr>)"
proof -
  obtain i where i: "new_id rand = Inr i" using assms by (auto simp: store_create_def split: sum.splits)
  have di: "d i = None" using assms i by (auto simp: store_create_def split: if_splits option.splits)
  let ?m = "new_manifest i now ttl"
  obtain x d2 where sv: "store_save env ?m (d(i \<mapsto> empty_dir)) = (x, d2)" by fastforce
  have "m = ?m \<and> d' = d2 \<and> x = None"
    using assms i di sv by (auto simp: store_create_def Let_def split: option.splits)
  moreover have id: "m_id ?m = i" by (simp add: new_manifest_def)
  moreover have "d2 = put_manifest i (Document (written ?m)) (d(i \<mapsto> empty_dir))" if "x = None"
    using store_save_cases [OF sv] id that by auto
  ultimately show ?thesis using i di by (auto simp: put_manifest_def)
qed

lemma accept_create_result:
  "accept_create rand mk sub env now ttl s = (r, t) \<Longrightarrow>
    (case r of Inl e \<Rightarrow> t = s
     | Inr m \<Rightarrow> t = s\<lparr>g_disk := (g_disk s)(m_id m \<mapsto> empty_dir\<lparr>jd_manifest := Some (Document (written m))\<rparr>),
                       g_leases := add_mset (m_id m) (g_leases s)\<rparr>
         \<and> g_disk s (m_id m) = None \<and> new_id rand = Inr (m_id m) \<and> m = new_manifest (m_id m) now ttl)"
  using created_dir create_disk [of rand mk sub env now ttl "g_disk s"]
  by (auto simp: accept_create_def acquire_lease_def split: prod.splits sum.splits)

text \<open>Creating, failing and finishing do not look at the recording fields.\<close>

lemma accept_create_ghost:
  "accept_create rand mk sub env now ttl s = (r, t) \<Longrightarrow>
    accept_create rand mk sub env now ttl (s\<lparr>g_budgets := b\<rparr>) = (r, t\<lparr>g_budgets := b\<rparr>)"
  by (auto simp: accept_create_def acquire_lease_def split: prod.splits sum.splits)

lemma accept_finish_fields:
  "\<exists>q. accept_finish io env fs n i s = (fst q, s\<lparr>g_disk := snd q, g_leases := g_leases s - {#i#}\<rparr>)
    \<and> (\<forall>b I U. accept_finish io env fs n i (s\<lparr>g_budgets := b, g_intakes := I, g_used := U\<rparr>)
        = (fst q, s\<lparr>g_disk := snd q, g_leases := g_leases s - {#i#}, g_budgets := b, g_intakes := I, g_used := U\<rparr>))"
proof -
  obtain r d where u: "store_update (io_read io) (io_save io) i (io_now io)
      (Some (\<lambda>m. Inr (accept_change fs n (io_finished io) m))) (g_disk s) = (r, d)" by fastforce
  show ?thesis
  proof (cases r)
    case (Inl e)
    then show ?thesis
      using u by (intro exI [of _ "(Inl e, snd (store_delete env i d))"])
        (auto simp: accept_finish_def update_job_def accept_fail_def release_lease_def)
  next
    case (Inr m)
    then show ?thesis
      using u by (intro exI [of _ "(Inr m, d)"])
        (auto simp: accept_finish_def update_job_def accept_fail_def release_lease_def)
  qed
qed

text \<open>
  The state of an upload that holds a reservation and a job, as the code has it and with the
  recording fields.
\<close>

definition uploading :: "upload_budget \<Rightarrow> string \<Rightarrow> disk \<Rightarrow> mgr \<Rightarrow> mgr" where
  "uploading b i d s = s\<lparr>g_disk := d, g_leases := add_mset i (g_leases s), g_uploads := g_uploads s + ub_bytes b\<rparr>"

definition recorded :: "upload_budget \<Rightarrow> string \<Rightarrow> mgr \<Rightarrow> mgr" where
  "recorded b i s = s\<lparr>g_budgets := add_mset (ub_bytes b) (g_budgets s), g_intakes := add_mset i (g_intakes s),
     g_used := insert i (g_used s)\<rparr>"

lemma upload_begins:
  assumes rs: "reserve_upload_budget mu mf free s = (Inr b, s1)"
    and cr: "accept_create rand mk sub env now ttl s1 = (Inr m, s2)" and new: "m_id m \<notin> g_used s"
    and j: "jd_manifest j = Some (Document (written m))"
  shows "mstep\<^sup>*\<^sup>* s (recorded b (m_id m) (uploading b (m_id m) ((g_disk s)(m_id m \<mapsto> j)) s))"
proof -
  let ?i = "m_id m" and ?B = "add_mset (ub_bytes b) (g_budgets s)"
  have s1: "s1 = s\<lparr>g_uploads := g_uploads s + ub_bytes b\<rparr>" using reserve_frame [OF rs] by simp
  let ?k = "empty_dir\<lparr>jd_manifest := Some (Document (written m))\<rparr>"
  have select_k: "jd_manifest j = jd_manifest ?k" using j by simp
  have s2: "s2 = uploading b ?i ((g_disk s)(?i \<mapsto> ?k)) s"
    using accept_create_result [OF cr] by (simp add: s1 uploading_def)
  have at_disk: "g_disk (recorded b ?i s2) ?i = Some ?k" by (simp add: s2 recorded_def uploading_def)
  have "mstep s (s1\<lparr>g_budgets := ?B\<rparr>)" using step_reserve [OF rs] by (simp add: s1)
  moreover have "mstep (s1\<lparr>g_budgets := ?B\<rparr>) (recorded b ?i s2)"
    using step_create [OF accept_create_ghost [OF cr, of ?B]] new by (simp add: s1 s2 recorded_def uploading_def)
  moreover have "(recorded b ?i s2)\<lparr>g_disk := (g_disk (recorded b ?i s2))(?i \<mapsto> j)\<rparr>
      = recorded b ?i (uploading b ?i ((g_disk s)(?i \<mapsto> j)) s)"
    by (rule mgr.equality) (simp_all add: s2 recorded_def uploading_def)
  then have "mstep (recorded b ?i s2) (recorded b ?i (uploading b ?i ((g_disk s)(?i \<mapsto> j)) s))"
    using step_content [OF at_disk select_k] by (simp only:)
  ultimately show ?thesis by (blast intro: converse_rtranclp_into_rtranclp)
qed

lemma upload_ends:
  assumes "mstep (recorded b i (uploading b i d s)) g"
    and g: "g = s\<lparr>g_disk := d', g_uploads := g_uploads s + ub_bytes b,
      g_budgets := add_mset (ub_bytes b) (g_budgets s), g_used := insert i (g_used s)\<rparr>"
  shows "mstep\<^sup>*\<^sup>* (recorded b i (uploading b i d s)) (s\<lparr>g_disk := d', g_used := insert i (g_used s)\<rparr>)"
proof -
  have "mstep g ((release_budget b g)\<lparr>g_budgets := g_budgets g - {#ub_bytes b#}\<rparr>)"
    by (rule step_unreserve) (simp add: g)
  moreover have "(release_budget b g)\<lparr>g_budgets := g_budgets g - {#ub_bytes b#}\<rparr>
      = s\<lparr>g_disk := d', g_used := insert i (g_used s)\<rparr>"
    by (rule mgr.equality) (simp_all add: release_budget_def g)
  ultimately have "mstep g (s\<lparr>g_disk := d', g_used := insert i (g_used s)\<rparr>)" by (simp only:)
  with assms(1) show ?thesis by (blast intro: converse_rtranclp_into_rtranclp)
qed

lemma upload_fails:
  "mstep\<^sup>*\<^sup>* (recorded b i (uploading b i d s)) ((release_budget b (accept_fail env i (uploading b i d s)))\<lparr>g_used := insert i (g_used s)\<rparr>)"
  "release_budget b (accept_fail env i (uploading b i d s)) = s\<lparr>g_disk := snd (store_delete env i d)\<rparr>"
proof -
  let ?g = "recorded b i (uploading b i d s)"
  show t: "release_budget b (accept_fail env i (uploading b i d s)) = s\<lparr>g_disk := snd (store_delete env i d)\<rparr>"
    by (rule mgr.equality) (simp_all add: release_budget_def accept_fail_def release_lease_def uploading_def)
  have "mstep ?g ((accept_fail env i ?g)\<lparr>g_intakes := g_intakes ?g - {#i#}\<rparr>)" (is "mstep _ ?h")
    by (rule step_accept_fail) (simp add: recorded_def)
  moreover have "?h = s\<lparr>g_disk := snd (store_delete env i d), g_uploads := g_uploads s + ub_bytes b,
      g_budgets := add_mset (ub_bytes b) (g_budgets s), g_used := insert i (g_used s)\<rparr>"
    by (rule mgr.equality) (simp_all add: accept_fail_def release_lease_def recorded_def uploading_def)
  ultimately show "mstep\<^sup>*\<^sup>* ?g ((release_budget b (accept_fail env i (uploading b i d s)))\<lparr>g_used := insert i (g_used s)\<rparr>)"
    unfolding t by (simp add: upload_ends)
qed

lemma upload_finishes:
  assumes "received_ok fs" and "accept_finish io env fs n i (uploading b i d s) = (r, s4)"
  shows "mstep\<^sup>*\<^sup>* (recorded b i (uploading b i d s)) ((release_budget b s4)\<lparr>g_used := insert i (g_used s)\<rparr>)"
    "release_budget b s4 = s\<lparr>g_disk := g_disk s4\<rparr>"
proof -
  let ?u = "uploading b i d s"
  let ?g = "recorded b i ?u"
  obtain q where q: "(r, s4) = (fst q, ?u\<lparr>g_disk := snd q, g_leases := g_leases ?u - {#i#}\<rparr>)"
    and gq: "accept_finish io env fs n i (?u\<lparr>g_budgets := g_budgets ?g, g_intakes := g_intakes ?g, g_used := g_used ?g\<rparr>)
      = (fst q, ?u\<lparr>g_disk := snd q, g_leases := g_leases ?u - {#i#}, g_budgets := g_budgets ?g,
           g_intakes := g_intakes ?g, g_used := g_used ?g\<rparr>)"
    using accept_finish_fields [of io env fs n i ?u] assms(2) by fastforce
  show t: "release_budget b s4 = s\<lparr>g_disk := g_disk s4\<rparr>"
    using q by (intro mgr.equality) (simp_all add: release_budget_def uploading_def)
  have g: "?u\<lparr>g_budgets := g_budgets ?g, g_intakes := g_intakes ?g, g_used := g_used ?g\<rparr> = ?g"
    by (simp add: recorded_def)
  have "i \<in># g_intakes ?g" by (simp add: recorded_def)
  note step = step_accept_finish [OF this assms(1) gq [unfolded g]]
  show "mstep\<^sup>*\<^sup>* ?g ((release_budget b s4)\<lparr>g_used := insert i (g_used s)\<rparr>)"
    unfolding t using upload_ends [OF step, of "snd q"] q
    by (simp add: mgr.equality recorded_def uploading_def)
qed

text \<open>The whole of \<open>Accept\<close>.\<close>

lemma accept_upload_run:
  assumes mu: "0 < o_max_upload opt" and fresh: "\<And>i. new_id (ae_rand env) = Inr i \<Longrightarrow> i \<notin> g_used s"
  shows "\<exists>r t U. accept_upload opt root env s = Some (r, t) \<and> mstep\<^sup>*\<^sup>* s (t\<lparr>g_used := U\<rparr>)
    \<and> t = s\<lparr>g_disk := g_disk t\<rparr>"
proof -
  have stay: ?thesis if "accept_upload opt root env s = Some (r, s)" for r
    using that by (intro exI [of _ r] exI [of _ s] exI [of _ "g_used s"]) simp
  obtain rb s1 where rs: "reserve_upload_budget (o_max_upload opt) (o_min_free opt) (ae_free env) s = (rb, s1)"
    by fastforce
  obtain rm s2 where cr: "accept_create (ae_rand env) (ae_mkdir env) (ae_sub env) (ae_save env) (ae_now env)
        (o_ttl opt) s1 = (rm, s2)" by fastforce
  consider (refused) "\<not> ae_reader env \<or> \<not> g_accepting s" | (full) e where "ae_reader env" "g_accepting s" "rb = Inl e"
    | (uncreated) b e where "ae_reader env" "g_accepting s" "rb = Inr b" "rm = Inl e"
    | (created) b m where "ae_reader env" "g_accepting s" "rb = Inr b" "rm = Inr m"
    by (meson sum.exhaust)
  then show ?thesis
  proof cases
    case refused
    then obtain e where "accept_upload opt root env s = Some (Inl e, s)"
      by (cases "ae_reader env") (auto simp: accept_upload_def)
    then show ?thesis by (rule stay)
  next
    case (full e)
    then have "accept_upload opt root env s = Some (Inl e, s)"
      using rs reserve_frame [OF rs] by (simp add: accept_upload_def)
    then show ?thesis by (rule stay)
  next
    case (uncreated b e)
    then have "accept_upload opt root env s = Some (Inl e, s)"
      using rs reserve_frame [OF rs] cr accept_create_result [OF cr] by (simp add: accept_upload_def release_budget_def)
    then show ?thesis by (rule stay)
  next
    case (created b m)
    let ?i = "m_id m"
    have s1: "s1 = s\<lparr>g_uploads := g_uploads s + ub_bytes b\<rparr>" and b: "0 < ub_bytes b"
      using reserve_frame [OF rs] created(3) mu by auto
    have s2: "s2 = s1\<lparr>g_disk := (g_disk s)(?i \<mapsto> empty_dir\<lparr>jd_manifest := Some (Document (written m))\<rparr>),
          g_leases := add_mset ?i (g_leases s)\<rparr>"
      and id: "new_id (ae_rand env) = Inr ?i" and mm: "m = new_manifest ?i (ae_now env) (o_ttl opt)"
      using accept_create_result [OF cr] created(4) by (auto simp: s1)
    have "m_files m = []" "m_total_bytes m = 0" by (subst mm, simp add: new_manifest_def)+
    then obtain failed st where rc: "receive root (o_max_files opt) b (ae_body env) m (the (g_disk s2 ?i)) = Some (failed, st)"
      and man: "jd_manifest (ik_dir st) = Some (Document (written m))"
      and ok: "failed = None \<longrightarrow> intake_inv (ub_bytes b) st \<and> ik_files st \<noteq> []"
      using receive_result [of m "the (g_disk s2 ?i)" b root "o_max_files opt" "ae_body env"] b
      by (auto simp: s2 empty_dir_def)
    let ?d = "(g_disk s)(?i \<mapsto> ik_dir st)"
    have u: "s2\<lparr>g_disk := (g_disk s2)(?i \<mapsto> ik_dir st)\<rparr> = uploading b ?i ?d s"
      by (simp add: s2 s1 uploading_def)
    have begun: "mstep\<^sup>*\<^sup>* s (recorded b ?i (uploading b ?i ?d s))"
      using upload_begins [of _ _ _ s b s1, OF _ _ _ man] rs cr created fresh [OF id] by simp
    show ?thesis
    proof (cases failed)
      case (Some e)
      then have "accept_upload opt root env s = Some (Inl e, release_budget b (accept_fail (ae_delete env) ?i (uploading b ?i ?d s)))"
        using created rs cr rc u by (simp add: accept_upload_def Let_def)
      then show ?thesis
        using rtranclp_trans [OF begun upload_fails(1) [where b=b and i="?i" and d="?d" and s=s and env="ae_delete env"]] upload_fails(2) [where b=b and i="?i" and d="?d" and s=s and env="ae_delete env"]
        by auto
    next
      case None
      let ?fs = "inspect_files root ?i (ae_inspect env) (ik_files st)"
      obtain r s4 where f: "accept_finish (ae_finish env) (ae_delete env) ?fs (ik_sum st) ?i (uploading b ?i ?d s) = (r, s4)"
        by fastforce
      have "received_ok ?fs" using inspect_files_received ok None by blast
      note fin = upload_finishes [OF this f]
      have "accept_upload opt root env s = Some (r, release_budget b s4)"
        using created rs cr rc u None f by (simp add: accept_upload_def Let_def)
      then show ?thesis using rtranclp_trans [OF begun fin(1)] fin(2) by auto
    qed
  qed
qed

subsection \<open>Properties\<close>


text \<open>C10: Storing an upload never writes more than its reserved bytes, staging files and failed parts
  included; when it succeeds the job has between one and the allowed number of files, with
  distinct identifiers, and distinct plain names under which exactly those files are stored with
  their positive sizes.\<close>

theorem received_within_budget:
  assumes "m = new_manifest i now ttl" and "0 \<le> ub_bytes budget"
  shows "\<exists>r st. receive root max_files budget b m empty_dir = Some (r, st)
    \<and> file_bytes (jd_input (ik_dir st)) + file_bytes (jd_temp (ik_dir st)) \<le> ub_bytes budget
    \<and> (r = None \<longrightarrow> 1 \<le> int (length (ik_files st)) \<and> int (length (ik_files st)) \<le> max_files
        \<and> distinct (map f_id (ik_files st)) \<and> distinct (map f_name (ik_files st))
        \<and> dom (jd_input (ik_dir st)) = f_name ` set (ik_files st)
        \<and> (\<forall>f\<in>set (ik_files st). plain_name (f_name f) \<and> 0 < f_size f
             \<and> jd_input (ik_dir st) (f_name f) = Some (f_size f))
        \<and> ik_sum st = sum_list (map f_size (ik_files st)))"
proof -
  obtain r st where rc: "receive root max_files budget b m empty_dir = Some (r, st)"
    and w: "within_budget (ub_bytes budget) (ik_dir st)"
    and ok: "r = None \<longrightarrow> intake_inv (ub_bytes budget) st \<and> ik_files st \<noteq> [] \<and> int (length (ik_files st)) \<le> max_files"
    using receive_result [of m empty_dir budget root max_files b] assms
    by (auto simp: new_manifest_def empty_dir_def)
  have "1 \<le> int (length (ik_files st))" if "r = None"
    using ok that by (cases "ik_files st") auto
  then show ?thesis
    using rc w ok intake_inv_ids [of "ub_bytes budget" st]
    by (intro exI [of _ r] exI [of _ st]) (auto simp: within_budget_def intake_inv_def)
qed

text \<open>C26: A reservation is positive and at most the configured upload size, and all reservations together
  leave the configured space free: no set of concurrent uploads can use up the headroom.\<close>

theorem reservations_keep_headroom:
  assumes "manager_init s0" and "mstep\<^sup>*\<^sup>* s0 s" and "0 < max_upload"
    and "reserve_upload_budget max_upload min_free (Inr free) s = (Inr b, t)"
  shows "0 < ub_bytes b \<and> ub_bytes b \<le> max_upload
    \<and> sum_mset (add_mset (ub_bytes b) (g_budgets s)) + min_free \<le> free"
  using manager.reachable_good [OF assms(1,2)] reserve_frame [OF assms(4)] assms(3)
  by (auto simp: manager_good_def counters_good_def)


subsection \<open>Witnesses\<close>

definition small_part :: part where
  "small_part = \<lparr>pt_name = ''a.png'', pt_bytes = 10, pt_end = None, pt_close = None\<rparr>"

definition calm_part :: part_io where
  "calm_part = \<lparr>pi_ctx = None, pi_open = None, pi_write = None, pi_sync = None, pi_close = None,
     pi_unlink = None, pi_rename = None\<rparr>"

definition small_body :: body where
  "small_body = \<lparr>bd_parts = [(small_part, calm_part)], bd_ctx = None, bd_end = Sentinel IoEOF,
     bd_clear = None, bd_recreate = None\<rparr>"


lemma small_body_received:
  "\<exists>st. receive ''/d'' 1 \<lparr>ub_bytes = 10, ub_limit_err = Sentinel ErrUploadTooLarge\<rparr> small_body
      (new_manifest ''AAECAwQFBgcICQoLDA0ODw'' 1 2) empty_dir = Some (None, st) \<and> ik_sum st = 10"
proof -
  let ?i = "''AAECAwQFBgcICQoLDA0ODw''"
  have n: "safe_file_name ''a.png'' ''f001'' = ''a.png''" by code_simp
  have f: "file_id_of 1 = ''f001''" by code_simp
  have p: "input_dir_path ''/d'' ?i = Inr (''/d/jobs/'' @ ?i @ ''/input'')" "temp_dir_path ''/d'' ?i = Inr (''/d/jobs/'' @ ?i @ ''/tmp'')"
    unfolding input_dir_path_def temp_dir_path_def sub_dir_path_def job_dir_path_def sample_id_valid option.case sum.case
    by code_simp+
  have r: "resolve (''/d/jobs/'' @ ?i @ ''/input'') ''a.png'' = Inr (''/d/jobs/'' @ ?i @ ''/input/a.png'')"
    "resolve (''/d/jobs/'' @ ?i @ ''/tmp'') ''f001.part'' = Inr (''/d/jobs/'' @ ?i @ ''/tmp/f001.part'')"
    by code_simp+
  have w: "write_part small_part calm_part 10 (Some (Sentinel ErrUploadTooLarge)) = (10, None)"
    by (simp add: write_part_stores small_part_def calm_part_def writes_all_def ends_regularly_def)
  have c: "pt_name small_part = ''a.png''" "pt_close small_part = None" "pi_ctx calm_part = None"
    "pi_rename calm_part = None" "pi_open calm_part = None"
    by (simp_all add: small_part_def calm_part_def)
  let ?st = "start_intake 10 (new_manifest ?i 1 2) empty_dir"
  obtain st where "receive_file (''/d/jobs/'' @ ?i @ ''/input'') (''/d/jobs/'' @ ?i @ ''/tmp'') 1
      (Some (Sentinel ErrUploadTooLarge)) small_part calm_part ?st = Some (None, st)"
    and st: "ik_sum st = 10" "ik_count st = 1"
    using r w n f c by (simp add: receive_file_def Let_def unique_file_name_def start_intake_def new_manifest_def put_temp_def)
  then have "receive_parts (''/d/jobs/'' @ ?i @ ''/input'') (''/d/jobs/'' @ ?i @ ''/tmp'') 1
      (Some (Sentinel ErrUploadTooLarge)) None (Sentinel IoEOF) [(small_part, calm_part)] ?st = Some (None, st)"
    using c by simp
  moreover have "m_id (new_manifest ?i 1 2) = ?i" by (simp add: new_manifest_def)
  ultimately show ?thesis
    using p st by (simp add: receive_def small_body_def)
qed

theorem received_within_budget_witness:
  "\<exists>st. receive ''/d'' 1 \<lparr>ub_bytes = 10, ub_limit_err = Sentinel ErrUploadTooLarge\<rparr> small_body
      (new_manifest ''AAECAwQFBgcICQoLDA0ODw'' 1 2) empty_dir = Some (None, st)
    \<and> ik_sum st = 10 \<and> 1 \<le> int (length (ik_files st)) \<and> file_bytes (jd_input (ik_dir st)) \<le> 10 - file_bytes (jd_temp (ik_dir st))"
proof -
  obtain st where st: "receive ''/d'' 1 \<lparr>ub_bytes = 10, ub_limit_err = Sentinel ErrUploadTooLarge\<rparr> small_body
      (new_manifest ''AAECAwQFBgcICQoLDA0ODw'' 1 2) empty_dir = Some (None, st)" "ik_sum st = 10"
    using small_body_received by blast
  then show ?thesis
    using received_within_budget [OF refl, of "\<lparr>ub_bytes = 10, ub_limit_err = Sentinel ErrUploadTooLarge\<rparr>" "''/d''" 1
        small_body "''AAECAwQFBgcICQoLDA0ODw''" 1 2]
    by (intro exI [of _ st]) auto
qed

theorem reservations_keep_headroom_witness:
  "\<exists>b t. reserve_upload_budget 100 5 (Inr 50) sample_manager = (Inr b, t) \<and> ub_bytes b + 5 \<le> 50"
proof -
  obtain b t where "reserve_upload_budget 100 5 (Inr 50) sample_manager = (Inr b, t)"
    by (simp add: reserve_upload_budget_def sample_manager_def Let_def)
  from reservations_keep_headroom [OF sample_init _ _ this] this show ?thesis
    by (auto simp: sample_manager_def)
qed

definition small_upload :: accept_env where
  "small_upload = \<lparr>ae_reader = True, ae_free = Inr 50, ae_rand = Some (replicate 16 0), ae_mkdir = None,
     ae_sub = None, ae_save = no_save_faults, ae_now = 1, ae_body = small_body,
     ae_inspect = (\<lambda>_. \<lparr>ii_wait = None, ii_result = Inl (Sentinel ContextCanceled), ii_now = 2\<rparr>),
     ae_finish = quiet_io, ae_delete = \<lparr>de_stat = None, de_read = None, de_remove = None, de_save = no_save_faults\<rparr>\<rparr>"

definition small_options :: options where
  "small_options = \<lparr>o_store = True, o_converter = True, o_max_processes = 1, o_max_files = 1,
      o_max_upload = 10, o_min_free = 5, o_ttl = 60, o_timeout = 1, o_queue_depth = 1\<rparr>"


end
