(* ===== verification/Worker_Progress.thy ===== *)
theory Worker_Progress
  imports Manager_Safety
begin

text \<open>
  Progress of a worker, \<open>work\<close>, \<open>process\<close> and \<open>convertFile\<close> of
  \<open>internal/jobs/manager.go\<close>: when the disk has no faults and a slot is free, a worker that
  receives a queued job of \<open>n\<close> files is back at the queue after at most \<open>5 * n + 8\<close>
  sections, whatever the converter answers and whatever the contexts do, and the job has ended.
\<close>

subsection \<open>Updates without faults\<close>

definition quiet :: "worker_env \<Rightarrow> bool" where
  "quiet env \<longleftrightarrow> io_read (we_io env) = None \<and> io_save (we_io env) = no_save_faults"

lemma update_quiet:
  assumes m: "stored i (g_disk s) = Inr m" and io: "io_read io = None" "io_save io = no_save_faults"
    and f: "f m = Inr m'" and id: "m_id m' = m_id m"
  shows "\<exists>d. update_job io i f s = (Inr (m'\<lparr>m_updated_at := io_now io\<rparr>), s\<lparr>g_disk := d\<rparr>)
    \<and> stored i d = Inr (written (m'\<lparr>m_updated_at := io_now io\<rparr>))"
proof -
  let ?m = "m'\<lparr>m_updated_at := io_now io\<rparr>"
  have i: "m_id ?m = i" using id stored_id [OF m] by simp
  obtain j where j: "validate_id i = None" "g_disk s i = Some j"
    using m by (auto simp: stored_def store_load_def Let_def split: option.splits if_splits)
  have save: "store_save no_save_faults ?m (g_disk s) = (None, put_manifest i (Document (written ?m)) (g_disk s))"
    using i j by (auto simp: store_save_def Let_def no_save_faults_def sync_dir_def directory_sync_error_def written_def)
  have "update_job io i f s = (Inr ?m, s\<lparr>g_disk := put_manifest i (Document (written ?m)) (g_disk s)\<rparr>)"
    using m f io save by (simp add: update_job_def store_update_def stored_def Let_def)
  moreover have "stored i (put_manifest i (Document (written ?m)) (g_disk s)) = Inr (written ?m)"
    using store_load_put [of ?m "g_disk s"] i j by (simp add: stored_def)
  ultimately show ?thesis by blast
qed

lemma update_refused:
  "stored i (g_disk s) = Inr m \<Longrightarrow> io_read io = None \<Longrightarrow> f m = Inl e \<Longrightarrow> update_job io i f s = (Inl e, s)"
  by (simp add: update_job_def store_update_def stored_def)

lemma update_keeps_stored:
  assumes "stored i (g_disk s) = Inr m" and "io_read io = None" "io_save io = no_save_faults"
    and "plain_change f"
  shows "\<exists>r d m'. update_job io i f s = (r, s\<lparr>g_disk := d\<rparr>) \<and> stored i d = Inr m'"
proof (cases "f m")
  case (Inl e)
  then show ?thesis using update_refused [of i s m io f e] assms
    by (intro exI [of _ "Inl e"] exI [of _ "g_disk s"] exI [of _ m]) simp
next
  case (Inr m')
  then have "m_id m' = m_id m" using assms(4) by (auto simp: plain_change_def)
  from update_quiet [where s = s and f = f, OF assms(1-3) Inr this] show ?thesis by blast
qed

subsection \<open>Phases\<close>

text \<open>What is known of the job of a worker, by its program counter.\<close>

definition awaits :: "string \<Rightarrow> nat \<Rightarrow> mgr \<Rightarrow> bool" where
  "awaits i n s \<longleftrightarrow> (\<exists>m. stored i (g_disk s) = Inr m \<and> m_state m = JobQueued \<and> length (m_files m) = n)"

definition present :: "string \<Rightarrow> mgr \<Rightarrow> bool" where
  "present i s \<longleftrightarrow> (\<exists>m. stored i (g_disk s) = Inr m)"

definition ended :: "string \<Rightarrow> mgr \<Rightarrow> bool" where
  "ended i s \<longleftrightarrow> (\<exists>m. stored i (g_disk s) = Inr m \<and> job_terminal (m_state m))"

fun phase :: "string \<Rightarrow> nat \<Rightarrow> worker \<Rightarrow> mgr \<Rightarrow> bool" where
  "phase i n Idle s = (ended i s \<and> i \<notin> g_controls s)"
| "phase i n Exited s = False"
| "phase i n (Received j) s = (j = i \<and> awaits i n s)"
| "phase i n (Starting j c) s = (j = i \<and> awaits i n s)"
| "phase i n (Claiming j c) s = (j = i \<and> awaits i n s)"
| "phase i n (Looping j c fs) s = (j = i \<and> present i s)"
| "phase i n (Beginning j c f fs) s = (j = i \<and> present i s)"
| "phase i n (Waiting j c f fs) s = (j = i \<and> present i s)"
| "phase i n (Holding j c f fs) s = (j = i \<and> present i s)"
| "phase i n (Recording j c f fs v b) s = (j = i \<and> present i s)"
| "phase i n (Finalizing j c b) s = (j = i \<and> present i s)"
| "phase i n (Releasing j c) s = (j = i \<and> ended i s)"
| "phase i n (Ending j c) s = (j = i \<and> ended i s)"

text \<open>An upper bound of the sections left.\<close>

fun sections_left :: "nat \<Rightarrow> worker \<Rightarrow> nat" where
  "sections_left n Idle = 0"
| "sections_left n Exited = 0"
| "sections_left n (Received j) = 5 * n + 8"
| "sections_left n (Starting j c) = 5 * n + 7"
| "sections_left n (Claiming j c) = 5 * n + 6"
| "sections_left n (Looping j c fs) = 5 * length fs + 4"
| "sections_left n (Beginning j c f fs) = 5 * length fs + 8"
| "sections_left n (Waiting j c f fs) = 5 * length fs + 7"
| "sections_left n (Holding j c f fs) = 5 * length fs + 6"
| "sections_left n (Recording j c f fs v b) = 5 * length fs + 5"
| "sections_left n (Finalizing j c b) = 3"
| "sections_left n (Releasing j c) = 2"
| "sections_left n (Ending j c) = 1"

lemma finalize_ends: "job_terminal (m_state (finalize_change c t m))"
  by (auto simp: finalize_change_def Let_def job_terminal_def)

definition advances :: "string \<Rightarrow> nat \<Rightarrow> worker_env \<Rightarrow> worker \<Rightarrow> mgr \<Rightarrow> bool" where
  "advances i n env w s \<longleftrightarrow> (\<exists>w' s'. worker_step env w s = Some (w', s') \<and> phase i n w' s'
     \<and> sections_left n w' < sections_left n w)"

lemma advancesI:
  "worker_step env w s = Some (w', s') \<Longrightarrow> phase i n w' s' \<Longrightarrow> sections_left n w' < sections_left n w \<Longrightarrow>
    advances i n env w s"
  by (auto simp: advances_def)

lemma worker_advances:
  assumes q: "quiet env" and p: "phase i n w s" and w: "w \<noteq> Idle" and slot: "g_slots s < g_max s + worker_slot w"
  shows "advances i n env w s"
proof -
  have io: "io_read (we_io env) = None" "io_save (we_io env) = no_save_faults" using q by (simp_all add: quiet_def)
  show ?thesis
  proof (cases w)
    case (Starting j c)
    then show ?thesis
      using q p by (auto simp: advances_def quiet_def lease_job_def load_job_def acquire_lease_def awaits_def stored_def)
  next
    case (Claiming j c)
    then obtain m where m: "stored i (g_disk s) = Inr m" "m_state m = JobQueued" "length (m_files m) = n" and j: "j = i"
      using p by (auto simp: awaits_def)
    let ?m = "m\<lparr>m_state := JobRunning\<rparr>"
    have f: "claim_change m = Inr ?m" "m_id ?m = m_id m" using m(2) by (simp_all add: claim_change_def)
    obtain d where "update_job (we_io env) i claim_change s
          = (Inr (?m\<lparr>m_updated_at := io_now (we_io env)\<rparr>), s\<lparr>g_disk := d\<rparr>)"
        "stored i d = Inr (written (?m\<lparr>m_updated_at := io_now (we_io env)\<rparr>))"
      using update_quiet [where s = s and f = claim_change, OF m(1) io f] by blast
    then show ?thesis using Claiming j m(3) by (auto simp: advances_def present_def)
  next
    case (Beginning j c f fs)
    then obtain m where m: "stored i (g_disk s) = Inr m" and j: "j = i" using p by (auto simp: present_def)
    obtain r d m' where "update_job (we_io env) i (begin_file_change (f_id f) (io_finished (we_io env))) s = (r, s\<lparr>g_disk := d\<rparr>)"
        "stored i d = Inr m'"
      using update_keeps_stored [where s = s, OF m io plain_changes(3)] by blast
    then show ?thesis using Beginning j by (cases r) (auto simp: advances_def present_def)
  next
    case (Recording j c f fs v b)
    then obtain m where m: "stored i (g_disk s) = Inr m" and j: "j = i" using p by (auto simp: present_def)
    obtain r d m' where "update_job (we_io env) i
          (\<lambda>m. Inr (verdict_change (we_mime env) (f_id f) (io_finished (we_io env)) v m)) s = (r, s\<lparr>g_disk := d\<rparr>)"
        "stored i d = Inr m'"
      using update_keeps_stored [where s = s, OF m io plain_changes(6)] by blast
    then show ?thesis using Recording j by (auto simp: advances_def present_def)
  next
    case (Finalizing j c b)
    then obtain m where m: "stored i (g_disk s) = Inr m" and j: "j = i" using p by (auto simp: present_def)
    let ?m = "finalize_change b (io_finished (we_io env)) m"
    let ?f = "\<lambda>m. Inr (finalize_change b (io_finished (we_io env)) m)"
    have f: "?f m = Inr ?m" "m_id ?m = m_id m" by (auto simp: finalize_change_def Let_def)
    obtain d where "update_job (we_io env) i ?f s = (Inr (?m\<lparr>m_updated_at := io_now (we_io env)\<rparr>), s\<lparr>g_disk := d\<rparr>)"
        "stored i d = Inr (written (?m\<lparr>m_updated_at := io_now (we_io env)\<rparr>))"
      using update_quiet [where s = s and f = ?f, OF m io f] by blast
    then show ?thesis using Finalizing j finalize_ends by (auto simp: advances_def ended_def)
  next
    case (Looping j c fs)
    then show ?thesis using p by (cases fs) (auto simp: advances_def)
  qed (use p w slot in \<open>auto simp: advances_def awaits_def present_def ended_def release_lease_def\<close>)
qed

subsection \<open>Runs\<close>

lemma phase_workers [simp]:
  "phase i n w (s\<lparr>g_workers := ws\<rparr>) = phase i n w s"
  by (cases w) (simp_all add: ended_def awaits_def present_def)

lemma run_advances:
  assumes "k < length (g_workers s)" and "advances i n env (g_workers s ! k) s"
  obtains w' t where "run_worker env k s = Some t" "g_workers t ! k = w'" "k < length (g_workers t)"
    "phase i n w' t" "sections_left n w' < sections_left n (g_workers s ! k)"
    "\<And>L b. g_leases s = L + worker_lease (g_workers s ! k) \<Longrightarrow> g_leases t = L + worker_lease w'"
    "\<And>b. g_slots s = b + worker_slot (g_workers s ! k) \<Longrightarrow> g_slots t = b + worker_slot w'"
    "g_max t = g_max s" "worker_busy w' - g_running t = worker_busy (g_workers s ! k) - g_running s"
proof -
  obtain w' s' where step: "worker_step env (g_workers s ! k) s = Some (w', s')"
    and p: "phase i n w' s'" "sections_left n w' < sections_left n (g_workers s ! k)"
    using assms(2) by (auto simp: advances_def)
  let ?t = "s'\<lparr>g_workers := (g_workers s)[k := w']\<rparr>"
  note c = worker_step_counters [OF step]
  have "run_worker env k s = Some ?t" using assms(1) step by (simp add: run_worker_def)
  moreover have "g_leases s = L + worker_lease (g_workers s ! k) \<Longrightarrow> g_leases ?t = L + worker_lease w'" for L
    using c(4) by simp
  moreover have "g_slots s = b + worker_slot (g_workers s ! k) \<Longrightarrow> g_slots ?t = b + worker_slot w'" for b
    using c(5) by simp
  ultimately show thesis using that [of ?t w'] assms(1) p c(3,7) by simp
qed

lemma worker_runs_to_idle:
  assumes "k < length (g_workers s)" and "phase i n (g_workers s ! k) s"
    and "g_slots s = b + worker_slot (g_workers s ! k)" and "b < g_max s"
    and "g_leases s = L + worker_lease (g_workers s ! k)" and "g_running s = r + worker_busy (g_workers s ! k)"
    and "list_all quiet envs" and "sections_left n (g_workers s ! k) \<le> length envs"
  shows "\<exists>N t. N \<le> sections_left n (g_workers s ! k) \<and> worker_runs (take N envs) k s = Some t
    \<and> g_workers t ! k = Idle \<and> phase i n Idle t \<and> g_leases t = L \<and> g_slots t = b \<and> g_running t = r"
  using assms
proof (induction envs arbitrary: s)
  case Nil
  then have "g_workers s ! k = Idle" by (cases "g_workers s ! k") auto
  then show ?case using Nil.prems by (intro exI [of _ 0] exI [of _ s]) simp
next
  case (Cons env envs)
  show ?case
  proof (cases "g_workers s ! k = Idle")
    case True
    then show ?thesis using Cons.prems by (intro exI [of _ 0] exI [of _ s]) simp
  next
    case False
    have "advances i n env (g_workers s ! k) s"
      using worker_advances [OF _ Cons.prems(2) False] Cons.prems(3,4,7) by simp
    from run_advances [OF Cons.prems(1) this] obtain w' t where
      t: "run_worker env k s = Some t" "g_workers t ! k = w'" "k < length (g_workers t)" "phase i n w' t"
      "sections_left n w' < sections_left n (g_workers s ! k)"
      "g_leases t = L + worker_lease w'" "g_slots t = b + worker_slot w'" "g_max t = g_max s"
      "worker_busy w' - g_running t = worker_busy (g_workers s ! k) - g_running s"
      using Cons.prems(3,5) by metis
    obtain N u where "N \<le> sections_left n w'" "worker_runs (take N envs) k t = Some u"
      "g_workers u ! k = Idle" "phase i n Idle u" "g_leases u = L" "g_slots u = b" "g_running u = r"
      using Cons.IH [of t] t Cons.prems(4,6-8) by auto
    then show ?thesis using t(1,5) by (intro exI [of _ "Suc N"] exI [of _ u]) auto
  qed
qed

subsection \<open>Property\<close>

text \<open>C3: A queued job is always brought to an end: when the disk has no faults and a slot is free, an idle
  worker that finds the job of n files at the head of the queue is idle again after at most 5 n + 9
  sections, whatever the converter answers and whether or not its context is canceled; the job is then completed, failed or
  canceled, and its lease, its slot, its control and its place in the statistics are given back.\<close>

theorem worker_finishes_job:
  assumes "k < length (g_workers s)" and "g_workers s ! k = Idle" and "g_queue s = i # q"
    and "stored i (g_disk s) = Inr m" and "m_state m = JobQueued" and "g_slots s < g_max s"
    and "list_all quiet envs" and "5 * length (m_files m) + 9 \<le> length envs"
  shows "\<exists>N t. N \<le> 5 * length (m_files m) + 9 \<and> worker_runs (take N envs) k s = Some t
    \<and> g_workers t ! k = Idle \<and> (\<exists>m'. stored i (g_disk t) = Inr m' \<and> job_terminal (m_state m'))
    \<and> g_leases t = g_leases s \<and> g_slots t = g_slots s \<and> g_running t = g_running s \<and> i \<notin> g_controls t"
proof -
  let ?n = "length (m_files m)"
  obtain env envs' where e: "envs = env # envs'" using assms(8) by (cases envs) auto
  let ?s = "s\<lparr>g_queue := q, g_workers := (g_workers s)[k := Received i]\<rparr>"
  have step: "run_worker env k s = Some ?s" using assms(1-3) by (simp add: run_worker_def)
  have "\<exists>N t. N \<le> sections_left ?n (Received i) \<and> worker_runs (take N envs') k ?s = Some t
    \<and> g_workers t ! k = Idle \<and> phase i ?n Idle t \<and> g_leases t = g_leases s \<and> g_slots t = g_slots s
    \<and> g_running t = g_running s"
    using worker_runs_to_idle [of k ?s i ?n "g_slots s" "g_leases s" "g_running s" envs'] assms e
    by (simp add: awaits_def)
  then obtain N t where "N \<le> 5 * ?n + 8" "worker_runs (take N envs') k ?s = Some t" "g_workers t ! k = Idle"
    "phase i ?n Idle t" "g_leases t = g_leases s" "g_slots t = g_slots s" "g_running t = g_running s"
    by auto
  then show ?thesis using step e by (intro exI [of _ "Suc N"] exI [of _ t]) (auto simp: ended_def)
qed

text \<open>The sample job, queued.\<close>

definition queued_manager :: mgr where
  "queued_manager = sample_manager\<lparr>g_queue := [''AAECAwQFBgcICQoLDA0ODw''], g_queued := 1,
     g_disk := [''AAECAwQFBgcICQoLDA0ODw'' \<mapsto>
       empty_dir\<lparr>jd_manifest := Some (Document (sample_manifest\<lparr>m_state := JobQueued\<rparr>))\<rparr>]\<rparr>"

definition calm_worker :: worker_env where
  "calm_worker = \<lparr>we_io = quiet_io, we_root = ''/d'', we_mime = (\<lambda>_. []), we_give_up = False,
     we_convert = (\<lambda>_. \<lparr>ce_mkdir = None, ce_error = Some (Sentinel ContextCanceled),
       ce_result = \<lparr>cr_output_path = [], cr_validation = zero_validation, cr_warnings = [], cr_execution = zero_execution\<rparr>,
       ce_stat = Inl (Sentinel OsErrNotExist)\<rparr>)\<rparr>"

theorem worker_finishes_job_witness:
  "\<exists>N t m'. worker_runs (take N (replicate 14 calm_worker)) 0 queued_manager = Some t
    \<and> stored ''AAECAwQFBgcICQoLDA0ODw'' (g_disk t) = Inr m' \<and> job_terminal (m_state m')"
proof -
  let ?m = "sample_manifest\<lparr>m_state := JobQueued\<rparr>"
  have st: "stored ''AAECAwQFBgcICQoLDA0ODw'' (g_disk queued_manager) = Inr ?m"
    by (simp add: stored_def store_load_def sample_id_valid queued_manager_def sample_manifest_def new_manifest_def)
  have w: "0 < length (g_workers queued_manager)" "g_workers queued_manager ! 0 = Idle"
    "g_queue queued_manager = ''AAECAwQFBgcICQoLDA0ODw'' # []" "g_slots queued_manager < g_max queued_manager"
    by (simp_all add: queued_manager_def sample_manager_def)
  have "list_all quiet (replicate 14 calm_worker)"
    by (simp add: list_all_iff quiet_def calm_worker_def quiet_io_def)
  from worker_finishes_job [OF w(1-3) st _ w(4) this] show ?thesis
    by (auto simp: sample_manifest_def new_manifest_def)
qed

end
