(* ===== verification/Float64.thy ===== *)
theory Float64
  imports Complex_Main
begin

text \<open>
  Go's \<open>float64\<close>, as far as the program computes with it: IEEE double precision with
  rounding to nearest, ties to even. A finite value is a sign, a mantissa and an exponent of
  two; every operation computes the exact result as a fraction and rounds it once. Used by
  the frame scaling of \<open>internal/media/plan.go\<close> and the clock and duration parsing of
  \<open>internal/media/probe.go\<close> and \<open>progress.go\<close>.
\<close>

subsection \<open>Values and rounding\<close>

datatype float64 = Finite bool nat int | Infinite bool | NaN

fun bit_len :: "nat \<Rightarrow> nat" where
  "bit_len n = (if n = 0 then 0 else bit_len (n div 2) + 1)"

declare bit_len.simps [simp del]

text \<open>\<open>n / d\<close> scaled by \<open>2 ^ -e\<close>, as a fraction.\<close>

definition scale_num :: "nat \<Rightarrow> int \<Rightarrow> nat" where
  "scale_num n e = n * 2 ^ nat (- e)"

definition scale_den :: "nat \<Rightarrow> int \<Rightarrow> nat" where
  "scale_den d e = d * 2 ^ nat e"

text \<open>The nearest integer of \<open>n / d\<close>, ties to even.\<close>

definition div_nearest :: "nat \<Rightarrow> nat \<Rightarrow> nat" where
  "div_nearest n d =
    (let q = n div d; r = n mod d
     in if d < 2 * r \<or> (2 * r = d \<and> odd q) then q + 1 else q)"

text \<open>The exponent of the result: a mantissa of 53 bits, or the smallest exponent there is.\<close>

definition result_exponent :: "nat \<Rightarrow> nat \<Rightarrow> int" where
  "result_exponent n d =
    (let e = int (bit_len n) - int (bit_len d) - 53;
         e = (if 2 ^ 53 * scale_den d e \<le> scale_num n e then e + 1 else e)
     in max e (- 1074))"

definition round_ratio :: "bool \<Rightarrow> nat \<Rightarrow> nat \<Rightarrow> float64" where
  "round_ratio s n d =
    (if n = 0 then Finite s 0 0
     else let e = result_exponent n d;
              m = div_nearest (scale_num n e) (scale_den d e)
          in if 971 < e \<or> (e = 971 \<and> 2 ^ 53 \<le> m) then Infinite s else Finite s m e)"

definition round_scaled :: "bool \<Rightarrow> nat \<Rightarrow> nat \<Rightarrow> int \<Rightarrow> float64" where
  "round_scaled s n d e = round_ratio s (scale_num n (- e)) (scale_den d (- e))"

subsection \<open>Operations\<close>

definition float_of_int :: "int \<Rightarrow> float64" where
  "float_of_int i = round_ratio (i < 0) (nat \<bar>i\<bar>) 1"

fun float_times :: "float64 \<Rightarrow> float64 \<Rightarrow> float64" where
  "float_times (Finite s m e) (Finite t n f) = round_scaled (s \<noteq> t) (m * n) 1 (e + f)"
| "float_times (Infinite s) (Finite t n f) = (if n = 0 then NaN else Infinite (s \<noteq> t))"
| "float_times (Finite s m e) (Infinite t) = (if m = 0 then NaN else Infinite (s \<noteq> t))"
| "float_times (Infinite s) (Infinite t) = Infinite (s \<noteq> t)"
| "float_times _ _ = NaN"

fun float_divide :: "float64 \<Rightarrow> float64 \<Rightarrow> float64" where
  "float_divide (Finite s m e) (Finite t n f) =
    (if n = 0 then (if m = 0 then NaN else Infinite (s \<noteq> t))
     else round_scaled (s \<noteq> t) m n (e - f))"
| "float_divide (Infinite s) (Finite t n f) = Infinite (s \<noteq> t)"
| "float_divide (Finite s m e) (Infinite t) = Finite (s \<noteq> t) 0 0"
| "float_divide _ _ = NaN"

text \<open>\<open>x < y\<close>; any comparison with NaN is false. Both zeros are equal.\<close>

definition signed_int :: "bool \<Rightarrow> nat \<Rightarrow> int" where
  "signed_int s m = (if s then - int m else int m)"

fun float_less :: "float64 \<Rightarrow> float64 \<Rightarrow> bool" where
  "float_less (Finite s m e) (Finite t n f) =
    (signed_int s (scale_num m (- e)) * int (scale_den 1 (- f)) < signed_int t (scale_num n (- f)) * int (scale_den 1 (- e)))"
| "float_less (Infinite s) (Finite t n f) = s"
| "float_less (Finite s m e) (Infinite t) = (\<not> t)"
| "float_less (Infinite s) (Infinite t) = (s \<and> \<not> t)"
| "float_less _ _ = False"

definition float_min :: "float64 \<Rightarrow> float64 \<Rightarrow> float64" where
  "float_min x y =
    (if x = Infinite True \<or> y = Infinite True then Infinite True
     else if x = NaN \<or> y = NaN then NaN
     else if float_less x y then x else y)"

text \<open>
  Conversion to an integer type truncates; the program only converts values in range. The
  result for the others is left to the implementation, here zero. \<open>math.Round\<close> rounds half
  away from zero.
\<close>

fun float_trunc :: "float64 \<Rightarrow> int" where
  "float_trunc (Finite s m e) = signed_int s (scale_num m (- e) div scale_den 1 (- e))"
| "float_trunc _ = 0"

fun float_round :: "float64 \<Rightarrow> float64" where
  "float_round (Finite s m e) =
    (let n = scale_num m (- e); d = scale_den 1 (- e) in round_ratio s ((2 * n + d) div (2 * d)) 1)"
| "float_round x = x"

subsection \<open>The value of a float\<close>

definition pow2 :: "int \<Rightarrow> real" where
  "pow2 e = (if 0 \<le> e then 2 ^ nat e else inverse (2 ^ nat (- e)))"

definition ratio :: "nat \<Rightarrow> nat \<Rightarrow> real" where
  "ratio n d = real n / real d"

fun float_value :: "float64 \<Rightarrow> real" where
  "float_value (Finite s m e) = (if s then - 1 else 1) * real m * pow2 e"
| "float_value _ = 0"

lemma pow2_pos [simp]: "0 < pow2 e" by (simp add: pow2_def)

lemma pow2_powr: "pow2 e = 2 powr e"
  by (auto simp: pow2_def powr_realpow [symmetric] powr_minus [symmetric])

lemma pow2_add: "pow2 (a + b) = pow2 a * pow2 b"
  by (simp add: pow2_powr powr_add)

lemma pow2_simps [simp]: "pow2 0 = 1" "pow2 (int n) = 2 ^ n"
  by (simp_all add: pow2_def)

lemma pow2_mono: "a \<le> b \<Longrightarrow> pow2 a \<le> pow2 b"
  by (simp add: pow2_powr)

lemma scaled_ratio: "0 < d \<Longrightarrow> ratio (scale_num n e) (scale_den d e) = ratio n d * pow2 (- e)"
  by (auto simp: ratio_def scale_num_def scale_den_def pow2_def field_simps)

lemma scale_den_pos [simp]: "0 < d \<Longrightarrow> 0 < scale_den d e"
  by (simp add: scale_den_def)

lemma bit_len_bounds: "0 < n \<Longrightarrow> 2 ^ (bit_len n - 1) \<le> n \<and> n < 2 ^ bit_len n \<and> 0 < bit_len n"
proof (induction n rule: bit_len.induct)
  case (1 n)
  show ?case
  proof (cases "n div 2 = 0")
    case True
    then have "n = 1" using "1.prems" by auto
    then show ?thesis by (simp add: bit_len.simps)
  next
    case False
    then have ih: "2 ^ (bit_len (n div 2) - 1) \<le> n div 2" "n div 2 < 2 ^ bit_len (n div 2)" "0 < bit_len (n div 2)"
      using "1.IH" "1.prems" by auto
    have b: "bit_len n = bit_len (n div 2) + 1" using "1.prems" by (subst bit_len.simps) simp
    have "2 * 2 ^ (bit_len (n div 2) - 1) \<le> n" using ih(1) by linarith
    then have "2 ^ bit_len (n div 2) \<le> n" using ih(3) by (cases "bit_len (n div 2)") auto
    moreover have "n < 2 * 2 ^ bit_len (n div 2)" using ih(2) by linarith
    ultimately show ?thesis unfolding b by simp
  qed
qed

lemma bit_len_real:
  assumes "0 < n"
  shows "(2::real) ^ (bit_len n - 1) \<le> real n" "real n < 2 ^ bit_len n"
proof -
  have "real (2 ^ (bit_len n - 1)) \<le> real n" using bit_len_bounds [OF assms] by (simp only: of_nat_le_iff)
  then show "(2::real) ^ (bit_len n - 1) \<le> real n" by (simp only: of_nat_power of_nat_numeral)
  have "real n < real (2 ^ bit_len n)" using bit_len_bounds [OF assms] by (simp only: of_nat_less_iff)
  then show "real n < 2 ^ bit_len n" by (simp only: of_nat_power of_nat_numeral)
qed

lemma div_nearest_error:
  assumes "0 < d"
  shows "\<bar>real (div_nearest n d) - ratio n d\<bar> \<le> 1 / 2"
proof -
  have n: "real n = real (n div d) * real d + real (n mod d)"
    by (metis div_mult_mod_eq of_nat_add of_nat_mult)
  have r: "ratio n d = real (n div d) + real (n mod d) / real d"
    using assms n by (simp add: ratio_def field_simps)
  let ?x = "real (n mod d) / real d"
  have l: "0 \<le> ?x" "?x < 1" using assms by simp_all
  show ?thesis
  proof (cases "d < 2 * (n mod d) \<or> (2 * (n mod d) = d \<and> odd (n div d))")
    case True
    then have "real d \<le> 2 * real (n mod d)" by linarith
    then have "1 / 2 \<le> ?x" using assms by (simp add: field_simps)
    moreover have "real (div_nearest n d) = real (n div d) + 1" using True by (simp add: div_nearest_def Let_def)
    ultimately show ?thesis using l r by (simp add: abs_le_iff)
  next
    case False
    then have "2 * real (n mod d) \<le> real d" by linarith
    then have "?x \<le> 1 / 2" using assms by (simp add: field_simps)
    moreover have "real (div_nearest n d) = real (n div d)" using False by (simp add: div_nearest_def Let_def)
    ultimately show ?thesis using l r by (simp add: abs_le_iff)
  qed
qed

lemma div_nearest_exact: "0 < d \<Longrightarrow> div_nearest (k * d) d = k"
  by (simp add: div_nearest_def)

text \<open>The mantissa before rounding lies in its range, unless the exponent is the smallest.\<close>

lemma ratio_bounds:
  assumes "0 < n" "0 < d"
  shows "pow2 (int (bit_len n) - int (bit_len d) - 1) < ratio n d"
    "ratio n d < pow2 (int (bit_len n) - int (bit_len d) + 1)"
proof -
  have real_bounds: "pow2 (int (bit_len k) - 1) \<le> real k" "real k < pow2 (int (bit_len k))" if "0 < k" for k
  proof -
    have "int (bit_len k) - 1 = int (bit_len k - 1)" using bit_len_bounds [OF that] by linarith
    then have "pow2 (int (bit_len k) - 1) = 2 ^ (bit_len k - 1)" by (simp only: pow2_simps)
    then show "pow2 (int (bit_len k) - 1) \<le> real k" using bit_len_real(1) [OF that] by (simp only:)
    show "real k < pow2 (int (bit_len k))" using bit_len_real(2) [OF that] by (simp only: pow2_simps)
  qed
  note n1 = real_bounds [OF assms(1)] and d1 = real_bounds [OF assms(2)]
  have "pow2 (int (bit_len n) - int (bit_len d) - 1) * real d < pow2 (int (bit_len n) - int (bit_len d) - 1) * pow2 (int (bit_len d))"
    using d1(2) by (intro mult_strict_left_mono pow2_pos)
  also have "\<dots> = pow2 (int (bit_len n) - 1)" by (simp only: pow2_add [symmetric]) simp
  also have "\<dots> \<le> real n" by (rule n1(1))
  finally show "pow2 (int (bit_len n) - int (bit_len d) - 1) < ratio n d"
    using assms(2) by (simp add: ratio_def field_simps)
  have "real n < pow2 (int (bit_len n))" by (rule n1(2))
  also have "\<dots> = pow2 (int (bit_len n) - int (bit_len d) + 1) * pow2 (int (bit_len d) - 1)"
    by (simp only: pow2_add [symmetric]) simp
  also have "\<dots> \<le> pow2 (int (bit_len n) - int (bit_len d) + 1) * real d"
    using d1(1) by (intro mult_left_mono) (simp_all add: less_imp_le)
  finally show "ratio n d < pow2 (int (bit_len n) - int (bit_len d) + 1)"
    using assms(2) by (simp add: ratio_def field_simps)
qed

lemma result_exponent_cases:
  assumes "0 < n" "0 < d"
  defines "e \<equiv> result_exponent n d"
  shows "ratio n d * pow2 (- e) < 2 ^ 53"
    and "e \<noteq> - 1074 \<Longrightarrow> 2 ^ 52 \<le> ratio n d * pow2 (- e)"
    and "- 1074 \<le> e"
proof -
  define e0 where "e0 = int (bit_len n) - int (bit_len d) - 53"
  define e1 where "e1 = (if 2 ^ 53 * scale_den d e0 \<le> scale_num n e0 then e0 + 1 else e0)"
  have e: "e = max e1 (- 1074)" by (simp add: e_def result_exponent_def Let_def e0_def e1_def)
  have b: "pow2 52 < ratio n d * pow2 (- e0)" "ratio n d * pow2 (- e0) < pow2 54"
  proof -
    have "pow2 52 = pow2 (int (bit_len n) - int (bit_len d) - 1) * pow2 (- e0)"
      "pow2 54 = pow2 (int (bit_len n) - int (bit_len d) + 1) * pow2 (- e0)"
      by (simp_all only: pow2_add [symmetric] e0_def) simp_all
    then show "pow2 52 < ratio n d * pow2 (- e0)" "ratio n d * pow2 (- e0) < pow2 54"
      using ratio_bounds [OF assms(1,2)] by simp_all
  qed
  have t: "(2 ^ 53 * scale_den d e0 \<le> scale_num n e0) \<longleftrightarrow> 2 ^ 53 \<le> ratio n d * pow2 (- e0)"
  proof -
    have "(2 ^ 53 * scale_den d e0 \<le> scale_num n e0) \<longleftrightarrow> 2 ^ 53 \<le> ratio (scale_num n e0) (scale_den d e0)"
      using assms(2) by (simp add: ratio_def le_divide_eq) (metis of_nat_le_iff of_nat_mult of_nat_numeral of_nat_power)
    then show ?thesis using scaled_ratio [OF assms(2)] by simp
  qed
  have half: "ratio n d * pow2 (- (e0 + 1)) = ratio n d * pow2 (- e0) / 2"
    using pow2_add [of "- e0" "- 1"] by (simp add: pow2_def)
  have p: "pow2 52 = 2 ^ 52" "pow2 54 = 2 ^ 54" by (simp_all add: pow2_def)
  have one: "ratio n d * pow2 (- e1) < 2 ^ 53 \<and> 2 ^ 52 \<le> ratio n d * pow2 (- e1)"
  proof (cases "2 ^ 53 \<le> ratio n d * pow2 (- e0)")
    case True
    then have "e1 = e0 + 1" using t unfolding e1_def by simp
    have "ratio n d * pow2 (- e1) = ratio n d * pow2 (- e0) / 2" using half \<open>e1 = e0 + 1\<close> by simp
    moreover have "9007199254740992 \<le> ratio n d * pow2 (- e0)" "ratio n d * pow2 (- e0) < 18014398509481984"
      using True b(2) p(2) by simp_all
    ultimately have "ratio n d * pow2 (- e1) < 9007199254740992" "4503599627370496 \<le> ratio n d * pow2 (- e1)"
      by linarith+
    then show ?thesis by simp
  next
    case False
    then have "e1 = e0" using t by (simp add: e1_def)
    then show ?thesis using False b(1) p(1) by simp
  qed
  show "- 1074 \<le> e" by (simp add: e)
  show "e \<noteq> - 1074 \<Longrightarrow> 2 ^ 52 \<le> ratio n d * pow2 (- e)" using one by (auto simp: e max_def split: if_splits)
  have "ratio n d * pow2 (- e) \<le> ratio n d * pow2 (- e1)"
    by (intro mult_left_mono pow2_mono) (auto simp: e ratio_def)
  then show "ratio n d * pow2 (- e) < 2 ^ 53" using one by linarith
qed

text \<open>Rounding errs by at most half a unit of the last place.\<close>

lemma round_ratio_error:
  assumes "0 < n" "0 < d" and "round_ratio s n d = Finite t m e"
  shows "t = s" "\<bar>real m * pow2 e - ratio n d\<bar> \<le> pow2 e / 2"
    and "e \<noteq> - 1074 \<Longrightarrow> 2 ^ 52 \<le> m \<and> pow2 e * 2 ^ 52 \<le> ratio n d" and "- 1074 \<le> e" and "m \<le> 2 ^ 53"
proof -
  let ?e = "result_exponent n d"
  have r: "t = s" "e = ?e" "m = div_nearest (scale_num n ?e) (scale_den d ?e)"
    using assms(1,3) by (auto simp: round_ratio_def Let_def split: if_splits)
  note ex = result_exponent_cases [OF assms(1,2)]
  have err: "\<bar>real m - ratio n d * pow2 (- e)\<bar> \<le> 1 / 2"
    using div_nearest_error [of "scale_den d ?e" "scale_num n ?e"] scaled_ratio [OF assms(2)] assms(2) r by simp
  have inv: "pow2 (- e) * pow2 e = 1" by (simp only: pow2_add [symmetric]) simp
  have "ratio n d = ratio n d * pow2 (- e) * pow2 e" using inv by simp
  then have "real m * pow2 e - ratio n d = (real m - ratio n d * pow2 (- e)) * pow2 e"
    by (simp only: left_diff_distrib)
  then have "\<bar>real m * pow2 e - ratio n d\<bar> = \<bar>real m - ratio n d * pow2 (- e)\<bar> * pow2 e"
    by (simp add: abs_mult less_imp_le)
  also have "\<dots> \<le> 1 / 2 * pow2 e" using err by (intro mult_right_mono) (simp_all add: less_imp_le)
  finally show "\<bar>real m * pow2 e - ratio n d\<bar> \<le> pow2 e / 2" by simp
  show "t = s" by (rule r)
  show "- 1074 \<le> e" using ex(3) r by simp
  show "m \<le> 2 ^ 53"
  proof -
    have "real m < 2 ^ 53 + 1" using ex(1) err unfolding r(2) by linarith
    then have "real m < real (2 ^ 53 + 1)" by simp
    then have "m < 2 ^ 53 + 1" by (simp only: of_nat_less_iff)
    then show ?thesis by simp
  qed
  show "2 ^ 52 \<le> m \<and> pow2 e * 2 ^ 52 \<le> ratio n d" if "e \<noteq> - 1074"
  proof
    have l: "2 ^ 52 \<le> ratio n d * pow2 (- e)" using ex(2) that r by simp
    then have "2 ^ 52 - 1 < real m" using err by linarith
    then have "real (2 ^ 52) < real (m + 1)" by simp
    then have "2 ^ 52 < m + 1" by (simp only: of_nat_less_iff)
    then show "2 ^ 52 \<le> m" by simp
    have "pow2 e * 2 ^ 52 \<le> pow2 e * (ratio n d * pow2 (- e))" using l by (intro mult_left_mono) (simp_all add: less_imp_le)
    also have "\<dots> = ratio n d * (pow2 (- e) * pow2 e)" by (simp only: ac_simps)
    finally show "pow2 e * 2 ^ 52 \<le> ratio n d" using inv by simp
  qed
qed

text \<open>In the middle of the range rounding is finite and its relative error is at most \<open>2 ^ -53\<close>.\<close>

lemma pow2_numeral: "pow2 (numeral k) = 2 ^ numeral k" "pow2 (- numeral k) = inverse (2 ^ numeral k)"
  by (simp_all add: pow2_def)

lemma round_ratio_finite:
  assumes "0 < n" "0 < d" "ratio n d \<le> pow2 1023"
  shows "\<exists>m e. round_ratio s n d = Finite s m e"
proof -
  let ?e = "result_exponent n d"
  let ?m = "div_nearest (scale_num n ?e) (scale_den d ?e)"
  have "\<not> (971 < ?e \<or> (?e = 971 \<and> 2 ^ 53 \<le> ?m))"
  proof
    assume a: "971 < ?e \<or> (?e = 971 \<and> 2 ^ 53 \<le> ?m)"
    then have "2 ^ 52 \<le> ratio n d * pow2 (- ?e)" using result_exponent_cases(2) [OF assms(1,2)] by auto
    moreover have "ratio n d * pow2 (- ?e) \<le> pow2 1023 * pow2 (- 971)"
      using assms(3) a by (intro mult_mono pow2_mono) (auto simp: less_imp_le)
    moreover have "pow2 1023 * pow2 (- 971) = pow2 52" by (simp only: pow2_add [symmetric]) simp
    moreover have p52: "pow2 52 = 2 ^ 52" by (simp add: pow2_def)
    ultimately have eq: "ratio n d * pow2 (- ?e) = 2 ^ 52" by linarith
    have "\<not> 971 < ?e"
    proof
      assume "971 < ?e"
      then have "ratio n d * pow2 (- ?e) \<le> pow2 1023 * pow2 (- 972)"
        using assms(3) by (intro mult_mono pow2_mono) (auto simp: less_imp_le)
      also have "\<dots> = pow2 51" by (simp only: pow2_add [symmetric]) simp
      finally show False using eq by (simp add: pow2_def)
    qed
    then have "2 ^ 53 \<le> ?m" using a by blast
    moreover have "\<bar>real ?m - 2 ^ 52\<bar> \<le> 1 / 2"
      using div_nearest_error [of "scale_den d ?e" "scale_num n ?e"] scaled_ratio [OF assms(2), of n ?e] eq assms(2) by simp
    moreover from calculation(1) have "real (2 ^ 53) \<le> real ?m" by (simp only: of_nat_le_iff)
    ultimately show False by simp
  qed
  then show ?thesis using assms(1) by (auto simp: round_ratio_def Let_def)
qed

lemma round_ratio_close:
  assumes "0 < n" "0 < d" "pow2 (- 1022) \<le> ratio n d" "ratio n d \<le> pow2 1023"
  shows "\<exists>m e. round_ratio s n d = Finite s m e \<and> \<bar>real m * pow2 e - ratio n d\<bar> \<le> ratio n d / 2 ^ 53"
proof -
  obtain m e where r: "round_ratio s n d = Finite s m e" using round_ratio_finite assms by blast
  note err = round_ratio_error [OF assms(1,2) r]
  have "pow2 e * 2 ^ 52 \<le> ratio n d"
  proof (cases "e = - 1074")
    case True
    have "pow2 (- 1074) * pow2 52 = pow2 (- 1022)" by (simp only: pow2_add [symmetric]) simp
    then show ?thesis using True assms(3) by (simp add: pow2_def)
  qed (use err(3) in blast)
  then have "pow2 e / 2 \<le> ratio n d / 2 ^ 53" by simp
  then show ?thesis using r err(2) by force
qed

text \<open>A value that fits the mantissa is not changed.\<close>

lemma round_ratio_exact:
  assumes "0 < n" "0 < d" and r: "ratio n d = real k * pow2 j" and k: "k < 2 ^ 53" and j: "- 1074 \<le> j" "j \<le> 970"
  shows "\<exists>m e. round_ratio s n d = Finite s m e \<and> real m * pow2 e = ratio n d"
proof -
  let ?e = "result_exponent n d"
  have k53: "real k < 2 ^ 53" using k by (metis of_nat_less_iff of_nat_numeral of_nat_power)
  have "ratio n d \<le> pow2 53 * pow2 j" using k53 unfolding r by (intro mult_right_mono) (simp_all add: pow2_def less_imp_le)
  also have "\<dots> = pow2 (53 + j)" by (simp only: pow2_add)
  also have "\<dots> \<le> pow2 1023" using j by (intro pow2_mono) simp
  finally obtain m e where f: "round_ratio s n d = Finite s m e" using round_ratio_finite assms(1,2) by blast
  then have e: "e = ?e" and m: "m = div_nearest (scale_num n ?e) (scale_den d ?e)"
    using assms(1) by (auto simp: round_ratio_def Let_def split: if_splits)
  have le: "?e \<le> j"
  proof (rule ccontr)
    assume c: "\<not> ?e \<le> j"
    then have "2 ^ 52 \<le> ratio n d * pow2 (- ?e)"
      using result_exponent_cases(2) [OF assms(1,2)] j by auto
    also have "\<dots> = real k * pow2 (j - ?e)" unfolding r by (simp only: pow2_add [symmetric] mult.assoc diff_conv_add_uminus)
    also have "\<dots> \<le> real k * pow2 (- 1)" using c by (intro mult_left_mono pow2_mono) auto
    also have "\<dots> < 2 ^ 52" using k53 by (simp add: pow2_def)
    finally show False by simp
  qed
  let ?K = "k * 2 ^ nat (j - ?e)"
  have "ratio (scale_num n ?e) (scale_den d ?e) = real k * pow2 (j - ?e)"
    unfolding scaled_ratio [OF assms(2)] r by (simp only: pow2_add [symmetric] mult.assoc diff_conv_add_uminus)
  also have "\<dots> = real ?K" using le by (simp add: pow2_def)
  finally have "real (scale_num n ?e) = real (?K * scale_den d ?e)"
    using assms(2) by (simp add: ratio_def divide_eq_eq)
  then have "scale_num n ?e = ?K * scale_den d ?e" by (simp only: of_nat_eq_iff)
  then have "m = ?K" using m div_nearest_exact [of "scale_den d ?e" ?K] assms(2) by simp
  then have "real m * pow2 e = real k * pow2 (j - ?e) * pow2 ?e" using le e by (simp add: pow2_def)
  also have "\<dots> = ratio n d" unfolding r by (simp only: mult.assoc pow2_add [symmetric]) simp
  finally show ?thesis using f by blast
qed

lemma round_ratio_ge_one:
  assumes "0 < d" "d \<le> n" "round_ratio s n d = Finite t m e"
  shows "1 \<le> real m * pow2 e"
proof -
  have n: "0 < n" using assms(1,2) by simp
  have one: "1 \<le> ratio n d" using assms(1,2) by (simp add: ratio_def le_divide_eq)
  note err = round_ratio_error [OF n assms(1,3)]
  have lt: "ratio n d * pow2 (- e) < 2 ^ 53"
    using result_exponent_cases(1) [OF n assms(1)] assms(3) n by (auto simp: round_ratio_def Let_def split: if_splits)
  have e: "- 52 \<le> e"
  proof (rule ccontr)
    assume "\<not> - 52 \<le> e"
    then have "1 * pow2 53 \<le> ratio n d * pow2 (- e)"
      using one by (intro mult_mono pow2_mono) (auto simp: less_imp_le)
    then show False using lt by (simp add: pow2_def)
  qed
  then have "2 ^ 52 \<le> m" using err(3) by simp
  then have "real (2 ^ 52) \<le> real m" by (simp only: of_nat_le_iff)
  then have "pow2 52 * pow2 (- 52) \<le> real m * pow2 e"
    using e by (intro mult_mono pow2_mono) (simp_all add: pow2_def less_imp_le)
  then show ?thesis by (simp only: pow2_add [symmetric]) simp
qed

subsection \<open>Operations on positive values\<close>

lemma round_scaled_ratio:
  assumes "0 < d"
  shows "\<exists>N D. round_scaled s n d e = round_ratio s N D \<and> 0 < D \<and> (0 < n \<longrightarrow> 0 < N)
    \<and> ratio N D = ratio n d * pow2 e"
proof -
  have "ratio (scale_num n (- e)) (scale_den d (- e)) = ratio n d * pow2 e"
    using scaled_ratio [OF assms, of n "- e"] by simp
  then show ?thesis
    using assms unfolding round_scaled_def
    by (intro exI [of _ "scale_num n (- e)"] exI [of _ "scale_den d (- e)"]) (simp add: scale_num_def)
qed

text \<open>\<open>x\<close> is a positive float with the value \<open>v\<close>.\<close>

definition has_value :: "float64 \<Rightarrow> real \<Rightarrow> bool" where
  "has_value x v \<longleftrightarrow> (\<exists>m e. x = Finite False m e \<and> 0 < m \<and> real m * pow2 e = v)"

lemma has_value_pos: "has_value x v \<Longrightarrow> 0 < v"
  by (auto simp: has_value_def)

lemma round_ratio_value:
  assumes "0 < n" "0 < d" "pow2 (- 1022) \<le> ratio n d" "ratio n d \<le> pow2 1023"
  shows "\<exists>v. has_value (round_ratio False n d) v \<and> \<bar>v - ratio n d\<bar> \<le> ratio n d / 2 ^ 53
    \<and> (d \<le> n \<longrightarrow> 1 \<le> v)
    \<and> (\<forall>k j. ratio n d = real k * pow2 j \<and> k < 2 ^ 53 \<and> - 1074 \<le> j \<and> j \<le> 970 \<longrightarrow> v = ratio n d)"
proof -
  obtain m e where r: "round_ratio False n d = Finite False m e"
    and c: "\<bar>real m * pow2 e - ratio n d\<bar> \<le> ratio n d / 2 ^ 53"
    using round_ratio_close [OF assms] by blast
  have "0 < ratio n d" using assms(1,2) by (simp add: ratio_def)
  moreover from this have "ratio n d / 2 ^ 53 < ratio n d" by simp
  ultimately have "0 < real m * pow2 e" using c by linarith
  then have "0 < m" by (cases m) simp_all
  then have "has_value (round_ratio False n d) (real m * pow2 e)" using r by (auto simp: has_value_def)
  moreover have "d \<le> n \<Longrightarrow> 1 \<le> real m * pow2 e" using round_ratio_ge_one [OF assms(2) _ r] .
  moreover have "real m * pow2 e = ratio n d"
    if "ratio n d = real k * pow2 j" "k < 2 ^ 53" "- 1074 \<le> j" "j \<le> 970" for k j
    using round_ratio_exact [OF assms(1,2) that, of False] r by auto
  ultimately show ?thesis using c by blast
qed

definition mid_range :: "real \<Rightarrow> bool" where
  "mid_range v \<longleftrightarrow> pow2 (- 1022) \<le> v \<and> v \<le> pow2 1023"

lemma float_times_value:
  assumes "has_value x v" "has_value y w" "mid_range (v * w)"
  shows "\<exists>u. has_value (float_times x y) u \<and> \<bar>u - v * w\<bar> \<le> v * w / 2 ^ 53
    \<and> (\<forall>k j. v * w = real k * pow2 j \<and> k < 2 ^ 53 \<and> - 1074 \<le> j \<and> j \<le> 970 \<longrightarrow> u = v * w)"
proof -
  obtain m e n f where x: "x = Finite False m e" "0 < m" "real m * pow2 e = v"
    and y: "y = Finite False n f" "0 < n" "real n * pow2 f = w"
    using assms by (auto simp: has_value_def)
  obtain N D where r: "float_times x y = round_ratio False N D" "0 < D" "0 < N"
    "ratio N D = ratio (m * n) 1 * pow2 (e + f)"
    using round_scaled_ratio [of 1 False "m * n" "e + f"] x y by auto
  have "ratio N D = v * w" using r(4) x(3) y(3) by (auto simp: ratio_def pow2_add)
  then show ?thesis
    using round_ratio_value [OF r(3,2)] assms(3) r(1) by (auto simp: mid_range_def)
qed

lemma float_divide_value:
  assumes "has_value x v" "has_value y w" "mid_range (v / w)"
  shows "\<exists>u. has_value (float_divide x y) u \<and> \<bar>u - v / w\<bar> \<le> v / w / 2 ^ 53 \<and> (w \<le> v \<longrightarrow> 1 \<le> u)
    \<and> (\<forall>k j. v / w = real k * pow2 j \<and> k < 2 ^ 53 \<and> - 1074 \<le> j \<and> j \<le> 970 \<longrightarrow> u = v / w)"
proof -
  obtain m e n f where x: "x = Finite False m e" "0 < m" "real m * pow2 e = v"
    and y: "y = Finite False n f" "0 < n" "real n * pow2 f = w"
    using assms by (auto simp: has_value_def)
  obtain N D where r: "float_divide x y = round_ratio False N D" "0 < D" "0 < N"
    "ratio N D = ratio m n * pow2 (e - f)"
    using round_scaled_ratio [of n False m "e - f"] x y by auto
  have "pow2 (e - f) * pow2 f = pow2 e" by (simp only: pow2_add [symmetric]) simp
  then have "pow2 (e - f) = pow2 e / pow2 f" by (simp add: eq_divide_eq less_imp_neq [THEN not_sym])
  then have v: "ratio N D = v / w" using r(4) x(3) y(3) by (auto simp: ratio_def)
  have "w \<le> v \<Longrightarrow> D \<le> N"
  proof -
    assume "w \<le> v"
    then have "1 \<le> ratio N D" using v has_value_pos [OF assms(2)] by (simp add: le_divide_eq)
    then show "D \<le> N" using r(2) by (simp add: ratio_def le_divide_eq)
  qed
  then show ?thesis
    using round_ratio_value [OF r(3,2)] assms(3) r(1) v by (auto simp: mid_range_def)
qed

lemma float_of_int_value:
  assumes "0 < i" "i \<le> 2 ^ 63"
  shows "\<exists>v. has_value (float_of_int i) v \<and> 1 \<le> v \<and> v \<le> pow2 64 \<and> (i < 2 ^ 53 \<longrightarrow> v = of_int i)"
proof -
  have r: "ratio (nat i) 1 = of_int i" using assms(1) by (simp add: ratio_def)
  have b: "1 \<le> (of_int i :: real)" "(of_int i :: real) \<le> 2 ^ 63"
    using assms by simp (metis assms(2) of_int_le_iff of_int_numeral of_int_power)
  have p: "pow2 (- 1022) \<le> pow2 0" "pow2 63 \<le> pow2 1023" by (rule pow2_mono, simp)+
  then have "pow2 (- 1022) \<le> ratio (nat i) 1" "ratio (nat i) 1 \<le> pow2 1023"
    using b r by (simp_all add: pow2_def)
  from round_ratio_value [OF _ _ this] assms obtain v where v: "has_value (round_ratio False (nat i) 1) v"
    "\<bar>v - ratio (nat i) 1\<bar> \<le> ratio (nat i) 1 / 2 ^ 53" "1 \<le> nat i \<longrightarrow> 1 \<le> v"
    "\<forall>k j. ratio (nat i) 1 = real k * pow2 j \<and> k < 2 ^ 53 \<and> - 1074 \<le> j \<and> j \<le> 970 \<longrightarrow> v = ratio (nat i) 1"
    by auto
  have "ratio (nat i) 1 / 2 ^ 53 \<le> ratio (nat i) 1" using b(1) r by simp
  then have "v \<le> 2 ^ 63 + 2 ^ 63" using v(2) b(2) r by linarith
  then have "v \<le> pow2 64" by (simp add: pow2_def)
  moreover have "v = of_int i" if "i < 2 ^ 53"
    using v(4) [rule_format, of "nat i" 0] that assms(1) r by (simp add: nat_less_iff)
  moreover have "float_of_int i = round_ratio False (nat i) 1" using assms(1) by (simp add: float_of_int_def)
  ultimately show ?thesis using v(1,3) assms(1) by auto
qed

lemma ratio_of_finite: "ratio (scale_num m (- e)) (scale_den 1 (- e)) = real m * pow2 e"
  using scaled_ratio [of 1 m "- e"] by (simp add: ratio_def)

lemma float_trunc_value: "has_value x v \<Longrightarrow> float_trunc x = \<lfloor>v\<rfloor>"
  unfolding has_value_def using ratio_of_finite
  by (auto simp: signed_int_def ratio_def floor_divide_of_nat_eq simp del: One_nat_def simp flip: ratio_of_finite)

lemma float_round_value:
  assumes "has_value x v"
  shows "float_round x = float_of_int \<lfloor>v + 1 / 2\<rfloor>"
proof -
  obtain m e where x: "x = Finite False m e" "real m * pow2 e = v" using assms by (auto simp: has_value_def)
  let ?n = "scale_num m (- e)" and ?d = "scale_den 1 (- e)"
  have d: "0 < ?d" by simp
  have "v + 1 / 2 = real (2 * ?n + ?d) / real (2 * ?d)"
    using ratio_of_finite [of m e] x(2) d by (simp add: ratio_def field_simps)
  then have "\<lfloor>v + 1 / 2\<rfloor> = int ((2 * ?n + ?d) div (2 * ?d))"
    by (simp only: floor_divide_of_nat_eq)
  then show ?thesis using x(1) by (simp add: float_of_int_def Let_def)
qed

lemma float_less_value: "has_value x v \<Longrightarrow> has_value y w \<Longrightarrow> float_less x y \<longleftrightarrow> v < w"
proof -
  assume "has_value x v" "has_value y w"
  then obtain m e n f where x: "x = Finite False m e" "real m * pow2 e = v"
    and y: "y = Finite False n f" "real n * pow2 f = w" by (auto simp: has_value_def)
  have "float_less x y \<longleftrightarrow> scale_num m (- e) * scale_den 1 (- f) < scale_num n (- f) * scale_den 1 (- e)"
    by (simp add: x y signed_int_def flip: of_nat_mult)
  also have "\<dots> \<longleftrightarrow> real (scale_num m (- e)) * real (scale_den 1 (- f)) < real (scale_num n (- f)) * real (scale_den 1 (- e))"
    by (simp only: of_nat_mult [symmetric] of_nat_less_iff)
  also have "\<dots> \<longleftrightarrow> ratio (scale_num m (- e)) (scale_den 1 (- e)) < ratio (scale_num n (- f)) (scale_den 1 (- f))"
    by (simp add: ratio_def divide_less_eq less_divide_eq ac_simps)
  finally show ?thesis using ratio_of_finite x y by simp
qed

lemma float_min_value: "has_value x v \<Longrightarrow> has_value y w \<Longrightarrow> has_value (float_min x y) (min v w)"
  using float_less_value [of x v y w] by (auto simp: float_min_def min_def has_value_def)

lemma mid_rangeI: "pow2 (- 200) \<le> v \<Longrightarrow> v \<le> pow2 200 \<Longrightarrow> mid_range v"
proof -
  have p: "pow2 (- 1022) \<le> pow2 (- 200)" "pow2 200 \<le> pow2 1023" by (rule pow2_mono, simp)+
  assume "pow2 (- 200) \<le> v" "v \<le> pow2 200"
  with p show ?thesis unfolding mid_range_def by linarith
qed

lemma float_trunc_of_int: "0 \<le> i \<Longrightarrow> i < 2 ^ 53 \<Longrightarrow> float_trunc (float_of_int i) = i"
proof -
  assume i: "0 \<le> i" "i < 2 ^ 53"
  show ?thesis
  proof (cases "i = 0")
    case True
    then show ?thesis by (simp add: float_of_int_def round_ratio_def scale_num_def signed_int_def)
  next
    case False
    then obtain v where "has_value (float_of_int i) v" "v = of_int i"
      using float_of_int_value [of i] i by auto
    then show ?thesis using float_trunc_value by fastforce
  qed
qed

text \<open>The quotient of a small limit and a size.\<close>

lemma limit_over_size:
  assumes w: "has_value x W" "1 \<le> W" "W \<le> pow2 64" and l: "has_value y (real n)" "64 \<le> n" "n < 2 ^ 40"
  shows "\<exists>a. has_value (float_divide y x) a \<and> a \<le> real n / W * (1 + 1 / 2 ^ 53) \<and> pow2 (- 60) \<le> a
    \<and> (W \<le> real n \<longrightarrow> 1 \<le> a)"
proof -
  have n: "64 \<le> real n" "real n < 2 ^ 40"
    using l(2,3) by simp (metis l(3) of_nat_less_iff of_nat_numeral of_nat_power)
  have p64: "pow2 64 = 2 ^ 64" by (simp add: pow2_def)
  have low: "64 / pow2 64 \<le> real n / W" using n(1) w(2,3) by (intro frac_le) auto
  have "64 / pow2 64 = pow2 6 * pow2 (- 64)" by (simp add: pow2_def)
  also have "\<dots> = pow2 (- 58)" by (simp only: pow2_add [symmetric]) simp
  finally have low: "pow2 (- 58) \<le> real n / W" using low by simp
  have "real n / W \<le> real n / 1" using w(2) n(1) by (intro divide_left_mono) auto
  then have "real n / W \<le> pow2 200" using n(2) by (simp add: pow2_def)
  moreover have "pow2 (- 200) \<le> pow2 (- 58)" by (rule pow2_mono) simp
  ultimately have "mid_range (real n / W)" using low by (intro mid_rangeI) linarith+
  from float_divide_value [OF l(1) w(1) this] obtain a where a: "has_value (float_divide y x) a"
    "\<bar>a - real n / W\<bar> \<le> real n / W / 2 ^ 53" "W \<le> real n \<longrightarrow> 1 \<le> a" by blast
  have up: "a \<le> real n / W * (1 + 1 / 2 ^ 53)" using a(2) by (simp add: distrib_left abs_le_iff)
  have "0 < real n / W" using low pow2_pos [of "- 58"] by linarith
  then have "real n / W / 2 ^ 53 \<le> real n / W / 2" by (intro divide_left_mono) auto
  moreover have half: "q / 2 \<le> a" if "\<bar>a - q\<bar> \<le> e" "e \<le> q / 2" for q e :: real
    using that by linarith
  ultimately have "real n / W / 2 \<le> a" using a(2) by blast
  moreover have "pow2 (- 58) / 2 \<le> real n / W / 2" by (rule divide_right_mono [OF low]) simp
  ultimately have "pow2 (- 58) / 2 \<le> a" by (rule order_trans [rotated])
  then have "pow2 (- 59) \<le> a" using pow2_add [of "- 58" "- 1"] by (simp add: pow2_def)
  moreover have "pow2 (- 60) \<le> pow2 (- 59)" by (rule pow2_mono) simp
  ultimately show ?thesis using a(1,3) up by auto
qed

end
