(* ===== verification/Go_Numbers.thy ===== *)
theory Go_Numbers
  imports Go_Strings Float64
begin

text \<open>
  Number parsing of Go's standard library as the program uses it: \<open>strconv.ParseFloat\<close>
  with 64 bits, \<open>time.ParseDuration\<close>, \<open>int64\<close> arithmetic, and the texts of durations.
\<close>

subsection \<open>Arithmetic on \<open>int64\<close>\<close>

definition wrap64 :: "int \<Rightarrow> int" where
  "wrap64 i = (i + 2 ^ 63) mod 2 ^ 64 - 2 ^ 63"

lemma wrap64_range: "min_int64 \<le> wrap64 i \<and> wrap64 i \<le> max_int64"
  using pos_mod_bound [of "2 ^ 64" "i + 2 ^ 63"] pos_mod_sign [of "2 ^ 64" "i + 2 ^ 63"]
  unfolding wrap64_def min_int64_def max_int64_def by simp

lemma wrap64_id: "min_int64 \<le> i \<Longrightarrow> i \<le> max_int64 \<Longrightarrow> wrap64 i = i"
  by (simp add: wrap64_def min_int64_def max_int64_def)

text \<open>Go's division and remainder truncate towards zero.\<close>

definition quot_int :: "int \<Rightarrow> int \<Rightarrow> int" where
  "quot_int a b = (if (a < 0) = (b < 0) then \<bar>a\<bar> div \<bar>b\<bar> else - (\<bar>a\<bar> div \<bar>b\<bar>))"

definition rem_int :: "int \<Rightarrow> int \<Rightarrow> int" where
  "rem_int a b = a - b * quot_int a b"

text \<open>
  Conversion of a float to \<open>int64\<close>. The language leaves the result of a value out of range
  to the implementation, so it is an argument.
\<close>

definition float_to_int64 :: "(float64 \<Rightarrow> int) \<Rightarrow> float64 \<Rightarrow> int" where
  "float_to_int64 out_of_range x =
    (case x of
       Finite s m e \<Rightarrow> (let i = float_trunc x in if min_int64 \<le> i \<and> i \<le> max_int64 then i else out_of_range x)
     | _ \<Rightarrow> out_of_range x)"

subsection \<open>\<open>ParseFloat\<close>\<close>

definition lower_byte :: "char \<Rightarrow> char" where
  "lower_byte c = (if upper_rune (of_char c) then char_of (of_char c + (32 :: nat)) else c)"

text \<open>The value of a digit in base 10 or 16.\<close>

definition float_digit :: "bool \<Rightarrow> char \<Rightarrow> nat option" where
  "float_digit hex c =
    (let r = of_char c; l = of_char (lower_byte c)
     in if digit_rune r then Some (r - 48)
        else if hex \<and> 97 \<le> l \<and> l \<le> 102 then Some (l - 87) else None)"

text \<open>The mantissa: its digits as a number, the digits after the point, and whether there were any.\<close>

fun read_mantissa :: "bool \<Rightarrow> string \<Rightarrow> nat \<Rightarrow> nat \<Rightarrow> bool \<Rightarrow> bool \<Rightarrow> nat \<times> nat \<times> bool \<times> string" where
  "read_mantissa hex [] m k point digits = (m, k, digits, [])"
| "read_mantissa hex (c # cs) m k point digits =
    (if c = CHR ''_'' then read_mantissa hex cs m k point digits
     else if c = CHR ''.'' then
       (if point then (m, k, digits, c # cs) else read_mantissa hex cs m k True digits)
     else case float_digit hex c of
       None \<Rightarrow> (m, k, digits, c # cs)
     | Some d \<Rightarrow>
         read_mantissa hex cs (m * (if hex then 16 else 10) + d) (if point then k + 1 else k) point True)"

fun read_exponent :: "string \<Rightarrow> nat \<Rightarrow> nat \<times> string" where
  "read_exponent [] e = (e, [])"
| "read_exponent (c # cs) e =
    (if c = CHR ''_'' then read_exponent cs e
     else if digit_rune (of_char c)
       then read_exponent cs (if e < 10000 then e * 10 + (of_char c - 48) else e)
     else (e, c # cs))"

text \<open>\<open>underscoreOK\<close>: underscores stand between digits, after an optional base prefix.\<close>

datatype seen = SeenStart | SeenDigit | SeenUnderscore | SeenOther

fun underscores_from :: "bool \<Rightarrow> seen \<Rightarrow> string \<Rightarrow> bool" where
  "underscores_from hex seen [] = (seen \<noteq> SeenUnderscore)"
| "underscores_from hex seen (c # cs) =
    (if float_digit hex c \<noteq> None then underscores_from hex SeenDigit cs
     else if c = CHR ''_'' then (seen = SeenDigit \<and> underscores_from hex SeenUnderscore cs)
     else (seen \<noteq> SeenUnderscore \<and> underscores_from hex SeenOther cs))"

definition drop_sign :: "string \<Rightarrow> string" where
  "drop_sign s = (if has_prefix s ''-'' \<or> has_prefix s ''+'' then drop 1 s else s)"

definition underscores_ok :: "string \<Rightarrow> bool" where
  "underscores_ok s =
    (let s = drop_sign s;
         base = (if 2 \<le> length s \<and> s ! 0 = CHR ''0'' then lower_byte (s ! 1) else CHR ''0'')
     in if base \<in> {CHR ''b'', CHR ''o'', CHR ''x''}
        then underscores_from (base = CHR ''x'') SeenDigit (drop 2 s)
        else underscores_from False SeenStart s)"

definition special_float :: "string \<Rightarrow> float64 option" where
  "special_float s =
    (let t = map lower_byte s; u = drop_sign t
     in if u = ''inf'' \<or> u = ''infinity'' then Some (Infinite (has_prefix s ''-''))
        else if t = ''nan'' then Some NaN else None)"

text \<open>The number as sign, mantissa, base of the exponent and exponent.\<close>

definition read_float :: "string \<Rightarrow> (bool \<times> nat \<times> nat \<times> int) option" where
  "read_float s =
    (let neg = has_prefix s ''-''; body = drop_sign s;
         hex = (2 < length body \<and> body ! 0 = CHR ''0'' \<and> lower_byte (body ! 1) = CHR ''x'')
     in case read_mantissa hex (if hex then drop 2 body else body) 0 0 False False of
          (m, k, digits, rest) \<Rightarrow>
            let shift = (if hex then 4 * int k else int k);
                base = (if hex then 2 else 10);
                ok = (\<not> (CHR ''_'' \<in> set s) \<or> underscores_ok s)
            in if \<not> digits then None
               else case rest of
                 [] \<Rightarrow> if hex \<or> \<not> ok then None else Some (neg, m, base, - shift)
               | c # cs \<Rightarrow>
                   if lower_byte c \<noteq> (if hex then CHR ''p'' else CHR ''e'') then None
                   else let eneg = has_prefix cs ''-''; ds = drop_sign cs
                        in if ds = [] \<or> \<not> digit_rune (of_char (hd ds)) then None
                           else (case read_exponent ds 0 of
                                   (e, []) \<Rightarrow> if ok then Some (neg, m, base, (if eneg then - int e else int e) - shift)
                                              else None
                                 | _ \<Rightarrow> None))"

text \<open>The value and whether the error is nil; a range error returns an infinity.\<close>

definition parse_float :: "string \<Rightarrow> float64 \<times> bool" where
  "parse_float s =
    (case special_float s of
       Some x \<Rightarrow> (x, True)
     | None \<Rightarrow>
        (case read_float s of
           None \<Rightarrow> (Finite False 0 0, False)
         | Some (neg, m, base, e) \<Rightarrow>
             let x = (if 0 \<le> e then round_ratio neg (m * base ^ nat e) 1 else round_ratio neg m (base ^ nat (- e)))
             in (case x of Infinite t \<Rightarrow> (x, False) | _ \<Rightarrow> (x, True))))"

subsection \<open>\<open>ParseDuration\<close>\<close>

text \<open>\<open>leadingInt\<close>: \<open>None\<close> for an overflow.\<close>

fun leading_int :: "nat \<Rightarrow> string \<Rightarrow> (nat \<times> string) option" where
  "leading_int x [] = Some (x, [])"
| "leading_int x (c # cs) =
    (if \<not> digit_rune (of_char c) then Some (x, c # cs)
     else if 2 ^ 63 div 10 < x then None
     else let y = x * 10 + (of_char c - 48) in if 2 ^ 63 < y then None else leading_int y cs)"

text \<open>\<open>leadingFraction\<close>: the digits that fit, and how many they are.\<close>

fun leading_fraction :: "bool \<Rightarrow> nat \<Rightarrow> nat \<Rightarrow> string \<Rightarrow> nat \<times> nat \<times> string" where
  "leading_fraction over x k [] = (x, k, [])"
| "leading_fraction over x k (c # cs) =
    (if \<not> digit_rune (of_char c) then (x, k, c # cs)
     else if over \<or> (2 ^ 63 - 1) div 10 < x then leading_fraction True x k cs
     else let y = x * 10 + (of_char c - 48)
          in if 2 ^ 63 < y then leading_fraction True x k cs else leading_fraction False y (k + 1) cs)"

definition unit_char :: "char \<Rightarrow> bool" where
  "unit_char c \<longleftrightarrow> c \<noteq> CHR ''.'' \<and> \<not> digit_rune (of_char c)"

definition duration_unit :: "string \<Rightarrow> nat option" where
  "duration_unit u =
    (if u = ''ns'' then Some 1
     else if u = ''us'' \<or> u = [char_of (0xC2::nat), char_of (0xB5::nat), CHR ''s'']
       \<or> u = [char_of (0xCE::nat), char_of (0xBC::nat), CHR ''s''] then Some 1000
     else if u = ''ms'' then Some 1000000
     else if u = ''s'' then Some 1000000000
     else if u = ''m'' then Some 60000000000
     else if u = ''h'' then Some 3600000000000 else None)"

lemma length_leading_int: "leading_int x s = Some (y, t) \<Longrightarrow> length t \<le> length s"
  by (induction x s rule: leading_int.induct) (auto simp: Let_def split: if_splits)

lemma length_leading_fraction: "leading_fraction over x k s = (y, j, t) \<Longrightarrow> length t \<le> length s"
  by (induction s arbitrary: over x k) (auto simp: Let_def split: if_splits intro: le_SucI)

text \<open>One number with its unit: its nanoseconds and the rest, or \<open>None\<close> for an error.\<close>

definition duration_part :: "string \<Rightarrow> (nat \<times> string) option" where
  "duration_part s =
    (case leading_int 0 s of
       None \<Rightarrow> None
     | Some (v, s1) \<Rightarrow>
         (case (if has_prefix s1 ''.'' then leading_fraction False 0 0 (drop 1 s1) else (0, 0, s1)) of
            (f, k, s2) \<Rightarrow>
              let pre = (length s1 \<noteq> length s);
                  post = (has_prefix s1 ''.'' \<and> length s2 \<noteq> length (drop 1 s1));
                  u = takeWhile unit_char s2; s3 = dropWhile unit_char s2
              in if \<not> pre \<and> \<not> post then None
                 else if u = [] then None
                 else case duration_unit u of
                   None \<Rightarrow> None
                 | Some unit \<Rightarrow>
                     if 2 ^ 63 div unit < v then None
                     else let w = v * unit + (if 0 < f
                            then nat (float_trunc (float_times (float_of_int (int f))
                              (float_divide (float_of_int (int unit)) (float_of_int (10 ^ k))))) else 0)
                          in if 0 < f \<and> 2 ^ 63 < w then None else Some (w, s3)))"

lemma duration_part_shorter: "duration_part s = Some (w, t) \<Longrightarrow> length t < length s"
proof -
  assume a: "duration_part s = Some (w, t)"
  then obtain v s1 where l: "leading_int 0 s = Some (v, s1)" by (auto simp: duration_part_def split: option.splits)
  obtain f k s2 where f: "(if has_prefix s1 ''.'' then leading_fraction False 0 0 (drop 1 s1) else (0, 0, s1)) = (f, k, s2)"
    by (metis prod.exhaust)
  have t: "t = dropWhile unit_char s2" and u: "takeWhile unit_char s2 \<noteq> []"
    using a l f by (auto simp: duration_part_def Let_def split: if_splits option.splits)
  have "length s2 \<le> length s"
    using length_leading_int [OF l] length_leading_fraction [of False 0 0 "drop 1 s1" f k s2] f
    by (auto split: if_splits)
  moreover have "length t < length s2"
    using u by (metis t takeWhile_dropWhile_id length_append length_greater_0_conv less_add_same_cancel2)
  ultimately show ?thesis by simp
qed

function duration_parts :: "string \<Rightarrow> nat \<Rightarrow> nat option" where
  "duration_parts s d =
    (if s = [] then Some d
     else if \<not> (hd s = CHR ''.'' \<or> digit_rune (of_char (hd s))) then None
     else case duration_part s of
       None \<Rightarrow> None
     | Some (w, t) \<Rightarrow> if 2 ^ 63 < d + w then None else duration_parts t (d + w))"
  by pat_completeness auto
termination by (relation "measure (\<lambda>(s, d). length s)") (auto dest: duration_part_shorter)

declare duration_parts.simps [simp del]

definition parse_duration :: "string \<Rightarrow> int option" where
  "parse_duration s =
    (let neg = has_prefix s ''-''; body = drop_sign s
     in if body = ''0'' then Some 0
        else if body = [] then None
        else case duration_parts body 0 of
          None \<Rightarrow> None
        | Some d \<Rightarrow>
            if neg then Some (- int d)
            else if 2 ^ 63 - 1 < d then None else Some (int d))"

lemma duration_parts_bound: "duration_parts s d = Some r \<Longrightarrow> d \<le> 2 ^ 63 \<Longrightarrow> r \<le> 2 ^ 63"
  by (induction s d rule: duration_parts.induct)
     (subst (asm) (2) duration_parts.simps, auto split: if_splits option.splits)

end
