(* ===== verification/Go_Text.thy ===== *)
theory Go_Text
  imports Go_Numbers Go_Errors
begin

text \<open>
  Texts of Go's standard library as the program uses them: durations, big-endian numbers, the
  lines of a \<open>bufio.Scanner\<close>, the fields of a line, Boolean and shortest floating-point texts.
\<close>

subsection \<open>Durations and bytes\<close>

text \<open>\<open>time.Duration.String\<close>.\<close>

definition fraction_text :: "nat \<Rightarrow> nat \<Rightarrow> string" where
  "fraction_text v prec =
    (let n = nat_text (v mod 10 ^ prec);
         digits = rev (dropWhile (\<lambda>c. c = CHR ''0'') (rev (replicate (prec - length n) CHR ''0'' @ n)))
     in if digits = [] then [] else CHR ''.'' # digits)"

definition duration_text :: "int \<Rightarrow> string" where
  "duration_text d =
    (let u = nat \<bar>d\<bar>; s = u div 1000000000; sign = (if d < 0 then ''-'' else [])
     in if u = 0 then ''0s''
        else sign @
          (if u < 1000 then nat_text u @ ''ns''
           else if u < 1000000 then nat_text (u div 1000) @ fraction_text u 3 @ [CHR 0xC2, CHR 0xB5] @ ''s''
           else if u < 1000000000 then nat_text (u div 1000000) @ fraction_text u 6 @ ''ms''
           else (if 3600 \<le> s then nat_text (s div 3600) @ ''h'' else [])
             @ (if 60 \<le> s then nat_text (s div 60 mod 60) @ ''m'' else [])
             @ nat_text (s mod 60) @ fraction_text u 9 @ ''s''))"

text \<open>\<open>binary.BigEndian\<close>.\<close>

definition big_endian :: "string \<Rightarrow> int" where
  "big_endian s = foldl (\<lambda>n c. 256 * n + of_char c) 0 s"

subsection \<open>Lines and fields\<close>

text \<open>
  The lines a \<open>bufio.Scanner\<close> delivers, with a trailing carriage return dropped; a line that
  fills its 64 KiB buffer is an error.
\<close>

definition scan_lines :: "string \<Rightarrow> string list result" where
  "scan_lines text =
    (let raw = split_on (CHR 0x0A) text; ls = (if last raw = [] then butlast raw else raw)
     in if list_ex (\<lambda>l. 65536 \<le> length l) ls then Inl (NewError ''bufio.Scanner: token too long'')
        else Inr (map (\<lambda>l. trim_suffix l [CHR 0x0D]) ls))"

text \<open>\<open>strings.Fields\<close> on the code points of a text.\<close>

definition fields_text :: "string \<Rightarrow> string list" where
  "fields_text s =
    (let (words, word) = fold (\<lambda>(r, bytes) (words, word).
          if space_rune r then (if word = [] then (words, []) else (words @ [word], [])) else (words, word @ bytes))
        (chunks s) ([], [])
     in if word = [] then words else words @ [word])"

text \<open>On plain ASCII texts trimming and lowering change nothing.\<close>

definition plain_byte :: "char \<Rightarrow> bool" where
  "plain_byte c \<longleftrightarrow> 32 < (of_char c :: nat) \<and> (of_char c :: nat) < 128"

lemma chunks_ascii: "is_ascii s \<Longrightarrow> chunks s = map (\<lambda>c. (of_char c, [c])) s"
  by (induction s) (auto simp: is_ascii_def)

lemma plain_not_space: "plain_byte c \<Longrightarrow> \<not> space_rune (of_char c)"
  by (auto simp: plain_byte_def space_rune_def)

lemma dropWhile_none: "(\<And>x. x \<in> set xs \<Longrightarrow> \<not> P x) \<Longrightarrow> dropWhile P xs = xs"
  by (cases xs) auto

lemma trim_space_id: "list_all plain_byte s \<Longrightarrow> trim_space s = s"
proof -
  assume p: "list_all plain_byte s"
  then have "is_ascii s" by (auto simp: is_ascii_def list_all_iff plain_byte_def)
  moreover have "concat (map snd (map (\<lambda>c. (of_char c :: nat, [c])) s)) = s" by (induction s) auto
  moreover have "dropWhile (space_rune \<circ> fst) xs = xs" if "set xs \<subseteq> (\<lambda>c. (of_char c, [c])) ` set s" for xs
    using that p plain_not_space by (intro dropWhile_none) (auto simp: list_all_iff)
  ultimately show ?thesis by (simp add: trim_space_def chunks_ascii)
qed

lemma to_lower_id: "list_all (\<lambda>c. (of_char c :: nat) < 128 \<and> \<not> upper_rune (of_char c)) s \<Longrightarrow> to_lower s = s"
proof -
  assume p: "list_all (\<lambda>c. (of_char c :: nat) < 128 \<and> \<not> upper_rune (of_char c)) s"
  then have "runes s = map of_char s" by (intro runes_ascii) (auto simp: is_ascii_def list_all_iff)
  moreover have "encode_rune (rune_lower (of_char c)) = [c]" if "c \<in> set s" for c
    using p that by (auto simp: list_all_iff rune_lower_def encode_rune_def)
  ultimately show ?thesis
    by (simp add: to_lower_def encode_runes_def comp_def cong: map_cong)
qed

subsection \<open>Booleans and floats\<close>

text \<open>\<open>strconv.ParseBool\<close>.\<close>

definition parse_bool :: "string \<Rightarrow> bool option" where
  "parse_bool s =
    (if s \<in> set [''1'', ''t'', ''T'', ''true'', ''TRUE'', ''True''] then Some True
     else if s \<in> set [''0'', ''f'', ''F'', ''false'', ''FALSE'', ''False''] then Some False
     else None)"

text \<open>
  \<open>strconv.FormatFloat\<close> with verb \<open>g\<close> and the shortest precision that reads back as the same
  number. A positive finite number is the fraction \<open>n / d\<close>; its decimal exponent is that of the
  leading digit.
\<close>

definition decimal_exponent :: "nat \<Rightarrow> nat \<Rightarrow> int" where
  "decimal_exponent n d =
    (if d \<le> n then int (length (nat_text (n div d))) - 1
     else let c = (d + n - 1) div n; l = length (nat_text c)
          in if c = 10 ^ (l - 1) then - int (l - 1) else - int l)"

text \<open>The candidates with \<open>k\<close> digits are the two neighbours; those that read back are kept.\<close>

definition decimal_ratio :: "nat \<Rightarrow> int \<Rightarrow> nat \<times> nat" where
  "decimal_ratio c e = (if 0 \<le> e then (c * 10 ^ nat e, 1) else (c, 10 ^ nat (- e)))"

definition reads_back :: "float64 \<Rightarrow> nat \<Rightarrow> int \<Rightarrow> bool" where
  "reads_back x c e = (case decimal_ratio c e of (n, d) \<Rightarrow> round_ratio False n d = x)"

definition shortest_with :: "float64 \<Rightarrow> nat \<Rightarrow> nat \<Rightarrow> int \<Rightarrow> nat \<Rightarrow> (nat \<times> int) option" where
  "shortest_with x n d e10 k =
    (let e = e10 - int k + 1;
         (sn, sd) = (if 0 \<le> e then (n, d * 10 ^ nat e) else (n * 10 ^ nat (- e), d));
         low = sn div sd; near = (if 2 * (sn mod sd) < sd then low else low + 1);
         far = (if near = low then low + 1 else low)
     in if reads_back x near e then Some (near, e)
        else if reads_back x far e then Some (far, e) else None)"

fun first_some :: "(nat \<Rightarrow> 'a option) \<Rightarrow> nat list \<Rightarrow> 'a option" where
  "first_some f [] = None"
| "first_some f (k # ks) = (case f k of Some y \<Rightarrow> Some y | None \<Rightarrow> first_some f ks)"

definition shortest_digits :: "float64 \<Rightarrow> nat \<Rightarrow> nat \<Rightarrow> (nat \<times> int) option" where
  "shortest_digits x n d = first_some (shortest_with x n d (decimal_exponent n d)) [1..<18]"

text \<open>The digits without trailing zeros, and the position of the point after the first of them.\<close>

definition layout_digits :: "string \<Rightarrow> int \<Rightarrow> string" where
  "layout_digits ds point =
    (let n = int (length ds); e = point - 1
     in if e < - 4 \<or> 6 \<le> e then
          take 1 ds @ (if n = 1 then [] else CHR ''.'' # drop 1 ds)
            @ (if e < 0 then ''e-'' else ''e+'') @ (if \<bar>e\<bar> < 10 then ''0'' else []) @ itoa \<bar>e\<bar>
        else if point \<le> 0 then ''0.'' @ replicate (nat (- point)) CHR ''0'' @ ds
        else if n \<le> point then ds @ replicate (nat (point - n)) CHR ''0''
        else take (nat point) ds @ CHR ''.'' # drop (nat point) ds)"

definition format_float :: "float64 \<Rightarrow> string" where
  "format_float x =
    (case x of
       NaN \<Rightarrow> ''NaN''
     | Infinite s \<Rightarrow> (if s then ''-Inf'' else ''+Inf'')
     | Finite s m e \<Rightarrow>
         (if s then ''-'' else []) @
         (if m = 0 then ''0''
          else case shortest_digits (Finite False m e) (scale_num m (- e)) (scale_den 1 (- e)) of
                 None \<Rightarrow> ''0''
               | Some (c, k) \<Rightarrow>
                   let all = nat_text c; ds = rev (dropWhile (\<lambda>d. d = CHR ''0'') (rev all))
                   in layout_digits ds (int (length all) + k)))"

end
