(* ===== verification/Runner.thy ===== *)
theory Runner
  imports Go_Paths Go_Errors
begin

text \<open>
  Running one executable, \<open>internal/runner/runner.go\<close>, \<open>output.go\<close> and \<open>process_unix.go\<close>:
  defaults and guards, the bounded capture of both output streams, and the classification of how a
  process ended. The operating system is an argument: whether the process starts, the
  chunks it writes, and how waiting ends.
\<close>

subsection \<open>Data\<close>

record command =
  cmd_path :: string
  cmd_args :: "string list"
  cmd_dir :: string
  cmd_env :: "string list"
  cmd_timeout :: int

record captured =
  cap_bytes :: string
  cap_limit :: int
  cap_truncated :: bool

record run_result =
  rr_exit_code :: int
  rr_duration :: int
  rr_stdout :: captured
  rr_stderr :: captured

text \<open>The zero value of a result.\<close>

definition no_capture :: captured where
  "no_capture = \<lparr>cap_bytes = [], cap_limit = 0, cap_truncated = False\<rparr>"

definition no_result :: run_result where
  "no_result = \<lparr>rr_exit_code = 0, rr_duration = 0, rr_stdout = no_capture, rr_stderr = no_capture\<rparr>"

text \<open>A command with a path, arguments and a timeout only.\<close>

definition plain_command :: "string \<Rightarrow> string list \<Rightarrow> int \<Rightarrow> command" where
  "plain_command path args timeout =
    \<lparr>cmd_path = path, cmd_args = args, cmd_dir = [], cmd_env = [], cmd_timeout = timeout\<rparr>"

text \<open>
  The run function other components are given: it executes a command in a world, which it may
  change, and gives the result and the error.
\<close>

type_synonym 'w run_fun = "command \<Rightarrow> 'w \<Rightarrow> (run_result \<times> err option) \<times> 'w"

record runner_config =
  rc_timeout :: int
  rc_stdout_limit :: int
  rc_stderr_limit :: int

definition default_timeout :: int where
  "default_timeout = 30 * 1000000000"

definition default_output_limit :: int where
  "default_output_limit = 64 * 1024"

definition new_runner :: "runner_config \<Rightarrow> runner_config result" where
  "new_runner c =
    (if rc_timeout c < 0 then Inl (NewError ''runner: timeout must not be negative'')
     else if rc_stdout_limit c < 0 then Inl (NewError ''runner: stdout limit must not be negative'')
     else if rc_stderr_limit c < 0 then Inl (NewError ''runner: stderr limit must not be negative'')
     else Inr \<lparr>rc_timeout = (if rc_timeout c = 0 then default_timeout else rc_timeout c),
       rc_stdout_limit = (if rc_stdout_limit c = 0 then default_output_limit else rc_stdout_limit c),
       rc_stderr_limit = (if rc_stderr_limit c = 0 then default_output_limit else rc_stderr_limit c)\<rparr>)"

subsection \<open>The bounded buffer\<close>

record bounded_buffer =
  bb_bytes :: string
  bb_limit :: int
  bb_truncated :: bool

definition new_bounded_buffer :: "int \<Rightarrow> bounded_buffer" where
  "new_bounded_buffer limit = \<lparr>bb_bytes = [], bb_limit = limit, bb_truncated = False\<rparr>"

definition buffer_write :: "string \<Rightarrow> bounded_buffer \<Rightarrow> bounded_buffer" where
  "buffer_write p b =
    (let remaining = bb_limit b - int (length (bb_bytes b));
         b = (if 0 < remaining then b\<lparr>bb_bytes := bb_bytes b @ take (nat (min remaining (int (length p)))) p\<rparr> else b)
     in if remaining < int (length p) then b\<lparr>bb_truncated := True\<rparr> else b)"

definition buffer_output :: "bounded_buffer \<Rightarrow> captured" where
  "buffer_output b = \<lparr>cap_bytes = bb_bytes b, cap_limit = bb_limit b, cap_truncated = bb_truncated b\<rparr>"

subsection \<open>Running a command\<close>

definition executable_name :: "string \<Rightarrow> string" where
  "executable_name path =
    (let name = file_base path in if name = ''.'' \<or> name = ''/'' \<or> name = [] then ''executable'' else name)"

text \<open>
  What the operating system does: the state of the context before the start, the start, the
  chunks written, and either that the process ends (with the error of \<open>Wait\<close>) or that the context ends first and the process group is killed.
\<close>

datatype run_end =
    Waited "err option"
  | Interrupted "err" "err option" "err option"

record os_run =
  or_context :: "err option"
  or_start :: "err option"
  or_stdout :: "string list"
  or_stderr :: "string list"
  or_exit_code :: "int option"
  or_end :: run_end
  or_elapsed :: int

definition terminate_process_group :: "bool \<Rightarrow> err option \<Rightarrow> err option" where
  "terminate_process_group started kill =
    (if \<not> started then None
     else case kill of None \<Rightarrow> None | Some e \<Rightarrow> if errors_is e SyscallESRCH then None else Some e)"

definition build_result :: "int option \<Rightarrow> bounded_buffer \<Rightarrow> bounded_buffer \<Rightarrow> int \<Rightarrow> run_result" where
  "build_result exit_code out er elapsed =
    \<lparr>rr_exit_code = (case exit_code of None \<Rightarrow> - 1 | Some n \<Rightarrow> n), rr_duration = elapsed,
     rr_stdout = buffer_output out, rr_stderr = buffer_output er\<rparr>"

definition empty_result :: "runner_config \<Rightarrow> run_result" where
  "empty_result r =
    \<lparr>rr_exit_code = - 1, rr_duration = 0, rr_stdout = no_capture\<lparr>cap_limit := rc_stdout_limit r\<rparr>,
     rr_stderr = no_capture\<lparr>cap_limit := rc_stderr_limit r\<rparr>\<rparr>"

text \<open>\<open>classifyWait\<close>; an \<open>exec.ExitError\<close> is \<open>RunnerExitError\<close> in the error of \<open>Wait\<close> too.\<close>

definition classify_wait :: "run_result \<Rightarrow> err option \<Rightarrow> run_result \<times> err option" where
  "classify_wait r wait =
    (case wait of
       None \<Rightarrow> (r, None)
     | Some e \<Rightarrow>
         if errors_as as_runner_exit e \<noteq> None then (r, Some (RunnerExitError (rr_exit_code r)))
         else (r, Some (RunnerWaitError e)))"

definition command_timeout :: "runner_config \<Rightarrow> command \<Rightarrow> int" where
  "command_timeout r c = (if cmd_timeout c = 0 then rc_timeout r else cmd_timeout c)"

definition run_command :: "runner_config \<Rightarrow> command \<Rightarrow> (int \<Rightarrow> os_run) \<Rightarrow> run_result \<times> err option" where
  "run_command r c os =
    (if cmd_path c = [] then (empty_result r, Some (NewError ''runner: executable path must not be empty''))
     else if cmd_timeout c < 0
       then (empty_result r, Some (NewError ''runner: command timeout must not be negative''))
     else let env = os (command_timeout r c)
       in case or_context env of
         Some e \<Rightarrow> (empty_result r\<lparr>rr_duration := or_elapsed env\<rparr>, Some (RunnerContextError e))
       | None \<Rightarrow>
         (case or_start env of
            Some e \<Rightarrow>
              (build_result None (new_bounded_buffer (rc_stdout_limit r)) (new_bounded_buffer (rc_stderr_limit r)) (or_elapsed env),
               Some (RunnerStartError e))
          | None \<Rightarrow>
              let out = fold buffer_write (or_stdout env) (new_bounded_buffer (rc_stdout_limit r));
                  er = fold buffer_write (or_stderr env) (new_bounded_buffer (rc_stderr_limit r));
                  res = build_result (or_exit_code env) out er (or_elapsed env)
              in (case or_end env of
                    Waited wait \<Rightarrow> classify_wait res wait
                  | Interrupted cause kill wait \<Rightarrow> (res, Some (RunnerContextError cause)))))"

subsection \<open>Lemmas\<close>

text \<open>The buffer holds the first bytes written, up to its limit.\<close>

definition buffer_holds :: "int \<Rightarrow> string \<Rightarrow> bounded_buffer \<Rightarrow> bool" where
  "buffer_holds limit text b \<longleftrightarrow>
    bb_limit b = limit \<and> bb_bytes b = take (nat limit) text \<and> bb_truncated b = (limit < int (length text))"

lemma buffer_holds_write:
  assumes "buffer_holds limit text b" and "0 \<le> limit"
  shows "buffer_holds limit (text @ p) (buffer_write p b)"
proof (cases "int (length text) < limit")
  case True
  then have b: "bb_bytes b = text" "\<not> bb_truncated b" "bb_limit b = limit" using assms by (simp_all add: buffer_holds_def)
  have "nat (limit - int (length text)) = nat limit - length text" by arith
  then have "take (nat (min (limit - int (length text)) (int (length p)))) p = take (nat limit - length text) p"
    by (cases "limit - int (length text) \<le> int (length p)") (simp_all add: min_def)
  then show ?thesis
    using True b by (auto simp: buffer_holds_def buffer_write_def Let_def)
next
  case False
  then have b: "bb_bytes b = take (nat limit) text" "bb_limit b = limit" "int (length (bb_bytes b)) = limit"
    "bb_truncated b = (limit < int (length text))"
    using assms by (simp_all add: buffer_holds_def)
  then show ?thesis
    using False assms(2) by (auto simp: buffer_holds_def buffer_write_def Let_def)
qed

lemma buffer_fold:
  "0 \<le> limit \<Longrightarrow> buffer_holds limit t b \<Longrightarrow> buffer_holds limit (t @ concat ps) (fold buffer_write ps b)"
proof (induction ps arbitrary: t b)
  case (Cons p ps)
  then show ?case using Cons.IH [OF Cons.prems(1) buffer_holds_write [OF Cons.prems(2,1)], of p] by simp
qed simp

lemma buffer_captures:
  "0 \<le> limit \<Longrightarrow> buffer_output (fold buffer_write ps (new_bounded_buffer limit))
    = \<lparr>cap_bytes = take (nat limit) (concat ps), cap_limit = limit, cap_truncated = (limit < int (length (concat ps)))\<rparr>"
  using buffer_fold [of limit "[]" "new_bounded_buffer limit" ps]
  by (simp add: buffer_holds_def new_bounded_buffer_def buffer_output_def)

lemma new_runner_positive:
  "new_runner c = Inr r \<Longrightarrow> 0 < rc_timeout r \<and> 0 < rc_stdout_limit r \<and> 0 < rc_stderr_limit r"
  by (auto simp: new_runner_def default_timeout_def default_output_limit_def split: if_splits)

subsection \<open>Properties\<close>

text \<open>C31: A runner that was constructed always works with a positive timeout, and keeps of each output stream
  exactly its first bytes up to the limit, marked as truncated exactly when there was more,
  however the process cuts its output into writes and however it ends.\<close>

theorem output_is_bounded_prefix:
  assumes "new_runner c = Inr r" and "cmd_path cmd \<noteq> []" and "0 \<le> cmd_timeout cmd"
    and "or_context (os (command_timeout r cmd)) = None" and "or_start (os (command_timeout r cmd)) = None"
  shows "0 < command_timeout r cmd
    \<and> (\<exists>res e. run_command r cmd os = (res, e)
      \<and> rr_stdout res = \<lparr>cap_bytes = take (nat (rc_stdout_limit r)) (concat (or_stdout (os (command_timeout r cmd)))),
          cap_limit = rc_stdout_limit r,
          cap_truncated = (rc_stdout_limit r < int (length (concat (or_stdout (os (command_timeout r cmd))))))\<rparr>
      \<and> rr_stderr res = \<lparr>cap_bytes = take (nat (rc_stderr_limit r)) (concat (or_stderr (os (command_timeout r cmd)))),
          cap_limit = rc_stderr_limit r,
          cap_truncated = (rc_stderr_limit r < int (length (concat (or_stderr (os (command_timeout r cmd))))))\<rparr>)"
proof -
  have p: "0 < rc_timeout r" "0 < rc_stdout_limit r" "0 < rc_stderr_limit r"
    using new_runner_positive [OF assms(1)] by simp_all
  show ?thesis
    using assms(2-5) p buffer_captures [of "rc_stdout_limit r"] buffer_captures [of "rc_stderr_limit r"]
    by (auto simp: run_command_def command_timeout_def Let_def build_result_def classify_wait_def
        split: run_end.splits option.splits)
qed

definition chatty :: os_run where
  "chatty = \<lparr>or_context = None, or_start = None, or_stdout = [''ab'', ''cde''], or_stderr = [], or_exit_code = Some 1,
     or_end = Waited (Some (RunnerExitError 1)), or_elapsed = 5\<rparr>"

theorem output_is_bounded_prefix_witness:
  "\<exists>res. run_command \<lparr>rc_timeout = 9, rc_stdout_limit = 3, rc_stderr_limit = default_output_limit\<rparr>
      (plain_command ''/bin/x'' [] 0) (\<lambda>_. chatty) = (res, Some (RunnerExitError 1))
    \<and> cap_bytes (rr_stdout res) = ''abc'' \<and> cap_truncated (rr_stdout res)"
proof -
  have n: "new_runner \<lparr>rc_timeout = 9, rc_stdout_limit = 3, rc_stderr_limit = 0\<rparr>
      = Inr \<lparr>rc_timeout = 9, rc_stdout_limit = 3, rc_stderr_limit = default_output_limit\<rparr>"
    by (simp add: new_runner_def)
  have e: "snd (run_command \<lparr>rc_timeout = 9, rc_stdout_limit = 3, rc_stderr_limit = default_output_limit\<rparr>
      (plain_command ''/bin/x'' [] 0) (\<lambda>_. chatty)) = Some (RunnerExitError 1)"
    by (simp add: run_command_def chatty_def plain_command_def classify_wait_def errors_as_head build_result_def Let_def)
  show ?thesis
    using output_is_bounded_prefix [OF n, where cmd = "plain_command ''/bin/x'' [] 0" and os = "\<lambda>_. chatty"] e
    by (auto simp: plain_command_def chatty_def numeral_3_eq_3)
qed

end
