(* ===== verification/Capability_Probe.thy ===== *)
theory Capability_Probe
  imports Runner
begin

text \<open>
  Checking that an executable exists, reports a version, or passes a real command,
  \<open>internal/probe/probe.go\<close>. The executable lookup and the run function are arguments.
\<close>

subsection \<open>Presence\<close>

type_synonym look_path = "string \<Rightarrow> string result"

record presence_result =
  pp_executable :: string
  pp_path :: string
  pp_found :: bool

definition prober_executable :: "look_path \<Rightarrow> string \<Rightarrow> presence_result \<times> err option" where
  "prober_executable look executable =
    (let r = \<lparr>pp_executable = executable, pp_path = [], pp_found = False\<rparr>
     in if executable = [] then (r, Some (ProbeError StagePresence (NewError ''executable must not be empty'')))
        else case look executable of
          Inl e \<Rightarrow> (r, Some (ProbeError StagePresence e))
        | Inr path \<Rightarrow> (r\<lparr>pp_path := path, pp_found := True\<rparr>, None))"

subsection \<open>Versions\<close>

definition version_text_limit :: nat where
  "version_text_limit = 512"

record version_spec =
  vs_executable :: string
  vs_args :: "string list"
  vs_timeout :: int
  vs_parse :: "(string \<Rightarrow> string \<Rightarrow> string result) option"

record version_result =
  vn_presence :: presence_result
  vn_command :: run_result
  vn_version :: string
  vn_truncated :: bool

definition parse_first_line :: "string \<Rightarrow> string \<Rightarrow> string result" where
  "parse_first_line out er =
    (case filter (\<lambda>v. v \<noteq> []) (map trim_space (concat (map (split_on (CHR 0x0A)) [out, er]))) of
       [] \<Rightarrow> Inl (NewError ''version output was empty'')
     | v # _ \<Rightarrow> Inr v)"

definition bound_version :: "string \<Rightarrow> string \<times> bool" where
  "bound_version v =
    (let v = trim_space v
     in if length v \<le> version_text_limit then (v, False) else (take version_text_limit v, True))"

definition probe_version :: "'w run_fun \<Rightarrow> look_path \<Rightarrow> version_spec \<Rightarrow> 'w \<Rightarrow> (version_result \<times> err option) \<times> 'w" where
  "probe_version run look spec w =
    (case prober_executable look (vs_executable spec) of
       (presence, Some e) \<Rightarrow>
         ((\<lparr>vn_presence = presence, vn_command = no_result, vn_version = [], vn_truncated = False\<rparr>, Some e), w)
     | (presence, None) \<Rightarrow>
         let ((r, e), w) = run (plain_command (pp_path presence) (vs_args spec) (vs_timeout spec)) w;
             res = \<lparr>vn_presence = presence, vn_command = r, vn_version = [], vn_truncated = False\<rparr>
         in case e of
              Some e \<Rightarrow> ((res, Some (ProbeError StageVersion e)), w)
            | None \<Rightarrow>
                let parse = (case vs_parse spec of None \<Rightarrow> parse_first_line | Some f \<Rightarrow> f)
                in (case parse (cap_bytes (rr_stdout r)) (cap_bytes (rr_stderr r)) of
                      Inl e \<Rightarrow> ((res, Some (ProbeError StageVersion e)), w)
                    | Inr v \<Rightarrow>
                        (case bound_version v of
                           (v, t) \<Rightarrow> ((res\<lparr>vn_version := v, vn_truncated := t\<rparr>, None), w))))"

subsection \<open>Functional checks\<close>

record functional_spec =
  fs_name :: string
  fs_executable :: string
  fs_args :: "string list"
  fs_dir :: string
  fs_env :: "string list"
  fs_timeout :: int

record functional_result =
  fr_name :: string
  fr_presence :: presence_result
  fr_command :: run_result
  fr_passed :: bool

definition functional_command :: "string \<Rightarrow> functional_spec \<Rightarrow> command" where
  "functional_command path spec =
    \<lparr>cmd_path = path, cmd_args = fs_args spec, cmd_dir = fs_dir spec, cmd_env = fs_env spec,
     cmd_timeout = fs_timeout spec\<rparr>"

definition probe_functional ::
  "'w run_fun \<Rightarrow> look_path \<Rightarrow> functional_spec \<Rightarrow> 'w \<Rightarrow> (functional_result \<times> err option) \<times> 'w" where
  "probe_functional run look spec w =
    (let (presence, e) = prober_executable look (fs_executable spec);
         res = \<lparr>fr_name = fs_name spec, fr_presence = presence, fr_command = no_result, fr_passed = False\<rparr>
     in case e of
          Some e \<Rightarrow> ((res, Some e), w)
        | None \<Rightarrow>
            let ((r, e), w) = run (functional_command (pp_path presence) spec) w;
                res = res\<lparr>fr_command := r\<rparr>
            in case e of
                 Some e \<Rightarrow> ((res, Some (ProbeError StageFunctional e)), w)
               | None \<Rightarrow>
                   if rr_exit_code r \<noteq> 0
                   then ((res, Some (ProbeError StageFunctional (NewError (''unexpected exit code '' @ itoa (rr_exit_code r))))), w)
                   else ((res\<lparr>fr_passed := True\<rparr>, None), w))"

subsection \<open>Lemmas\<close>

lemma prober_executable_found: "prober_executable look x = (p, None) \<Longrightarrow> look x = Inr (pp_path p) \<and> pp_found p \<and> x \<noteq> []"
  by (auto simp: prober_executable_def Let_def split: if_splits sum.splits)

lemma prober_executable_missing:
  "prober_executable look x = (p, Some e) \<Longrightarrow> \<not> pp_found p \<and> (\<exists>c. e = ProbeError StagePresence c)"
  by (auto simp: prober_executable_def Let_def split: if_splits sum.splits)

lemma parse_first_line_nonempty: "parse_first_line out er = Inr v \<Longrightarrow> v \<noteq> []"
proof -
  assume "parse_first_line out er = Inr v"
  then obtain vs where "filter (\<lambda>v. v \<noteq> []) (map trim_space (concat (map (split_on (CHR 0x0A)) [out, er]))) = v # vs"
    by (auto simp only: parse_first_line_def split: list.splits)
  then have "v \<in> set (filter (\<lambda>v. v \<noteq> []) (map trim_space (concat (map (split_on (CHR 0x0A)) [out, er]))))" by simp
  then show "v \<noteq> []" by auto
qed

subsection \<open>Properties\<close>

text \<open>A functional check passes exactly when it reports no error, and then the executable was found and its
  command ran without an error and with exit code zero; the command that ran is the resolved path
  with the given arguments, directory, environment and timeout, and nothing runs when the executable
  is not found.\<close>

theorem functional_check_passes:
  assumes "probe_functional run look spec w = ((res, e), w')"
  shows "fr_passed res = (e = None)
    \<and> (case look (fs_executable spec) of
         Inr path \<Rightarrow>
           (if fs_executable spec = [] then w' = w \<and> \<not> fr_passed res
            else run (functional_command path spec) w = ((fr_command res, None), w') \<and> rr_exit_code (fr_command res) = 0 \<and> fr_passed res
              \<or> (\<exists>r x. run (functional_command path spec) w = ((r, x), w') \<and> (x \<noteq> None \<or> rr_exit_code r \<noteq> 0) \<and> \<not> fr_passed res))
       | Inl c \<Rightarrow> w' = w \<and> \<not> fr_passed res)"
  using assms
  by (auto simp: probe_functional_def prober_executable_def Let_def split: if_splits sum.splits option.splits prod.splits)

theorem functional_check_passes_witness:
  "\<exists>res. probe_functional (\<lambda>c n. ((no_result, None), n + 1)) Inr
      \<lparr>fs_name = ''x'', fs_executable = ''vips'', fs_args = [], fs_dir = [], fs_env = [], fs_timeout = 0\<rparr> (0 :: nat)
    = ((res, None), 1) \<and> fr_passed res"
proof -
  let ?run = "\<lambda>c n. ((no_result, None), n + 1)"
  let ?spec = "\<lparr>fs_name = ''x'', fs_executable = ''vips'', fs_args = [], fs_dir = [], fs_env = [], fs_timeout = 0\<rparr>"
  obtain res e w' where r: "probe_functional ?run Inr ?spec (0 :: nat) = ((res, e), w')"
    by (metis surj_pair)
  moreover have "e = None" "w' = 1"
    using r by (auto simp: probe_functional_def prober_executable_def Let_def no_result_def)
  ultimately show ?thesis using functional_check_passes [OF r] by auto
qed

end
