(* ===== verification/Corpus.thy ===== *)
theory Corpus
  imports Go_Paths Conversion_Types Float64
begin

text \<open>
  The media properties shared by the conversion reports and the compatibility fixtures,
  \<open>internal/corpus/contract.go\<close>, and the validation of a fixture manifest, \<open>validate.go\<close>.
  Enumerations that JSON fills with unchecked text are strings.
\<close>

fun media_kind_text :: "media_kind \<Rightarrow> string" where
  "media_kind_text MediaImage = ''image''"
| "media_kind_text MediaAudio = ''audio''"
| "media_kind_text MediaVideo = ''video''"

subsection \<open>Media properties\<close>

record corpus_stream =
  cs_kind :: string
  cs_codec :: string
  cs_count :: int
  cs_channels :: "int option"
  cs_sample_rate :: "int option"
  cs_pixel_format :: string

record orientation =
  on_rotation :: int
  on_mirrored :: bool
  on_normalized :: bool

record corpus_metadata =
  cm_gps :: string
  cm_color_profile :: string
  cm_exif :: string
  cm_xmp :: string
  cm_gain_map :: string

record media_properties =
  mp_container :: string
  mp_streams :: "corpus_stream list"
  mp_dimensions :: "(int \<times> int) option"
  mp_duration_millis :: "int option"
  mp_orientation :: "orientation option"
  mp_alpha :: string
  mp_metadata :: corpus_metadata

subsection \<open>Fixtures\<close>

record fixture_source =
  so_category :: string
  so_privacy :: string
  so_redistribution :: string
  so_generator :: string
  so_license :: string

record input_characteristics =
  ic_kind :: string
  ic_extension :: string
  ic_mime_type :: string
  ic_properties :: media_properties

record expected_result =
  er_outcome :: string
  er_rejection_code :: string
  er_properties :: "media_properties option"

record tolerances =
  to_duration :: int
  to_dimension :: int
  to_frame_rate :: int
  to_bitrate :: float64

record fixture =
  fx_id :: string
  fx_title :: string
  fx_input_path :: string
  fx_representation :: string
  fx_source :: fixture_source
  fx_input :: input_characteristics
  fx_operation :: operation
  fx_expected :: expected_result
  fx_tolerances :: tolerances
  fx_traits :: "string list"

record corpus_manifest =
  co_schema_version :: string
  co_fixtures :: "fixture list"

definition corpus_version :: string where
  "corpus_version = ''1.1''"

subsection \<open>Tokens, paths and media types\<close>

text \<open>The pattern of lowercase tokens: words of letters and digits, joined by single separators.\<close>

definition token_byte :: "char \<Rightarrow> bool" where
  "token_byte c \<longleftrightarrow> (97 \<le> (of_char c :: nat) \<and> (of_char c :: nat) \<le> 122) \<or> digit_rune (of_char c)"

fun match_token :: "bool \<Rightarrow> string \<Rightarrow> bool" where
  "match_token word [] = word"
| "match_token word (c # cs) =
    (if token_byte c then match_token True cs
     else word \<and> (c = CHR ''-'' \<or> c = CHR ''_'') \<and> match_token False cs)"

definition valid_token :: "string \<Rightarrow> bool" where
  "valid_token s = match_token False s"

text \<open>A list of field and problem; a check adds at most one.\<close>

type_synonym problems = "(string \<times> string) list"

definition check_field :: "bool \<Rightarrow> string \<Rightarrow> string \<Rightarrow> problems" where
  "check_field ok field problem = (if ok then [] else [(field, problem)])"

definition validate_token :: "string \<Rightarrow> string \<Rightarrow> problems" where
  "validate_token field v = check_field (valid_token v) field ''must be a lowercase token''"

definition validate_presence :: "string \<Rightarrow> string \<Rightarrow> problems" where
  "validate_presence field v =
    check_field (v \<in> set [''required'', ''forbidden'', ''ignored'']) field ''must be required, forbidden, or ignored''"

definition fixture_path_ok :: "string \<Rightarrow> bool" where
  "fixture_path_ok v \<longleftrightarrow> v \<noteq> [] \<and> CHR 0x5C \<notin> set v \<and> CHR 0x00 \<notin> set v \<and> \<not> is_abs v \<and> clean_path v = v
    \<and> v \<noteq> ''.'' \<and> v \<noteq> ''..'' \<and> \<not> has_prefix v ''../''"

definition validate_fixture_path :: "string \<Rightarrow> string \<Rightarrow> problems" where
  "validate_fixture_path field v =
    check_field (fixture_path_ok v) field ''must be a clean relative slash-separated path''"

text \<open>
  \<open>mime.ParseMediaType\<close> gives back the text itself: a media type or a type and a subtype of
  token characters, in lower case, without parameters.
\<close>

definition mime_token_char :: "char \<Rightarrow> bool" where
  "mime_token_char c \<longleftrightarrow> 32 < (of_char c :: nat) \<and> (of_char c :: nat) < 127
    \<and> c \<notin> set (''()<>@,;:/[]?='' @ [CHR 0x5C, CHR 0x22])"

definition normalized_media_type :: "string \<Rightarrow> bool" where
  "normalized_media_type v \<longleftrightarrow> to_lower v = v \<and>
    (let kind = takeWhile mime_token_char v; rest = dropWhile mime_token_char v
     in kind \<noteq> [] \<and> (case rest of [] \<Rightarrow> True
          | c # sub \<Rightarrow> c = CHR ''/'' \<and> sub \<noteq> [] \<and> list_all mime_token_char sub))"

subsection \<open>Validation\<close>

definition valid_media_kind :: "string \<Rightarrow> bool" where
  "valid_media_kind k \<longleftrightarrow> k = ''image'' \<or> k = ''audio'' \<or> k = ''video''"

definition has_primary_stream :: "corpus_stream list \<Rightarrow> string \<Rightarrow> bool" where
  "has_primary_stream ss k \<longleftrightarrow>
    (if valid_media_kind k then list_ex (\<lambda>s. cs_kind s = k \<and> 0 < cs_count s) ss else False)"

definition validate_source :: "string \<Rightarrow> fixture_source \<Rightarrow> problems" where
  "validate_source field s =
    check_field (so_category s \<in> set [''generated'', ''private_capture'', ''public_domain'', ''permissive''])
      (field @ ''.category'') ''is not supported''
    @ check_field (so_privacy s \<in> set [''synthetic'', ''scrubbed'', ''private'']) (field @ ''.privacy'') ''is not supported''
    @ check_field (so_redistribution s \<in> set [''allowed'', ''restricted'', ''prohibited''])
      (field @ ''.redistribution'') ''is not supported''
    @ (if so_category s = ''generated'' then
         check_field (trim_space (so_generator s) \<noteq> []) (field @ ''.generator'') ''is required for generated fixtures''
         @ check_field (so_privacy s = ''synthetic'') (field @ ''.privacy'') ''generated fixtures must be synthetic''
         @ check_field (so_redistribution s = ''allowed'') (field @ ''.redistribution'')
           ''generated fixtures must allow redistribution''
       else if so_category s = ''private_capture'' then
         check_field (so_privacy s = ''private'') (field @ ''.privacy'') ''private captures must be private''
         @ check_field (so_redistribution s = ''prohibited'') (field @ ''.redistribution'')
           ''private captures must prohibit redistribution''
       else if so_category s = ''permissive'' then
         check_field (trim_space (so_license s) \<noteq> []) (field @ ''.license'')
           ''is required for permissively licensed fixtures''
       else [])"

definition positive_option :: "int option \<Rightarrow> bool" where
  "positive_option x = (case x of None \<Rightarrow> True | Some n \<Rightarrow> 0 < n)"

definition validate_stream :: "string \<Rightarrow> corpus_stream \<Rightarrow> problems" where
  "validate_stream field s =
    check_field (cs_kind s \<in> set [''image'', ''audio'', ''video'', ''subtitle'', ''data'']) (field @ ''.kind'')
      ''is not a supported stream kind''
    @ validate_token (field @ ''.codec'') (cs_codec s)
    @ check_field (0 < cs_count s) (field @ ''.count'') ''must be greater than zero''
    @ check_field (positive_option (cs_channels s)) (field @ ''.channels'') ''must be greater than zero''
    @ check_field (positive_option (cs_sample_rate s)) (field @ ''.sample_rate'') ''must be greater than zero''
    @ (if cs_pixel_format s \<noteq> [] then validate_token (field @ ''.pixel_format'') (cs_pixel_format s) else [])"

definition validate_metadata :: "string \<Rightarrow> corpus_metadata \<Rightarrow> problems" where
  "validate_metadata field m =
    validate_presence (field @ ''.gps'') (cm_gps m) @ validate_presence (field @ ''.color_profile'') (cm_color_profile m)
    @ validate_presence (field @ ''.exif'') (cm_exif m) @ validate_presence (field @ ''.xmp'') (cm_xmp m)
    @ validate_presence (field @ ''.gain_map'') (cm_gain_map m)"

text \<open>A list of values, each validated under its index.\<close>

definition indexed_field :: "string \<Rightarrow> nat \<Rightarrow> string" where
  "indexed_field field i = field @ ''['' @ itoa (int i) @ '']''"

definition validate_visual :: "string \<Rightarrow> string \<Rightarrow> media_properties \<Rightarrow> problems" where
  "validate_visual field kind p =
    (if kind = ''image'' \<or> kind = ''video'' then
       check_field (mp_dimensions p \<noteq> None) (field @ ''.dimensions'') ''is required for visual media''
       @ check_field (mp_orientation p \<noteq> None) (field @ ''.orientation'') ''is required for visual media''
     else [])"

definition validate_dimensions :: "string \<Rightarrow> (int \<times> int) option \<Rightarrow> problems" where
  "validate_dimensions field d =
    (case d of None \<Rightarrow> []
     | Some (w, h) \<Rightarrow>
         check_field (0 < w) (field @ ''.dimensions.width'') ''must be greater than zero''
         @ check_field (0 < h) (field @ ''.dimensions.height'') ''must be greater than zero'')"

definition validate_duration :: "string \<Rightarrow> string \<Rightarrow> int option \<Rightarrow> problems" where
  "validate_duration field kind d =
    check_field (positive_option d) (field @ ''.duration_millis'') ''must be greater than zero''
    @ (if kind = ''audio'' \<or> kind = ''video''
       then check_field (d \<noteq> None) (field @ ''.duration_millis'') ''is required for timed media'' else [])"

definition validate_orientation :: "string \<Rightarrow> orientation option \<Rightarrow> problems" where
  "validate_orientation field r =
    (case r of None \<Rightarrow> []
     | Some r \<Rightarrow> check_field (on_rotation r \<in> {0, 90, 180, 270}) (field @ ''.orientation.rotation_degrees'')
         ''must be 0, 90, 180, or 270'')"

definition validate_properties :: "string \<Rightarrow> string \<Rightarrow> media_properties \<Rightarrow> problems" where
  "validate_properties field kind p =
    validate_token (field @ ''.container'') (mp_container p)
    @ check_field (mp_streams p \<noteq> []) (field @ ''.streams'') ''must contain at least one stream''
    @ concat (map (\<lambda>(i, s). validate_stream (indexed_field (field @ ''.streams'') i) s) (enumerate 0 (mp_streams p)))
    @ check_field (\<not> valid_media_kind kind \<or> has_primary_stream (mp_streams p) kind) (field @ ''.streams'')
        (''must contain a '' @ kind @ '' stream'')
    @ validate_visual field kind p
    @ validate_dimensions field (mp_dimensions p)
    @ validate_duration field kind (mp_duration_millis p)
    @ validate_orientation field (mp_orientation p)
    @ validate_presence (field @ ''.alpha'') (mp_alpha p)
    @ validate_metadata (field @ ''.metadata'') (mp_metadata p)"

definition extension_ok :: "string \<Rightarrow> bool" where
  "extension_ok e \<longleftrightarrow> e \<noteq> [] \<and> e = to_lower e \<and> has_prefix e ''.'' \<and> file_ext (''fixture'' @ e) = e"

definition validate_input :: "string \<Rightarrow> input_characteristics \<Rightarrow> problems" where
  "validate_input field i =
    check_field (valid_media_kind (ic_kind i)) (field @ ''.media_kind'') ''must be image, audio, or video''
    @ check_field (extension_ok (ic_extension i)) (field @ ''.extension'')
        ''must be one lowercase file extension including the leading dot''
    @ (if ic_mime_type i = [] then check_field False (field @ ''.mime_type'') ''must not be empty''
       else check_field (normalized_media_type (ic_mime_type i)) (field @ ''.mime_type'')
         ''must be a normalized MIME media type'')
    @ validate_properties (field @ ''.properties'') (ic_kind i) (ic_properties i)"

definition validate_expected :: "string \<Rightarrow> string \<Rightarrow> expected_result \<Rightarrow> problems" where
  "validate_expected field kind e =
    (if er_outcome e = ''success'' then
       check_field (er_rejection_code e = []) (field @ ''.rejection_code'') ''must be empty for successful output''
       @ (case er_properties e of
            None \<Rightarrow> check_field False (field @ ''.properties'') ''is required for successful output''
          | Some p \<Rightarrow> validate_properties (field @ ''.properties'') kind p)
     else if er_outcome e = ''rejection'' then
       validate_token (field @ ''.rejection_code'') (er_rejection_code e)
       @ check_field (er_properties e = None) (field @ ''.properties'') ''must be omitted for rejected input''
     else check_field False (field @ ''.outcome'') ''must be success or rejection'')"

definition float_zero :: "float64 \<Rightarrow> bool" where
  "float_zero x = (case x of Finite s m e \<Rightarrow> m = 0 | _ \<Rightarrow> False)"

definition validate_tolerances :: "string \<Rightarrow> tolerances \<Rightarrow> problems" where
  "validate_tolerances field t =
    check_field (0 \<le> to_duration t) (field @ ''.duration_millis'') ''must not be negative''
    @ check_field (0 \<le> to_dimension t) (field @ ''.dimension_pixels'') ''must not be negative''
    @ check_field (to_frame_rate t = 0) (field @ ''.frame_rate_millifps'')
        ''must be zero until frame rate can be observed and compared''
    @ check_field (float_zero (to_bitrate t)) (field @ ''.bitrate_percent'')
        ''must be zero until bitrate can be observed and compared''"

text \<open>The texts seen before an index.\<close>

definition validate_traits :: "string \<Rightarrow> string list \<Rightarrow> problems" where
  "validate_traits field ts =
    concat (map (\<lambda>(i, t). validate_token (indexed_field field i) t
        @ check_field (t \<notin> set (take i ts)) (indexed_field field i) ''must be unique'') (enumerate 0 ts))"

definition validate_representation :: "string \<Rightarrow> fixture \<Rightarrow> problems" where
  "validate_representation field f =
    (if fx_representation f = ''media'' then
       check_field (\<not> has_suffix (fx_input_path f) ''.ffprobe.json'') (field @ ''.input_path'')
         ''media representation cannot use an ffprobe JSON path''
     else if fx_representation f = ''ffprobe_json'' then
       check_field (so_category (fx_source f) = ''generated'') (field @ ''.representation'')
         ''ffprobe JSON fixtures must be generated''
       @ check_field (has_suffix (fx_input_path f) ''.ffprobe.json'') (field @ ''.input_path'')
         ''ffprobe JSON representation must use an .ffprobe.json path''
     else check_field False (field @ ''.representation'') ''must be media or ffprobe_json'')"

text \<open>The output kind of an unregistered operation is the empty one.\<close>

definition validate_fixture :: "string \<Rightarrow> fixture \<Rightarrow> problems" where
  "validate_fixture field f =
    validate_token (field @ ''.id'') (fx_id f)
    @ check_field (trim_space (fx_title f) \<noteq> []) (field @ ''.title'') ''must not be empty''
    @ validate_fixture_path (field @ ''.input_path'') (fx_input_path f)
    @ validate_representation field f
    @ validate_source (field @ ''.source'') (fx_source f)
    @ validate_input (field @ ''.input'') (fx_input f)
    @ (case lookup_spec (fx_operation f) of
         None \<Rightarrow> check_field False (field @ ''.operation'') ''is not a supported named operation''
       | Some spec \<Rightarrow> check_field (ic_kind (fx_input f) \<in> media_kind_text ` set (sp_accepted spec)) (field @ ''.operation'')
           ''is not valid for the input media kind'')
    @ validate_expected (field @ ''.expected'')
        (case lookup_spec (fx_operation f) of None \<Rightarrow> [] | Some spec \<Rightarrow> media_kind_text (sp_output_kind spec)) (fx_expected f)
    @ validate_tolerances (field @ ''.tolerances'') (fx_tolerances f)
    @ validate_traits (field @ ''.traits'') (fx_traits f)"

definition validate_corpus :: "corpus_manifest \<Rightarrow> problems" where
  "validate_corpus m =
    check_field (co_schema_version m = corpus_version) ''schema_version'' (''must be '' @ [CHR 0x22] @ corpus_version @ [CHR 0x22])
    @ check_field (co_fixtures m \<noteq> []) ''fixtures'' ''must contain at least one fixture''
    @ concat (map (\<lambda>(i, f). validate_fixture (indexed_field ''fixtures'' i) f
        @ check_field (fx_id f \<notin> fx_id ` set (take i (co_fixtures m))) (indexed_field ''fixtures'' i @ ''.id'') ''must be unique'')
        (enumerate 0 (co_fixtures m)))"

subsection \<open>Lemmas\<close>

lemma check_field_Nil [simp]: "check_field ok f p = [] \<longleftrightarrow> ok"
  by (simp add: check_field_def)

text \<open>An accepted fixture path names a file below the corpus directory.\<close>

lemma fixture_path_below:
  assumes "fixture_path_ok v"
  shows "path_parts v \<noteq> [] \<and> (\<forall>x\<in>set (path_parts v). real_name x)"
proof -
  have v: "v \<noteq> []" "\<not> is_abs v" "v = render_path False (path_parts v)" "v \<noteq> ''.''" "v \<noteq> ''..''" "\<not> has_prefix v ''../''"
    using assms by (auto simp: fixture_path_ok_def clean_path_def)
  then have ne: "path_parts v \<noteq> []" by (auto simp: render_path_def)
  obtain k ns where k: "path_parts v = replicate k ''..'' @ ns" "\<forall>x\<in>set ns. real_name x"
    using path_parts_normal [of v] by (auto simp: normal_parts_def)
  have "k = 0"
  proof (rule ccontr)
    assume "k \<noteq> 0"
    then obtain j where p: "path_parts v = ''..'' # replicate j ''..'' @ ns" using k(1) by (cases k) auto
    then have j: "v = join_with slash (''..'' # replicate j ''..'' @ ns)" using v(3) by (simp add: render_path_def)
    then show False
      using v(5,6) by (cases "replicate j ''..'' @ ns") (auto simp: has_prefix_def)
  qed
  then show ?thesis using k ne by simp
qed

lemma distinct_by_prefix: "distinct xs \<longleftrightarrow> (\<forall>i<length xs. xs ! i \<notin> set (take i xs))"
proof (induction xs rule: rev_induct)
  case (snoc x xs)
  have "(\<forall>i<length (xs @ [x]). (xs @ [x]) ! i \<notin> set (take i (xs @ [x])))
    \<longleftrightarrow> (\<forall>i<length xs. xs ! i \<notin> set (take i xs)) \<and> x \<notin> set xs"
    by (auto simp: less_Suc_eq nth_append)
  then show ?case using snoc by auto
qed simp

lemma enumerate_all: "(\<forall>(i, x)\<in>set (enumerate 0 xs). P i x) \<longleftrightarrow> (\<forall>i<length xs. P i (xs ! i))"
  by (auto simp: in_set_enumerate_eq)

lemma distinct_ids: "distinct (map f xs) \<longleftrightarrow> (\<forall>i<length xs. f (xs ! i) \<notin> f ` set (take i xs))"
  by (simp add: distinct_by_prefix take_map)

lemma traits_Nil: "validate_traits field ts = [] \<longleftrightarrow> distinct ts \<and> list_all valid_token ts"
proof -
  have "validate_traits field ts = [] \<longleftrightarrow> (\<forall>(i, t)\<in>set (enumerate 0 ts). valid_token t \<and> t \<notin> set (take i ts))"
    by (auto simp: validate_traits_def validate_token_def)
  then show ?thesis
    unfolding enumerate_all by (auto simp: distinct_by_prefix list_all_length)
qed

lemma corpus_Nil:
  "validate_corpus m = [] \<longleftrightarrow> co_schema_version m = corpus_version \<and> co_fixtures m \<noteq> []
    \<and> distinct (map fx_id (co_fixtures m))
    \<and> (\<forall>i<length (co_fixtures m). validate_fixture (indexed_field ''fixtures'' i) (co_fixtures m ! i) = [])"
proof -
  have "validate_corpus m = [] \<longleftrightarrow> co_schema_version m = corpus_version \<and> co_fixtures m \<noteq> []
      \<and> (\<forall>(i, f)\<in>set (enumerate 0 (co_fixtures m)). validate_fixture (indexed_field ''fixtures'' i) f = []
          \<and> fx_id f \<notin> fx_id ` set (take i (co_fixtures m)))"
    by (auto simp: validate_corpus_def)
  then show ?thesis unfolding enumerate_all distinct_ids by auto
qed

text \<open>The properties a fixture may declare.\<close>

definition good_properties :: "string \<Rightarrow> media_properties \<Rightarrow> bool" where
  "good_properties kind p \<longleftrightarrow>
    valid_token (mp_container p) \<and> mp_streams p \<noteq> [] \<and> (valid_media_kind kind \<longrightarrow> has_primary_stream (mp_streams p) kind)
    \<and> (kind = ''image'' \<or> kind = ''video'' \<longrightarrow> (\<exists>w h. mp_dimensions p = Some (w, h) \<and> 0 < w \<and> 0 < h)
        \<and> (\<exists>r. mp_orientation p = Some r \<and> on_rotation r \<in> {0, 90, 180, 270}))
    \<and> (kind = ''audio'' \<or> kind = ''video'' \<longrightarrow> (\<exists>n. mp_duration_millis p = Some n \<and> 0 < n))"

lemma properties_Nil:
  assumes "validate_properties field kind p = []"
  shows "good_properties kind p"
proof -
  have h: "valid_token (mp_container p)" "mp_streams p \<noteq> []" "\<not> valid_media_kind kind \<or> has_primary_stream (mp_streams p) kind"
    "validate_visual field kind p = []" "validate_dimensions field (mp_dimensions p) = []"
    "validate_duration field kind (mp_duration_millis p) = []" "validate_orientation field (mp_orientation p) = []"
    using assms unfolding validate_properties_def append_is_Nil_conv validate_token_def check_field_Nil by blast+
  have visual: "(\<exists>w h. mp_dimensions p = Some (w, h) \<and> 0 < w \<and> 0 < h)
      \<and> (\<exists>r. mp_orientation p = Some r \<and> on_rotation r \<in> {0, 90, 180, 270})"
    if k: "kind = ''image'' \<or> kind = ''video''"
  proof -
    have "mp_dimensions p \<noteq> None" "mp_orientation p \<noteq> None"
      using h(4) unfolding validate_visual_def if_P [OF k] append_is_Nil_conv check_field_Nil by blast+
    then obtain w h' r where "mp_dimensions p = Some (w, h')" "mp_orientation p = Some r" by auto
    then show ?thesis using h(5,7) by (simp add: validate_dimensions_def validate_orientation_def)
  qed
  have timed: "\<exists>n. mp_duration_millis p = Some n \<and> 0 < n" if k: "kind = ''audio'' \<or> kind = ''video''"
    using h(6) unfolding validate_duration_def if_P [OF k] append_is_Nil_conv check_field_Nil positive_option_def
    by (auto split: option.splits)
  show ?thesis
    unfolding good_properties_def using h(1-3) visual timed by blast
qed

subsection \<open>Properties\<close>

text \<open>A fixture manifest that validation accepts has the supported version, at least one fixture and distinct
  identifiers; every fixture path stays below the corpus directory, every operation is registered
  and accepts the media kind of its input, and a fixture either expects a success with good
  properties of the kind the operation makes, or a rejection with a code and no properties.\<close>

theorem accepted_corpus_is_sound:
  assumes "validate_corpus m = []" and "f \<in> set (co_fixtures m)"
  shows "co_schema_version m = corpus_version \<and> distinct (map fx_id (co_fixtures m)) \<and> valid_token (fx_id f)
    \<and> (\<forall>x\<in>set (path_parts (fx_input_path f)). real_name x) \<and> \<not> is_abs (fx_input_path f)
    \<and> distinct (fx_traits f) \<and> good_properties (ic_kind (fx_input f)) (ic_properties (fx_input f))
    \<and> (\<exists>spec. lookup_spec (fx_operation f) = Some spec
      \<and> ic_kind (fx_input f) \<in> media_kind_text ` set (sp_accepted spec)
      \<and> (er_outcome (fx_expected f) = ''success'' \<and> er_rejection_code (fx_expected f) = []
          \<and> (\<exists>p. er_properties (fx_expected f) = Some p \<and> good_properties (media_kind_text (sp_output_kind spec)) p)
        \<or> er_outcome (fx_expected f) = ''rejection'' \<and> valid_token (er_rejection_code (fx_expected f))
          \<and> er_properties (fx_expected f) = None))"
proof -
  obtain i where i: "i < length (co_fixtures m)" "f = co_fixtures m ! i" using assms(2) by (auto simp: in_set_conv_nth)
  let ?fd = "indexed_field ''fixtures'' i"
  have v: "validate_fixture ?fd f = []" "co_schema_version m = corpus_version" "distinct (map fx_id (co_fixtures m))"
    using assms(1) i unfolding corpus_Nil by auto
  have p: "fixture_path_ok (fx_input_path f)" "valid_token (fx_id f)"
    "validate_input (?fd @ ''.input'') (fx_input f) = []" "validate_traits (?fd @ ''.traits'') (fx_traits f) = []"
    using v(1) unfolding validate_fixture_def append_is_Nil_conv validate_token_def validate_fixture_path_def check_field_Nil by blast+
  obtain spec where s: "lookup_spec (fx_operation f) = Some spec" "ic_kind (fx_input f) \<in> media_kind_text ` set (sp_accepted spec)"
    and e: "validate_expected (?fd @ ''.expected'') (media_kind_text (sp_output_kind spec)) (fx_expected f) = []"
    using v(1) unfolding validate_fixture_def append_is_Nil_conv by (cases "lookup_spec (fx_operation f)") auto
  have "good_properties (ic_kind (fx_input f)) (ic_properties (fx_input f))"
    using p(3) unfolding validate_input_def append_is_Nil_conv by (blast intro: properties_Nil)
  moreover have "er_outcome (fx_expected f) = ''success'' \<and> er_rejection_code (fx_expected f) = []
          \<and> (\<exists>p. er_properties (fx_expected f) = Some p \<and> good_properties (media_kind_text (sp_output_kind spec)) p)
        \<or> er_outcome (fx_expected f) = ''rejection'' \<and> valid_token (er_rejection_code (fx_expected f))
          \<and> er_properties (fx_expected f) = None"
    using e unfolding validate_expected_def validate_token_def
    by (auto split: if_splits option.splits intro: properties_Nil)
  ultimately show ?thesis
    using v(2,3) p(1,2,4) s fixture_path_below [OF p(1)] unfolding traits_Nil fixture_path_ok_def by blast
qed

definition sample_fixture :: fixture where
  "sample_fixture =
    \<lparr>fx_id = ''tone'', fx_title = ''Tone'', fx_input_path = ''audio/tone.wav'', fx_representation = ''media'',
     fx_source = \<lparr>so_category = ''generated'', so_privacy = ''synthetic'', so_redistribution = ''allowed'',
       so_generator = ''ffmpeg'', so_license = []\<rparr>,
     fx_input = \<lparr>ic_kind = ''audio'', ic_extension = ''.wav'', ic_mime_type = ''audio/wav'',
       ic_properties = \<lparr>mp_container = ''wav'', mp_streams = [\<lparr>cs_kind = ''audio'', cs_codec = ''pcm_s16le'', cs_count = 1,
           cs_channels = Some 2, cs_sample_rate = None, cs_pixel_format = []\<rparr>], mp_dimensions = None,
         mp_duration_millis = Some 1000, mp_orientation = None, mp_alpha = ''ignored'',
         mp_metadata = \<lparr>cm_gps = ''ignored'', cm_color_profile = ''ignored'', cm_exif = ''ignored'', cm_xmp = ''ignored'',
           cm_gain_map = ''ignored''\<rparr>\<rparr>\<rparr>,
     fx_operation = OperationSmallerPhoto, fx_expected = \<lparr>er_outcome = ''rejection'', er_rejection_code = ''no-video'', er_properties = None\<rparr>,
     fx_tolerances = \<lparr>to_duration = 0, to_dimension = 0, to_frame_rate = 0, to_bitrate = Finite False 0 0\<rparr>,
     fx_traits = [''mono'']\<rparr>"

definition sample_corpus :: corpus_manifest where
  "sample_corpus = \<lparr>co_schema_version = ''1.1'', co_fixtures = [sample_fixture\<lparr>fx_operation := OperationCompatibleAudio\<rparr>]\<rparr>"

lemma sample_corpus_accepted: "validate_corpus sample_corpus = []"
  by code_simp

theorem accepted_corpus_is_sound_witness:
  "validate_corpus sample_corpus = [] \<and> \<not> is_abs (fx_input_path (hd (co_fixtures sample_corpus)))"
proof -
  have "hd (co_fixtures sample_corpus) \<in> set (co_fixtures sample_corpus)" by (simp add: sample_corpus_def)
  from accepted_corpus_is_sound [OF sample_corpus_accepted this] sample_corpus_accepted show ?thesis by blast
qed

end
