(* ===== verification/Image_Header.thy ===== *)
theory Image_Header
  imports Go_Text Capability_Probe Corpus
begin

text \<open>
  What is known of an image file: the data of \<open>internal/imageconv/types.go\<close>, the parser of
  libvips header output of \<open>header.go\<close>, and the capability set of \<open>capability.go\<close>.
\<close>

subsection \<open>Data\<close>

record image_metadata =
  im_gps :: bool
  im_icc :: bool
  im_exif :: bool
  im_xmp :: bool
  im_gain_map :: bool
  im_capture_date :: bool

record cicp =
  ci_present :: bool
  ci_primaries :: int
  ci_transfer :: int
  ci_matrix :: int
  ci_full_range :: int

record image_info =
  ii_format :: string
  ii_mime_type :: string
  ii_loader :: string
  ii_width :: int
  ii_height :: int
  ii_bands :: int
  ii_band_format :: string
  ii_coding :: string
  ii_interpretation :: string
  ii_orientation :: int
  ii_hdr :: bool
  ii_has_alpha :: bool
  ii_has_transparency :: bool
  ii_pages :: int
  ii_cicp :: cicp
  ii_metadata :: image_metadata

definition no_image_metadata :: image_metadata where
  "no_image_metadata = \<lparr>im_gps = False, im_icc = False, im_exif = False, im_xmp = False, im_gain_map = False,
     im_capture_date = False\<rparr>"

definition no_cicp :: cicp where
  "no_cicp = \<lparr>ci_present = False, ci_primaries = 0, ci_transfer = 0, ci_matrix = 0, ci_full_range = 0\<rparr>"

definition no_image :: image_info where
  "no_image = \<lparr>ii_format = [], ii_mime_type = [], ii_loader = [], ii_width = 0, ii_height = 0, ii_bands = 0,
     ii_band_format = [], ii_coding = [], ii_interpretation = [], ii_orientation = 0, ii_hdr = False,
     ii_has_alpha = False, ii_has_transparency = False, ii_pages = 0, ii_cicp = no_cicp, ii_metadata = no_image_metadata\<rparr>"

definition image_error :: "string \<Rightarrow> string \<Rightarrow> err \<Rightarrow> err" where
  "image_error code stage cause = ImageError code stage cause"

subsection \<open>Properties for the reports\<close>

definition corpus_codec :: "string \<Rightarrow> string" where
  "corpus_codec f =
    (if f = ''jpeg'' then ''mjpeg'' else if f = ''png'' then ''png'' else if f = ''webp'' then ''webp''
     else if f = ''heif'' then ''hevc'' else if f = ''avif'' then ''av1'' else if f = ''tiff'' then ''tiff''
     else if f = ''gif'' then ''gif'' else if f = ''bmp'' then ''bmp'' else ''unknown'')"

definition display_orientation :: "int \<Rightarrow> int \<times> bool" where
  "display_orientation n =
    (if n = 2 then (0, True) else if n = 3 then (180, False) else if n = 4 then (180, True)
     else if n = 5 then (90, True) else if n = 6 then (90, False) else if n = 7 then (270, True)
     else if n = 8 then (270, False) else (0, False))"

definition presence :: "bool \<Rightarrow> string" where
  "presence b = (if b then ''required'' else ''forbidden'')"

definition corpus_properties :: "image_info \<Rightarrow> media_properties" where
  "corpus_properties i =
    (case display_orientation (ii_orientation i) of (rotation, mirrored) \<Rightarrow>
       \<lparr>mp_container = ii_format i,
        mp_streams = [\<lparr>cs_kind = ''image'', cs_codec = corpus_codec (ii_format i), cs_count = 1, cs_channels = None,
          cs_sample_rate = None, cs_pixel_format = []\<rparr>],
        mp_dimensions = Some (ii_width i, ii_height i), mp_duration_millis = None,
        mp_orientation = Some \<lparr>on_rotation = rotation, on_mirrored = mirrored, on_normalized = (ii_orientation i = 1)\<rparr>,
        mp_alpha = presence (ii_has_alpha i),
        mp_metadata = \<lparr>cm_gps = presence (im_gps (ii_metadata i)), cm_color_profile = presence (im_icc (ii_metadata i)),
          cm_exif = presence (im_exif (ii_metadata i)), cm_xmp = presence (im_xmp (ii_metadata i)),
          cm_gain_map = presence (im_gain_map (ii_metadata i))\<rparr>\<rparr>)"

subsection \<open>Header fields\<close>

text \<open>The fields as a list of distinct keys; a later line replaces the value of an earlier one.\<close>

type_synonym header_fields = "(string \<times> string) list"

definition set_field :: "string \<Rightarrow> string \<Rightarrow> header_fields \<Rightarrow> header_fields" where
  "set_field k v fs = (if k \<in> fst ` set fs then map (\<lambda>(x, y). (x, if x = k then v else y)) fs else fs @ [(k, v)])"

definition header_line :: "string \<Rightarrow> header_fields \<Rightarrow> header_fields" where
  "header_line line fs =
    (case cut_on (CHR '':'') line of
       None \<Rightarrow> fs
     | Some (key, v) \<Rightarrow>
         let key = to_lower (trim_space key) in if key = [] then fs else set_field key (trim_space v) fs)"

text \<open>Reading a missing key gives the empty text.\<close>

definition header_field :: "header_fields \<Rightarrow> string \<Rightarrow> string" where
  "header_field fs k = (case map_of fs k of None \<Rightarrow> [] | Some v \<Rightarrow> v)"

definition first_integer :: "string \<Rightarrow> int result" where
  "first_integer v =
    (case fields_text v of
       [] \<Rightarrow> Inl (NewError ''integer value is empty'')
     | t # _ \<Rightarrow> (case atoi t of (n, ok) \<Rightarrow> if ok then Inr n else Inl (NewError ''strconv.Atoi: invalid'')))"

definition positive_header_int :: "header_fields \<Rightarrow> string \<Rightarrow> int result" where
  "positive_header_int fs k =
    (case map_of fs k of
       None \<Rightarrow> Inl (NewError (''missing '' @ k))
     | Some v \<Rightarrow>
         (case first_integer v of
            Inr n \<Rightarrow> if 0 < n then Inr n else Inl (NewError (''invalid '' @ k))
          | Inl _ \<Rightarrow> Inl (NewError (''invalid '' @ k))))"

definition normalize_loader :: "string \<Rightarrow> string" where
  "normalize_loader l = trim_suffix (trim_suffix (to_lower (trim_space l)) ''_source'') ''_buffer''"

definition detect_format :: "string \<Rightarrow> header_fields \<Rightarrow> (string \<times> string) result" where
  "detect_format loader fs =
    (let unsupported = Inl (NewError (''unsupported libvips loader '' @ [CHR 0x22] @ loader @ [CHR 0x22]))
     in if loader = ''jpegload'' \<or> loader = ''uhdrload'' then Inr (''jpeg'', ''image/jpeg'')
        else if loader = ''pngload'' then Inr (''png'', ''image/png'')
        else if loader = ''webpload'' then Inr (''webp'', ''image/webp'')
        else if loader = ''heifload'' then
          (let c = to_lower (header_field fs ''heif-compression'' @ '' '' @ header_field fs ''compression'')
           in if contains_str c ''av1'' \<or> contains_str c ''avif'' then Inr (''avif'', ''image/avif'')
              else Inr (''heif'', ''image/heif''))
        else if loader = ''tiffload'' then Inr (''tiff'', ''image/tiff'')
        else if loader = ''gifload'' \<or> loader = ''nsgifload'' then Inr (''gif'', ''image/gif'')
        else if loader = ''magickload'' then
          (if equal_fold (trim_space (header_field fs ''magick-format'')) ''BMP'' then Inr (''bmp'', ''image/bmp'') else unsupported)
        else unsupported)"

definition detect_key :: "string \<Rightarrow> image_metadata \<Rightarrow> image_metadata" where
  "detect_key key m =
    (let exif = has_prefix key ''exif-'';
         m = (if key = ''icc-profile-data'' then m\<lparr>im_icc := True\<rparr>
              else if key = ''xmp-data'' then m\<lparr>im_xmp := True\<rparr>
              else if key = ''gainmap-data'' then m\<lparr>im_gain_map := True\<rparr>
              else if key = ''exif-data'' \<or> exif then m\<lparr>im_exif := True\<rparr> else m);
         m = (if exif \<and> contains_str key ''gps'' then m\<lparr>im_gps := True\<rparr> else m)
     in if exif \<and> (contains_str key ''datetimeoriginal'' \<or> contains_str key ''datetimedigitized'')
        then m\<lparr>im_capture_date := True\<rparr> else m)"

definition detect_metadata :: "header_fields \<Rightarrow> image_metadata" where
  "detect_metadata fs = fold (\<lambda>(key, _). detect_key key) fs no_image_metadata"

definition infer_alpha :: "int \<Rightarrow> string \<Rightarrow> string \<Rightarrow> bool" where
  "infer_alpha bands interpretation coding =
    (if coding = ''labq'' then False
     else let n = (if interpretation \<in> set [''b-w'', ''grey16''] then 1
                   else if interpretation = ''cmyk'' then 4
                   else if interpretation \<in> set [''srgb'', ''rgb'', ''rgb16'', ''scrgb'', ''hsv'', ''lab'', ''lch'', ''xyz'', ''yxy'']
                   then 3 else 0 :: int)
          in 0 < n \<and> bands = n + 1)"

text \<open>A coded color field: the default when absent, an error when it is not a number.\<close>

definition cicp_field :: "header_fields \<Rightarrow> string \<Rightarrow> int option result" where
  "cicp_field fs k =
    (case map_of fs k of
       None \<Rightarrow> Inr None
     | Some v \<Rightarrow> (case first_integer v of Inr n \<Rightarrow> Inr (Some n) | Inl _ \<Rightarrow> Inl (NewError (''invalid '' @ k))))"

definition parse_cicp :: "header_fields \<Rightarrow> cicp result" where
  "parse_cicp fs =
    (case cicp_field fs ''cicp-colour-primaries'' of Inl e \<Rightarrow> Inl e
     | Inr p \<Rightarrow> (case cicp_field fs ''cicp-transfer-characteristics'' of Inl e \<Rightarrow> Inl e
     | Inr t \<Rightarrow> (case cicp_field fs ''cicp-matrix-coefficients'' of Inl e \<Rightarrow> Inl e
     | Inr m \<Rightarrow> (case cicp_field fs ''cicp-full-range-flag'' of Inl e \<Rightarrow> Inl e
     | Inr r \<Rightarrow>
         let or_unknown = (\<lambda>x. case x of None \<Rightarrow> - 1 | Some n \<Rightarrow> n)
         in if p = None \<and> t = None \<and> m = None \<and> r = None then Inr no_cicp
            else Inr \<lparr>ci_present = True, ci_primaries = or_unknown p, ci_transfer = or_unknown t,
                      ci_matrix = or_unknown m, ci_full_range = or_unknown r\<rparr>))))"

text \<open>The optional number fields.\<close>

definition header_orientation :: "header_fields \<Rightarrow> int result" where
  "header_orientation fs =
    (if header_field fs ''orientation'' = [] then Inr 1
     else case first_integer (header_field fs ''orientation'') of
       Inr n \<Rightarrow> if n < 1 \<or> 8 < n then Inl (NewError ''invalid orientation'') else Inr n
     | Inl _ \<Rightarrow> Inl (NewError ''invalid orientation''))"

definition header_pages :: "header_fields \<Rightarrow> int \<Rightarrow> int result" where
  "header_pages fs height =
    (if header_field fs ''n-pages'' \<noteq> [] then
       (case first_integer (header_field fs ''n-pages'') of
          Inr n \<Rightarrow> if n < 1 then Inl (NewError ''invalid page count'') else Inr n
        | Inl _ \<Rightarrow> Inl (NewError ''invalid page count''))
     else if header_field fs ''page-height'' \<noteq> [] then
       (case first_integer (header_field fs ''page-height'') of
          Inr n \<Rightarrow> if n \<le> 0 \<or> rem_int height n \<noteq> 0 then Inl (NewError ''invalid page height'') else Inr (quot_int height n)
        | Inl _ \<Rightarrow> Inl (NewError ''invalid page height''))
     else Inr 1)"

definition header_alpha :: "header_fields \<Rightarrow> bool \<Rightarrow> bool result" where
  "header_alpha fs inferred =
    (if header_field fs ''has-alpha'' = [] then Inr inferred
     else case parse_bool (to_lower (header_field fs ''has-alpha'')) of
       None \<Rightarrow> Inl (NewError ''invalid has-alpha value'')
     | Some b \<Rightarrow> Inr b)"

definition info_of_fields :: "header_fields \<Rightarrow> image_info result" where
  "info_of_fields fs =
    (case positive_header_int fs ''width'' of Inl e \<Rightarrow> Inl e
     | Inr width \<Rightarrow> (case positive_header_int fs ''height'' of Inl e \<Rightarrow> Inl e
     | Inr height \<Rightarrow> (case positive_header_int fs ''bands'' of Inl e \<Rightarrow> Inl e
     | Inr bands \<Rightarrow> (case detect_format (normalize_loader (header_field fs ''vips-loader'')) fs of Inl e \<Rightarrow> Inl e
     | Inr (f, mime) \<Rightarrow> (case header_orientation fs of Inl e \<Rightarrow> Inl e
     | Inr orient \<Rightarrow> (case header_pages fs height of Inl e \<Rightarrow> Inl e
     | Inr pages \<Rightarrow> (case parse_cicp fs of Inl e \<Rightarrow> Inl e
     | Inr c \<Rightarrow>
         let coding = to_lower (header_field fs ''coding''); interpretation = to_lower (header_field fs ''interpretation'')
         in (case header_alpha fs (infer_alpha bands interpretation coding) of Inl e \<Rightarrow> Inl e
     | Inr alpha \<Rightarrow>
         Inr \<lparr>ii_format = f, ii_mime_type = mime, ii_loader = normalize_loader (header_field fs ''vips-loader''),
           ii_width = width, ii_height = height, ii_bands = bands, ii_band_format = to_lower (header_field fs ''format''),
           ii_coding = coding, ii_interpretation = interpretation, ii_orientation = orient,
           ii_hdr = (ci_transfer c = 16 \<or> ci_transfer c = 18), ii_has_alpha = alpha, ii_has_transparency = False,
           ii_pages = pages, ii_cicp = c, ii_metadata = detect_metadata fs\<rparr>))))))))"

definition parse_header :: "string \<Rightarrow> image_info result" where
  "parse_header out =
    (case scan_lines out of
       Inl e \<Rightarrow> Inl (Wrapped ''scan header'' e)
     | Inr ls \<Rightarrow> info_of_fields (fold header_line ls []))"

text \<open>\<open>ProbeFile\<close>, with a context and a run function that are not nil.\<close>

definition probe_image :: "'w run_fun \<Rightarrow> string \<Rightarrow> string \<Rightarrow> 'w \<Rightarrow> image_info result \<times> 'w" where
  "probe_image run header path w =
    (if header = [] \<or> path = []
     then (Inl (image_error ''invalid-image-request'' ''probe input'' (NewError ''run function and paths are required'')), w)
     else case run (plain_command header [''-a'', path] 0) w of
       ((r, Some e), w) \<Rightarrow> (Inl (image_error ''image-probe-failed'' ''probe input'' e), w)
     | ((r, None), w) \<Rightarrow>
         if cap_truncated (rr_stdout r)
         then (Inl (image_error ''image-probe-failed'' ''probe input'' (NewError ''header output was truncated'')), w)
         else (case parse_header (cap_bytes (rr_stdout r)) of
                 Inl e \<Rightarrow> (Inl (image_error ''unsupported-image'' ''parse input header'' e), w)
               | Inr i \<Rightarrow> (Inr i, w)))"

subsection \<open>Properties\<close>

lemma first_integer_range: "first_integer v = Inr n \<Longrightarrow> min_int64 \<le> n \<and> n \<le> max_int64"
  unfolding first_integer_def using atoi_bounds
  by (auto split: list.splits prod.splits if_splits) (metis fst_conv)+

lemma positive_header_int_range: "positive_header_int fs k = Inr n \<Longrightarrow> 0 < n \<and> n \<le> max_int64"
  by (auto simp: positive_header_int_def split: option.splits sum.splits if_splits dest: first_integer_range)

lemma header_orientation_range: "header_orientation fs = Inr n \<Longrightarrow> 1 \<le> n \<and> n \<le> 8"
  by (auto simp: header_orientation_def split: sum.splits if_splits)

lemma header_pages_range: "header_pages fs h = Inr n \<Longrightarrow> 0 < h \<Longrightarrow> 1 \<le> n"
proof -
  assume h: "header_pages fs h = Inr n" "0 < h"
  have "1 \<le> quot_int h k" if "0 < k" "rem_int h k = 0" for k
  proof -
    have "h = k * quot_int h k" using that(2) by (simp add: rem_int_def)
    then have "0 < k * quot_int h k" using h(2) by simp
    then show ?thesis using that(1) by (simp add: zero_less_mult_iff)
  qed
  then show "1 \<le> n" using h by (auto simp: header_pages_def split: sum.splits if_splits)
qed

definition known_formats :: "(string \<times> string) list" where
  "known_formats = map (\<lambda>f. (f, ''image/'' @ f)) [''jpeg'', ''png'', ''webp'', ''heif'', ''avif'', ''tiff'', ''gif'', ''bmp'']"

lemma detect_format_known: "detect_format l fs = Inr x \<Longrightarrow> x \<in> set known_formats"
proof -
  have k: "(f, ''image/'' @ f) \<in> set known_formats" if "f \<in> set [''jpeg'', ''png'', ''webp'', ''heif'', ''avif'', ''tiff'', ''gif'', ''bmp'']" for f
    using that unfolding known_formats_def by (simp only: list.set_map) blast
  have e: "(''jpeg'', ''image/jpeg'') \<in> set known_formats" "(''png'', ''image/png'') \<in> set known_formats"
    "(''webp'', ''image/webp'') \<in> set known_formats" "(''heif'', ''image/heif'') \<in> set known_formats"
    "(''avif'', ''image/avif'') \<in> set known_formats" "(''tiff'', ''image/tiff'') \<in> set known_formats"
    "(''gif'', ''image/gif'') \<in> set known_formats" "(''bmp'', ''image/bmp'') \<in> set known_formats"
    using k [of "''jpeg''"] k [of "''png''"] k [of "''webp''"] k [of "''heif''"] k [of "''avif''"] k [of "''tiff''"]
      k [of "''gif''"] k [of "''bmp''"] by simp_all
  assume "detect_format l fs = Inr x"
  then show "x \<in> set known_formats"
    unfolding detect_format_def Let_def using e
    by (simp only: split: if_split_asm) (simp_all only: Inr_Inl_False Inr_inject sum.simps)
qed

text \<open>Chains of checks that succeed.\<close>

lemma check_Inr: "(case x of Inl e \<Rightarrow> Inl e | Inr y \<Rightarrow> f y) = Inr z \<longleftrightarrow> (\<exists>y. x = Inr y \<and> f y = Inr z)"
  by (cases x) auto

lemma info_of_fields_Inr:
  assumes "info_of_fields fs = Inr i"
  shows "positive_header_int fs ''width'' = Inr (ii_width i)" "positive_header_int fs ''height'' = Inr (ii_height i)"
    "positive_header_int fs ''bands'' = Inr (ii_bands i)" "header_orientation fs = Inr (ii_orientation i)"
    "header_pages fs (ii_height i) = Inr (ii_pages i)"
    "detect_format (normalize_loader (header_field fs ''vips-loader'')) fs = Inr (ii_format i, ii_mime_type i)"
    "ii_hdr i \<longleftrightarrow> ci_transfer (ii_cicp i) = 16 \<or> ci_transfer (ii_cicp i) = 18"
  using assms unfolding info_of_fields_def check_Inr Let_def split_def by fastforce+

text \<open>C34: Every header the parser accepts describes an image: positive dimensions and bands within int64, an
  orientation from 1 to 8, at least one page, one of the eight known formats with its own MIME
  type, and the high-dynamic-range flag exactly for the two HDR transfer functions.\<close>

theorem parsed_header_is_plausible:
  assumes "parse_header out = Inr i"
  shows "0 < ii_width i \<and> ii_width i \<le> max_int64 \<and> 0 < ii_height i \<and> ii_height i \<le> max_int64 \<and> 0 < ii_bands i
    \<and> 1 \<le> ii_orientation i \<and> ii_orientation i \<le> 8 \<and> 1 \<le> ii_pages i
    \<and> ii_format i \<in> {''jpeg'', ''png'', ''webp'', ''heif'', ''avif'', ''tiff'', ''gif'', ''bmp''}
    \<and> ii_mime_type i = ''image/'' @ ii_format i
    \<and> (ii_hdr i \<longleftrightarrow> ci_transfer (ii_cicp i) \<in> {16, 18})"
proof -
  obtain fs where "info_of_fields fs = Inr i" using assms by (auto simp: parse_header_def split: sum.splits)
  note i = info_of_fields_Inr [OF this]
  note r = positive_header_int_range [OF i(1)] positive_header_int_range [OF i(2)] positive_header_int_range [OF i(3)]
    header_orientation_range [OF i(4)]
  have "1 \<le> ii_pages i" using header_pages_range [OF i(5)] r by simp
  moreover have "ii_format i \<in> {''jpeg'', ''png'', ''webp'', ''heif'', ''avif'', ''tiff'', ''gif'', ''bmp''}
      \<and> ii_mime_type i = ''image/'' @ ii_format i"
    using detect_format_known [OF i(6)] by (auto simp: known_formats_def)
  ultimately show ?thesis using r i(7) by simp
qed

definition sample_header :: string where
  "sample_header = concat (map (\<lambda>l. l @ [CHR 0x0A]) [''width:1'', ''height:1'', ''bands:3'', ''format:uchar'', ''interpretation:srgb'', ''vips-loader:jpegload''])"

definition sample_fields :: header_fields where
  "sample_fields = [(''width'', ''1''), (''height'', ''1''), (''bands'', ''3''), (''format'', ''uchar''),
     (''interpretation'', ''srgb''), (''vips-loader'', ''jpegload'')]"

lemma sample_header_fields: "fold header_line [''width:1'', ''height:1'', ''bands:3'', ''format:uchar'', ''interpretation:srgb'', ''vips-loader:jpegload''] [] = sample_fields"
proof -
  have l: "header_line l fs = set_field k v fs" if "cut_on (CHR '':'') l = Some (k, v)" "to_lower (trim_space k) = k" "trim_space v = v" "k \<noteq> []"
    for l k v fs using that by (simp add: header_line_def)
  have c: "cut_on (CHR '':'') ''width:1'' = Some (''width'', ''1'')" "cut_on (CHR '':'') ''height:1'' = Some (''height'', ''1'')"
    "cut_on (CHR '':'') ''bands:3'' = Some (''bands'', ''3'')"
    "cut_on (CHR '':'') ''format:uchar'' = Some (''format'', ''uchar'')"
    "cut_on (CHR '':'') ''interpretation:srgb'' = Some (''interpretation'', ''srgb'')" "cut_on (CHR '':'') ''vips-loader:jpegload'' = Some (''vips-loader'', ''jpegload'')"
    by code_simp+
  have t: "to_lower (trim_space ''width'') = ''width''" "to_lower (trim_space ''height'') = ''height''"
    "to_lower (trim_space ''bands'') = ''bands''" "to_lower (trim_space ''format'') = ''format''"
    "to_lower (trim_space ''interpretation'') = ''interpretation''" "to_lower (trim_space ''vips-loader'') = ''vips-loader''"
    "trim_space ''1'' = ''1''" "trim_space ''3'' = ''3''" "trim_space ''uchar'' = ''uchar''"
    "trim_space ''srgb'' = ''srgb''" "trim_space ''jpegload'' = ''jpegload''"
    by (simp_all add: trim_space_id to_lower_id plain_byte_def upper_rune_def)
  show ?thesis
    by (simp add: l [OF c(1) t(1,7)] l [OF c(2) t(2,7)] l [OF c(3) t(3,8)] l [OF c(4) t(4,9)] l [OF c(5) t(5,10)]
        l [OF c(6) t(6,11)] set_field_def sample_fields_def)
qed

definition sample_info :: image_info where
  "sample_info = no_image\<lparr>ii_format := ''jpeg'', ii_mime_type := ''image/jpeg'', ii_loader := ''jpegload'', ii_width := 1,
     ii_height := 1, ii_bands := 3, ii_band_format := ''uchar'', ii_interpretation := ''srgb'', ii_orientation := 1,
     ii_pages := 1\<rparr>"

lemma sample_header_parsed: "parse_header sample_header = Inr sample_info"
proof -
  have n: "first_integer ''1'' = Inr 1" "first_integer ''3'' = Inr 3" "to_lower [] = []" "to_lower ''uchar'' = ''uchar''"
    "to_lower ''srgb'' = ''srgb''" by code_simp+
  have l: "normalize_loader ''jpegload'' = ''jpegload''"
    by (simp add: normalize_loader_def trim_space_id to_lower_id plain_byte_def upper_rune_def trim_suffix_def has_suffix_def has_prefix_def)
  have h: "header_field sample_fields ''vips-loader'' = ''jpegload''" "header_field sample_fields ''coding'' = []"
    "header_field sample_fields ''interpretation'' = ''srgb''" "header_field sample_fields ''orientation'' = []"
    "header_field sample_fields ''n-pages'' = []" "header_field sample_fields ''page-height'' = []"
    "header_field sample_fields ''has-alpha'' = []" "header_field sample_fields ''format'' = ''uchar''"
    by (simp_all add: header_field_def sample_fields_def)
  have p: "positive_header_int sample_fields ''width'' = Inr 1" "positive_header_int sample_fields ''height'' = Inr 1"
    "positive_header_int sample_fields ''bands'' = Inr 3"
    by (simp_all add: positive_header_int_def sample_fields_def n)
  have c: "parse_cicp sample_fields = Inr no_cicp" by (simp add: parse_cicp_def cicp_field_def sample_fields_def)
  have d: "detect_format ''jpegload'' sample_fields = Inr (''jpeg'', ''image/jpeg'')" by (simp add: detect_format_def Let_def)
  have m: "detect_metadata sample_fields = no_image_metadata"
    by (simp add: detect_metadata_def sample_fields_def detect_key_def no_image_metadata_def has_prefix_def)
  have a: "infer_alpha 3 ''srgb'' [] = False" "ci_transfer no_cicp = 0" by (simp_all add: infer_alpha_def no_cicp_def)
  have "scan_lines sample_header = Inr [''width:1'', ''height:1'', ''bands:3'', ''format:uchar'', ''interpretation:srgb'', ''vips-loader:jpegload'']"
    by (simp add: scan_lines_def sample_header_def trim_suffix_def has_suffix_def has_prefix_def)
  then have "parse_header sample_header = info_of_fields sample_fields"
    by (simp only: parse_header_def sample_header_fields sum.case)
  then show ?thesis
    by (simp add: info_of_fields_def p h n l d header_orientation_def header_pages_def header_alpha_def c Let_def sample_info_def no_image_def m a)
qed

theorem parsed_header_is_plausible_witness:
  "\<exists>i. parse_header sample_header = Inr i \<and> ii_orientation i \<le> 8 \<and> ii_format i = ''jpeg''"
proof -
  have "ii_format sample_info = ''jpeg''" by (simp add: sample_info_def)
  with parsed_header_is_plausible [OF sample_header_parsed] sample_header_parsed show ?thesis by blast
qed

end
