(* ===== verification/Image_Capability.thy ===== *)
theory Image_Capability
  imports Image_Header "HOL-Library.Word"
begin

unbundle bit_operations_syntax

text \<open>
  Optional decoders, \<open>internal/imageconv/capability.go\<close>: the capability bit set in 64 bits, and
  the functional decode probes.
\<close>

subsection \<open>The bit set\<close>

text \<open>Capabilities are 8-bit numbers; 0 is invalid and 3 counts them.\<close>

type_synonym capability = "8 word"

type_synonym capability_set = "64 word"

definition capability_decode_heif :: capability where
  "capability_decode_heif = 1"

definition capability_decode_avif :: capability where
  "capability_decode_avif = 2"

definition known_capability :: "capability \<Rightarrow> bool" where
  "known_capability c \<longleftrightarrow> 0 < c \<and> c < 3"

definition new_capability_set :: "capability list \<Rightarrow> capability_set" where
  "new_capability_set cs = fold (\<lambda>c s. if known_capability c then s OR push_bit (unat c) 1 else s) cs 0"

definition has_capability :: "capability_set \<Rightarrow> capability \<Rightarrow> bool" where
  "has_capability s c \<longleftrightarrow> known_capability c \<and> s AND push_bit (unat c) 1 \<noteq> 0"

text \<open>The invalid capability stands for none.\<close>

definition required_decode_capability :: "string \<Rightarrow> capability \<times> bool" where
  "required_decode_capability f =
    (if f = ''heif'' then (capability_decode_heif, True)
     else if f = ''avif'' then (capability_decode_avif, True) else (0, False))"

subsection \<open>Decode probes\<close>

definition decode_probe_spec :: "string \<Rightarrow> string \<Rightarrow> string \<Rightarrow> string \<Rightarrow> functional_spec result" where
  "decode_probe_spec name executable input out =
    (if executable = [] \<or> input = [] \<or> out = []
     then Inl (image_error ''invalid-image-request'' ''build image decode probe''
       (NewError ''executable, input, and output paths are required''))
     else Inr \<lparr>fs_name = name, fs_executable = executable, fs_args = [''copy'', input, out], fs_dir = [], fs_env = [],
       fs_timeout = 30 * 1000000000\<rparr>)"

definition heif_probe_spec :: "string \<Rightarrow> string \<Rightarrow> string \<Rightarrow> functional_spec result" where
  "heif_probe_spec = decode_probe_spec ''libvips HEIF decode''"

definition avif_probe_spec :: "string \<Rightarrow> string \<Rightarrow> string \<Rightarrow> functional_spec result" where
  "avif_probe_spec = decode_probe_spec ''libvips AVIF decode''"

text \<open>The outcome of making and removing the work directory.\<close>

record work_calls =
  wc_mkdir :: "string result"
  wc_remove :: "err option"

definition with_cleanup_error :: "string \<Rightarrow> err option \<Rightarrow> err option \<Rightarrow> err option" where
  "with_cleanup_error stage cleanup e =
    (case (cleanup, e) of
       (Some c, Some x) \<Rightarrow> Some (Joined [x, image_error ''image-cleanup-failed'' stage c])
     | _ \<Rightarrow> e)"

definition probe_decode ::
  "'w run_fun \<Rightarrow> look_path \<Rightarrow> string \<Rightarrow> string \<Rightarrow> string \<Rightarrow> string \<Rightarrow> work_calls \<Rightarrow> 'w \<Rightarrow> (capability_set \<times> err option) \<times> 'w" where
  "probe_decode run look executable input temp_dir f calls w =
    (if temp_dir = []
     then ((0, Some (image_error ''invalid-image-request'' ''probe image decode'' (NewError ''temporary directory is required''))), w)
     else case wc_mkdir calls of
       Inl e \<Rightarrow> ((0, Some (image_error ''image-probe-failed'' ''create image decode probe directory'' e)), w)
     | Inr dir \<Rightarrow>
         let out = join_path dir ''decoded.v'';
             spec = (if f = ''heif'' then heif_probe_spec executable input out
                     else if f = ''avif'' then avif_probe_spec executable input out
                     else Inl (NewError ''unsupported functional probe format''));
             ((caps, e), w) = (case spec of
                 Inl e \<Rightarrow> ((0, Some e), w)
               | Inr spec \<Rightarrow>
                   (case probe_functional run look spec w of
                      ((_, Some e), w) \<Rightarrow> ((0, Some e), w)
                    | ((_, None), w) \<Rightarrow>
                        ((new_capability_set [if f = ''heif'' then capability_decode_heif else capability_decode_avif], None), w)))
         in ((caps, with_cleanup_error ''clean image decode probe directory'' (wc_remove calls) e), w))"

subsection \<open>Properties\<close>

lemma and_bit_nonzero: "(s :: 64 word) AND push_bit n 1 \<noteq> 0 \<longleftrightarrow> n < 64 \<and> bit s n"
proof -
  have "bit (s AND push_bit n 1) k \<longleftrightarrow> k = n \<and> n < 64 \<and> bit s n" for k
    by (auto simp: bit_simps)
  then show ?thesis by (metis bit_0_eq bot_apply bot_bool_def bit_eqI)
qed

lemma new_capability_bit:
  "bit (fold (\<lambda>c (s :: 64 word). if known_capability c then s OR push_bit (unat c) 1 else s) cs s) n
    \<longleftrightarrow> bit s n \<or> (\<exists>c\<in>set cs. known_capability c \<and> unat c = n \<and> n < 64)"
  by (induction cs arbitrary: s) (auto simp: bit_simps)

lemma known_capability_small: "known_capability c \<Longrightarrow> unat c < 64"
proof -
  assume "known_capability c"
  then have "c < 3" by (simp add: known_capability_def)
  then have "unat c < unat (3 :: 8 word)" by (simp add: word_less_nat_alt)
  then show "unat c < 64" by simp
qed

text \<open>A capability set built from a list of capabilities contains exactly the known ones of the list.\<close>

theorem capability_set_is_a_set:
  "has_capability (new_capability_set cs) c \<longleftrightarrow> known_capability c \<and> c \<in> set cs"
  unfolding has_capability_def and_bit_nonzero new_capability_set_def new_capability_bit
  using known_capability_small by (auto dest: word_unat_eq_iff [THEN iffD2])

text \<open>A decode probe grants a capability exactly when it reports no error, and then it is the one
  the format requires and the functional check of the decoder passed.\<close>

theorem decode_probe_grants_required:
  assumes "probe_decode run look x input dir f calls w = ((caps, e), w')"
  shows "(e = None \<longleftrightarrow> caps \<noteq> 0)
    \<and> (e = None \<longrightarrow> f \<in> {''heif'', ''avif''} \<and> has_capability caps (fst (required_decode_capability f))
        \<and> (\<exists>spec r. probe_functional run look spec w = ((r, None), w') \<and> fs_executable spec = x))"
proof -
  have n: "new_capability_set [capability_decode_heif] \<noteq> 0" "new_capability_set [capability_decode_avif] \<noteq> 0"
    "has_capability (new_capability_set [capability_decode_heif]) capability_decode_heif"
    "has_capability (new_capability_set [capability_decode_avif]) capability_decode_avif"
    by (simp_all add: new_capability_set_def known_capability_def capability_decode_heif_def capability_decode_avif_def
        has_capability_def)
  show ?thesis
    using assms n
    by (auto simp: probe_decode_def Let_def with_cleanup_error_def heif_probe_spec_def avif_probe_spec_def decode_probe_spec_def
        required_decode_capability_def split: if_splits sum.splits option.splits prod.splits
        intro!: exI conjI [rotated])
qed

theorem decode_probe_grants_required_witness:
  "\<exists>caps e w'. probe_decode (\<lambda>c n. ((no_result, None), n + 1)) Inr ''vips'' ''/i'' ''/t'' ''heif''
      \<lparr>wc_mkdir = Inr ''/t/w'', wc_remove = None\<rparr> (0 :: nat) = ((caps, e), w') \<and> (e = None \<longleftrightarrow> caps \<noteq> 0)"
proof -
  obtain caps e w' where r: "probe_decode (\<lambda>c n. ((no_result, None), n + 1)) Inr ''vips'' ''/i'' ''/t'' ''heif''
      \<lparr>wc_mkdir = Inr ''/t/w'', wc_remove = None\<rparr> (0 :: nat) = ((caps, e), w')" by (metis surj_pair)
  with decode_probe_grants_required [OF r] show ?thesis by blast
qed

end
