(* ===== verification/Image_Plan.thy ===== *)
theory Image_Plan
  imports Image_Capability
begin

text \<open>
  Checking an image and planning its conversion: \<open>internal/imageconv/plan.go\<close>, and the probe
  for transparent pixels of \<open>alpha.go\<close>.
\<close>

subsection \<open>Data\<close>

record limits =
  li_width :: int
  li_height :: int
  li_pixels :: int

definition default_limits :: limits where
  "default_limits = \<lparr>li_width = 32768, li_height = 32768, li_pixels = 100000000\<rparr>"

datatype capture_date_policy = CaptureDateStrip | CaptureDatePreserveWhenSafe | OtherCaptureDatePolicy int

record image_output =
  io_path :: string
  io_extension :: string
  io_mime_type :: string

record expectation =
  ex_format :: string
  ex_mime_type :: string
  ex_width :: int
  ex_height :: int
  ex_orientation :: int
  ex_has_alpha :: bool
  ex_metadata :: image_metadata
  ex_band_format :: string

record image_plan =
  ip_output :: image_output
  ip_temporary :: string
  ip_paths :: "string list"
  ip_commands :: "command list"
  ip_expect :: expectation

record image_plan_request =
  ir_input_path :: string
  ir_output_dir :: string
  ir_work_dir :: string
  ir_operation :: operation
  ir_input :: image_info
  ir_policy :: capture_date_policy
  ir_vips :: string

definition max_email_dimension :: int where
  "max_email_dimension = 1920"

definition max_webp_dimension :: int where
  "max_webp_dimension = 16383"

subsection \<open>Content checks\<close>

definition supported_cicp :: "cicp \<Rightarrow> bool" where
  "supported_cicp c \<longleftrightarrow> \<not> ci_present c \<or> (ci_primaries c = 1 \<and> ci_transfer c = 13)"

definition interpretation_bands :: "string \<Rightarrow> int" where
  "interpretation_bands s =
    (if s = ''b-w'' \<or> s = ''grey16'' then 1
     else if s = ''cmyk'' then 4
     else if s \<in> set [''srgb'', ''rgb'', ''rgb16'', ''hsv'', ''lab'', ''lch'', ''xyz'', ''yxy''] then 3
     else 0)"

definition device_space :: "string \<Rightarrow> bool" where
  "device_space s \<longleftrightarrow> s \<in> set [''lab'', ''lch'', ''xyz'', ''yxy'', ''hsv'']"

definition input_error :: "string \<Rightarrow> string \<Rightarrow> err option" where
  "input_error code message = Some (image_error code ''validate input'' (NewError message))"

definition validate_color :: "image_info \<Rightarrow> err option" where
  "validate_color i =
    (let bands = interpretation_bands (ii_interpretation i); has_alpha = (ii_bands i = bands + 1)
     in if ii_coding i \<noteq> [] \<and> ii_coding i \<noteq> ''none''
          then input_error ''image-color-unsupported'' ''coded image pixels are not supported''
        else if ii_interpretation i = ''cmyk'' \<and> \<not> im_icc (ii_metadata i)
          then input_error ''image-color-unsupported'' ''CMYK input requires an embedded ICC profile''
        else if (ii_format i = ''heif'' \<or> ii_format i = ''avif'') \<and> ii_band_format i = ''ushort'' \<and> \<not> ci_present (ii_cicp i)
          then input_error ''image-color-unsupported'' ''high-bit-depth HEIF color signaling is unavailable''
        else if ii_band_format i \<noteq> ''uchar'' \<and> ii_band_format i \<noteq> ''ushort''
          then input_error (if ii_has_alpha i then ''alpha-preservation-unsupported'' else ''image-color-unsupported'')
            ''image band format is not supported''
        else if bands = 0 then input_error ''image-color-unsupported'' ''image color interpretation is not supported''
        else if ii_bands i \<noteq> bands \<and> \<not> has_alpha
          then input_error ''alpha-preservation-unsupported'' ''image has an ambiguous extra-band layout''
        else if ii_has_alpha i \<noteq> has_alpha
          then input_error ''alpha-preservation-unsupported'' ''image alpha metadata does not match its band layout''
        else if ii_has_alpha i \<and> device_space (ii_interpretation i)
          then input_error ''alpha-preservation-unsupported'' ''alpha in this color interpretation is not supported''
        else None)"

definition validate_content :: "image_info \<Rightarrow> limits \<Rightarrow> err option" where
  "validate_content i l =
    (if ii_format i = [] \<or> ii_width i \<le> 0 \<or> ii_height i \<le> 0
       then input_error ''unsupported-image'' ''image properties are incomplete''
     else if ii_pages i \<noteq> 1 then input_error ''animated-image-unsupported'' ''only single-page images are supported''
     else if ii_hdr i then input_error ''hdr-image-unsupported'' ''PQ and HLG HDR images are not supported''
     else if \<not> supported_cicp (ii_cicp i)
       then input_error ''image-color-unsupported'' ''non-sRGB CICP color signaling is not supported''
     else case validate_color i of
       Some e \<Rightarrow> Some e
     | None \<Rightarrow>
         if li_width l \<le> 0 \<or> li_height l \<le> 0 \<or> li_pixels l \<le> 0
           then Some (image_error ''invalid-image-request'' ''validate limits''
             (NewError ''all decoded dimension limits must be positive''))
         else if li_width l < ii_width i \<or> li_height l < ii_height i \<or> quot_int (li_pixels l) (ii_height i) < ii_width i
           then input_error ''decoded-dimensions-exceeded'' ''decoded dimensions exceed configured limits''
         else None)"

definition validate_capabilities :: "image_info \<Rightarrow> capability_set \<Rightarrow> err option" where
  "validate_capabilities i caps =
    (case required_decode_capability (ii_format i) of
       (required, needed) \<Rightarrow>
         if \<not> needed \<or> has_capability caps required then None
         else if required = capability_decode_heif
           then input_error ''heif-loader-unavailable'' ''HEIF decode was not functionally probed''
         else if required = capability_decode_avif
           then input_error ''avif-loader-unavailable'' ''AVIF decode was not functionally probed''
         else input_error ''invalid-image-request'' ''unsupported image capability'')"

subsection \<open>Planning helpers\<close>

definition is_jpeg_photo :: "operation \<Rightarrow> bool" where
  "is_jpeg_photo op \<longleftrightarrow> op = OperationCompatiblePhoto \<or> op = OperationEmailPhoto"

definition fit_longest_edge :: "int \<Rightarrow> int \<Rightarrow> int \<Rightarrow> int \<times> int \<times> float64" where
  "fit_longest_edge width height maximum =
    (let longest = (if width < height then height else width)
     in if longest \<le> maximum then (width, height, float_of_int 1)
        else let scale = float_divide (float_of_int maximum) (float_of_int longest)
          in (max 1 (float_trunc (float_round (float_times (float_of_int width) scale))),
              max 1 (float_trunc (float_round (float_times (float_of_int height) scale))), scale))"

definition needs_color_normalization :: "image_info \<Rightarrow> bool" where
  "needs_color_normalization i =
    (if ii_interpretation i = ''cmyk'' \<or> device_space (ii_interpretation i) then True
     else if ii_interpretation i = ''b-w'' \<or> ii_interpretation i = ''grey16'' then im_icc (ii_metadata i)
     else False)"

text \<open>Background and maximum of the flattening before color normalization.\<close>

definition pre_normalization_flatten :: "image_info \<Rightarrow> (string \<times> string) result" where
  "pre_normalization_flatten i =
    (let unsupported = Inl (image_error ''alpha-preservation-unsupported'' ''build plan''
           (NewError ''flattening alpha in this color space and band format is not supported''));
         s = ii_interpretation i; b = ii_band_format i
     in if s = ''cmyk'' then
          (if b = ''uchar'' then Inr (''0,0,0,0'', [])
           else if b = ''ushort'' then Inr (''0,0,0,0'', ''65535'') else unsupported)
        else if s = ''b-w'' then (if b = ''uchar'' then Inr (''255'', []) else unsupported)
        else if s = ''grey16'' then (if b = ''ushort'' then Inr (''65535'', ''65535'') else unsupported)
        else if b = ''uchar'' then Inr (''255'', []) else unsupported)"

definition flatten_background :: "image_info \<Rightarrow> bool \<Rightarrow> string" where
  "flatten_background i normalized =
    (if normalized then ''255''
     else if ii_interpretation i = ''rgb16'' \<or> ii_interpretation i = ''grey16'' then ''65535'' else ''255'')"

definition metadata_keep :: "image_metadata \<Rightarrow> capture_date_policy \<Rightarrow> string \<times> bool" where
  "metadata_keep m policy =
    (let dated = (policy = CaptureDatePreserveWhenSafe \<and> im_capture_date m \<and> \<not> im_gps m);
         kept = (if im_icc m then [''icc''] else []) @ (if dated then [''exif''] else [])
     in if kept = [] then (''none'', False) else (join_with (CHR '','') kept, dated))"

definition oriented_dimensions :: "int \<Rightarrow> int \<Rightarrow> int \<Rightarrow> int \<times> int" where
  "oriented_dimensions width height n = (if n \<in> {5, 6, 7, 8} then (height, width) else (width, height))"

subsection \<open>\<open>BuildPlan\<close>\<close>

text \<open>The commands so far, the temporary files, and the file the next command reads.\<close>

record pipeline =
  pi_commands :: "command list"
  pi_paths :: "string list"
  pi_input :: string

definition vips_command :: "image_plan_request \<Rightarrow> string list \<Rightarrow> command" where
  "vips_command rq args = plain_command (ir_vips rq) args 0"

text \<open>A command that reads the current file and writes the next one: name, file name, further arguments.\<close>

definition add_stage :: "image_plan_request \<Rightarrow> string \<Rightarrow> string \<Rightarrow> string list \<Rightarrow> pipeline \<Rightarrow> pipeline" where
  "add_stage rq name result_name args p =
    (let out = join_path (ir_work_dir rq) result_name
     in \<lparr>pi_commands = pi_commands p @ [vips_command rq ([name, pi_input p, out] @ args)],
         pi_paths = pi_paths p @ [out], pi_input = out\<rparr>)"

definition first_stage :: "image_plan_request \<Rightarrow> pipeline" where
  "first_stage rq =
    (let oriented = join_path (ir_work_dir rq) ''oriented.v''
     in \<lparr>pi_commands = [vips_command rq [''autorot'', ir_input_path rq, oriented]], pi_paths = [oriented], pi_input = oriented\<rparr>)"

definition plan_error :: "string \<Rightarrow> string \<Rightarrow> err" where
  "plan_error code message = image_error code ''build plan'' (NewError message)"

text \<open>Flattening before normalization, with whether it happened.\<close>

definition early_flatten :: "image_plan_request \<Rightarrow> pipeline \<Rightarrow> (pipeline \<times> bool) result" where
  "early_flatten rq p =
    (let i = ir_input rq; jpeg = is_jpeg_photo (ir_operation rq)
     in if \<not> (needs_color_normalization i \<and> ii_has_alpha i) then Inr (p, False)
        else if \<not> jpeg \<and> ii_band_format i \<noteq> ''uchar''
          then Inl (plan_error ''alpha-preservation-unsupported''
            ''preserving non-8-bit alpha through color conversion is not supported'')
        else if jpeg then
          (case pre_normalization_flatten i of
             Inl e \<Rightarrow> Inl e
           | Inr (background, max_alpha) \<Rightarrow>
               Inr (add_stage rq ''flatten'' ''opaque.v''
                 ([''--background'', background] @ (if max_alpha \<noteq> [] then [''--max-alpha'', max_alpha] else [])) p, True))
        else Inr (p, False))"

text \<open>Color normalization, with whether the output carries an ICC profile.\<close>

definition normalize_color :: "image_plan_request \<Rightarrow> pipeline \<Rightarrow> pipeline \<times> bool" where
  "normalize_color rq p =
    (let i = ir_input rq; s = ii_interpretation i; icc = im_icc (ii_metadata i);
         depth = (if ir_operation rq = OperationLosslessImage \<and> ii_band_format i = ''ushort'' then ''16'' else ''8'')
     in if s = ''cmyk''
          then (add_stage rq ''icc_transform'' ''colour.v''
            ([''srgb''] @ (if icc then [''--embedded''] else []) @ [''--depth'', depth]) p, True)
        else if s = ''b-w'' \<or> s = ''grey16''
          then (if icc then (add_stage rq ''icc_transform'' ''colour.v'' [''srgb'', ''--embedded'', ''--depth'', depth] p, True)
                else (p, icc))
        else if device_space s then (add_stage rq ''colourspace'' ''colour.v'' [''srgb''] p, False)
        else (p, icc))"

definition late_flatten :: "image_plan_request \<Rightarrow> bool \<Rightarrow> pipeline \<Rightarrow> pipeline" where
  "late_flatten rq flattened p =
    (if is_jpeg_photo (ir_operation rq) \<and> ii_has_alpha (ir_input rq) \<and> \<not> flattened
     then add_stage rq ''flatten'' ''pixels.v''
       [''--background'', flatten_background (ir_input rq) (pi_input p \<noteq> join_path (ir_work_dir rq) ''oriented.v'')] p
     else p)"

text \<open>The resized pipeline with the dimensions expected of the output.\<close>

definition email_resize :: "image_plan_request \<Rightarrow> pipeline \<Rightarrow> pipeline \<times> int \<times> int" where
  "email_resize rq p =
    (let i = ir_input rq; (width, height) = oriented_dimensions (ii_width i) (ii_height i) (ii_orientation i)
     in if ir_operation rq = OperationEmailPhoto then
          (case fit_longest_edge width height max_email_dimension of
             (w, h, scale) \<Rightarrow>
               if float_less scale (float_of_int 1)
               then (add_stage rq ''resize'' ''resized.v'' [format_float scale, ''--kernel'', ''lanczos3''] p, w, h)
               else (p, width, height))
        else (p, width, height))"

text \<open>The last command writes the temporary output, which is not a temporary path.\<close>

definition save_args :: "image_plan_request \<Rightarrow> string \<Rightarrow> string \<Rightarrow> string \<Rightarrow> string list" where
  "save_args rq input out keep =
    (let op = ir_operation rq
     in if is_jpeg_photo op
          then [''jpegsave'', input, out, ''--Q'', if op = OperationEmailPhoto then ''85'' else ''90'', ''--optimize-coding'',
            ''--interlace'', ''--keep'', keep]
        else if op = OperationSmallerPhoto
          then [''webpsave'', input, out, ''--Q'', ''80'', ''--effort'', ''6'', ''--alpha-q'', ''100'']
            @ (if ii_has_alpha (ir_input rq) then [''--exact''] else []) @ [''--keep'', keep]
        else [''pngsave'', input, out, ''--compression'', ''9'', ''--keep'', keep])"

definition output_name_of :: "operation \<Rightarrow> string" where
  "output_name_of op =
    (if is_jpeg_photo op then ''output.jpg'' else if op = OperationSmallerPhoto then ''output.webp'' else ''output.png'')"

definition expect_of :: "image_plan_request \<Rightarrow> string \<Rightarrow> bool \<Rightarrow> bool \<Rightarrow> int \<Rightarrow> int \<Rightarrow> expectation" where
  "expect_of rq mime icc dated width height =
    (let i = ir_input rq; op = ir_operation rq
     in \<lparr>ex_format = (if is_jpeg_photo op then ''jpeg'' else if op = OperationSmallerPhoto then ''webp'' else ''png''),
         ex_mime_type = mime, ex_width = width, ex_height = height, ex_orientation = 1,
         ex_has_alpha = (if is_jpeg_photo op then False else if op = OperationSmallerPhoto then ii_has_transparency i
           else ii_has_alpha i),
         ex_metadata = no_image_metadata\<lparr>im_icc := icc, im_exif := dated, im_capture_date := dated\<rparr>,
         ex_band_format = (if is_jpeg_photo op \<or> op = OperationSmallerPhoto then [] else ii_band_format i)\<rparr>)"

definition image_operation :: "operation \<Rightarrow> bool" where
  "image_operation op \<longleftrightarrow> is_jpeg_photo op \<or> op = OperationSmallerPhoto \<or> op = OperationLosslessImage"

text \<open>The checks before anything is named.\<close>

definition plan_guard :: "image_plan_request \<Rightarrow> err option" where
  "plan_guard rq =
    (if ir_input_path rq = [] \<or> ir_output_dir rq = [] \<or> ir_work_dir rq = [] \<or> ir_vips rq = []
       then Some (plan_error ''invalid-image-request'' ''input, output, work, and vips paths are required'')
     else if ir_policy rq \<noteq> CaptureDateStrip \<and> ir_policy rq \<noteq> CaptureDatePreserveWhenSafe
       then Some (plan_error ''invalid-image-request'' ''unsupported capture-date policy'')
     else if ii_hdr (ir_input rq) then Some (plan_error ''hdr-image-unsupported'' ''PQ and HLG HDR images are not supported'')
     else if \<not> supported_cicp (ii_cicp (ir_input rq))
       then Some (plan_error ''image-color-unsupported'' ''non-sRGB CICP color signaling is not supported'')
     else validate_color (ir_input rq))"

definition unsupported_image_operation :: err where
  "unsupported_image_operation = image_error ''invalid-image-request'' ''name output'' (NewError ''unsupported image operation'')"

definition lookup_image_spec :: "operation \<Rightarrow> spec result" where
  "lookup_image_spec op =
    (case lookup_spec op of
       Some spec \<Rightarrow> if sp_engine spec = EngineImage then Inr spec else Inl unsupported_image_operation
     | None \<Rightarrow> Inl unsupported_image_operation)"

text \<open>The specification and the name of the output.\<close>

definition image_target :: "unicode_tables \<Rightarrow> image_plan_request \<Rightarrow> (spec \<times> string) result" where
  "image_target U rq =
    (let op = ir_operation rq; i = ir_input rq
     in case lookup_image_spec op of
          Inl e \<Rightarrow> Inl e
        | Inr spec \<Rightarrow>
            (case output_name U (ir_input_path rq) op of
               Inl _ \<Rightarrow> Inl unsupported_image_operation
             | Inr name \<Rightarrow>
                 if op = OperationSmallerPhoto \<and> (max_webp_dimension < ii_width i \<or> max_webp_dimension < ii_height i)
                 then Inl (plan_error ''decoded-dimensions-exceeded'' ''WebP dimensions exceed 16,383 pixels'')
                 else Inr (spec, name)))"

text \<open>Everything between the first stage and the save, given the pipeline after the early flattening.\<close>

record late_plan =
  lp_pipeline :: pipeline
  lp_icc :: bool
  lp_keep :: string
  lp_dated :: bool
  lp_width :: int
  lp_height :: int

definition late_stages :: "image_plan_request \<Rightarrow> bool \<Rightarrow> pipeline \<Rightarrow> late_plan" where
  "late_stages rq flattened p =
    (let (p, icc) = normalize_color rq p;
         p = late_flatten rq flattened p;
         (keep, dated) = metadata_keep ((ii_metadata (ir_input rq))\<lparr>im_icc := icc\<rparr>) (ir_policy rq);
         (p, width, height) = email_resize rq p
     in \<lparr>lp_pipeline = p, lp_icc = icc, lp_keep = keep, lp_dated = dated, lp_width = width, lp_height = height\<rparr>)"

definition finish_plan :: "image_plan_request \<Rightarrow> spec \<Rightarrow> string \<Rightarrow> late_plan \<Rightarrow> image_plan" where
  "finish_plan rq spec name l =
    (let p = lp_pipeline l; mime = os_mime_type (sp_output spec);
         temporary = join_path (ir_work_dir rq) (output_name_of (ir_operation rq))
     in \<lparr>ip_output = \<lparr>io_path = join_path (ir_output_dir rq) name, io_extension = os_extension (sp_output spec),
           io_mime_type = mime\<rparr>,
         ip_temporary = temporary, ip_paths = pi_paths p,
         ip_commands = pi_commands p @ [vips_command rq (save_args rq (pi_input p) temporary (lp_keep l))],
         ip_expect = expect_of rq mime (lp_icc l) (lp_dated l) (lp_width l) (lp_height l)\<rparr>)"

definition plan_image :: "unicode_tables \<Rightarrow> image_plan_request \<Rightarrow> image_plan result" where
  "plan_image U rq =
    (case plan_guard rq of
       Some e \<Rightarrow> Inl e
     | None \<Rightarrow>
       (case image_target U rq of
          Inl e \<Rightarrow> Inl e
        | Inr (spec, name) \<Rightarrow>
          (case early_flatten rq (first_stage rq) of
             Inl e \<Rightarrow> Inl e
           | Inr (p, flattened) \<Rightarrow>
               if image_operation (ir_operation rq) then Inr (finish_plan rq spec name (late_stages rq flattened p))
               else Inl (plan_error ''invalid-image-request'' ''unsupported image operation''))))"

subsection \<open>Validating the output\<close>

definition output_error :: "string \<Rightarrow> string \<Rightarrow> err option" where
  "output_error code message = Some (image_error code ''validate output'' (NewError message))"

definition validate_image_output :: "expectation \<Rightarrow> image_info \<Rightarrow> err option" where
  "validate_image_output x i =
    (if ii_format i \<noteq> ex_format x \<or> ii_mime_type i \<noteq> ex_mime_type x
       then output_error ''invalid-output-format'' ''format or MIME type did not match''
     else if ii_width i \<noteq> ex_width x \<or> ii_height i \<noteq> ex_height x \<or> ii_pages i \<noteq> 1
       then output_error ''invalid-output-dimensions'' ''dimensions or page count did not match''
     else if ii_orientation i \<noteq> ex_orientation x
       then output_error ''invalid-output-orientation'' ''orientation was not normalized''
     else if ii_has_alpha i \<noteq> ex_has_alpha x
       then output_error ''invalid-output-alpha'' ''alpha policy was not satisfied''
     else if ex_band_format x \<noteq> [] \<and> ii_band_format i \<noteq> ex_band_format x
       then output_error ''invalid-output-precision''
         (''image band format is '' @ [CHR 0x22] @ ii_band_format i @ [CHR 0x22] @ ''; expected '' @ [CHR 0x22] @ ex_band_format x @ [CHR 0x22])
     else if ii_hdr i
       then output_error ''invalid-output-color'' ''output retained PQ or HLG transfer characteristics''
     else if \<not> supported_cicp (ii_cicp i)
       then output_error ''invalid-output-color'' ''output retained unsupported CICP color signaling''
     else if im_gps (ii_metadata i) \<or> im_icc (ii_metadata i) \<noteq> im_icc (ex_metadata x)
         \<or> im_exif (ii_metadata i) \<noteq> im_exif (ex_metadata x)
         \<or> im_capture_date (ii_metadata i) \<noteq> im_capture_date (ex_metadata x)
         \<or> im_xmp (ii_metadata i) \<or> im_gain_map (ii_metadata i)
       then output_error ''invalid-output-metadata'' ''metadata policy was not satisfied''
     else None)"

subsection \<open>Transparent pixels\<close>

record transparency_plan =
  tp_commands :: "command list"
  tp_max_alpha :: float64

definition transparency_probe :: "string \<Rightarrow> string \<Rightarrow> string \<Rightarrow> image_info \<Rightarrow> transparency_plan result" where
  "transparency_probe vips input work i =
    (let stage = ''build transparency probe''; alpha = join_path work ''alpha.v''; alpha8 = join_path work ''alpha-8.v'';
         extract = plain_command vips [''extract_band'', input, alpha, itoa (ii_bands i - 1)] 0;
         plan = (\<lambda>cs. Inr \<lparr>tp_commands = cs, tp_max_alpha = float_of_int 255\<rparr>)
     in if vips = [] \<or> input = [] \<or> work = [] \<or> \<not> ii_has_alpha i \<or> ii_bands i < 2
          then Inl (image_error ''invalid-image-request'' stage
            (NewError ''vips path, input, work directory, and an alpha band are required''))
        else if ii_band_format i = ''uchar'' then plan [extract, plain_command vips [''min'', alpha] 0]
        else if ii_band_format i = ''ushort''
          then plan [extract, plain_command vips [''cast'', alpha, alpha8, ''uchar'', ''--shift''] 0,
            plain_command vips [''min'', alpha8] 0]
        else Inl (image_error ''alpha-preservation-unsupported'' stage
          (NewError (''unsupported WebP alpha band format '' @ [CHR 0x22] @ ii_band_format i @ [CHR 0x22]))))"

definition parse_transparency :: "string \<Rightarrow> float64 \<Rightarrow> bool result" where
  "parse_transparency out max_alpha =
    (case fields_text out of
       [] \<Rightarrow> Inl (image_error ''image-probe-failed'' ''parse transparency probe'' (NewError ''alpha minimum is empty''))
     | f # _ \<Rightarrow>
         (case parse_float f of
            (Finite s m e, True) \<Rightarrow> Inr (float_less (Finite s m e) max_alpha)
          | _ \<Rightarrow> Inl (image_error ''image-probe-failed'' ''parse transparency probe''
              (NewError (''invalid alpha minimum '' @ [CHR 0x22] @ f @ [CHR 0x22])))))"

subsection \<open>Lemmas\<close>

lemma exact_float: "0 < i \<Longrightarrow> i < 2 ^ 53 \<Longrightarrow> has_value (float_of_int i) (of_int i)"
  using float_of_int_value [of i] by auto

text \<open>The scale of a reduction: a positive float below 1, next to the quotient.\<close>

lemma reduction_scale:
  assumes "64 \<le> n" "n < m" "m < 2 ^ 53" "n < 2 ^ 40"
  shows "\<exists>a. has_value (float_divide (float_of_int n) (float_of_int m)) a
    \<and> \<bar>a - of_int n / of_int m\<bar> \<le> of_int n / of_int m / 2 ^ 53 \<and> a < 1"
proof -
  have n: "(64 :: real) \<le> of_int n" "(of_int n :: real) < 2 ^ 40" "(of_int n :: real) + 1 \<le> of_int m" "(of_int m :: real) < 2 ^ 53"
    using assms by (metis of_int_le_iff of_int_numeral, metis of_int_less_iff of_int_numeral of_int_power, linarith,
        metis of_int_less_iff of_int_numeral of_int_power)
  have q: "of_int n / of_int m < (1 :: real)" using n by simp
  have "(64 :: real) / 2 ^ 53 \<le> of_int n / of_int m" using n by (intro frac_le) auto
  moreover have "(64 :: real) / 2 ^ 53 = pow2 (- 47)" by (simp add: pow2_numeral)
  moreover have "pow2 (- 200) \<le> pow2 (- 47)" "(1 :: real) \<le> pow2 200" by (rule pow2_mono, simp, simp add: pow2_def)
  ultimately have "mid_range (of_int n / of_int m)" using q by (intro mid_rangeI) linarith+
  from float_divide_value [OF exact_float exact_float this] assms
  obtain a where a: "has_value (float_divide (float_of_int n) (float_of_int m)) a"
    "\<bar>a - of_int n / of_int m\<bar> \<le> of_int n / of_int m / 2 ^ 53" by auto
  have "of_int n / of_int m * (1 + 1 / 2 ^ 53) < (1 :: real)"
  proof -
    have "of_int n * (1 + 1 / 2 ^ 53) < (of_int n :: real) + 1" using n(2) by (simp add: distrib_left)
    then show ?thesis using n by (simp add: divide_less_eq)
  qed
  then have "a < 1" using a(2) by (simp add: distrib_left abs_le_iff)
  then show ?thesis using a by blast
qed

text \<open>An edge scaled by a reduction.\<close>

lemma scaled_edge:
  assumes n: "64 \<le> n" "n < 2 ^ 40" and m: "n < m" "m < 2 ^ 53" and x: "0 < x" "x \<le> m"
  shows "\<exists>r. max 1 (float_trunc (float_round (float_times (float_of_int x) (float_divide (float_of_int n) (float_of_int m))))) = r
    \<and> r \<le> n \<and> \<bar>of_int r - of_int x * of_int n / (of_int m :: real)\<bar> \<le> 1 \<and> (x = m \<longrightarrow> r = n)"
proof -
  obtain a where a: "has_value (float_divide (float_of_int n) (float_of_int m)) a"
    "\<bar>a - of_int n / of_int m\<bar> \<le> of_int n / of_int m / 2 ^ 53" using reduction_scale [OF n(1) m n(2)] by blast
  define q :: real where "q = of_int x * of_int n / of_int m"
  have n': "(64 :: real) \<le> of_int n" "(of_int n :: real) < 2 ^ 40"
    using n by (metis of_int_le_iff of_int_numeral, metis of_int_less_iff of_int_numeral of_int_power)
  have m': "(of_int n :: real) < of_int m" "(of_int m :: real) < 2 ^ 53"
    using m by (simp, metis of_int_less_iff of_int_numeral of_int_power)
  have x': "(1 :: real) \<le> of_int x" "(of_int x :: real) \<le> of_int m" using x by simp_all
  have q: "0 < q" "q \<le> of_int n" using n' m' x' by (auto simp: q_def divide_le_eq)
  have "\<bar>of_int x * (a - of_int n / of_int m)\<bar> \<le> of_int x * (of_int n / of_int m / 2 ^ 53)"
    unfolding abs_mult using a(2) x' by (intro mult_mono) auto
  then have w: "\<bar>of_int x * a - q\<bar> \<le> q / 2 ^ 53" by (simp add: q_def right_diff_distrib)
  have small: "q / 2 ^ 53 \<le> 1 / 16" using q n'(2) by simp
  have xa: "of_int x * a \<le> of_int n + 1"
    using w small q by (simp only: abs_le_iff) linarith
  have n40: "(of_int n :: real) \<le> 1099511627776" using n'(2) by simp
  have low: "pow2 (- 48) \<le> a"
  proof -
    have "(64 :: real) / 2 ^ 53 \<le> of_int n / of_int m" using n' m' by (intro frac_le) auto
    moreover have "c / 2 \<le> a" if "c \<le> p" "\<bar>a - p\<bar> \<le> p / 2 ^ 53" "0 < c" for c p :: real
    proof -
      have "p / 2 ^ 53 \<le> p / 2" using that by simp
      then show ?thesis using that by linarith
    qed
    ultimately have "64 / 2 ^ 53 / 2 \<le> a" using a(2) by simp
    then show ?thesis by (simp add: pow2_numeral)
  qed
  then have "1 * pow2 (- 48) \<le> of_int x * a" using x' by (intro mult_mono) (auto simp: less_imp_le)
  moreover have "of_int x * a \<le> pow2 200"
  proof -
    have "of_int x * a \<le> 2 ^ 41" using xa n40 by simp
    moreover have "(2 :: real) ^ 41 \<le> pow2 200" by (simp add: pow2_def)
    ultimately show ?thesis by linarith
  qed
  moreover have "pow2 (- 200) \<le> pow2 (- 48)" by (rule pow2_mono) simp
  ultimately have "mid_range (of_int x * a)" by (intro mid_rangeI) linarith+
  from float_times_value [OF exact_float a(1) this] x m obtain u where
    u: "has_value (float_times (float_of_int x) (float_divide (float_of_int n) (float_of_int m))) u"
      "\<bar>u - of_int x * a\<bar> \<le> of_int x * a / 2 ^ 53" by auto
  have "of_int x * a \<le> 1125899906842624" using xa n40 by linarith
  then have "of_int x * a / 2 ^ 53 \<le> 1 / 8" by (simp add: mult.commute)
  then have uq: "\<bar>u - q\<bar> \<le> 1 / 4" using u(2) w small by linarith
  let ?r = "\<lfloor>u + 1 / 2\<rfloor>"
  have "u + 1 / 2 < of_int n + 1" using uq q by linarith
  then have r: "0 \<le> ?r" "?r \<le> n" "of_int ?r \<le> u + 1 / 2" "u - 1 / 2 < of_int ?r"
    using has_value_pos [OF u(1)] by (auto simp: floor_le_iff) linarith
  then have "?r < 2 ^ 53" using n(2) by simp
  then have t: "float_trunc (float_round (float_times (float_of_int x) (float_divide (float_of_int n) (float_of_int m)))) = ?r"
    using float_round_value [OF u(1)] float_trunc_of_int r(1) by simp
  have eq: "q = of_int n" if "x = m" using that m' n' by (simp add: q_def)
  have d: "u - q \<le> 1 / 4" "q - u \<le> 1 / 4" using uq by linarith+
  have "?r = n" if "x = m" using eq [OF that] d by (intro floor_unique) linarith+
  moreover have "\<bar>of_int (max 1 ?r) - q\<bar> \<le> 1"
  proof (cases "?r = 0")
    case True
    then have "u < 1 / 2" using r(4) by simp
    then show ?thesis using True d q(1) by simp
  next
    case False
    then have "max 1 ?r = ?r" using r(1) by (simp only: max_absorb2 int_one_le_iff_zero_less order_less_le)
    then show ?thesis using r(3,4) d by (simp only: abs_le_iff) linarith
  qed
  ultimately show ?thesis unfolding t q_def using r n by (intro exI [of _ "max 1 ?r"]) auto
qed

text \<open>Every planned command reads its first argument and writes its second.\<close>

definition reads :: "command \<Rightarrow> string" where
  "reads c = cmd_args c ! 1"

definition writes :: "command \<Rightarrow> string" where
  "writes c = cmd_args c ! 2"

text \<open>The pipeline so far: the stages chain from the input through the named work files.\<close>

definition chained :: "image_plan_request \<Rightarrow> string list \<Rightarrow> pipeline \<Rightarrow> bool" where
  "chained rq names p \<longleftrightarrow> pi_paths p = map (join_path (ir_work_dir rq)) names
    \<and> map writes (pi_commands p) = pi_paths p
    \<and> map reads (pi_commands p) @ [pi_input p] = ir_input_path rq # pi_paths p
    \<and> (\<forall>c\<in>set (pi_commands p). cmd_path c = ir_vips rq \<and> cmd_dir c = [] \<and> cmd_env c = [] \<and> cmd_timeout c = 0)
    \<and> pi_commands p \<noteq> [] \<and> hd (cmd_args (hd (pi_commands p))) = ''autorot''"

lemma chained_first: "chained rq [''oriented.v''] (first_stage rq)"
  by (simp add: chained_def first_stage_def Let_def reads_def writes_def vips_command_def plain_command_def)

lemma chained_add: "chained rq ns p \<Longrightarrow> chained rq (ns @ [n]) (add_stage rq cmd n args p)"
  by (auto simp: chained_def add_stage_def Let_def reads_def writes_def vips_command_def plain_command_def)

text \<open>The work files a plan uses, by the stages it has.\<close>

definition work_names :: "bool \<Rightarrow> bool \<Rightarrow> bool \<Rightarrow> bool \<Rightarrow> string list" where
  "work_names opaque colour pixels resized =
    [''oriented.v''] @ (if opaque then [''opaque.v''] else []) @ (if colour then [''colour.v''] else [])
     @ (if pixels then [''pixels.v''] else []) @ (if resized then [''resized.v''] else [])"

lemma early_flatten_chained:
  assumes "early_flatten rq (first_stage rq) = Inr (p, f)"
  shows "chained rq (work_names f False False False) p"
  using assms chained_first [of rq] chained_add [OF chained_first [of rq], of "''opaque.v''" "''flatten''"]
  by (auto simp: early_flatten_def Let_def work_names_def split: if_splits sum.splits)

lemma normalize_color_chained:
  assumes "chained rq ns p"
  shows "\<exists>b. chained rq (ns @ (if b then [''colour.v''] else [])) (fst (normalize_color rq p))"
  using assms chained_add [OF assms, of "''colour.v''"]
  by (auto simp: normalize_color_def Let_def intro: exI [of _ True] exI [of _ False])

lemma late_flatten_chained:
  assumes "chained rq ns p"
  shows "\<exists>b. chained rq (ns @ (if b then [''pixels.v''] else [])) (late_flatten rq f p)"
  using assms chained_add [OF assms, of "''pixels.v''"]
  by (auto simp: late_flatten_def intro: exI [of _ True] exI [of _ False])

lemma email_resize_chained:
  assumes "chained rq ns p"
  shows "\<exists>b. chained rq (ns @ (if b then [''resized.v''] else [])) (fst (email_resize rq p))"
  using assms chained_add [OF assms, of "''resized.v''"]
  by (auto simp: email_resize_def Let_def split: prod.split intro: exI [of _ True] exI [of _ False])

lemma join_with_snoc: "ps \<noteq> [] \<Longrightarrow> join_with c (ps @ [x]) = join_with c ps @ c # x"
proof (induction ps)
  case (Cons a ps)
  then show ?case by (cases "ps = []") (simp_all add: join_with_Cons)
qed simp

lemma join_path_inj:
  assumes "d \<noteq> []" "plain_name m" "plain_name n"
  shows "join_path d m = join_path d n \<longleftrightarrow> m = n"
proof -
  have "render_path a (ps @ [x]) = render_path a (ps @ [y]) \<longleftrightarrow> x = y" for a ps x y
    by (cases "ps = []") (auto simp: render_path_def join_with_snoc)
  then show ?thesis using assms by (simp add: join_path_plain)
qed

lemma plan_image_Inr:
  assumes "plan_image U rq = Inr plan"
  obtains spec name p f where "plan_guard rq = None" "image_target U rq = Inr (spec, name)"
    "early_flatten rq (first_stage rq) = Inr (p, f)" "image_operation (ir_operation rq)"
    "plan = finish_plan rq spec name (late_stages rq f p)"
  using assms by (auto simp: plan_image_def split: option.splits sum.splits if_splits)

lemma plan_guard_None:
  assumes "plan_guard rq = None"
  shows "ir_work_dir rq \<noteq> []" "ir_output_dir rq \<noteq> []" "validate_color (ir_input rq) = None"
    "ir_policy rq = CaptureDateStrip \<or> ir_policy rq = CaptureDatePreserveWhenSafe"
  using assms by (auto simp: plan_guard_def split: if_splits)

lemma work_names_plain:
  "list_all plain_name (work_names a b c d @ [output_name_of op]) \<and> distinct (work_names a b c d @ [output_name_of op])"
  by (simp add: work_names_def output_name_of_def plain_name_def)

lemma late_stages_chained:
  assumes "chained rq (work_names f False False False) p"
  shows "\<exists>b c d. chained rq (work_names f b c d) (lp_pipeline (late_stages rq f p))"
proof -
  obtain b where 1: "chained rq (work_names f False False False @ (if b then [''colour.v''] else [])) (fst (normalize_color rq p))"
    using normalize_color_chained [OF assms] by blast
  obtain c where 2: "chained rq ((work_names f False False False @ (if b then [''colour.v''] else []))
      @ (if c then [''pixels.v''] else [])) (late_flatten rq f (fst (normalize_color rq p)))"
    using late_flatten_chained [OF 1] by blast
  obtain d where 3: "chained rq (((work_names f False False False @ (if b then [''colour.v''] else []))
      @ (if c then [''pixels.v''] else [])) @ (if d then [''resized.v''] else []))
      (fst (email_resize rq (late_flatten rq f (fst (normalize_color rq p)))))"
    using email_resize_chained [OF 2] by blast
  have "lp_pipeline (late_stages rq f p) = fst (email_resize rq (late_flatten rq f (fst (normalize_color rq p))))"
    by (simp add: late_stages_def split: prod.split)
  moreover have "((work_names f False False False @ (if b then [''colour.v''] else []))
      @ (if c then [''pixels.v''] else [])) @ (if d then [''resized.v''] else []) = work_names f b c d"
    by (simp add: work_names_def)
  ultimately show ?thesis using 3 by metis
qed

lemma quotient_less: "0 < b \<Longrightarrow> a div b < c \<longleftrightarrow> a < c * b" for a b c :: int
proof -
  assume b: "0 < b"
  have "c \<le> a div b" if "c * b \<le> a" using zdiv_mono1 [OF that b] b by simp
  moreover have "c * b \<le> a" if "c \<le> a div b"
  proof -
    have "c * b \<le> a div b * b" using that b by (intro mult_right_mono) auto
    also have "\<dots> \<le> a" using b by (metis add_increasing2 div_mult_mod_eq order_refl pos_mod_sign)
    finally show ?thesis .
  qed
  ultimately show ?thesis by (metis not_less)
qed

lemma validate_content_iff:
  "validate_content i l = None \<longleftrightarrow> ii_format i \<noteq> [] \<and> 0 < ii_width i \<and> 0 < ii_height i \<and> ii_pages i = 1 \<and> \<not> ii_hdr i
    \<and> supported_cicp (ii_cicp i) \<and> validate_color i = None \<and> 0 < li_width l \<and> 0 < li_height l \<and> 0 < li_pixels l
    \<and> ii_width i \<le> li_width l \<and> ii_height i \<le> li_height l \<and> ii_width i * ii_height i \<le> li_pixels l"
proof -
  have q: "quot_int a b < c \<longleftrightarrow> a < c * b" if "0 < b" "0 < a" for a b c
    using that quotient_less by (simp add: quot_int_def)
  then have "c \<le> quot_int a b \<longleftrightarrow> c * b \<le> a" if "0 < b" "0 < a" for a b c using that by (metis not_less)
  with q show ?thesis
    by (auto simp: validate_content_def input_error_def not_less not_le split: option.splits)
qed

lemma validated_image:
  assumes "plan_image U rq = Inr plan" and "validate_image_output (ip_expect plan) out = None"
  shows "ii_mime_type out = io_mime_type (ip_output plan) \<and> ii_pages out = 1 \<and> ii_orientation out = 1 \<and> \<not> ii_hdr out
    \<and> \<not> im_gps (ii_metadata out) \<and> \<not> im_xmp (ii_metadata out) \<and> \<not> im_gain_map (ii_metadata out)
    \<and> (is_jpeg_photo (ir_operation rq) \<longrightarrow> \<not> ii_has_alpha out)
    \<and> (im_exif (ii_metadata out) \<or> im_capture_date (ii_metadata out) \<longrightarrow>
        ir_policy rq = CaptureDatePreserveWhenSafe \<and> im_capture_date (ii_metadata (ir_input rq))
          \<and> \<not> im_gps (ii_metadata (ir_input rq)))"
proof -
  obtain spec name p f where plan: "plan = finish_plan rq spec name (late_stages rq f p)"
    using plan_image_Inr [OF assms(1)] by metis
  have "lp_dated (late_stages rq f p) \<Longrightarrow> ir_policy rq = CaptureDatePreserveWhenSafe
      \<and> im_capture_date (ii_metadata (ir_input rq)) \<and> \<not> im_gps (ii_metadata (ir_input rq))"
    by (auto simp: late_stages_def metadata_keep_def Let_def split: prod.splits if_splits)
  moreover have "ip_expect plan = expect_of rq (io_mime_type (ip_output plan)) (lp_icc (late_stages rq f p))
      (lp_dated (late_stages rq f p)) (lp_width (late_stages rq f p)) (lp_height (late_stages rq f p))"
    by (simp add: plan finish_plan_def Let_def)
  ultimately show ?thesis
    using assms(2) by (auto simp: validate_image_output_def output_error_def expect_of_def Let_def no_image_metadata_def
        split: if_splits)
qed

subsection \<open>Properties\<close>

text \<open>The content check accepts an image exactly when it is complete, has a single page, no HDR
  transfer, a supported color representation, and decoded dimensions inside limits that are
  all positive, the product of width and height included: the division the code uses instead of the product decides the same.\<close>

theorem accepted_content_iff:
  "validate_content i l = None \<longleftrightarrow> ii_format i \<noteq> [] \<and> 0 < ii_width i \<and> 0 < ii_height i \<and> ii_pages i = 1 \<and> \<not> ii_hdr i
    \<and> supported_cicp (ii_cicp i) \<and> validate_color i = None \<and> 0 < li_width l \<and> 0 < li_height l \<and> 0 < li_pixels l
    \<and> ii_width i \<le> li_width l \<and> ii_height i \<le> li_height l \<and> ii_width i * ii_height i \<le> li_pixels l"
  by (rule validate_content_iff)

text \<open>A photograph with an alpha band and an embedded profile, and a request for a JPEG of it.\<close>

definition sample_photo :: image_info where
  "sample_photo = no_image\<lparr>ii_format := ''png'', ii_mime_type := ''image/png'', ii_width := 4000, ii_height := 3000,
     ii_bands := 2, ii_band_format := ''uchar'', ii_interpretation := ''b-w'', ii_has_alpha := True, ii_pages := 1,
     ii_orientation := 6, ii_metadata := no_image_metadata\<lparr>im_icc := True, im_gps := True, im_capture_date := True\<rparr>\<rparr>"

definition sample_request :: image_plan_request where
  "sample_request = \<lparr>ir_input_path = ''/i/a.png'', ir_output_dir = ''/o'', ir_work_dir = ''/w'',
     ir_operation = OperationCompatiblePhoto, ir_input = sample_photo, ir_policy = CaptureDatePreserveWhenSafe, ir_vips = ''vips''\<rparr>"

definition ascii_tables :: unicode_tables where
  "ascii_tables = \<lparr>ucd_letter = (\<lambda>_. False), ucd_digit = (\<lambda>_. False), ucd_lower = (\<lambda>r. r)\<rparr>"

definition sample_plan :: image_plan where
  "sample_plan = projr (plan_image ascii_tables sample_request)"

lemma sample_planned: "plan_image ascii_tables sample_request = Inr sample_plan"
proof -
  have "plan_guard sample_request = None"
    by (simp add: plan_guard_def sample_request_def sample_photo_def no_image_def no_cicp_def validate_color_def
        interpretation_bands_def supported_cicp_def device_space_def no_image_metadata_def)
  moreover have "output_name ascii_tables ''/i/a.png'' OperationCompatiblePhoto = Inr ''a-compatible.jpg''" by code_simp
  then have "\<exists>s. image_target ascii_tables sample_request = Inr (s, ''a-compatible.jpg'')"
    by (simp add: image_target_def sample_request_def lookup_image_spec_def) (simp add: lookup_spec_def registry_def)
  moreover have "\<exists>p f. early_flatten sample_request (first_stage sample_request) = Inr (p, f)"
    by (simp add: early_flatten_def sample_request_def sample_photo_def no_image_def Let_def is_jpeg_photo_def
        pre_normalization_flatten_def needs_color_normalization_def device_space_def no_image_metadata_def)
      (rule exI [of _ True], simp)
  moreover have "image_operation (ir_operation sample_request)"
    by (simp add: sample_request_def image_operation_def is_jpeg_photo_def)
  ultimately show ?thesis unfolding sample_plan_def by (auto simp: plan_image_def)
qed

text \<open>C35: The commands of an image plan form one pipeline: the first one corrects the orientation of
  the input, every other one reads exactly what the one before it wrote, and the last one writes
  the temporary output. They all run the given executable and write different files of the work directory.\<close>

theorem planned_image_pipeline:
  assumes "plan_image U rq = Inr plan"
  shows "map reads (ip_commands plan) = ir_input_path rq # ip_paths plan
    \<and> map writes (ip_commands plan) = ip_paths plan @ [ip_temporary plan]
    \<and> hd (cmd_args (hd (ip_commands plan))) = ''autorot''
    \<and> (\<forall>c\<in>set (ip_commands plan). cmd_path c = ir_vips rq)
    \<and> distinct (map writes (ip_commands plan)) \<and> length (ip_commands plan) \<le> 6
    \<and> (\<exists>ns. list_all plain_name ns \<and> map writes (ip_commands plan) = map (join_path (ir_work_dir rq)) ns)"
proof -
  obtain spec name p f where g: "plan_guard rq = None" and e: "early_flatten rq (first_stage rq) = Inr (p, f)"
    and plan: "plan = finish_plan rq spec name (late_stages rq f p)"
    using plan_image_Inr [OF assms] by metis
  obtain b c d where ch: "chained rq (work_names f b c d) (lp_pipeline (late_stages rq f p))"
    using late_stages_chained [OF early_flatten_chained [OF e]] by blast
  let ?ns = "work_names f b c d @ [output_name_of (ir_operation rq)]"
  have w: "map writes (ip_commands plan) = map (join_path (ir_work_dir rq)) ?ns"
    using ch by (auto simp: plan finish_plan_def Let_def chained_def writes_def vips_command_def plain_command_def save_args_def)
  have "inj_on (join_path (ir_work_dir rq)) (set ?ns)"
    using join_path_inj plan_guard_None(1) [OF g] work_names_plain [of f b c d "ir_operation rq"]
    by (auto simp: inj_on_def list_all_iff simp del: set_append)
  then have "distinct (map writes (ip_commands plan))"
    using w work_names_plain [of f b c d "ir_operation rq"] by (simp only: distinct_map)
  moreover have "length (ip_commands plan) = length ?ns" using w by (metis length_map)
  then have "length (ip_commands plan) \<le> 6" by (simp add: work_names_def)
  moreover have "map reads (ip_commands plan) = ir_input_path rq # ip_paths plan"
    "map writes (ip_commands plan) = ip_paths plan @ [ip_temporary plan]"
    "hd (cmd_args (hd (ip_commands plan))) = ''autorot''" "\<forall>c\<in>set (ip_commands plan). cmd_path c = ir_vips rq"
    using ch by (auto simp: plan finish_plan_def Let_def chained_def reads_def writes_def vips_command_def plain_command_def save_args_def)
  ultimately show ?thesis using w work_names_plain [of f b c d "ir_operation rq"] by blast
qed

theorem planned_image_pipeline_witness:
  "map reads (ip_commands sample_plan) = ''/i/a.png'' # ip_paths sample_plan \<and> distinct (map writes (ip_commands sample_plan))"
  using planned_image_pipeline [OF sample_planned] by (elim conjE) (simp add: sample_request_def)

text \<open>The size of an e-mail photograph: an image within the maximum keeps its size, a larger one gets
  a longest edge of exactly the maximum, no edge of zero, and each edge within one pixel of the exact proportion.\<close>

theorem email_dimensions_fit:
  assumes "0 < w" "0 < h" "w < 2 ^ 53" "h < 2 ^ 53"
    and "fit_longest_edge w h max_email_dimension = (w', h', s)"
  shows "1 \<le> w' \<and> 1 \<le> h' \<and> max w' h' = min (max w h) 1920
    \<and> (if max w h \<le> 1920 then w' = w \<and> h' = h
       else float_less s (float_of_int 1) \<and> \<bar>of_int w' - of_int w * 1920 / of_int (max w h)\<bar> \<le> (1 :: real)
         \<and> \<bar>of_int h' - of_int h * 1920 / of_int (max w h)\<bar> \<le> (1 :: real))"
proof (cases "max w h \<le> 1920")
  case True
  then show ?thesis using assms
    by (auto simp: fit_longest_edge_def max_email_dimension_def max_def min_def Let_def split: if_splits)
next
  case False
  define m where "m = max w h"
  have m: "1920 < m" "m < 2 ^ 53" "w \<le> m" "h \<le> m" "w = m \<or> h = m" using False assms by (auto simp: m_def max_def)
  have l: "(if w < h then h else w) = m" by (simp add: m_def)
  have s: "s = float_divide (float_of_int 1920) (float_of_int m)"
      "w' = max 1 (float_trunc (float_round (float_times (float_of_int w) s)))"
      "h' = max 1 (float_trunc (float_round (float_times (float_of_int h) s)))"
    using assms(5) m(1) unfolding fit_longest_edge_def l Let_def max_email_dimension_def by auto
  obtain x where x: "w' = x" "x \<le> 1920" "\<bar>of_int x - of_int w * of_int 1920 / (of_int m :: real)\<bar> \<le> 1" "w = m \<longrightarrow> x = 1920"
    using scaled_edge [of 1920 m w] m assms s by auto
  obtain y where y: "h' = y" "y \<le> 1920" "\<bar>of_int y - of_int h * of_int 1920 / (of_int m :: real)\<bar> \<le> 1" "h = m \<longrightarrow> y = 1920"
    using scaled_edge [of 1920 m h] m assms s by auto
  obtain a where a: "has_value s a" "a < 1" using reduction_scale [of 1920 m] m s(1) by auto
  have "float_less s (float_of_int 1)" using float_less_value [OF a(1) exact_float [of 1]] a(2) by simp
  moreover have "1 \<le> w'" "1 \<le> h'" using s by auto
  moreover have "max w' h' = 1920" using x y m(5) by auto
  ultimately show ?thesis using x y m False by (simp add: m_def [symmetric])
qed

theorem email_dimensions_fit_witness:
  "let (w, h, s) = fit_longest_edge 4032 3024 max_email_dimension in max w h = 1920 \<and> 1 \<le> h"
proof -
  obtain w h s where f: "fit_longest_edge 4032 3024 max_email_dimension = (w, h, s)" by (metis surj_pair)
  from email_dimensions_fit [OF _ _ _ _ f] show ?thesis by (simp add: f)
qed

text \<open>C15: An output image that passes validation against its plan has the format of the operation, one page,
  its orientation normalized, no location, no XMP and no gain map; it has EXIF
  or a capture date only under the policy that keeps the date, of an input that has one and has no location.\<close>

theorem validated_image_is_private:
  assumes "plan_image U rq = Inr plan" and "validate_image_output (ip_expect plan) out = None"
  shows "ii_mime_type out = io_mime_type (ip_output plan) \<and> ii_pages out = 1 \<and> ii_orientation out = 1 \<and> \<not> ii_hdr out
    \<and> \<not> im_gps (ii_metadata out) \<and> \<not> im_xmp (ii_metadata out) \<and> \<not> im_gain_map (ii_metadata out)
    \<and> (is_jpeg_photo (ir_operation rq) \<longrightarrow> \<not> ii_has_alpha out)
    \<and> (im_exif (ii_metadata out) \<or> im_capture_date (ii_metadata out) \<longrightarrow>
        ir_policy rq = CaptureDatePreserveWhenSafe \<and> im_capture_date (ii_metadata (ir_input rq))
          \<and> \<not> im_gps (ii_metadata (ir_input rq)))"
  by (rule validated_image [OF assms])

lemma sample_expect:
  "ip_expect sample_plan = \<lparr>ex_format = ''jpeg'', ex_mime_type = ''image/jpeg'', ex_width = 3000, ex_height = 4000,
     ex_orientation = 1, ex_has_alpha = False, ex_metadata = no_image_metadata\<lparr>im_icc := True\<rparr>, ex_band_format = []\<rparr>"
proof -
  obtain spec name p f where i: "plan_guard sample_request = None" "image_target ascii_tables sample_request = Inr (spec, name)"
    "early_flatten sample_request (first_stage sample_request) = Inr (p, f)"
    "sample_plan = finish_plan sample_request spec name (late_stages sample_request f p)"
    using plan_image_Inr [OF sample_planned] by metis
  have "output_name ascii_tables ''/i/a.png'' OperationCompatiblePhoto = Inr ''a-compatible.jpg''" by code_simp
  then have "os_mime_type (sp_output spec) = ''image/jpeg''"
    using i(2) by (simp add: image_target_def sample_request_def lookup_image_spec_def split: if_splits option.splits)
       (auto simp: lookup_spec_def registry_def)
  moreover obtain r where "normalize_color sample_request p = (r, True)"
    by (simp add: normalize_color_def Let_def sample_request_def sample_photo_def no_image_def no_image_metadata_def)
  ultimately show ?thesis
    by (simp add: i(4) finish_plan_def late_stages_def Let_def expect_of_def split: prod.split)
       (auto simp: sample_request_def is_jpeg_photo_def metadata_keep_def email_resize_def oriented_dimensions_def
          sample_photo_def no_image_def no_image_metadata_def Let_def)
qed

theorem validated_image_is_private_witness:
  "\<exists>out. ii_format out = ''jpeg'' \<and> validate_image_output (ip_expect sample_plan) out = None \<and> \<not> im_exif (ii_metadata out)"
proof -
  let ?out = "no_image\<lparr>ii_format := ''jpeg'', ii_mime_type := ''image/jpeg'', ii_width := 3000, ii_height := 4000, ii_pages := 1,
    ii_orientation := 1, ii_metadata := no_image_metadata\<lparr>im_icc := True\<rparr>\<rparr>"
  have v: "validate_image_output (ip_expect sample_plan) ?out = None"
    by (simp add: sample_expect validate_image_output_def no_image_def no_image_metadata_def no_cicp_def supported_cicp_def)
  have "\<not> im_exif (ii_metadata ?out)"
    using validated_image_is_private [OF sample_planned v] by (simp add: sample_request_def sample_photo_def)
  then show ?thesis using v by (intro exI [of _ ?out]) simp
qed

end
