(* ===== verification/Media_Probe.thy ===== *)
theory Media_Probe
  imports Go_Numbers Runner Profiles
begin

text \<open>
  What is known of an audio or video file, \<open>internal/media/probe.go\<close>, which of its streams
  are converted, \<open>selection.go\<close>, and the acceleration policy, \<open>acceleration.go\<close>.
  The JSON decoder of the standard library and the ffprobe process are arguments.
\<close>

subsection \<open>Probe data\<close>

text \<open>
  A Go map is the list of its entries in the order of one iteration over it, with distinct
  keys; \<open>None\<close> is the nil map.
\<close>

type_synonym tags = "(string \<times> string) list option"

record disposition =
  di_default :: int
  di_attached_pic :: int

record side_data =
  sd_type :: string
  sd_rotation :: int

record stream =
  ps_index :: int
  ps_codec :: string
  ps_type :: string
  ps_width :: int
  ps_height :: int
  ps_pixel_format :: string
  ps_sample_format :: string
  ps_bits :: string
  ps_sample_rate :: string
  ps_channels :: int
  ps_layout :: string
  ps_range :: string
  ps_space :: string
  ps_transfer :: string
  ps_primaries :: string
  ps_duration :: string
  ps_disposition :: disposition
  ps_tags :: tags
  ps_side_data :: "side_data list"

record media_format =
  pf_name :: string
  pf_duration :: string
  pf_size :: string
  pf_tags :: tags

record probe =
  pr_streams :: "stream list"
  pr_format :: media_format

definition tag_list :: "tags \<Rightarrow> (string \<times> string) list" where
  "tag_list t = (case t of None \<Rightarrow> [] | Some xs \<Rightarrow> xs)"

subsection \<open>Paths\<close>

definition path_marks :: "char list" where
  "path_marks = '':/'' @ [CHR 0x5C]"

definition validate_local_path :: "string \<Rightarrow> err option" where
  "validate_local_path path =
    (if (case dropWhile (\<lambda>c. c \<notin> set path_marks) path of [] \<Rightarrow> False | c # _ \<Rightarrow> c = CHR '':'')
     then Some (NewError ''media: path must identify a local file'')
     else if CHR 0x00 \<in> set path then Some (NewError ''media: path contains a null byte'')
     else None)"

subsection \<open>Running ffprobe\<close>

text \<open>
  \<open>DecodeProbe\<close>: the first value the decoder gives and what the second call returns
  (\<open>None\<close> when it decodes another value).
\<close>

definition decode_probe :: "(probe result \<times> err option) option \<Rightarrow> probe result" where
  "decode_probe reader =
    (case reader of
       None \<Rightarrow> Inl (NewError ''media: probe reader must not be nil'')
     | Some (Inl e, _) \<Rightarrow> Inl (Wrapped ''media: decode ffprobe JSON'' e)
     | Some (Inr p, None) \<Rightarrow> Inl (NewError ''media: ffprobe JSON contains multiple values'')
     | Some (Inr p, Some e) \<Rightarrow>
         if e = Sentinel IoEOF then Inr p else Inl (Wrapped ''media: decode trailing ffprobe JSON'' e))"

text \<open>
  \<open>ProbeFile\<close>; \<open>json\<close> is the JSON decoder on a text. The context and the run
  function are not nil.
\<close>

definition probe_command :: "string \<Rightarrow> string \<Rightarrow> int \<Rightarrow> command" where
  "probe_command executable path timeout =
    plain_command executable
      [''-v'', ''error'', ''-show_format'', ''-show_streams'', ''-print_format'', ''json'',
       ''-protocol_whitelist'', ''file,pipe'', ''-i'', path]
      timeout"

definition probe_file ::
  "'w run_fun \<Rightarrow> (string \<Rightarrow> probe result \<times> err option) \<Rightarrow> string \<Rightarrow> string \<Rightarrow> int \<Rightarrow> 'w
    \<Rightarrow> (probe result \<times> run_result) \<times> 'w" where
  "probe_file run json executable path timeout w =
    (if executable = [] then ((Inl (NewError ''media: ffprobe path must not be empty''), no_result), w)
     else if path = [] then ((Inl (NewError ''media: input path must not be empty''), no_result), w)
     else case validate_local_path path of
       Some e \<Rightarrow> ((Inl e, no_result), w)
     | None \<Rightarrow>
         (case run (probe_command executable path timeout) w of
            ((r, Some e), w) \<Rightarrow> ((Inl (Wrapped ''media: ffprobe failed'' e), r), w)
          | ((r, None), w) \<Rightarrow>
              if cap_truncated (rr_stdout r)
              then ((Inl (NewError ''media: ffprobe JSON exceeded the runner output limit''), r), w)
              else ((decode_probe (Some (json (cap_bytes (rr_stdout r)))), r), w)))"

subsection \<open>Rotation and durations\<close>

definition normalize_rotation :: "int \<Rightarrow> int" where
  "normalize_rotation rotation =
    (let r = rem_int rotation 360 in if r < 0 then r + 360 else r)"

definition rotation :: "stream \<Rightarrow> int" where
  "rotation s =
    (case find (\<lambda>d. equal_fold (sd_type d) ''Display Matrix'') (ps_side_data s) of
       Some d \<Rightarrow> normalize_rotation (sd_rotation d)
     | None \<Rightarrow>
         (case map_of (tag_list (ps_tags s)) ''rotate'' of
            None \<Rightarrow> 0
          | Some v \<Rightarrow> (case atoi (trim_space v) of (r, ok) \<Rightarrow> if ok then normalize_rotation r else 0)))"

definition parse_seconds :: "string \<Rightarrow> int option" where
  "parse_seconds v =
    (case parse_float (trim_space v) of (seconds, ok) \<Rightarrow>
       let nanos = float_times seconds (float_of_int 1000000000)
       in if \<not> ok \<or> float_less seconds (Finite False 0 0) \<or> seconds = NaN \<or> seconds = Infinite False
            \<or> seconds = Infinite True \<or> \<not> float_less nanos (float_of_int max_int64)
          then None else Some (float_trunc nanos))"

text \<open>
  The clock-formatted duration tag of Matroska streams; the first matching key of the
  iteration counts.
\<close>

definition tag_duration :: "string \<Rightarrow> int option" where
  "tag_duration v =
    (case split_on (CHR '':'') (trim_space v) of
       [h, m, s] \<Rightarrow>
         (case parse_duration (h @ ''h'' @ m @ ''m'' @ s @ ''s'') of
            None \<Rightarrow> None
          | Some d \<Rightarrow> if d < 0 then None else Some d)
     | _ \<Rightarrow> None)"

definition stream_duration :: "stream \<Rightarrow> int option" where
  "stream_duration s =
    (case parse_seconds (ps_duration s) of
       Some d \<Rightarrow> Some d
     | None \<Rightarrow>
         (case find (\<lambda>(key, _). equal_fold key ''duration'') (tag_list (ps_tags s)) of
            None \<Rightarrow> None
          | Some (_, v) \<Rightarrow> tag_duration v))"

definition format_duration :: "media_format \<Rightarrow> int option" where
  "format_duration f = parse_seconds (pf_duration f)"

subsection \<open>Selecting streams\<close>

datatype warning_code = WarningUnsupportedAudioCodec | WarningAdditionalAudioStream

record media_warning =
  mw_code :: warning_code
  mw_index :: int
  mw_codec :: string
  mw_message :: string

record selection =
  sel_video :: "stream option"
  sel_audio :: "stream option"
  sel_warnings :: "media_warning list"

definition supported_audio_codecs :: "string list" where
  "supported_audio_codecs = [''aac'', ''mp3'', ''ac3'', ''eac3'', ''alac'', ''flac'', ''opus'', ''vorbis'',
     ''wmav1'', ''wmav2'', ''wmapro'', ''wmalossless'']"

definition supported_audio_codec :: "string \<Rightarrow> bool" where
  "supported_audio_codec codec =
    (let codec = to_lower (trim_space codec)
     in if has_prefix codec ''pcm_'' \<and> length ''pcm_'' < length codec then True
        else codec \<in> set supported_audio_codecs)"

definition usable_video :: "stream \<Rightarrow> bool" where
  "usable_video s \<longleftrightarrow> di_attached_pic (ps_disposition s) = 0 \<and> 0 < ps_width s \<and> 0 < ps_height s
     \<and> ps_codec s \<noteq> [] \<and> ps_codec s \<noteq> ''unknown''"

definition dropped_audio :: "stream \<Rightarrow> media_warning" where
  "dropped_audio s =
    (if supported_audio_codec (ps_codec s)
     then \<lparr>mw_code = WarningAdditionalAudioStream, mw_index = ps_index s, mw_codec = ps_codec s,
           mw_message = ''audio stream dropped because another usable audio stream was selected first''\<rparr>
     else \<lparr>mw_code = WarningUnsupportedAudioCodec, mw_index = ps_index s, mw_codec = ps_codec s,
           mw_message = ''audio stream dropped because its codec is not supported''\<rparr>)"

definition select_step :: "stream \<Rightarrow> selection \<Rightarrow> selection" where
  "select_step s sel =
    (if ps_type s = ''video'' then
       (if sel_video sel = None \<and> usable_video s then sel\<lparr>sel_video := Some s\<rparr> else sel)
     else if ps_type s = ''audio'' then
       (if supported_audio_codec (ps_codec s) \<and> sel_audio sel = None then sel\<lparr>sel_audio := Some s\<rparr>
        else sel\<lparr>sel_warnings := sel_warnings sel @ [dropped_audio s]\<rparr>)
     else sel)"

definition empty_selection :: selection where
  "empty_selection = \<lparr>sel_video = None, sel_audio = None, sel_warnings = []\<rparr>"

definition select_streams :: "probe \<Rightarrow> selection" where
  "select_streams p = fold select_step (pr_streams p) empty_selection"

subsection \<open>Acceleration policy\<close>

datatype execution_path = NoPath | PathCPU | PathVAAPISoftwareDecode | PathVAAPIHardwareDecode

datatype fallback_reason =
    FallbackNone
  | FallbackVAAPIProbeUnavailable
  | FallbackVAAPIDevice
  | FallbackVAAPIInitialization
  | FallbackVAAPIUpload
  | FallbackVAAPIEncoder
  | FallbackVAAPIProbeValidation

fun execution_path_text :: "execution_path \<Rightarrow> string" where
  "execution_path_text NoPath = []"
| "execution_path_text PathCPU = ''cpu''"
| "execution_path_text PathVAAPISoftwareDecode = ''vaapi_software_decode''"
| "execution_path_text PathVAAPIHardwareDecode = ''vaapi_hardware_decode''"

fun fallback_reason_text :: "fallback_reason \<Rightarrow> string" where
  "fallback_reason_text FallbackNone = []"
| "fallback_reason_text FallbackVAAPIProbeUnavailable = ''vaapi_probe_unavailable''"
| "fallback_reason_text FallbackVAAPIDevice = ''vaapi_device''"
| "fallback_reason_text FallbackVAAPIInitialization = ''vaapi_initialization''"
| "fallback_reason_text FallbackVAAPIUpload = ''vaapi_upload''"
| "fallback_reason_text FallbackVAAPIEncoder = ''vaapi_encoder''"
| "fallback_reason_text FallbackVAAPIProbeValidation = ''vaapi_probe_validation''"

text \<open>The mode is an unchecked text until it is normalized.\<close>

record acceleration_config =
  ac_mode :: string
  ac_device :: string

definition default_vaapi_device :: string where
  "default_vaapi_device = ''/dev/dri/renderD128''"

record vaapi_readiness =
  vr_device :: string
  vr_ready :: bool
  vr_codecs :: "string list"
  vr_reason :: fallback_reason
  vr_complete :: bool

definition supports_hardware_decode :: "vaapi_readiness \<Rightarrow> string \<Rightarrow> bool" where
  "supports_hardware_decode r codec \<longleftrightarrow> to_lower (trim_space codec) \<in> set (vr_codecs r)"

definition normalize_acceleration :: "acceleration_config \<Rightarrow> acceleration_config result" where
  "normalize_acceleration c =
    (let mode = (if ac_mode c = [] then ''auto'' else ac_mode c);
         device = (if ac_device c = [] then default_vaapi_device else ac_device c)
     in if mode \<noteq> trim_space mode
          then Inl (NewError ''media: acceleration mode must not contain surrounding whitespace'')
        else if mode \<noteq> ''auto'' \<and> mode \<noteq> ''cpu'' \<and> mode \<noteq> ''vaapi''
          then Inl (NewError ''media: acceleration mode must be auto, cpu, or vaapi'')
        else if device \<noteq> trim_space device
          then Inl (NewError ''media: VA-API device must not contain surrounding whitespace'')
        else if CHR 0x00 \<in> set device then Inl (NewError ''media: VA-API device contains a null byte'')
        else if \<not> is_abs device then Inl (NewError ''media: VA-API device must be an absolute path'')
        else if clean_path device \<noteq> device
          then Inl (NewError ''media: VA-API device must be a clean path'')
        else if validate_local_path device \<noteq> None
          then Inl (NewError ''media: VA-API device must identify a local path'')
        else Inr \<lparr>ac_mode = mode, ac_device = device\<rparr>)"

definition load_acceleration :: "(string \<rightharpoonup> string) option \<Rightarrow> acceleration_config result" where
  "load_acceleration lookup =
    (case lookup of
       None \<Rightarrow> Inl (NewError ''media: environment lookup must not be nil'')
     | Some env \<Rightarrow>
         if env ''ACCELERATION'' = Some [] then Inl (NewError ''media: ACCELERATION must not be empty'')
         else if env ''VAAPI_DEVICE'' = Some [] then Inl (NewError ''media: VAAPI_DEVICE must not be empty'')
         else normalize_acceleration
           \<lparr>ac_mode = (case env ''ACCELERATION'' of None \<Rightarrow> ''auto'' | Some v \<Rightarrow> v),
            ac_device = (case env ''VAAPI_DEVICE'' of None \<Rightarrow> default_vaapi_device | Some v \<Rightarrow> v)\<rparr>)"

subsection \<open>Lemmas\<close>

lemma normalize_rotation_mod: "normalize_rotation r = r mod 360"
proof (cases "0 \<le> r")
  case True
  then show ?thesis by (simp add: normalize_rotation_def rem_int_def quot_int_def Let_def minus_mult_div_eq_mod)
next
  case False
  then have q: "rem_int r 360 = - ((- r) mod 360)"
    by (simp add: rem_int_def quot_int_def minus_mult_div_eq_mod [symmetric])
  have m: "r mod 360 = (if (- r) mod 360 = 0 then 0 else 360 - (- r) mod 360)"
    using zmod_zminus1_eq_if [of "- r" 360] by simp
  have "0 \<le> (- r) mod 360" "(- r) mod 360 < 360" by simp_all
  then show ?thesis using q m by (auto simp: normalize_rotation_def Let_def)
qed

lemma rotation_range: "0 \<le> rotation s \<and> rotation s < 360"
  by (auto simp: rotation_def normalize_rotation_mod split: option.splits prod.splits)

text \<open>The selection as a specification: first video, first audio, and the other audio streams.\<close>

fun drop_first :: "('a \<Rightarrow> bool) \<Rightarrow> 'a list \<Rightarrow> 'a list" where
  "drop_first P [] = []"
| "drop_first P (x # xs) = (if P x then xs else x # drop_first P xs)"

definition videos :: "stream list \<Rightarrow> stream list" where
  "videos ss = filter (\<lambda>s. ps_type s = ''video'') ss"

definition audios :: "stream list \<Rightarrow> stream list" where
  "audios ss = filter (\<lambda>s. ps_type s = ''audio'') ss"

abbreviation supported_audio :: "stream \<Rightarrow> bool" where
  "supported_audio s \<equiv> supported_audio_codec (ps_codec s)"

lemma fold_select:
  "fold select_step ss sel =
    \<lparr>sel_video = (case sel_video sel of Some v \<Rightarrow> Some v | None \<Rightarrow> find usable_video (videos ss)),
     sel_audio = (case sel_audio sel of Some a \<Rightarrow> Some a | None \<Rightarrow> find supported_audio (audios ss)),
     sel_warnings = sel_warnings sel @ map dropped_audio
       (if sel_audio sel = None then drop_first supported_audio (audios ss) else audios ss)\<rparr>"
proof (induction ss arbitrary: sel)
  case (Cons s ss)
  show ?case
    unfolding fold_simps(2) Cons.IH
    by (cases "sel_video sel"; cases "sel_audio sel")
       (auto simp: select_step_def videos_def audios_def)
qed (auto simp: videos_def audios_def split: option.splits)

lemma find_mem: "find P xs = Some x \<Longrightarrow> x \<in> set xs \<and> P x"
  by (induction xs) (auto split: if_splits)

lemma selected_video: "sel_video (select_streams p) = Some v \<Longrightarrow> v \<in> set (pr_streams p) \<and> ps_type v = ''video'' \<and> usable_video v"
  by (auto simp: select_streams_def fold_select empty_selection_def videos_def dest!: find_mem)

lemma selected_audio:
  "sel_audio (select_streams p) = Some a \<Longrightarrow> a \<in> set (pr_streams p) \<and> ps_type a = ''audio'' \<and> supported_audio a"
  by (auto simp: select_streams_def fold_select empty_selection_def audios_def dest!: find_mem)

text \<open>Parsed seconds are durations in range.\<close>

lemma float_less_max_range:
  assumes "float_less x (float_of_int max_int64)" and "x = Finite s m e" and "\<not> s"
  shows "0 \<le> float_trunc x \<and> float_trunc x \<le> max_int64"
proof -
  have f: "float_of_int max_int64 = Finite False (2 ^ 53) 10"
    by (simp add: float_of_int_def max_int64_def round_ratio_def result_exponent_def Let_def bit_len.simps
        scale_num_def scale_den_def div_nearest_def)
  let ?n = "scale_num m (- e)" and ?d = "scale_den 1 (- e)"
  have "int ?n < int (2 ^ 53 * 2 ^ 10 * ?d)"
    using assms f by (simp add: signed_int_def scale_num_def scale_den_def)
  then have "?n < 2 ^ 63 * ?d" by (simp only: of_nat_less_iff) (simp add: ac_simps)
  then have "?n div ?d < 2 ^ 63" by (simp add: less_mult_imp_div_less)
  then have "int (?n div ?d) < int (2 ^ 63)" by (simp only: of_nat_less_iff)
  then show ?thesis using assms by (simp add: signed_int_def max_int64_def)
qed

lemma float_times_finite_cases:
  "\<exists>m' e'. float_times (Finite s m e) (Finite False n f) = Finite s m' e'
    \<or> float_times (Finite s m e) (Finite False n f) = Infinite s"
  by (auto simp: round_scaled_def round_ratio_def Let_def)

lemma parse_seconds_range: "parse_seconds v = Some d \<Longrightarrow> 0 \<le> d \<and> d \<le> max_int64"
proof -
  assume a: "parse_seconds v = Some d"
  let ?x = "fst (parse_float (trim_space v))"
  let ?y = "float_times ?x (float_of_int 1000000000)"
  have c: "\<not> float_less ?x (Finite False 0 0)" "?x \<noteq> NaN" "?x \<noteq> Infinite False" "?x \<noteq> Infinite True"
    "float_less ?y (float_of_int max_int64)" "d = float_trunc ?y"
    using a by (auto simp: parse_seconds_def Let_def split: prod.splits if_splits)
  then obtain s m e where x: "?x = Finite s m e" by (cases ?x) auto
  obtain n f where g: "float_of_int 1000000000 = Finite False n f"
    by (simp add: float_of_int_def round_ratio_def result_exponent_def Let_def bit_len.simps
        scale_num_def scale_den_def div_nearest_def)
  show ?thesis
  proof (cases "s \<and> m \<noteq> 0")
    case True
    then have "float_less ?x (Finite False 0 0)"
      by (simp add: x signed_int_def scale_num_def scale_den_def)
    then show ?thesis using c(1) by simp
  next
    case False
    show ?thesis
    proof (cases "m = 0")
      case True
      then have "?y = Finite s 0 0" by (simp add: x g round_scaled_def round_ratio_def scale_num_def)
      then show ?thesis by (simp add: c(6) signed_int_def scale_num_def max_int64_def)
    next
      case m: False
      then have "\<not> s" using False by simp
      obtain m' e' where "?y = Finite False m' e' \<or> ?y = Infinite False"
        using float_times_finite_cases [of s m e n f] \<open>\<not> s\<close> unfolding x g by auto
      moreover have "?y \<noteq> Infinite False"
      proof
        assume y: "?y = Infinite False"
        obtain k j where "float_of_int max_int64 = Finite False k j"
          by (simp add: float_of_int_def max_int64_def round_ratio_def result_exponent_def Let_def bit_len.simps
              scale_num_def scale_den_def div_nearest_def)
        then show False using c(5) y by simp
      qed
      ultimately show ?thesis using float_less_max_range [OF c(5)] c(6) by auto
    qed
  qed
qed

lemma parse_duration_range: "parse_duration s = Some d \<Longrightarrow> - (2 ^ 63) \<le> d \<and> d \<le> max_int64"
  using duration_parts_bound [of "drop_sign s" 0]
  by (auto simp: parse_duration_def Let_def max_int64_def split: if_splits option.splits)

lemma stream_duration_range: "stream_duration s = Some d \<Longrightarrow> 0 \<le> d \<and> d \<le> max_int64"
  using parse_seconds_range [of "ps_duration s"] parse_duration_range
  by (auto simp: stream_duration_def tag_duration_def split: option.splits list.splits if_splits)

lemma normalize_acceleration_Inr:
  "normalize_acceleration c = Inr d \<longleftrightarrow>
    d = \<lparr>ac_mode = (if ac_mode c = [] then ''auto'' else ac_mode c),
         ac_device = (if ac_device c = [] then default_vaapi_device else ac_device c)\<rparr>
    \<and> ac_mode d \<in> {''auto'', ''cpu'', ''vaapi''} \<and> ac_mode d = trim_space (ac_mode d)
    \<and> ac_device d = trim_space (ac_device d) \<and> CHR 0x00 \<notin> set (ac_device d) \<and> is_abs (ac_device d)
    \<and> clean_path (ac_device d) = ac_device d \<and> validate_local_path (ac_device d) = None"
  by (cases d) (auto simp: normalize_acceleration_def Let_def)

lemma normalized_mode: "normalize_acceleration c = Inr d \<Longrightarrow> ac_mode d \<noteq> [] \<and> ac_device d \<noteq> []"
  by (auto simp: normalize_acceleration_Inr is_abs_def default_vaapi_device_def has_prefix_def)

subsection \<open>Properties\<close>

text \<open>C28: Stream selection is equal to its specification: the video is the first usable video stream, the
  audio the first stream with an allowed codec, and exactly the other audio streams are reported, in
  order; subtitle, data and unknown streams are never looked at.\<close>

theorem select_streams_spec:
  "select_streams p =
    \<lparr>sel_video = find usable_video (videos (pr_streams p)),
     sel_audio = find supported_audio (audios (pr_streams p)),
     sel_warnings = map dropped_audio (drop_first supported_audio (audios (pr_streams p)))\<rparr>"
  by (simp add: select_streams_def fold_select empty_selection_def)

text \<open>Whatever text ffprobe reports as a duration, the parsed duration is a non-negative int64, so no
  conversion in the duration arithmetic overflows; a rotation is always normalized to 0 to 359
  degrees.\<close>

theorem parsed_durations_in_range:
  "(\<forall>d. stream_duration s = Some d \<longrightarrow> 0 \<le> d \<and> d \<le> max_int64)
    \<and> (\<forall>d. format_duration f = Some d \<longrightarrow> 0 \<le> d \<and> d \<le> max_int64)
    \<and> 0 \<le> rotation s \<and> rotation s < 360"
  using stream_duration_range parse_seconds_range rotation_range by (auto simp: format_duration_def)

text \<open>The duration \<open>12.345\<close> seconds, to the nanosecond.\<close>

definition plain_stream :: stream where
  "plain_stream = \<lparr>ps_index = 0, ps_codec = ''h264'', ps_type = ''video'', ps_width = 1920, ps_height = 1080,
     ps_pixel_format = ''yuv420p'', ps_sample_format = [], ps_bits = [], ps_sample_rate = [], ps_channels = 0,
     ps_layout = [], ps_range = [], ps_space = [], ps_transfer = [], ps_primaries = [], ps_duration = ''12.345'',
     ps_disposition = \<lparr>di_default = 0, di_attached_pic = 0\<rparr>, ps_tags = None, ps_side_data = []\<rparr>"

lemma trim_space_plain: "trim_space ''12.345'' = ''12.345''" by code_simp

lemma parse_float_plain: "parse_float ''12.345'' = (Finite False 6949617174986097 (- 49), True)"
  by (simp add: parse_float_def special_float_def Let_def read_float_def has_prefix_def drop_sign_def
      lower_byte_def upper_rune_def float_digit_def digit_rune_def round_ratio_def result_exponent_def
      scale_num_def scale_den_def div_nearest_def bit_len.simps)

lemma parse_seconds_plain: "parse_seconds ''12.345'' = Some 12345000000"
proof -
  have g: "float_of_int 1000000000 = Finite False 8388608000000000 (- 23)"
    by (simp add: float_of_int_def round_ratio_def result_exponent_def Let_def bit_len.simps
        scale_num_def scale_den_def div_nearest_def)
  have x: "float_of_int max_int64 = Finite False (2 ^ 53) 10"
    by (simp add: float_of_int_def max_int64_def round_ratio_def result_exponent_def Let_def bit_len.simps
        scale_num_def scale_den_def div_nearest_def)
  have t: "float_times (Finite False 6949617174986097 (- 49)) (Finite False 8388608000000000 (- 23))
      = Finite False 6472335360000000 (- 19)"
    by (simp add: round_scaled_def round_ratio_def result_exponent_def Let_def bit_len.simps
        scale_num_def scale_den_def div_nearest_def)
  show ?thesis
    by (simp add: parse_seconds_def trim_space_plain parse_float_plain g x t Let_def signed_int_def scale_num_def scale_den_def
        del: float_times.simps)
qed

theorem parsed_durations_in_range_witness:
  "stream_duration plain_stream = Some 12345000000 \<and> 12345000000 \<le> max_int64"
proof -
  have "stream_duration plain_stream = Some 12345000000"
    by (simp add: stream_duration_def plain_stream_def parse_seconds_plain)
  with parsed_durations_in_range [of plain_stream] show ?thesis by blast
qed

text \<open>An accepted acceleration policy has one of the three modes and an absolute, clean, local device
  path without surrounding space, and accepting it again changes nothing.\<close>

theorem accepted_acceleration_is_normal:
  assumes "normalize_acceleration c = Inr d"
  shows "ac_mode d \<in> {''auto'', ''cpu'', ''vaapi''} \<and> is_abs (ac_device d)
    \<and> clean_path (ac_device d) = ac_device d \<and> trim_space (ac_device d) = ac_device d
    \<and> validate_local_path (ac_device d) = None \<and> normalize_acceleration d = Inr d"
  using assms normalized_mode [OF assms] unfolding normalize_acceleration_Inr by (cases d) auto

theorem accepted_acceleration_is_normal_witness:
  "normalize_acceleration \<lparr>ac_mode = [], ac_device = []\<rparr> = Inr \<lparr>ac_mode = ''auto'', ac_device = ''/dev/dri/renderD128''\<rparr>
    \<and> clean_path ''/dev/dri/renderD128'' = ''/dev/dri/renderD128''"
proof -
  have "normalize_acceleration \<lparr>ac_mode = [], ac_device = []\<rparr> = Inr \<lparr>ac_mode = ''auto'', ac_device = ''/dev/dri/renderD128''\<rparr>"
    by code_simp
  from this accepted_acceleration_is_normal [OF this] show ?thesis by simp
qed

end
