(* ===== verification/Media_Plan.thy ===== *)
theory Media_Plan
  imports Media_Probe
begin

text \<open>
  Building an FFmpeg command line and the contract its output is validated against,
  \<open>internal/media/plan.go\<close>. Every argument list is written out as in the code.
\<close>

subsection \<open>Data\<close>

datatype audio_presence = NoPresence | AudioRequired | AudioForbidden

fun audio_presence_text :: "audio_presence \<Rightarrow> string" where
  "audio_presence_text NoPresence = []"
| "audio_presence_text AudioRequired = ''required''"
| "audio_presence_text AudioForbidden = ''forbidden''"

record plan_request =
  pq_operation :: operation
  pq_input_path :: string
  pq_output_path :: string
  pq_input :: probe
  pq_timeout :: int
  pq_tolerance :: int
  pq_acceleration :: acceleration_config
  pq_vaapi :: "vaapi_readiness option"

record expected_profile =
  xp_container :: string
  xp_video_codec :: string
  xp_audio_codec :: string
  xp_pixel_format :: string
  xp_range :: string
  xp_space :: string
  xp_transfer :: string
  xp_primaries :: string
  xp_width :: int
  xp_height :: int
  xp_rotation :: int
  xp_audio :: audio_presence
  xp_channels :: int
  xp_layout :: string
  xp_sample_rate :: int
  xp_duration :: int
  xp_known :: bool
  xp_tolerance :: int
  xp_fast_start :: bool

definition no_profile :: expected_profile where
  "no_profile = \<lparr>xp_container = [], xp_video_codec = [], xp_audio_codec = [], xp_pixel_format = [],
     xp_range = [], xp_space = [], xp_transfer = [], xp_primaries = [], xp_width = 0, xp_height = 0,
     xp_rotation = 0, xp_audio = NoPresence, xp_channels = 0, xp_layout = [], xp_sample_rate = 0,
     xp_duration = 0, xp_known = False, xp_tolerance = 0, xp_fast_start = False\<rparr>"

record plan =
  pl_operation :: operation
  pl_input :: string
  pl_output :: string
  pl_args :: "string list"
  pl_timeout :: int
  pl_warnings :: "media_warning list"
  pl_filters :: "string list"
  pl_expected :: expected_profile
  pl_requested :: string
  pl_path :: execution_path
  pl_fallback :: fallback_reason
  pl_cpu_args :: "string list"

definition plan_command :: "plan \<Rightarrow> string \<Rightarrow> command" where
  "plan_command p executable =
    plain_command executable (pl_args p) (pl_timeout p)"

subsection \<open>Frame sizes\<close>

definition displayed_dimensions :: "stream \<Rightarrow> int \<times> int" where
  "displayed_dimensions v =
    (if rotation v = 90 \<or> rotation v = 270 then (ps_height v, ps_width v) else (ps_width v, ps_height v))"

definition even_floor :: "int \<Rightarrow> int" where
  "even_floor v = (if v \<le> 2 then 2 else v - rem_int v 2)"

definition nearest_even :: "float64 \<Rightarrow> int" where
  "nearest_even v = max 2 (float_trunc (float_round (float_divide v (float_of_int 2))) * 2)"

definition fit_dimensions :: "int \<Rightarrow> int \<Rightarrow> int \<Rightarrow> int \<Rightarrow> int \<times> int" where
  "fit_dimensions width height max_width max_height =
    (let scale = float_min (float_of_int 1)
           (float_min (float_divide (float_of_int max_width) (float_of_int width))
                      (float_divide (float_of_int max_height) (float_of_int height)))
     in (nearest_even (float_times (float_of_int width) scale),
         nearest_even (float_times (float_of_int height) scale)))"

subsection \<open>Colors and durations\<close>

definition is_hdr :: "stream \<Rightarrow> bool" where
  "is_hdr s \<longleftrightarrow> ps_transfer s = ''smpte2084'' \<or> ps_transfer s = ''arib-std-b67'' \<or> ps_primaries s = ''bt2020''"

definition supports_hdr_tone_mapping :: "stream \<Rightarrow> bool" where
  "supports_hdr_tone_mapping s \<longleftrightarrow>
    (if ps_transfer s = ''smpte2084'' \<or> ps_transfer s = ''arib-std-b67''
     then ps_primaries s = ''bt2020'' \<and> ps_space s = ''bt2020nc'' else False)"

definition video_duration :: "probe \<Rightarrow> selection \<Rightarrow> int option" where
  "video_duration p sel =
    (let video = (case sel_video sel of None \<Rightarrow> None | Some v \<Rightarrow> stream_duration v);
         audio = (case sel_audio sel of None \<Rightarrow> None | Some a \<Rightarrow> stream_duration a);
         longest = (case audio of
             Some a \<Rightarrow> (case video of None \<Rightarrow> Some a | Some v \<Rightarrow> if v < a then Some a else Some v)
           | None \<Rightarrow> video)
     in if longest \<noteq> None then longest else format_duration (pr_format p))"

definition audio_duration :: "probe \<Rightarrow> selection \<Rightarrow> int option" where
  "audio_duration p sel =
    (case (case sel_audio sel of None \<Rightarrow> None | Some a \<Rightarrow> stream_duration a) of
       Some d \<Rightarrow> Some d
     | None \<Rightarrow> format_duration (pr_format p))"

definition lossy_flac_source :: "stream \<Rightarrow> bool" where
  "lossy_flac_source s \<longleftrightarrow>
    (if has_prefix (ps_codec s) ''pcm_f'' \<or> has_prefix (ps_codec s) ''pcm_s64'' \<or> has_prefix (ps_codec s) ''pcm_u64''
     then True
     else let bits = fst (atoi (ps_bits s))
          in if 24 < bits then True
             else bits \<le> 0 \<and> (has_prefix (ps_codec s) ''pcm_s32'' \<or> has_prefix (ps_codec s) ''pcm_u32''))"

subsection \<open>Argument lists\<close>

definition stream_map :: "int \<Rightarrow> string" where
  "stream_map index = ''0:'' @ itoa index"

definition input_args :: "string \<Rightarrow> string list" where
  "input_args path = [''-hide_banner'', ''-loglevel'', ''warning'', ''-nostdin'', ''-y'',
     ''-progress'', ''pipe:1'', ''-nostats'', ''-protocol_whitelist'', ''file,pipe'', ''-i'', path]"

definition drop_metadata_args :: "string list" where
  "drop_metadata_args = [''-map_metadata'', ''-1'', ''-map_metadata:s'', ''-1'', ''-map_chapters'', ''-1'']"

definition sdr_color_args :: "string list" where
  "sdr_color_args = [''-color_primaries'', ''bt709'', ''-color_trc'', ''bt709'', ''-colorspace'', ''bt709'',
     ''-color_range'', ''tv'']"

definition aac_args :: "string \<Rightarrow> string list" where
  "aac_args bitrate = [''-c:a'', ''aac'', ''-b:a'', bitrate, ''-ac'', ''2'', ''-ar'', ''48000'']"

definition software_video_filter :: "int \<Rightarrow> int \<Rightarrow> string \<Rightarrow> bool \<Rightarrow> string" where
  "software_video_filter width height pixel_format hdr =
    (let scale = ''scale='' @ itoa width @ '':'' @ itoa height
     in if \<not> hdr then (if pixel_format = ''yuv420p'' then scale else scale @ '',format='' @ pixel_format)
        else ''zscale=t=linear:npl=100,format=gbrpf32le,'' @ ''tonemap=hable:desat=0,'' @
             ''zscale=p=bt709:t=bt709:m=bt709:r=tv,'' @ scale @ '',format='' @ pixel_format)"

text \<open>The frame size and the two quality settings of a video operation.\<close>

definition video_dimensions :: "stream \<Rightarrow> bool \<Rightarrow> int \<times> int" where
  "video_dimensions v smaller =
    (case displayed_dimensions v of (w, h) \<Rightarrow>
       if smaller then fit_dimensions w h 1280 720 else (even_floor w, even_floor h))"

definition audio_map_args :: "stream option \<Rightarrow> string list" where
  "audio_map_args audio = (case audio of None \<Rightarrow> [] | Some a \<Rightarrow> [''-map'', stream_map (ps_index a)])"

definition vaapi_video_args :: "plan \<Rightarrow> stream \<Rightarrow> stream option \<Rightarrow> bool \<Rightarrow> string \<Rightarrow> bool \<Rightarrow> string list" where
  "vaapi_video_args p video audio smaller device hardware_decode =
    (case video_dimensions video smaller of (width, height) \<Rightarrow>
       let hdr = is_hdr video
       in [''-hide_banner'', ''-loglevel'', ''warning'', ''-nostdin'', ''-y'', ''-progress'', ''pipe:1'',
           ''-nostats'', ''-init_hw_device'', ''vaapi=filetwist:'' @ device, ''-filter_hw_device'', ''filetwist'']
         @ (if hardware_decode
            then [''-hwaccel'', ''vaapi'', ''-hwaccel_device'', ''filetwist'', ''-hwaccel_output_format'', ''vaapi'']
            else [])
         @ [''-protocol_whitelist'', ''file,pipe'', ''-i'', pl_input p, ''-map'', stream_map (ps_index video)]
         @ audio_map_args audio
         @ drop_metadata_args @ [''-sn'', ''-dn'', ''-c:v'', ''h264_vaapi'', ''-qp'', if smaller then ''28'' else ''20'']
         @ (if hardware_decode
            then [''-vf'', ''scale_vaapi=w='' @ itoa width @ '':h='' @ itoa height @ '':format=nv12'']
            else [''-vf'', software_video_filter width height ''nv12'' hdr @ '',hwupload''])
         @ (if hdr then sdr_color_args else [])
         @ (if audio \<noteq> None then aac_args (if smaller then ''128k'' else ''192k'') else [])
         @ [''-movflags'', ''+faststart'', ''-f'', ''mp4'', pl_output p])"

definition video_args :: "plan \<Rightarrow> stream \<Rightarrow> stream option \<Rightarrow> bool \<Rightarrow> string list" where
  "video_args p video audio smaller =
    (case video_dimensions video smaller of (width, height) \<Rightarrow>
       let hdr = is_hdr video
       in input_args (pl_input p) @ [''-map'', stream_map (ps_index video)] @ audio_map_args audio
         @ drop_metadata_args
         @ [''-sn'', ''-dn'', ''-c:v'', ''libx264'', ''-preset'', ''medium'', ''-crf'', if smaller then ''28'' else ''20'',
            ''-vf'', software_video_filter width height ''yuv420p'' hdr, ''-pix_fmt'', ''yuv420p'']
         @ (if hdr then sdr_color_args else [])
         @ (if audio \<noteq> None then aac_args (if smaller then ''128k'' else ''192k'') else [])
         @ [''-movflags'', ''+faststart'', ''-f'', ''mp4'', pl_output p])"

definition audio_input_args :: "plan \<Rightarrow> stream \<Rightarrow> string list" where
  "audio_input_args p audio =
    input_args (pl_input p) @ [''-map'', stream_map (ps_index audio)] @ drop_metadata_args
      @ [''-vn'', ''-sn'', ''-dn'']"

subsection \<open>Building the profiles\<close>

definition set_expected_sdr_color :: "expected_profile \<Rightarrow> expected_profile" where
  "set_expected_sdr_color x =
    x\<lparr>xp_range := ''tv'', xp_space := ''bt709'', xp_transfer := ''bt709'', xp_primaries := ''bt709''\<rparr>"

text \<open>A new contract keeps the duration fields of the old one.\<close>

definition keep_duration :: "expected_profile \<Rightarrow> expected_profile \<Rightarrow> expected_profile" where
  "keep_duration x fresh =
    fresh\<lparr>xp_duration := xp_duration x, xp_known := xp_known x, xp_tolerance := xp_tolerance x\<rparr>"

definition build_video :: "stream \<Rightarrow> stream option \<Rightarrow> bool \<Rightarrow> plan \<Rightarrow> plan" where
  "build_video video audio smaller p =
    (case video_dimensions video smaller of (width, height) \<Rightarrow>
       let sound = audio \<noteq> None;
           x = keep_duration (pl_expected p) (no_profile\<lparr>
             xp_video_codec := ''h264'', xp_audio_codec := (if sound then ''aac'' else []),
             xp_pixel_format := ''yuv420p'', xp_width := width, xp_height := height, xp_rotation := 0,
             xp_audio := (if sound then AudioRequired else AudioForbidden),
             xp_channels := (if sound then 2 else 0), xp_layout := (if sound then ''stereo'' else []),
             xp_sample_rate := (if sound then 48000 else 0), xp_fast_start := True\<rparr>)
       in p\<lparr>pl_args := video_args p video audio smaller,
            pl_expected := (if is_hdr video then set_expected_sdr_color x else x)\<rparr>)"

definition build_aac_audio :: "stream \<Rightarrow> plan \<Rightarrow> plan" where
  "build_aac_audio audio p =
    p\<lparr>pl_args := audio_input_args p audio @ aac_args ''192k'' @ [''-movflags'', ''+faststart'', ''-f'', ''mp4'', pl_output p],
      pl_expected := keep_duration (pl_expected p) (no_profile\<lparr>
        xp_audio_codec := ''aac'', xp_audio := AudioRequired, xp_channels := 2, xp_layout := ''stereo'',
        xp_sample_rate := 48000, xp_fast_start := True\<rparr>)\<rparr>"

definition build_mp3_audio :: "stream \<Rightarrow> plan \<Rightarrow> plan" where
  "build_mp3_audio audio p =
    p\<lparr>pl_args := audio_input_args p audio
        @ [''-c:a'', ''libmp3lame'', ''-b:a'', ''192k'', ''-ac'', ''2'', ''-ar'', ''48000'', ''-f'', ''mp3'', pl_output p],
      pl_expected := keep_duration (pl_expected p) (no_profile\<lparr>
        xp_audio_codec := ''mp3'', xp_audio := AudioRequired, xp_channels := 2, xp_layout := ''stereo'',
        xp_sample_rate := 48000\<rparr>)\<rparr>"

definition build_flac_audio :: "stream \<Rightarrow> plan \<Rightarrow> plan" where
  "build_flac_audio audio p =
    p\<lparr>pl_args := audio_input_args p audio
        @ [''-c:a'', ''flac'', ''-compression_level'', ''8'', ''-f'', ''flac'', pl_output p],
      pl_expected := keep_duration (pl_expected p) (no_profile\<lparr>
        xp_audio_codec := ''flac'', xp_audio := AudioRequired, xp_channels := ps_channels audio,
        xp_layout := ps_layout audio, xp_sample_rate := fst (atoi (ps_sample_rate audio))\<rparr>)\<rparr>"

text \<open>\<open>applyVideoAcceleration\<close>, for a plan with a video stream.\<close>

definition apply_video_acceleration ::
  "acceleration_config \<Rightarrow> vaapi_readiness option \<Rightarrow> stream \<Rightarrow> stream option \<Rightarrow> bool \<Rightarrow> plan \<Rightarrow> plan result" where
  "apply_video_acceleration config readiness video audio smaller p =
    (if ac_mode config = ''cpu'' then Inr p
     else case (case readiness of
                  None \<Rightarrow> None
                | Some r \<Rightarrow> if \<not> vr_ready r \<or> \<not> vr_complete r \<or> vr_device r \<noteq> ac_device config then None else Some r) of
       None \<Rightarrow>
         let reason = (case readiness of
                 Some r \<Rightarrow> if vr_reason r \<noteq> FallbackNone then vr_reason r else FallbackVAAPIProbeUnavailable
               | None \<Rightarrow> FallbackVAAPIProbeUnavailable)
         in if ac_mode config = ''vaapi''
            then Inl (MediaPlanError ErrorAccelerationUnavailable
              ''VA-API acceleration requires a successful functional probe for the configured device'')
            else Inr (p\<lparr>pl_fallback := reason\<rparr>)
     | Some r \<Rightarrow>
         let hardware_decode = (\<not> is_hdr video \<and> rotation video = 0 \<and> ps_pixel_format video = ''yuv420p''
               \<and> supports_hardware_decode r (ps_codec video))
         in Inr (p\<lparr>pl_cpu_args := pl_args p,
                   pl_args := vaapi_video_args p video audio smaller (ac_device config) hardware_decode,
                   pl_path := (if hardware_decode then PathVAAPIHardwareDecode else PathVAAPISoftwareDecode)\<rparr>))"

text \<open>A video operation; \<open>smaller\<close> distinguishes the two.\<close>

definition set_duration :: "int option \<Rightarrow> plan \<Rightarrow> plan" where
  "set_duration d p =
    p\<lparr>pl_expected := (pl_expected p)\<lparr>xp_duration := (case d of None \<Rightarrow> 0 | Some n \<Rightarrow> n), xp_known := (d \<noteq> None)\<rparr>\<rparr>"

definition plan_video ::
  "plan_request \<Rightarrow> acceleration_config \<Rightarrow> selection \<Rightarrow> bool \<Rightarrow> plan \<Rightarrow> plan result" where
  "plan_video rq config sel smaller p =
    (case sel_video sel of
       None \<Rightarrow> Inl (MediaPlanError ErrorNoUsableVideo ''input does not contain a usable video stream'')
     | Some v \<Rightarrow>
         if is_hdr v \<and> \<not> supports_hdr_tone_mapping v
         then Inl (MediaPlanError ErrorUnsupportedHDR
           ''HDR video uses color signaling that the tone-mapping profile does not support'')
         else let p = (if is_hdr v then p\<lparr>pl_filters := [''zscale'', ''tonemap'']\<rparr> else p);
                  p = set_duration (video_duration (pq_input rq) sel) p
              in apply_video_acceleration config (pq_vaapi rq) v (sel_audio sel) smaller
                   (build_video v (sel_audio sel) smaller p))"

definition plan_audio ::
  "plan_request \<Rightarrow> selection \<Rightarrow> (stream \<Rightarrow> err option) \<Rightarrow> (stream \<Rightarrow> plan \<Rightarrow> plan) \<Rightarrow> plan \<Rightarrow> plan result" where
  "plan_audio rq sel check build p =
    (case sel_audio sel of
       None \<Rightarrow> Inl (MediaPlanError ErrorNoSupportedAudio ''input does not contain an allowlisted audio stream'')
     | Some a \<Rightarrow>
         (case check a of
            Some e \<Rightarrow> Inl e
          | None \<Rightarrow> Inr (build a (set_duration (audio_duration (pq_input rq) sel) p))))"

definition reject_lossy_flac :: "stream \<Rightarrow> err option" where
  "reject_lossy_flac a =
    (if lossy_flac_source a
     then Some (MediaPlanError ErrorUnsupportedLosslessAudio
       ''the FLAC profile cannot preserve floating-point PCM or samples above 24 bits exactly'')
     else None)"

definition invalid_request :: "string \<Rightarrow> err" where
  "invalid_request message = MediaPlanError ErrorInvalidRequest message"

text \<open>The text of an error of \<open>normalizeAccelerationConfig\<close>, which are all plain.\<close>

fun error_text :: "err \<Rightarrow> string" where
  "error_text (NewError m) = m"
| "error_text _ = []"

text \<open>The plan before a profile is built into it.\<close>

definition fresh_plan :: "plan_request \<Rightarrow> acceleration_config \<Rightarrow> plan" where
  "fresh_plan rq config =
    \<lparr>pl_operation = pq_operation rq, pl_input = pq_input_path rq, pl_output = pq_output_path rq,
     pl_args = [], pl_timeout = pq_timeout rq, pl_warnings = sel_warnings (select_streams (pq_input rq)), pl_filters = [],
     pl_expected = no_profile\<lparr>xp_tolerance := (if pq_tolerance rq = 0 then 1000000000 else pq_tolerance rq)\<rparr>,
     pl_requested = ac_mode config, pl_path = PathCPU, pl_fallback = FallbackNone, pl_cpu_args = []\<rparr>"

definition build_plan :: "plan_request \<Rightarrow> plan result" where
  "build_plan rq =
    (if pq_input_path rq = [] \<or> pq_output_path rq = []
       then Inl (invalid_request ''input and output paths must not be empty'')
     else if validate_local_path (pq_input_path rq) \<noteq> None
       then Inl (invalid_request ''input path must identify a local file'')
     else if validate_local_path (pq_output_path rq) \<noteq> None
       then Inl (invalid_request ''output path must identify a local file'')
     else if pq_timeout rq < 0 \<or> pq_tolerance rq < 0
       then Inl (invalid_request ''timeouts and tolerances must not be negative'')
     else case normalize_acceleration (pq_acceleration rq) of
       Inl e \<Rightarrow> Inl (invalid_request (trim_prefix (error_text e) ''media: ''))
     | Inr config \<Rightarrow>
       let sel = select_streams (pq_input rq);
           p = fresh_plan rq config;
           unsupported = Inl (invalid_request (''operation '' @ [CHR 0x22] @ operation_text (pq_operation rq) @ [CHR 0x22]
             @ '' is not an audio or video CPU profile''))
       in case lookup_spec (pq_operation rq) of
            None \<Rightarrow> unsupported
          | Some spec \<Rightarrow>
              if sp_engine spec \<noteq> EngineMedia then unsupported
              else map_sum (\<lambda>e. e)
                (\<lambda>p. p\<lparr>pl_expected := (pl_expected p)\<lparr>xp_container := os_container (sp_output spec)\<rparr>\<rparr>)
                (case pq_operation rq of
                   OperationCompatibleVideo \<Rightarrow> plan_video rq config sel False p
                 | OperationSmallerVideo \<Rightarrow> plan_video rq config sel True p
                 | OperationExtractAudio \<Rightarrow> plan_audio rq sel (\<lambda>_. None) build_aac_audio p
                 | OperationCompatibleAudio \<Rightarrow> plan_audio rq sel (\<lambda>_. None) build_mp3_audio p
                 | OperationLosslessAudio \<Rightarrow> plan_audio rq sel reject_lossy_flac build_flac_audio p
                 | _ \<Rightarrow> unsupported))"

subsection \<open>Frame sizes stay in their bounds\<close>

lemma two_value: "has_value (float_of_int 2) 2"
  using float_of_int_value [of 2] by auto

text \<open>Halving, rounding and doubling a positive value.\<close>

lemma nearest_even_value:
  assumes x: "has_value x v" and v: "pow2 (- 150) \<le> v" "v \<le> 2 ^ 50"
  shows "\<exists>u. nearest_even x = max 2 (2 * \<lfloor>u + 1 / 2\<rfloor>) \<and> \<bar>u - v / 2\<bar> \<le> v / 2 / 2 ^ 53
    \<and> (\<forall>k. v = real k \<and> k < 2 ^ 53 \<longrightarrow> u = v / 2)"
proof -
  have b: "pow2 (- 150) / 2 = pow2 (- 151)" using pow2_add [of "- 150" "- 1"] by (simp add: pow2_def)
  have "pow2 (- 200) \<le> pow2 (- 151)" by (rule pow2_mono) simp
  then have "pow2 (- 200) \<le> v / 2" using v(1) b by linarith
  moreover have "pow2 50 \<le> pow2 200" by (rule pow2_mono) simp
  then have "v / 2 \<le> pow2 200" using v(2) has_value_pos [OF x] by (simp add: pow2_numeral)
  ultimately have "mid_range (v / 2)" by (rule mid_rangeI)
  from float_divide_value [OF x two_value this] obtain u where u: "has_value (float_divide x (float_of_int 2)) u"
    "\<bar>u - v / 2\<bar> \<le> v / 2 / 2 ^ 53"
    "\<forall>k j. v / 2 = real k * pow2 j \<and> k < 2 ^ 53 \<and> - 1074 \<le> j \<and> j \<le> 970 \<longrightarrow> u = v / 2"
    by blast
  have "v / 2 / 2 ^ 53 \<le> v / 2" using has_value_pos [OF x] by simp
  then have "u \<le> 2 ^ 50" using u(2) v(2) by linarith
  then have f: "0 \<le> \<lfloor>u + 1 / 2\<rfloor>" "\<lfloor>u + 1 / 2\<rfloor> < 2 ^ 53"
    using has_value_pos [OF u(1)] by (auto simp: floor_less_iff)
  have "nearest_even x = max 2 (2 * \<lfloor>u + 1 / 2\<rfloor>)"
    using float_round_value [OF u(1)] float_trunc_of_int [OF f] by (simp add: nearest_even_def)
  moreover have "u = v / 2" if "v = real k" "k < 2 ^ 53" for k
    using u(3) [rule_format, of k "- 1"] that by (simp add: pow2_def)
  ultimately show ?thesis using u(2) by blast
qed

lemma nearest_even_le:
  assumes "has_value x v" and "pow2 (- 150) \<le> v" and "v \<le> 2 * real k + 1 / 4" and "1 \<le> k" "k < 2 ^ 40"
  shows "2 \<le> nearest_even x" "nearest_even x \<le> 2 * int k" "even (nearest_even x)"
proof -
  have k: "real k < 2 ^ 40" using assms(5) by (metis of_nat_less_iff of_nat_numeral of_nat_power)
  then have "v \<le> 2 ^ 50" using assms(3) by simp
  then obtain u where u: "nearest_even x = max 2 (2 * \<lfloor>u + 1 / 2\<rfloor>)" "\<bar>u - v / 2\<bar> \<le> v / 2 / 2 ^ 53"
    using nearest_even_value [OF assms(1,2)] by blast
  have "v / 2 / 2 ^ 53 \<le> 1 / 8" using \<open>v \<le> 2 ^ 50\<close> by simp
  then have "u + 1 / 2 < real k + 1" using u(2) assms(3) by linarith
  then have "\<lfloor>u + 1 / 2\<rfloor> \<le> int k" by (simp add: floor_le_iff)
  then show "2 \<le> nearest_even x" "nearest_even x \<le> 2 * int k" "even (nearest_even x)"
    using u(1) assms(4) by (auto simp: max_def)
qed

lemma nearest_even_int:
  assumes "has_value x (real n)" and "1 \<le> n" "n < 2 ^ 40"
  shows "nearest_even x = int n + int n mod 2"
proof -
  have "pow2 (- 150) \<le> pow2 0" by (rule pow2_mono) simp
  then have l: "pow2 (- 150) \<le> real n" using assms(2) by simp
  have "real n < 2 ^ 40" using assms(3) by (metis of_nat_less_iff of_nat_numeral of_nat_power)
  then have "real n \<le> 2 ^ 50" by simp
  from nearest_even_value [OF assms(1) l this]
  obtain u where u: "nearest_even x = max 2 (2 * \<lfloor>u + 1 / 2\<rfloor>)"
    "\<forall>k. real n = real k \<and> k < 2 ^ 53 \<longrightarrow> u = real n / 2" by blast
  have u2: "u = real n / 2" using u(2) assms(3) by auto
  have "u + 1 / 2 = real (n + 1) / real 2" by (simp add: u2)
  then have e: "\<lfloor>u + 1 / 2\<rfloor> = int ((n + 1) div 2)" by (simp only: floor_divide_of_nat_eq)
  have "1 \<le> int ((n + 1) div 2)" using assms(2) by linarith
  then have "nearest_even x = 2 * int ((n + 1) div 2)" using u(1) unfolding e by (simp only: max_def) simp
  moreover have "2 * int ((n + 1) div 2) = int n + int n mod 2" by presburger
  ultimately show ?thesis by simp
qed

text \<open>The scale is at most one, and at most the limit over the size, up to rounding.\<close>

lemma scale_side:
  assumes s: "has_value s c" "c \<le> 1" "pow2 (- 60) \<le> c" and w: "has_value x W" "1 \<le> W" "W \<le> pow2 64"
    and c: "c \<le> 2 * real k / W * (1 + 1 / 2 ^ 53)" and k: "1 \<le> k" "k < 2 ^ 40"
  shows "2 \<le> nearest_even (float_times x s)" "nearest_even (float_times x s) \<le> 2 * int k"
    "even (nearest_even (float_times x s))"
proof -
  have k': "real k < 2 ^ 40" using k(2) by (metis of_nat_less_iff of_nat_numeral of_nat_power)
  have "W * c \<le> W * (2 * real k / W * (1 + 1 / 2 ^ 53))" using c w(2) by (intro mult_left_mono) auto
  then have up: "W * c \<le> 2 * real k * (1 + 1 / 2 ^ 53)" using w(2) by simp
  have "1 * pow2 (- 60) \<le> W * c" using s(3) w(2) by (intro mult_mono) (auto simp: less_imp_le)
  then have low: "pow2 (- 60) \<le> W * c" by simp
  have "pow2 (- 200) \<le> pow2 (- 60)" by (rule pow2_mono) simp
  moreover have "pow2 64 \<le> pow2 200" by (rule pow2_mono) simp
  moreover have "W * c \<le> pow2 64 * 1" using s(2) w(2,3) has_value_pos [OF s(1)] by (intro mult_mono) auto
  ultimately have "mid_range (W * c)" using low by (intro mid_rangeI) linarith+
  from float_times_value [OF w(1) s(1) this] obtain u where u: "has_value (float_times x s) u"
    "\<bar>u - W * c\<bar> \<le> W * c / 2 ^ 53" by blast
  have "W * c / 2 ^ 53 \<le> 1 / 8" using up k' by simp
  moreover have "2 * real k * (1 + 1 / 2 ^ 53) \<le> 2 * real k + 1 / 16" using k' by (simp add: distrib_left)
  ultimately have "u \<le> 2 * real k + 1 / 4" using u(2) up by linarith
  moreover have "W * c / 2 ^ 53 \<le> W * c / 2" using low has_value_pos [OF s(1)] w(2) by simp
  then have "W * c / 2 \<le> u" using u(2) by linarith
  then have "pow2 (- 60) / 2 \<le> u" using low by linarith
  then have "pow2 (- 61) \<le> u" using pow2_add [of "- 60" "- 1"] by (simp add: pow2_def)
  moreover have "pow2 (- 150) \<le> pow2 (- 61)" by (rule pow2_mono) simp
  ultimately show "2 \<le> nearest_even (float_times x s)" "nearest_even (float_times x s) \<le> 2 * int k"
    "even (nearest_even (float_times x s))"
    using nearest_even_le [OF u(1) _ _ k] by auto
qed

lemma fit_dimensions_fits:
  assumes w: "0 < w" "w \<le> 2 ^ 63" and h: "0 < h" "h \<le> 2 ^ 63"
    and k: "32 \<le> k" "k < 2 ^ 39" and l: "32 \<le> l" "l < 2 ^ 39"
    and r: "fit_dimensions w h (2 * int k) (2 * int l) = (fw, fh)"
  shows "2 \<le> fw \<and> fw \<le> 2 * int k \<and> even fw" "2 \<le> fh \<and> fh \<le> 2 * int l \<and> even fh"
    "w \<le> 2 * int k \<Longrightarrow> h \<le> 2 * int l \<Longrightarrow> fw = w + w mod 2 \<and> fh = h + h mod 2"
proof -
  obtain W where W: "has_value (float_of_int w) W" "1 \<le> W" "W \<le> pow2 64" "w < 2 ^ 53 \<longrightarrow> W = of_int w"
    using float_of_int_value [OF w] by blast
  obtain H where H: "has_value (float_of_int h) H" "1 \<le> H" "H \<le> pow2 64" "h < 2 ^ 53 \<longrightarrow> H = of_int h"
    using float_of_int_value [OF h] by blast
  have K: "has_value (float_of_int (2 * int k)) (real (2 * k))" "has_value (float_of_int (2 * int l)) (real (2 * l))"
    using float_of_int_value [of "2 * int k"] float_of_int_value [of "2 * int l"] k l by auto
  have one: "has_value (float_of_int 1) 1" using float_of_int_value [of 1] by auto
  obtain a where a: "has_value (float_divide (float_of_int (2 * int k)) (float_of_int w)) a"
      "a \<le> real (2 * k) / W * (1 + 1 / 2 ^ 53)" "pow2 (- 60) \<le> a" "W \<le> real (2 * k) \<longrightarrow> 1 \<le> a"
    using limit_over_size [OF W(1-3) K(1)] k by auto
  obtain b where b: "has_value (float_divide (float_of_int (2 * int l)) (float_of_int h)) b"
      "b \<le> real (2 * l) / H * (1 + 1 / 2 ^ 53)" "pow2 (- 60) \<le> b" "H \<le> real (2 * l) \<longrightarrow> 1 \<le> b"
    using limit_over_size [OF H(1-3) K(2)] l by auto
  define s where "s = float_min (float_of_int 1) (float_min (float_divide (float_of_int (2 * int k)) (float_of_int w))
    (float_divide (float_of_int (2 * int l)) (float_of_int h)))"
  let ?c = "min 1 (min a b)"
  have s: "has_value s ?c" unfolding s_def using float_min_value [OF one float_min_value [OF a(1) b(1)]] .
  have f: "fw = nearest_even (float_times (float_of_int w) s)" "fh = nearest_even (float_times (float_of_int h) s)"
    using r by (auto simp: fit_dimensions_def Let_def s_def)
  have "pow2 (- 60) \<le> pow2 0" by (rule pow2_mono) simp
  then have c: "?c \<le> 1" "pow2 (- 60) \<le> ?c" using a(3) b(3) by auto
  show "2 \<le> fw \<and> fw \<le> 2 * int k \<and> even fw"
    using scale_side [OF s c W(1-3), of k] a(2) k f(1) by (auto simp: min_le_iff_disj)
  show "2 \<le> fh \<and> fh \<le> 2 * int l \<and> even fh"
    using scale_side [OF s c H(1-3), of l] b(2) l f(2) by (auto simp: min_le_iff_disj)
  assume small: "w \<le> 2 * int k" "h \<le> 2 * int l"
  then have WH: "W = real (nat w)" "H = real (nat h)" using W(4) H(4) k l w h by auto
  then have "W \<le> real (2 * k)" "H \<le> real (2 * l)" using small w h by linarith+
  then have "?c = 1" using a(4) b(4) by auto
  have times_one: "has_value (float_times x s) (real n)" if x: "has_value x (real n)" "1 \<le> n" "n < 2 ^ 40" for x n
  proof -
    have "real n < 2 ^ 40" using x(3) by (metis of_nat_less_iff of_nat_numeral of_nat_power)
    moreover have "pow2 (- 200) \<le> pow2 0" by (rule pow2_mono) simp
    ultimately have "mid_range (real n * 1)" using x(2) by (intro mid_rangeI) (auto simp: pow2_def)
    from float_times_value [OF x(1) s [unfolded \<open>?c = 1\<close>] this] obtain u where
      "has_value (float_times x s) u" "\<forall>i j. real n * 1 = real i * pow2 j \<and> i < 2 ^ 53 \<and> - 1074 \<le> j \<and> j \<le> 970 \<longrightarrow> u = real n * 1"
      by blast
    then show ?thesis using x(3) by (auto dest!: spec [of _ n] spec [of _ "0 :: int"])
  qed
  have n: "1 \<le> nat w" "nat w < 2 ^ 40" "1 \<le> nat h" "nat h < 2 ^ 40" using small w h k l by auto
  have "nearest_even (float_times (float_of_int w) s) = int (nat w) + int (nat w) mod 2"
    by (rule nearest_even_int [OF times_one [OF _ n(1,2)] n(1,2)]) (use W(1) WH(1) in simp)
  moreover have "nearest_even (float_times (float_of_int h) s) = int (nat h) + int (nat h) mod 2"
    by (rule nearest_even_int [OF times_one [OF _ n(3,4)] n(3,4)]) (use H(1) WH(2) in simp)
  ultimately show "fw = w + w mod 2 \<and> fh = h + h mod 2" using f w h by simp
qed

subsection \<open>Plans, taken apart\<close>

definition video_operation :: "operation \<Rightarrow> bool" where
  "video_operation op \<longleftrightarrow> op = OperationCompatibleVideo \<or> op = OperationSmallerVideo"

definition audio_operation :: "operation \<Rightarrow> bool" where
  "audio_operation op \<longleftrightarrow> op = OperationExtractAudio \<or> op = OperationCompatibleAudio \<or> op = OperationLosslessAudio"

definition with_container :: "string \<Rightarrow> plan \<Rightarrow> plan" where
  "with_container c p = p\<lparr>pl_expected := (pl_expected p)\<lparr>xp_container := c\<rparr>\<rparr>"

definition request_ok :: "plan_request \<Rightarrow> bool" where
  "request_ok rq \<longleftrightarrow> pq_input_path rq \<noteq> [] \<and> pq_output_path rq \<noteq> []
     \<and> validate_local_path (pq_input_path rq) = None \<and> validate_local_path (pq_output_path rq) = None
     \<and> 0 \<le> pq_timeout rq \<and> 0 \<le> pq_tolerance rq"

lemma map_sum_Inr: "map_sum f g x = Inr y \<longleftrightarrow> (\<exists>z. x = Inr z \<and> y = g z)"
  by (cases x) auto

lemma media_profiles [simp]:
  "sp_engine (registry ! 0) = EngineImage" "sp_engine (registry ! 1) = EngineImage"
  "sp_engine (registry ! 2) = EngineImage" "sp_engine (registry ! 3) = EngineImage"
  "sp_engine (registry ! 4) = EngineMedia" "sp_engine (registry ! 5) = EngineMedia"
  "sp_engine (registry ! 6) = EngineMedia" "sp_engine (registry ! 7) = EngineMedia"
  "sp_engine (registry ! 8) = EngineMedia"
  "os_container (sp_output (registry ! 4)) = ''mp4''" "os_container (sp_output (registry ! 5)) = ''mp4''"
  "os_container (sp_output (registry ! 6)) = ''mp4''" "os_container (sp_output (registry ! 7)) = ''mp3''"
  "os_container (sp_output (registry ! 8)) = ''flac''"
  by (simp_all add: registry_def)

lemma build_plan_Inr:
  "build_plan rq = Inr p \<longleftrightarrow> request_ok rq \<and> (\<exists>config. normalize_acceleration (pq_acceleration rq) = Inr config
    \<and> (let sel = select_streams (pq_input rq); q = fresh_plan rq config in
        (\<exists>r. pq_operation rq = OperationCompatibleVideo \<and> plan_video rq config sel False q = Inr r \<and> p = with_container ''mp4'' r)
      \<or> (\<exists>r. pq_operation rq = OperationSmallerVideo \<and> plan_video rq config sel True q = Inr r \<and> p = with_container ''mp4'' r)
      \<or> (\<exists>r. pq_operation rq = OperationExtractAudio \<and> plan_audio rq sel (\<lambda>_. None) build_aac_audio q = Inr r
            \<and> p = with_container ''mp4'' r)
      \<or> (\<exists>r. pq_operation rq = OperationCompatibleAudio \<and> plan_audio rq sel (\<lambda>_. None) build_mp3_audio q = Inr r
            \<and> p = with_container ''mp3'' r)
      \<or> (\<exists>r. pq_operation rq = OperationLosslessAudio \<and> plan_audio rq sel reject_lossy_flac build_flac_audio q = Inr r
            \<and> p = with_container ''flac'' r)))"
  (is "?L \<longleftrightarrow> ?R")
proof (cases "request_ok rq")
  case False
  then show ?thesis by (auto simp: build_plan_def request_ok_def)
next
  case ok: True
  show ?thesis
  proof (cases "normalize_acceleration (pq_acceleration rq)")
    case (Inl e)
    then show ?thesis using ok by (auto simp: build_plan_def request_ok_def)
  next
    case (Inr config)
    then show ?thesis
      using ok
      by (cases "pq_operation rq")
         (auto simp: build_plan_def request_ok_def Let_def with_container_def map_sum_Inr)
  qed
qed

lemma set_duration_frame [simp]:
  "pl_input (set_duration d p) = pl_input p" "pl_output (set_duration d p) = pl_output p"
  "pl_path (set_duration d p) = pl_path p" "pl_fallback (set_duration d p) = pl_fallback p"
  "pl_cpu_args (set_duration d p) = pl_cpu_args p" "pl_filters (set_duration d p) = pl_filters p"
  "pl_requested (set_duration d p) = pl_requested p"
  by (simp_all add: set_duration_def)

lemma build_video_frame [simp]:
  "pl_input (build_video v a b p) = pl_input p" "pl_output (build_video v a b p) = pl_output p"
  "pl_path (build_video v a b p) = pl_path p" "pl_fallback (build_video v a b p) = pl_fallback p"
  "pl_cpu_args (build_video v a b p) = pl_cpu_args p" "pl_filters (build_video v a b p) = pl_filters p"
  "pl_args (build_video v a b p) = video_args p v a b" "pl_requested (build_video v a b p) = pl_requested p"
  by (simp_all add: build_video_def Let_def split: prod.splits)

lemma fresh_plan_frame [simp]:
  "pl_input (fresh_plan rq c) = pq_input_path rq" "pl_output (fresh_plan rq c) = pq_output_path rq"
  "pl_path (fresh_plan rq c) = PathCPU" "pl_fallback (fresh_plan rq c) = FallbackNone"
  "pl_cpu_args (fresh_plan rq c) = []" "pl_filters (fresh_plan rq c) = []"
  "pl_requested (fresh_plan rq c) = ac_mode c"
  by (simp_all add: fresh_plan_def)

lemma with_container_frame [simp]:
  "pl_input (with_container k p) = pl_input p" "pl_output (with_container k p) = pl_output p"
  "pl_args (with_container k p) = pl_args p" "pl_path (with_container k p) = pl_path p"
  "pl_fallback (with_container k p) = pl_fallback p" "pl_cpu_args (with_container k p) = pl_cpu_args p"
  "pl_filters (with_container k p) = pl_filters p" "pl_requested (with_container k p) = pl_requested p"
  by (simp_all add: with_container_def)

subsection \<open>The shape of a command line\<close>

text \<open>
  One input, the given file, read with the file protocol only; then the mapped streams, the
  options that drop all metadata and chapters, the codec options, and the output last.
\<close>

definition shaped :: "string \<Rightarrow> string \<Rightarrow> stream list \<Rightarrow> string list \<Rightarrow> bool" where
  "shaped input out mapped args \<longleftrightarrow>
    (\<exists>a b. args = a @ [''-protocol_whitelist'', ''file,pipe'', ''-i'', input]
        @ concat (map (\<lambda>s. [''-map'', stream_map (ps_index s)]) mapped) @ drop_metadata_args @ b @ [out]
      \<and> ''-i'' \<notin> set a \<and> ''-i'' \<notin> set b \<and> ''-map'' \<notin> set a \<and> ''-map'' \<notin> set b
      \<and> ''-protocol_whitelist'' \<notin> set a \<and> ''-protocol_whitelist'' \<notin> set b)"

lemma shapedI:
  "args = a @ [''-protocol_whitelist'', ''file,pipe'', ''-i'', input]
        @ concat (map (\<lambda>s. [''-map'', stream_map (ps_index s)]) mapped) @ drop_metadata_args @ b @ [out] \<Longrightarrow>
    list_all (\<lambda>x. x \<noteq> ''-i'' \<and> x \<noteq> ''-map'' \<and> x \<noteq> ''-protocol_whitelist'') a \<Longrightarrow>
    list_all (\<lambda>x. x \<noteq> ''-i'' \<and> x \<noteq> ''-map'' \<and> x \<noteq> ''-protocol_whitelist'') b \<Longrightarrow> shaped input out mapped args"
  unfolding shaped_def list_all_iff by blast

definition option_list :: "'a option \<Rightarrow> 'a list" where
  "option_list x = (case x of None \<Rightarrow> [] | Some y \<Rightarrow> [y])"

lemma software_video_filter_plain:
  "software_video_filter w h f hdr \<noteq> ''-i'' \<and> software_video_filter w h f hdr \<noteq> ''-map''
    \<and> software_video_filter w h f hdr \<noteq> ''-protocol_whitelist''
    \<and> software_video_filter w h f hdr @ x \<noteq> ''-i'' \<and> software_video_filter w h f hdr @ x \<noteq> ''-map''
    \<and> software_video_filter w h f hdr @ x \<noteq> ''-protocol_whitelist''"
  by (simp add: software_video_filter_def Let_def)

lemma video_args_shaped: "shaped (pl_input p) (pl_output p) (v # option_list a) (video_args p v a sm)"
proof -
  obtain w h where d: "video_dimensions v sm = (w, h)" by fastforce
  show ?thesis
    by (rule shapedI [where a = "[''-hide_banner'', ''-loglevel'', ''warning'', ''-nostdin'', ''-y'',
        ''-progress'', ''pipe:1'', ''-nostats'']" and b = "[''-sn'', ''-dn'', ''-c:v'', ''libx264'', ''-preset'', ''medium'', ''-crf'', if sm then ''28'' else ''20'',
            ''-vf'', software_video_filter w h ''yuv420p'' (is_hdr v), ''-pix_fmt'', ''yuv420p'']
         @ (if is_hdr v then sdr_color_args else [])
         @ (if a \<noteq> None then aac_args (if sm then ''128k'' else ''192k'') else [])
         @ [''-movflags'', ''+faststart'', ''-f'', ''mp4'']"])
       (simp_all add: video_args_def d Let_def input_args_def audio_map_args_def option_list_def aac_args_def
         sdr_color_args_def software_video_filter_plain split: option.split)
qed

lemma vaapi_args_shaped: "shaped (pl_input p) (pl_output p) (v # option_list a) (vaapi_video_args p v a sm dev hw)"
proof -
  obtain w h where d: "video_dimensions v sm = (w, h)" by fastforce
  show ?thesis
    by (rule shapedI [where a = "[''-hide_banner'', ''-loglevel'', ''warning'', ''-nostdin'', ''-y'', ''-progress'', ''pipe:1'',
           ''-nostats'', ''-init_hw_device'', ''vaapi=filetwist:'' @ dev, ''-filter_hw_device'', ''filetwist'']
         @ (if hw then [''-hwaccel'', ''vaapi'', ''-hwaccel_device'', ''filetwist'', ''-hwaccel_output_format'', ''vaapi''] else [])"
        and b = "[''-sn'', ''-dn'', ''-c:v'', ''h264_vaapi'', ''-qp'', if sm then ''28'' else ''20'']
         @ (if hw then [''-vf'', ''scale_vaapi=w='' @ itoa w @ '':h='' @ itoa h @ '':format=nv12'']
            else [''-vf'', software_video_filter w h ''nv12'' (is_hdr v) @ '',hwupload''])
         @ (if is_hdr v then sdr_color_args else [])
         @ (if a \<noteq> None then aac_args (if sm then ''128k'' else ''192k'') else [])
         @ [''-movflags'', ''+faststart'', ''-f'', ''mp4'']"])
       (simp_all add: vaapi_video_args_def d Let_def audio_map_args_def option_list_def aac_args_def
         sdr_color_args_def software_video_filter_plain split: option.split)
qed

lemma audio_args_shaped:
  "list_all (\<lambda>x. x \<noteq> ''-i'' \<and> x \<noteq> ''-map'' \<and> x \<noteq> ''-protocol_whitelist'') b \<Longrightarrow>
    shaped (pl_input p) out [a] (audio_input_args p a @ b @ [out])"
  by (rule shapedI [where a = "[''-hide_banner'', ''-loglevel'', ''warning'', ''-nostdin'', ''-y'',
      ''-progress'', ''pipe:1'', ''-nostats'']" and b = "[''-vn'', ''-sn'', ''-dn''] @ b"])
     (simp_all add: audio_input_args_def input_args_def)

text \<open>The streams a plan maps.\<close>

definition mapped_streams :: "plan_request \<Rightarrow> stream list" where
  "mapped_streams rq =
    (let sel = select_streams (pq_input rq)
     in (if video_operation (pq_operation rq) then option_list (sel_video sel) else []) @ option_list (sel_audio sel))"

lemma plan_video_Inr:
  assumes "plan_video rq config sel sm q = Inr r"
  obtains v where "sel_video sel = Some v" "is_hdr v \<longrightarrow> supports_hdr_tone_mapping v"
    "apply_video_acceleration config (pq_vaapi rq) v (sel_audio sel) sm
       (build_video v (sel_audio sel) sm (set_duration (video_duration (pq_input rq) sel)
          (if is_hdr v then q\<lparr>pl_filters := [''zscale'', ''tonemap'']\<rparr> else q))) = Inr r"
  using assms by (auto simp: plan_video_def Let_def split: option.splits if_splits)

lemma plan_audio_Inr:
  assumes "plan_audio rq sel check build q = Inr r"
  obtains a where "sel_audio sel = Some a" "check a = None"
    "r = build a (set_duration (audio_duration (pq_input rq) sel) q)"
  using assms by (auto simp: plan_audio_def split: option.splits)

text \<open>The facts every video plan and every audio plan comes with.\<close>

definition video_start :: "plan_request \<Rightarrow> acceleration_config \<Rightarrow> stream \<Rightarrow> plan" where
  "video_start rq config v =
    (let sel = select_streams (pq_input rq); q = fresh_plan rq config
     in build_video v (sel_audio sel) (pq_operation rq = OperationSmallerVideo)
       (set_duration (video_duration (pq_input rq) sel)
          (if is_hdr v then q\<lparr>pl_filters := [''zscale'', ''tonemap'']\<rparr> else q)))"

lemma video_plan:
  assumes "build_plan rq = Inr p" and "video_operation (pq_operation rq)"
  obtains config v r where "request_ok rq" "normalize_acceleration (pq_acceleration rq) = Inr config"
    "sel_video (select_streams (pq_input rq)) = Some v" "is_hdr v \<longrightarrow> supports_hdr_tone_mapping v"
    "apply_video_acceleration config (pq_vaapi rq) v (sel_audio (select_streams (pq_input rq)))
       (pq_operation rq = OperationSmallerVideo) (video_start rq config v) = Inr r"
    "p = with_container ''mp4'' r"
proof -
  obtain config where ok: "request_ok rq" "normalize_acceleration (pq_acceleration rq) = Inr config"
    and c: "(\<exists>r. plan_video rq config (select_streams (pq_input rq)) (pq_operation rq = OperationSmallerVideo) (fresh_plan rq config) = Inr r
      \<and> p = with_container ''mp4'' r)"
    using assms unfolding build_plan_Inr Let_def video_operation_def by auto
  then obtain r where r: "plan_video rq config (select_streams (pq_input rq)) (pq_operation rq = OperationSmallerVideo) (fresh_plan rq config) = Inr r"
    "p = with_container ''mp4'' r" by blast
  show thesis
    using that [OF ok] r by (elim plan_video_Inr) (simp add: video_start_def Let_def)
qed

lemma audio_plan:
  assumes "build_plan rq = Inr p" and "\<not> video_operation (pq_operation rq)"
  obtains config a where "request_ok rq" "normalize_acceleration (pq_acceleration rq) = Inr config"
    "sel_audio (select_streams (pq_input rq)) = Some a"
    "p \<in> {with_container ''mp4'' (build_aac_audio a (set_duration (audio_duration (pq_input rq) (select_streams (pq_input rq))) (fresh_plan rq config))),
          with_container ''mp3'' (build_mp3_audio a (set_duration (audio_duration (pq_input rq) (select_streams (pq_input rq))) (fresh_plan rq config))),
          with_container ''flac'' (build_flac_audio a (set_duration (audio_duration (pq_input rq) (select_streams (pq_input rq))) (fresh_plan rq config)))}"
    "audio_operation (pq_operation rq)" "pq_operation rq = OperationLosslessAudio \<longrightarrow> \<not> lossy_flac_source a"
  using assms unfolding build_plan_Inr Let_def video_operation_def audio_operation_def
  by (auto elim!: plan_audio_Inr simp: reject_lossy_flac_def split: if_splits)

text \<open>\<open>applyVideoAcceleration\<close>, branch by branch.\<close>

definition vaapi_usable :: "acceleration_config \<Rightarrow> vaapi_readiness option \<Rightarrow> bool" where
  "vaapi_usable config readiness \<longleftrightarrow>
    (\<exists>r. readiness = Some r \<and> vr_ready r \<and> vr_complete r \<and> vr_device r = ac_device config)"

lemma apply_acceleration_cases:
  assumes "apply_video_acceleration config readiness v a sm q = Inr r"
  obtains (cpu) "ac_mode config = ''cpu''" "r = q"
    | (fallback) reason where "ac_mode config \<noteq> ''cpu''" "ac_mode config \<noteq> ''vaapi''" "\<not> vaapi_usable config readiness"
        "reason \<noteq> FallbackNone" "r = q\<lparr>pl_fallback := reason\<rparr>"
    | (vaapi) x hw where "ac_mode config \<noteq> ''cpu''" "readiness = Some x" "vaapi_usable config readiness"
        "hw \<longleftrightarrow> \<not> is_hdr v \<and> rotation v = 0 \<and> ps_pixel_format v = ''yuv420p'' \<and> supports_hardware_decode x (ps_codec v)"
        "r = q\<lparr>pl_cpu_args := pl_args q, pl_args := vaapi_video_args q v a sm (ac_device config) hw,
               pl_path := (if hw then PathVAAPIHardwareDecode else PathVAAPISoftwareDecode)\<rparr>"
proof (cases "ac_mode config = ''cpu''")
  case True
  then show thesis using assms cpu by (simp add: apply_video_acceleration_def)
next
  case False
  show thesis
  proof (cases "vaapi_usable config readiness")
    case True
    then obtain x where x: "readiness = Some x" "vr_ready x" "vr_complete x" "vr_device x = ac_device config"
      by (auto simp: vaapi_usable_def)
    show thesis by (rule vaapi [OF False x(1) True refl])
      (use assms False x in \<open>simp add: apply_video_acceleration_def Let_def\<close>)
  next
    case no: False
    then have "ac_mode config \<noteq> ''vaapi'' \<and> (\<exists>reason. reason \<noteq> FallbackNone \<and> r = q\<lparr>pl_fallback := reason\<rparr>)"
      using assms False by (cases readiness) (auto simp: apply_video_acceleration_def vaapi_usable_def Let_def split: if_splits)
    then show thesis using fallback False no by blast
  qed
qed

lemma video_start_frame [simp]:
  "pl_input (video_start rq c v) = pq_input_path rq" "pl_output (video_start rq c v) = pq_output_path rq"
  "pl_path (video_start rq c v) = PathCPU" "pl_fallback (video_start rq c v) = FallbackNone"
  "pl_cpu_args (video_start rq c v) = []" "pl_requested (video_start rq c v) = ac_mode c"
  "pl_filters (video_start rq c v) = (if is_hdr v then [''zscale'', ''tonemap''] else [])"
  by (simp_all add: video_start_def Let_def)

lemma video_start_shaped:
  "shaped (pq_input_path rq) (pq_output_path rq) (v # option_list (sel_audio (select_streams (pq_input rq))))
    (pl_args (video_start rq c v))"
proof -
  let ?q = "set_duration (video_duration (pq_input rq) (select_streams (pq_input rq)))
          (if is_hdr v then (fresh_plan rq c)\<lparr>pl_filters := [''zscale'', ''tonemap'']\<rparr> else fresh_plan rq c)"
  have "pl_input ?q = pq_input_path rq" "pl_output ?q = pq_output_path rq" by simp_all
  then show ?thesis
    using video_args_shaped [of ?q v "sel_audio (select_streams (pq_input rq))" "pq_operation rq = OperationSmallerVideo"]
    by (simp add: video_start_def Let_def)
qed

subsection \<open>Properties\<close>


text \<open>The contract of an accepted video plan.\<close>

lemma acceleration_keeps_contract:
  "apply_video_acceleration config readiness v a sm q = Inr r \<Longrightarrow>
    pl_expected r = pl_expected q \<and> pl_filters r = pl_filters q \<and> pl_requested r = pl_requested q"
  by (erule apply_acceleration_cases) simp_all

lemma video_contract:
  assumes "build_plan rq = Inr p" and "video_operation (pq_operation rq)"
    and "sel_video (select_streams (pq_input rq)) = Some v"
  shows "is_hdr v \<longrightarrow> supports_hdr_tone_mapping v"
    "pl_filters p = (if is_hdr v then [''zscale'', ''tonemap''] else [])"
    "(xp_width (pl_expected p), xp_height (pl_expected p))
      = video_dimensions v (pq_operation rq = OperationSmallerVideo)"
    "xp_range (pl_expected p) = (if is_hdr v then ''tv'' else [])"
    "xp_space (pl_expected p) = (if is_hdr v then ''bt709'' else [])"
    "xp_transfer (pl_expected p) = (if is_hdr v then ''bt709'' else [])"
    "xp_primaries (pl_expected p) = (if is_hdr v then ''bt709'' else [])"
    "xp_container (pl_expected p) = ''mp4''" "xp_video_codec (pl_expected p) = ''h264''"
    "xp_pixel_format (pl_expected p) = ''yuv420p''" "xp_rotation (pl_expected p) = 0"
    "xp_fast_start (pl_expected p)"
    "xp_audio (pl_expected p) = (if sel_audio (select_streams (pq_input rq)) = None then AudioForbidden else AudioRequired)"
    "xp_audio_codec (pl_expected p) = (if sel_audio (select_streams (pq_input rq)) = None then [] else ''aac'')"
    "xp_known (pl_expected p) \<longleftrightarrow> video_duration (pq_input rq) (select_streams (pq_input rq)) \<noteq> None"
    "xp_duration (pl_expected p) = (case video_duration (pq_input rq) (select_streams (pq_input rq)) of None \<Rightarrow> 0 | Some d \<Rightarrow> d)"
    "xp_tolerance (pl_expected p) = (if pq_tolerance rq = 0 then 1000000000 else pq_tolerance rq)"
proof -
  obtain config r where v: "is_hdr v \<longrightarrow> supports_hdr_tone_mapping v" "p = with_container ''mp4'' r"
    "apply_video_acceleration config (pq_vaapi rq) v (sel_audio (select_streams (pq_input rq)))
       (pq_operation rq = OperationSmallerVideo) (video_start rq config v) = Inr r"
    using video_plan [OF assms(1,2)] assms(3) by (metis option.inject)
  have x: "pl_expected p = (pl_expected (video_start rq config v))\<lparr>xp_container := ''mp4''\<rparr>"
    "pl_filters p = pl_filters (video_start rq config v)"
    using acceleration_keeps_contract [OF v(3)] v(2) by (simp_all add: with_container_def)
  show "is_hdr v \<longrightarrow> supports_hdr_tone_mapping v" by (rule v(1))
  show "pl_filters p = (if is_hdr v then [''zscale'', ''tonemap''] else [])" by (simp add: x(2))
  obtain w h where d: "video_dimensions v (pq_operation rq = OperationSmallerVideo) = (w, h)" by fastforce
  show "(xp_width (pl_expected p), xp_height (pl_expected p))
      = video_dimensions v (pq_operation rq = OperationSmallerVideo)"
    "xp_range (pl_expected p) = (if is_hdr v then ''tv'' else [])"
    "xp_space (pl_expected p) = (if is_hdr v then ''bt709'' else [])"
    "xp_transfer (pl_expected p) = (if is_hdr v then ''bt709'' else [])"
    "xp_primaries (pl_expected p) = (if is_hdr v then ''bt709'' else [])"
    "xp_container (pl_expected p) = ''mp4''" "xp_video_codec (pl_expected p) = ''h264''"
    "xp_pixel_format (pl_expected p) = ''yuv420p''" "xp_rotation (pl_expected p) = 0"
    "xp_fast_start (pl_expected p)"
    "xp_audio (pl_expected p) = (if sel_audio (select_streams (pq_input rq)) = None then AudioForbidden else AudioRequired)"
    "xp_audio_codec (pl_expected p) = (if sel_audio (select_streams (pq_input rq)) = None then [] else ''aac'')"
    "xp_known (pl_expected p) \<longleftrightarrow> video_duration (pq_input rq) (select_streams (pq_input rq)) \<noteq> None"
    "xp_duration (pl_expected p) = (case video_duration (pq_input rq) (select_streams (pq_input rq)) of None \<Rightarrow> 0 | Some d \<Rightarrow> d)"
    "xp_tolerance (pl_expected p) = (if pq_tolerance rq = 0 then 1000000000 else pq_tolerance rq)"
    by (simp_all add: x(1) video_start_def build_video_def Let_def d keep_duration_def no_profile_def
        set_expected_sdr_color_def set_duration_def fresh_plan_def)
qed

text \<open>A plain file: one video stream and one audio stream.\<close>

definition plain_stream :: "string \<Rightarrow> string \<Rightarrow> int \<Rightarrow> int \<Rightarrow> int \<Rightarrow> stream" where
  "plain_stream kind codec n w h =
    \<lparr>ps_index = n, ps_codec = codec, ps_type = kind, ps_width = w, ps_height = h, ps_pixel_format = ''yuv420p'',
     ps_sample_format = [], ps_bits = [], ps_sample_rate = ''44100'', ps_channels = 2, ps_layout = ''stereo'',
     ps_range = [], ps_space = [], ps_transfer = [], ps_primaries = [], ps_duration = [],
     ps_disposition = \<lparr>di_default = 1, di_attached_pic = 0\<rparr>, ps_tags = None, ps_side_data = []\<rparr>"

definition plain_request :: "operation \<Rightarrow> plan_request" where
  "plain_request op =
    \<lparr>pq_operation = op, pq_input_path = ''/d/in'', pq_output_path = ''/d/out'',
     pq_input = \<lparr>pr_streams = [plain_stream ''video'' ''h264'' 0 1921 1081, plain_stream ''audio'' ''aac'' 1 0 0],
       pr_format = \<lparr>pf_name = ''mov'', pf_duration = [], pf_size = [], pf_tags = None\<rparr>\<rparr>,
     pq_timeout = 0, pq_tolerance = 0, pq_acceleration = \<lparr>ac_mode = ''vaapi'', ac_device = []\<rparr>,
     pq_vaapi = Some \<lparr>vr_device = default_vaapi_device, vr_ready = True, vr_codecs = [''h264''],
       vr_reason = FallbackNone, vr_complete = True\<rparr>\<rparr>"

lemma plain_selection:
  "select_streams (pq_input (plain_request op)) =
    \<lparr>sel_video = Some (plain_stream ''video'' ''h264'' 0 1921 1081),
     sel_audio = Some (plain_stream ''audio'' ''aac'' 1 0 0), sel_warnings = []\<rparr>"
  by code_simp

lemma plain_normalized:
  "normalize_acceleration (pq_acceleration (plain_request op)) =
    Inr \<lparr>ac_mode = ''vaapi'', ac_device = default_vaapi_device\<rparr>"
  by code_simp

lemma plain_fields:
  "pq_operation (plain_request op) = op"
  "pq_vaapi (plain_request op) = Some \<lparr>vr_device = default_vaapi_device, vr_ready = True, vr_codecs = [''h264''],
       vr_reason = FallbackNone, vr_complete = True\<rparr>"
  "request_ok (plain_request op)" "\<not> is_hdr (plain_stream ''video'' ''h264'' 0 1921 1081)"
  by ((simp add: plain_request_def; fail)+, (simp add: request_ok_def plain_request_def, code_simp), code_simp)

lemma plain_plan: "\<exists>p. build_plan (plain_request OperationSmallerVideo) = Inr p"
  unfolding build_plan_Inr Let_def plain_normalized
  by (auto simp: plan_video_def plain_selection plain_fields apply_video_acceleration_def Let_def)


text \<open>C30: The frame a video plan asks for and validates is even in both directions. The smaller
  profile never exceeds 1280 by 720, although it computes in rounded binary floating point, and
  keeps a frame that already fits, rounded up to even; the compatible profile keeps every frame of
  at least 2 by 2, rounded down to even. Sizes are those of the displayed, rotated frame.\<close>

theorem planned_frame_size:
  assumes p: "build_plan rq = Inr p" and op: "video_operation (pq_operation rq)"
    and v: "sel_video (select_streams (pq_input rq)) = Some v" and d: "displayed_dimensions v = (w, h)"
    and le: "w \<le> max_int64" "h \<le> max_int64"
  shows "2 \<le> xp_width (pl_expected p) \<and> even (xp_width (pl_expected p))
    \<and> 2 \<le> xp_height (pl_expected p) \<and> even (xp_height (pl_expected p))
    \<and> (pq_operation rq = OperationSmallerVideo \<longrightarrow>
        xp_width (pl_expected p) \<le> 1280 \<and> xp_height (pl_expected p) \<le> 720
        \<and> (w \<le> 1280 \<and> h \<le> 720 \<longrightarrow> xp_width (pl_expected p) = w + w mod 2 \<and> xp_height (pl_expected p) = h + h mod 2))
    \<and> (pq_operation rq = OperationCompatibleVideo \<longrightarrow>
        (2 \<le> w \<longrightarrow> xp_width (pl_expected p) = w - w mod 2) \<and> (2 \<le> h \<longrightarrow> xp_height (pl_expected p) = h - h mod 2))"
proof -
  have "0 < ps_width v" "0 < ps_height v" using selected_video [OF v] by (auto simp: usable_video_def)
  then have pos: "0 < w" "0 < h" using d by (auto simp: displayed_dimensions_def split: if_splits)
  have le': "w \<le> 2 ^ 63" "h \<le> 2 ^ 63" using le by (simp_all add: max_int64_def)
  have dims: "(xp_width (pl_expected p), xp_height (pl_expected p))
      = (if pq_operation rq = OperationSmallerVideo then fit_dimensions w h 1280 720 else (even_floor w, even_floor h))"
    using video_contract(3) [OF p op v] by (simp add: video_dimensions_def d)
  have flo: "2 \<le> even_floor n \<and> even (even_floor n) \<and> (2 \<le> n \<longrightarrow> even_floor n = n - n mod 2)" for n :: int
    by (auto simp: even_floor_def rem_int_def quot_int_def minus_mult_div_eq_mod; presburger)
  show ?thesis
  proof (cases "pq_operation rq = OperationSmallerVideo")
    case True
    then have "fit_dimensions w h (2 * int 640) (2 * int 360) = (xp_width (pl_expected p), xp_height (pl_expected p))"
      using dims by simp
    from fit_dimensions_fits [OF pos(1) le'(1) pos(2) le'(2) _ _ _ _ this] show ?thesis
      using True by auto
  next
    case False
    then show ?thesis using dims flo [of w] flo [of h] by auto
  qed
qed

theorem planned_frame_size_witness:
  "\<exists>p. build_plan (plain_request OperationSmallerVideo) = Inr p
    \<and> xp_width (pl_expected p) \<le> 1280 \<and> xp_height (pl_expected p) \<le> 720"
proof -
  obtain p where p: "build_plan (plain_request OperationSmallerVideo) = Inr p" using plain_plan by blast
  have d: "displayed_dimensions (plain_stream ''video'' ''h264'' 0 1921 1081) = (1921, 1081)" by code_simp
  show ?thesis
    using planned_frame_size [OF p _ _ d] p
    by (simp add: plain_fields plain_selection video_operation_def max_int64_def)
qed

text \<open>What an accepted plan promises of its output. A video plan promises H.264 with upright frames in
  an MP4 with its index first, and sound exactly when a usable audio stream was selected; a high
  dynamic range source is accepted only with supported signaling, needs the tone-mapping
  filters and promises standard color tags. An audio plan promises one audio stream in the codec
  and container of its profile.\<close>

theorem planned_contract:
  assumes p: "build_plan rq = Inr p"
  shows "video_operation (pq_operation rq) \<noteq> audio_operation (pq_operation rq)
    \<and> (video_operation (pq_operation rq) \<longrightarrow> (\<exists>v. sel_video (select_streams (pq_input rq)) = Some v
      \<and> xp_container (pl_expected p) = ''mp4'' \<and> xp_video_codec (pl_expected p) = ''h264''
      \<and> xp_rotation (pl_expected p) = 0 \<and> xp_fast_start (pl_expected p)
      \<and> (xp_audio (pl_expected p) = AudioRequired) = (sel_audio (select_streams (pq_input rq)) \<noteq> None)
      \<and> (is_hdr v \<longrightarrow> supports_hdr_tone_mapping v \<and> pl_filters p = [''zscale'', ''tonemap'']
          \<and> xp_transfer (pl_expected p) = ''bt709'' \<and> xp_primaries (pl_expected p) = ''bt709''
          \<and> xp_space (pl_expected p) = ''bt709'' \<and> xp_range (pl_expected p) = ''tv'')
      \<and> (\<not> is_hdr v \<longrightarrow> pl_filters p = [])))
    \<and> (audio_operation (pq_operation rq) \<longrightarrow> (\<exists>a. sel_audio (select_streams (pq_input rq)) = Some a
      \<and> xp_video_codec (pl_expected p) = [] \<and> xp_audio (pl_expected p) = AudioRequired \<and> pl_filters p = []
      \<and> (xp_container (pl_expected p), xp_audio_codec (pl_expected p), xp_fast_start (pl_expected p))
          = (if pq_operation rq = OperationExtractAudio then (''mp4'', ''aac'', True)
             else if pq_operation rq = OperationCompatibleAudio then (''mp3'', ''mp3'', False)
             else (''flac'', ''flac'', False))
      \<and> (pq_operation rq = OperationLosslessAudio \<longrightarrow> \<not> lossy_flac_source a)))"
proof (cases "video_operation (pq_operation rq)")
  case True
  then obtain v where v: "sel_video (select_streams (pq_input rq)) = Some v"
    using video_plan [OF p] by metis
  show ?thesis
    using True video_contract [OF p True v] v
    by (auto simp: video_operation_def audio_operation_def)
next
  case False
  have "audio_operation (pq_operation rq)" using audio_plan [OF p False] by metis
  then show ?thesis
    using p False unfolding build_plan_Inr
    by (auto simp: video_operation_def Let_def with_container_def build_aac_audio_def build_mp3_audio_def
        build_flac_audio_def keep_duration_def no_profile_def reject_lossy_flac_def elim!: plan_audio_Inr split: if_splits)
qed

theorem planned_contract_witness:
  "\<exists>p. build_plan (plain_request OperationSmallerVideo) = Inr p \<and> xp_fast_start (pl_expected p) \<and> pl_filters p = []"
proof -
  obtain p where p: "build_plan (plain_request OperationSmallerVideo) = Inr p" using plain_plan by blast
  then show ?thesis
    using planned_contract [OF p] by (auto simp: plain_fields plain_selection video_operation_def)
qed

text \<open>Where a plan runs. In mode cpu no plan touches the device. In mode vaapi a video plan is accepted only on
  a completed, successful probe of the configured device, and in mode auto without one it falls back
  to the CPU and records why. A plan on the device keeps the CPU arguments for a retry and decodes
  on the device only upright 8-bit standard-range video of a probed codec.\<close>

theorem planned_execution_path:
  assumes p: "build_plan rq = Inr p" and op: "video_operation (pq_operation rq)"
    and v: "sel_video (select_streams (pq_input rq)) = Some v"
  shows "\<exists>config. normalize_acceleration (pq_acceleration rq) = Inr config \<and> pl_requested p = ac_mode config \<and> pl_path p \<noteq> NoPath
    \<and> (ac_mode config = ''cpu'' \<longrightarrow> pl_path p = PathCPU \<and> pl_fallback p = FallbackNone)
    \<and> (ac_mode config = ''vaapi'' \<longrightarrow> vaapi_usable config (pq_vaapi rq))
    \<and> (ac_mode config \<noteq> ''cpu'' \<and> \<not> vaapi_usable config (pq_vaapi rq) \<longrightarrow> pl_path p = PathCPU \<and> pl_fallback p \<noteq> FallbackNone)
    \<and> (pl_path p = PathCPU \<longrightarrow> pl_cpu_args p = [] \<and> pl_args p = pl_args (video_start rq config v))
    \<and> (pl_path p \<noteq> PathCPU \<longrightarrow> vaapi_usable config (pq_vaapi rq) \<and> ac_mode config \<noteq> ''cpu''
        \<and> pl_cpu_args p = pl_args (video_start rq config v) \<and> pl_fallback p = FallbackNone)
    \<and> (pl_path p = PathVAAPIHardwareDecode \<longrightarrow> \<not> is_hdr v \<and> rotation v = 0 \<and> ps_pixel_format v = ''yuv420p''
        \<and> (\<exists>x. pq_vaapi rq = Some x \<and> supports_hardware_decode x (ps_codec v)))"
proof -
  obtain config r where c: "normalize_acceleration (pq_acceleration rq) = Inr config" "p = with_container ''mp4'' r"
    "apply_video_acceleration config (pq_vaapi rq) v (sel_audio (select_streams (pq_input rq)))
       (pq_operation rq = OperationSmallerVideo) (video_start rq config v) = Inr r"
    using video_plan [OF p op] v by (metis option.inject)
  show ?thesis
    using c(3)
    by (cases rule: apply_acceleration_cases) (rule exI [of _ config], use c(1,2) in \<open>auto split: if_splits\<close>)+
qed

theorem planned_execution_path_witness:
  "\<exists>p. build_plan (plain_request OperationSmallerVideo) = Inr p \<and> pl_path p \<noteq> NoPath
    \<and> vaapi_usable \<lparr>ac_mode = ''vaapi'', ac_device = default_vaapi_device\<rparr> (pq_vaapi (plain_request OperationSmallerVideo))"
proof -
  obtain p where p: "build_plan (plain_request OperationSmallerVideo) = Inr p" using plain_plan by blast
  have v: "video_operation (pq_operation (plain_request OperationSmallerVideo))"
    "sel_video (select_streams (pq_input (plain_request OperationSmallerVideo))) = Some (plain_stream ''video'' ''h264'' 0 1921 1081)"
    by (simp_all add: plain_fields plain_selection video_operation_def)
  show ?thesis using planned_execution_path [OF p v] p by (auto simp: plain_normalized)
qed

lemma build_plan_iff:
  "(\<exists>p. build_plan rq = Inr p) \<longleftrightarrow>
    request_ok rq \<and> (\<exists>config. normalize_acceleration (pq_acceleration rq) = Inr config
      \<and> (let sel = select_streams (pq_input rq) in
          (video_operation (pq_operation rq) \<and> (\<exists>v. sel_video sel = Some v \<and> (is_hdr v \<longrightarrow> supports_hdr_tone_mapping v))
            \<and> (ac_mode config = ''vaapi'' \<longrightarrow> vaapi_usable config (pq_vaapi rq)))
        \<or> (audio_operation (pq_operation rq) \<and> (\<exists>a. sel_audio sel = Some a
            \<and> (pq_operation rq = OperationLosslessAudio \<longrightarrow> \<not> lossy_flac_source a)))))"
proof -
  have accel: "(\<exists>r. apply_video_acceleration config x v a sm q = Inr r) \<longleftrightarrow> (ac_mode config = ''vaapi'' \<longrightarrow> vaapi_usable config x)"
    for config x v a sm q
    by (cases x) (auto simp: apply_video_acceleration_def vaapi_usable_def Let_def)
  have video: "(\<exists>r. plan_video rq config sel sm q = Inr r) \<longleftrightarrow>
      (\<exists>v. sel_video sel = Some v \<and> (is_hdr v \<longrightarrow> supports_hdr_tone_mapping v)) \<and> (ac_mode config = ''vaapi'' \<longrightarrow> vaapi_usable config (pq_vaapi rq))"
    for config sel sm q
    by (cases "sel_video sel") (auto simp: plan_video_def Let_def accel)
  have audio: "(\<exists>r. plan_audio rq sel check build q = Inr r) \<longleftrightarrow> (\<exists>a. sel_audio sel = Some a \<and> check a = None)"
    for sel check build q
    by (auto simp: plan_audio_def split: option.splits)
  have lossy: "reject_lossy_flac a = None \<longleftrightarrow> \<not> lossy_flac_source a" for a by (simp add: reject_lossy_flac_def)
  have ops: "(\<exists>p. build_plan rq = Inr p) \<longleftrightarrow> request_ok rq \<and> (\<exists>config. normalize_acceleration (pq_acceleration rq) = Inr config
    \<and> (let sel = select_streams (pq_input rq); q = fresh_plan rq config in
        (pq_operation rq = OperationCompatibleVideo \<and> (\<exists>r. plan_video rq config sel False q = Inr r))
      \<or> (pq_operation rq = OperationSmallerVideo \<and> (\<exists>r. plan_video rq config sel True q = Inr r))
      \<or> (pq_operation rq = OperationExtractAudio \<and> (\<exists>r. plan_audio rq sel (\<lambda>_. None) build_aac_audio q = Inr r))
      \<or> (pq_operation rq = OperationCompatibleAudio \<and> (\<exists>r. plan_audio rq sel (\<lambda>_. None) build_mp3_audio q = Inr r))
      \<or> (pq_operation rq = OperationLosslessAudio \<and> (\<exists>r. plan_audio rq sel reject_lossy_flac build_flac_audio q = Inr r))))"
    unfolding build_plan_Inr Let_def by blast
  show ?thesis
    unfolding ops Let_def video audio lossy
    by (cases "pq_operation rq") (simp_all add: video_operation_def audio_operation_def)
qed

text \<open>Planning succeeds exactly when the paths are present and local, no number is negative, the acceleration
  settings are valid, and the operation finds what it needs: a usable video stream that is not
  high dynamic range with unsupported signaling, and in mode vaapi a usable device; or an audio
  stream of a supported codec, which the lossless profile can keep exactly.\<close>

theorem plan_accepts_iff:
  "(\<exists>p. build_plan rq = Inr p) \<longleftrightarrow>
    request_ok rq \<and> (\<exists>config. normalize_acceleration (pq_acceleration rq) = Inr config
      \<and> (let sel = select_streams (pq_input rq) in
          (video_operation (pq_operation rq) \<and> (\<exists>v. sel_video sel = Some v \<and> (is_hdr v \<longrightarrow> supports_hdr_tone_mapping v))
            \<and> (ac_mode config = ''vaapi'' \<longrightarrow> vaapi_usable config (pq_vaapi rq)))
        \<or> (audio_operation (pq_operation rq) \<and> (\<exists>a. sel_audio sel = Some a
            \<and> (pq_operation rq = OperationLosslessAudio \<longrightarrow> \<not> lossy_flac_source a)))))"
  by (rule build_plan_iff)

theorem plan_accepts_iff_witness:
  "\<exists>p. build_plan (plain_request OperationSmallerVideo) = Inr p"
  unfolding plan_accepts_iff plain_normalized plain_selection
  by (simp add: plain_fields video_operation_def audio_operation_def vaapi_usable_def)

end
