(* ===== verification/Conversion_Rules.thy ===== *)
theory Conversion_Rules
  imports Image_Plan Media_Plan Conversion_Types
begin

text \<open>
  The rules of the conversion service that need no file: how engine errors become stable
  failures (\<open>classifyImageError\<close>, \<open>classifyMediaError\<close> and the context failures of
  \<open>internal/conversion/service.go\<close>), and which operations a detected input may run
  (\<open>internal/conversion/inspect.go\<close>).
\<close>

subsection \<open>Failures\<close>

text \<open>A \<open>conversion.Error\<close> as an error value; the classifications below give no other.\<close>

definition conversion_failure :: "failure_kind \<Rightarrow> string \<Rightarrow> string \<Rightarrow> err option \<Rightarrow> err" where
  "conversion_failure kind code message cause = ConversionError kind code message cause"

fun kind_of :: "err \<Rightarrow> failure_kind option" where
  "kind_of (ConversionError kind _ _ _) = Some kind"
| "kind_of _ = None"

fun plan_error_text :: "plan_error_code \<Rightarrow> string" where
  "plan_error_text ErrorInvalidRequest = ''invalid_request''"
| "plan_error_text ErrorNoUsableVideo = ''no_usable_video''"
| "plan_error_text ErrorNoSupportedAudio = ''no_supported_audio''"
| "plan_error_text ErrorUnsupportedHDR = ''unsupported_hdr''"
| "plan_error_text ErrorUnsupportedLosslessAudio = ''unsupported_lossless_audio''"
| "plan_error_text ErrorAccelerationUnavailable = ''acceleration_unavailable''"

definition context_failure :: "err \<Rightarrow> err option" where
  "context_failure e =
    (if errors_is e ContextCanceled then Some (conversion_failure FailureCanceled ''canceled'' ''conversion was canceled'' (Some e))
     else if errors_is e ContextDeadlineExceeded
       then Some (conversion_failure FailureConversion ''timeout'' ''conversion timed out'' (Some e))
     else None)"

definition probe_context_failure :: "err \<Rightarrow> err option" where
  "probe_context_failure e =
    (if errors_is e ContextCanceled then Some (conversion_failure FailureCanceled ''canceled'' ''conversion was canceled'' (Some e))
     else if errors_is e ContextDeadlineExceeded
       then Some (conversion_failure FailureProbe ''probe_timeout'' ''content probing timed out'' (Some e))
     else None)"

definition output_preparation_failure :: "string \<Rightarrow> bool" where
  "output_preparation_failure stage \<longleftrightarrow> stage = ''prepare output directory'' \<or> stage = ''prepare work directory''
     \<or> stage = ''create image decode probe directory''"

definition rejected_image_codes :: "string list" where
  "rejected_image_codes = [''unsupported-image'', ''heif-loader-unavailable'', ''avif-loader-unavailable'',
     ''animated-image-unsupported'', ''hdr-image-unsupported'', ''image-color-unsupported'', ''alpha-preservation-unsupported'',
     ''decoded-dimensions-exceeded'']"

definition invalid_output_codes :: "string list" where
  "invalid_output_codes = [''invalid-output-format'', ''invalid-output-dimensions'', ''invalid-output-orientation'',
     ''invalid-output-alpha'', ''invalid-output-precision'', ''invalid-output-color'', ''invalid-output-metadata'']"

text \<open>The classification by the code of an \<open>imageconv.Error\<close>.\<close>

definition classify_image_code :: "string \<Rightarrow> string \<Rightarrow> err \<Rightarrow> err" where
  "classify_image_code code stage e =
    (let unwritable = conversion_failure FailureConfiguration ''invalid_output'' ''output directory is not writable'' (Some e)
     in if code \<in> set rejected_image_codes
          then conversion_failure FailureRejection code ''image input is not supported by the selected operation'' (Some e)
        else if code = ''invalid-image-request''
          then (if output_preparation_failure stage then unwritable
                else conversion_failure FailureConfiguration code ''image conversion request is invalid'' (Some e))
        else if code = ''image-probe-failed''
          then (if output_preparation_failure stage then unwritable
                else conversion_failure FailureProbe code ''image probing failed'' (Some e))
        else if code = ''image-output-exists''
          then conversion_failure FailureRejection ''output_exists'' ''output already exists'' (Some e)
        else if code \<in> set invalid_output_codes
          then conversion_failure FailureValidation code ''image output failed compatibility validation'' (Some e)
        else conversion_failure FailureConversion code ''image conversion failed'' (Some e))"

definition classify_image_error :: "err \<Rightarrow> err" where
  "classify_image_error e =
    (case context_failure e of
       Some canceled \<Rightarrow> canceled
     | None \<Rightarrow>
         if errors_as as_probe e = Some StagePresence
         then conversion_failure FailureConfiguration ''image_converter_unavailable''
           ''required image converter executable is unavailable'' (Some e)
         else (case errors_as as_image e of
             None \<Rightarrow>
               if errors_as as_probe e \<noteq> None
               then conversion_failure FailureProbe ''image_probe_failed'' ''image probing failed'' (Some e)
               else conversion_failure FailureConversion ''image_conversion_failed'' ''image conversion failed'' (Some e)
           | Some (code, stage) \<Rightarrow> classify_image_code code stage e))"

definition classify_conversion_stage :: "conversion_stage \<Rightarrow> err \<Rightarrow> err" where
  "classify_conversion_stage stage e =
    (case stage of
       ConversionStagePrepare \<Rightarrow> conversion_failure FailureConfiguration ''invalid_output'' ''output directory is not writable'' (Some e)
     | ConversionStageProbe \<Rightarrow> conversion_failure FailureProbe ''output_probe_failed'' ''converted output could not be probed'' (Some e)
     | ConversionStageValidate \<Rightarrow>
         conversion_failure FailureValidation ''output_validation_failed'' ''media output failed compatibility validation'' (Some e)
     | _ \<Rightarrow> conversion_failure FailureConversion ''media_conversion_failed'' ''media conversion failed'' (Some e))"

definition classify_media_error :: "err \<Rightarrow> err" where
  "classify_media_error e =
    (case context_failure e of
       Some canceled \<Rightarrow> canceled
     | None \<Rightarrow>
       (case errors_as as_probe e of
          Some stage \<Rightarrow>
            if stage = StagePresence
            then conversion_failure FailureConfiguration ''media_converter_unavailable''
              ''required media converter executable is unavailable'' (Some e)
            else conversion_failure FailureProbe ''media_probe_failed'' ''media probing failed'' (Some e)
        | None \<Rightarrow>
            if errors_is e ErrOutputExists
            then conversion_failure FailureRejection ''output_exists'' ''output already exists'' (Some e)
            else (case errors_as as_plan e of
                Some (code, message) \<Rightarrow>
                  if code = ErrorInvalidRequest
                  then conversion_failure FailureConfiguration (plan_error_text code) ''media conversion request is invalid'' (Some e)
                  else conversion_failure FailureRejection (plan_error_text code) message (Some e)
              | None \<Rightarrow>
                (case errors_as as_media_conversion e of
                   Some (stage, _) \<Rightarrow> classify_conversion_stage stage e
                 | None \<Rightarrow> conversion_failure FailureConversion ''media_conversion_failed'' ''media conversion failed'' (Some e)))))"

subsection \<open>Which operations an input may run\<close>

text \<open>The placeholder plans have fixed paths; the image plan uses the strict metadata policy, the media plan the CPU.\<close>

definition placeholder_image :: "operation \<Rightarrow> image_info \<Rightarrow> image_plan_request" where
  "placeholder_image op i = \<lparr>ir_input_path = ''input'', ir_output_dir = ''output'', ir_work_dir = ''work'', ir_operation = op,
     ir_input = i, ir_policy = CaptureDateStrip, ir_vips = ''vips''\<rparr>"

definition placeholder_media :: "operation \<Rightarrow> probe \<Rightarrow> plan_request" where
  "placeholder_media op p = \<lparr>pq_operation = op, pq_input_path = ''input'', pq_output_path = ''output'', pq_input = p,
     pq_timeout = 0, pq_tolerance = 0, pq_acceleration = \<lparr>ac_mode = ''cpu'', ac_device = []\<rparr>, pq_vaapi = None\<rparr>"

definition engine_mismatch :: err where
  "engine_mismatch = conversion_failure FailureConfiguration ''profile_engine_mismatch''
     ''operation is not supported by its configured conversion engine'' None"

definition validate_operation ::
  "unicode_tables \<Rightarrow> operation \<Rightarrow> media_kind \<Rightarrow> image_info \<Rightarrow> probe \<Rightarrow> err option" where
  "validate_operation U op kind i p =
    (case (case lookup_spec op of None \<Rightarrow> None | Some s \<Rightarrow> if accepts s kind then Some s else None) of
       None \<Rightarrow> Some (conversion_failure FailureRejection ''incompatible_operation''
         (''operation '' @ operation_text op @ '' is not compatible with detected '' @ media_kind_text kind @ '' input'') None)
     | Some s \<Rightarrow>
         if kind = MediaImage then
           (if sp_engine s \<noteq> EngineImage then Some engine_mismatch
            else case validate_content i default_limits of
              Some e \<Rightarrow> Some (classify_image_error e)
            | None \<Rightarrow> (case plan_image U (placeholder_image op i) of
                  Inl e \<Rightarrow> Some (classify_image_error e) | Inr _ \<Rightarrow> None))
         else if sp_engine s \<noteq> EngineMedia then Some engine_mismatch
         else (case build_plan (placeholder_media op p) of
             Inl e \<Rightarrow> Some (classify_media_error e) | Inr _ \<Rightarrow> None))"

text \<open>The loop of \<open>inspectDetected\<close>: the operations kept, the preferred operation's rejection, and the failure that stops it.\<close>

fun inspect_loop ::
  "(operation \<Rightarrow> err option) \<Rightarrow> operation \<Rightarrow> operation list \<Rightarrow> operation list \<Rightarrow> err option
    \<Rightarrow> operation list \<times> err option \<times> err option" where
  "inspect_loop check preferred [] kept rejected = (kept, rejected, None)"
| "inspect_loop check preferred (op # ops) kept rejected =
    (case check op of
       None \<Rightarrow> inspect_loop check preferred ops (kept @ [op]) rejected
     | Some e \<Rightarrow>
         if kind_of e \<noteq> Some FailureRejection then (kept, rejected, Some e)
         else inspect_loop check preferred ops kept (if op = preferred then Some e else rejected))"

definition inspect_detected ::
  "unicode_tables \<Rightarrow> detected_media \<Rightarrow> image_info \<Rightarrow> probe \<Rightarrow> inspection \<times> err option" where
  "inspect_detected U d i p =
    (let preferred = (case recommended_for (dm_kind d) of None \<Rightarrow> no_operation | Some op \<Rightarrow> op);
         ins = (\<lambda>ops. \<lparr>in_media = d, in_recommended = no_operation, in_compatible = ops\<rparr>)
     in case inspect_loop (\<lambda>op. validate_operation U op (dm_kind d) i p) preferred
               (map sp_operation (compatible_specs (dm_kind d))) [] None of
          (ops, rejected, Some e) \<Rightarrow> (ins ops, Some e)
        | (ops, rejected, None) \<Rightarrow>
            if ops = [] then
              (ins ops, Some (case rejected of
                 Some e \<Rightarrow> e
               | None \<Rightarrow> conversion_failure FailureRejection ''no_compatible_operations'' ''no operation supports the detected input'' None))
            else ((ins ops)\<lparr>in_recommended := (if preferred \<in> set ops then preferred else hd ops)\<rparr>, None))"

subsection \<open>Lemmas\<close>

text \<open>Every classification keeps the error it classifies as its cause.\<close>

definition failure_of :: "err \<Rightarrow> err \<Rightarrow> bool" where
  "failure_of e f \<longleftrightarrow> (\<exists>k c m. f = conversion_failure k c m (Some e))"

lemma failure_of_failure [simp]: "failure_of e (conversion_failure k c m (Some e))"
  by (auto simp: failure_of_def)

lemma kind_of_failure [simp]: "kind_of (conversion_failure k c m x) = Some k"
  by (simp add: conversion_failure_def)

lemma classified_image: "failure_of e (classify_image_error e)"
  by (simp add: classify_image_error_def classify_image_code_def context_failure_def Let_def split: option.split prod.split)

lemma classified_media: "failure_of e (classify_media_error e)"
  by (simp add: classify_media_error_def classify_conversion_stage_def context_failure_def
      split: option.split prod.split conversion_stage.split)

lemma failure_of_is: "failure_of e f \<Longrightarrow> errors_is f s \<longleftrightarrow> errors_is e s"
  by (auto simp: failure_of_def conversion_failure_def)

lemma classify_image_code_kind: "kind_of (classify_image_code code stage e) \<noteq> Some FailureCanceled"
  by (simp add: classify_image_code_def Let_def)

lemma image_canceled: "kind_of (classify_image_error e) = Some FailureCanceled \<longleftrightarrow> errors_is e ContextCanceled"
  using classify_image_code_kind
  by (auto simp: classify_image_error_def context_failure_def split: option.split prod.split)

lemma media_canceled: "kind_of (classify_media_error e) = Some FailureCanceled \<longleftrightarrow> errors_is e ContextCanceled"
  by (auto simp: classify_media_error_def classify_conversion_stage_def context_failure_def
      split: option.split prod.split conversion_stage.split)

text \<open>Errors of the image rules that a rejection comes from.\<close>

definition image_rejection :: "err \<Rightarrow> bool" where
  "image_rejection e \<longleftrightarrow> (\<exists>code stage m. e = image_error code stage (NewError m) \<and> code \<in> set rejected_image_codes)"

lemma image_rejection_kind: "image_rejection e \<Longrightarrow> kind_of (classify_image_error e) = Some FailureRejection"
  by (auto simp: image_rejection_def classify_image_error_def context_failure_def image_error_def errors_as_def
      map_filter_simps classify_image_code_def)

lemma rejected_check:
  assumes "(if b then input_error code m else rest) = Some e" "code \<in> set rejected_image_codes"
    and "rest = Some e \<Longrightarrow> image_rejection e"
  shows "image_rejection e"
  using assms by (cases b) (auto simp: input_error_def image_rejection_def)

lemma validate_color_rejection: "validate_color i = Some e \<Longrightarrow> image_rejection e"
  unfolding validate_color_def Let_def
  by ((erule rejected_check, simp add: rejected_image_codes_def)+, simp)

lemma validate_content_rejection: "validate_content i default_limits = Some e \<Longrightarrow> image_rejection e"
  unfolding validate_content_def
proof ((erule rejected_check, simp add: rejected_image_codes_def)+, goal_cases)
  case 1
  then show ?case
  proof (cases "validate_color i")
    case None
    then show ?thesis
      using 1 by (simp add: default_limits_def) (erule rejected_check, simp add: rejected_image_codes_def, simp)
  qed (simp add: validate_color_rejection)
qed

text \<open>The accepted operations of the kinds, by engine.\<close>

definition image_operations :: "operation list" where
  "image_operations = [OperationCompatiblePhoto, OperationEmailPhoto, OperationSmallerPhoto, OperationLosslessImage]"

lemma accepted_image:
  assumes "lookup_spec op = Some s" "accepts s MediaImage"
  shows "sp_engine s = EngineImage \<and> op \<in> set image_operations"
  using assms by (cases op) (auto simp: accepts_def registry_def image_operations_def)

lemma accepted_media:
  assumes "lookup_spec op = Some s" "accepts s kind" "kind \<noteq> MediaImage"
  shows "sp_engine s = EngineMedia \<and> (video_operation op \<or> audio_operation op)"
  using assms by (cases op) (auto simp: accepts_def registry_def video_operation_def audio_operation_def)

lemma plan_image_iff:
  assumes "op \<in> set image_operations" "ir_operation rq = op" "lookup_spec op = Some s" "sp_engine s = EngineImage"
  shows "(\<exists>plan. plan_image U rq = Inr plan) \<longleftrightarrow> plan_guard rq = None
    \<and> (if op = OperationSmallerPhoto then ii_width (ir_input rq) \<le> max_webp_dimension \<and> ii_height (ir_input rq) \<le> max_webp_dimension
       else True)
    \<and> (\<exists>x. early_flatten rq (first_stage rq) = Inr x)"
proof -
  have "image_operation op" using assms(1) by (auto simp: image_operations_def image_operation_def is_jpeg_photo_def)
  moreover have "\<exists>n. output_name U (ir_input_path rq) op = Inr n" using assms(3) by (simp add: output_name_def Let_def)
  ultimately show ?thesis
    using assms(2-4)
    by (auto simp: plan_image_def image_target_def lookup_image_spec_def not_less Let_def split: option.splits sum.splits prod.splits)
qed

lemma early_flatten_same:
  "ir_input rq = ir_input rq' \<Longrightarrow> ir_operation rq = ir_operation rq'
    \<Longrightarrow> (\<exists>x. early_flatten rq q = Inr x) \<longleftrightarrow> (\<exists>x. early_flatten rq' q' = Inr x)"
  by (auto simp: early_flatten_def Let_def split: sum.splits prod.splits)

lemma plan_image_rejection:
  assumes op: "op \<in> set image_operations" "lookup_spec op = Some s" "sp_engine s = EngineImage"
    and e: "plan_image U (placeholder_image op i) = Inl e"
  shows "image_rejection e"
proof -
  let ?rq = "placeholder_image op i"
  have "image_operation op" using op(1) by (auto simp: image_operations_def image_operation_def is_jpeg_photo_def)
  moreover have "\<exists>n. output_name U ''input'' op = Inr n" using op(2) by (simp add: output_name_def Let_def)
  moreover have r: "image_rejection (plan_error c m)" if "c \<in> set rejected_image_codes" for c m
    using that by (auto simp: plan_error_def image_rejection_def)
  have c: "''hdr-image-unsupported'' \<in> set rejected_image_codes" "''image-color-unsupported'' \<in> set rejected_image_codes"
    "''alpha-preservation-unsupported'' \<in> set rejected_image_codes" "''decoded-dimensions-exceeded'' \<in> set rejected_image_codes"
    by (simp_all add: rejected_image_codes_def)
  moreover have "plan_guard ?rq = Some e \<Longrightarrow> image_rejection e"
    using r [OF c(1)] r [OF c(2)] validate_color_rejection
    by (cases "ii_hdr i"; cases "supported_cicp (ii_cicp i)") (auto simp: plan_guard_def placeholder_image_def)
  moreover have "pre_normalization_flatten i = Inl e \<Longrightarrow> image_rejection e"
    using r [OF c(3)] by (auto simp: pre_normalization_flatten_def plan_error_def Let_def split: if_splits)
  then have "early_flatten ?rq q = Inl e \<Longrightarrow> image_rejection e" for q
    using r [OF c(3)]
    by (cases "pre_normalization_flatten i") (auto simp: early_flatten_def placeholder_image_def Let_def split: if_splits)
  ultimately show ?thesis
    using e op(2,3) r
    by (auto simp: plan_image_def image_target_def lookup_image_spec_def placeholder_image_def Let_def
        split: option.splits sum.splits prod.splits if_splits)
qed

lemma placeholder_accepted:
  "request_ok (placeholder_media op p)" "normalize_acceleration (pq_acceleration (placeholder_media op p)) = Inr \<lparr>ac_mode = ''cpu'', ac_device = default_vaapi_device\<rparr>"
  "pq_operation (placeholder_media op p) = op" "pq_input (placeholder_media op p) = p"
proof -
  have "validate_local_path ''input'' = None" "validate_local_path ''output'' = None" by code_simp+
  then show "request_ok (placeholder_media op p)" by (simp add: request_ok_def placeholder_media_def)
  have "normalize_acceleration \<lparr>ac_mode = ''cpu'', ac_device = []\<rparr> = Inr \<lparr>ac_mode = ''cpu'', ac_device = default_vaapi_device\<rparr>"
    by code_simp
  then show "normalize_acceleration (pq_acceleration (placeholder_media op p)) = Inr \<lparr>ac_mode = ''cpu'', ac_device = default_vaapi_device\<rparr>"
    by (simp add: placeholder_media_def)
qed (simp_all add: placeholder_media_def)

lemma map_sum_Inl: "map_sum (\<lambda>e. e) g x = Inl y \<longleftrightarrow> x = Inl y"
  by (cases x) auto

definition plan_rejection :: "err \<Rightarrow> bool" where
  "plan_rejection e \<longleftrightarrow> (\<exists>c m. e = MediaPlanError c m \<and> c \<noteq> ErrorInvalidRequest)"

lemma build_plan_rejection:
  assumes op: "video_operation op \<or> audio_operation op" "lookup_spec op = Some s" "sp_engine s = EngineMedia"
    and e: "build_plan (placeholder_media op p) = Inl e"
  shows "plan_rejection e"
proof -
  have v: "plan_video rq config sel small q = Inl e \<Longrightarrow> ac_mode config = ''cpu'' \<Longrightarrow> ?thesis" for rq config sel small q
    by (auto simp: plan_rejection_def plan_video_def apply_video_acceleration_def Let_def split: option.splits if_splits)
  have a: "plan_audio rq sel check build q = Inl e \<Longrightarrow> check = (\<lambda>_. None) \<or> check = reject_lossy_flac \<Longrightarrow> ?thesis"
    for rq sel check build q
    by (auto simp: plan_rejection_def plan_audio_def reject_lossy_flac_def split: option.splits if_splits)
  note ok = placeholder_accepted(1) [of op p, unfolded request_ok_def]
  show ?thesis
    using e op ok placeholder_accepted(2-4) [of op p]
    by (cases op) (auto simp: build_plan_def Let_def map_sum_Inl video_operation_def audio_operation_def not_less
        intro: v a)
qed

lemma media_plan_rejection_kind: "c \<noteq> ErrorInvalidRequest \<Longrightarrow> kind_of (classify_media_error (MediaPlanError c m)) = Some FailureRejection"
  by (simp add: classify_media_error_def context_failure_def errors_as_def map_filter_simps)

text \<open>A check only ever rejects.\<close>

lemma validate_operation_rejects:
  assumes "validate_operation U op kind i p = Some e"
  shows "kind_of e = Some FailureRejection"
proof (cases "\<exists>s. lookup_spec op = Some s \<and> accepts s kind")
  case False
  then show ?thesis using assms by (auto simp: validate_operation_def split: option.splits if_splits)
next
  case True
  then obtain s where s: "lookup_spec op = Some s" "accepts s kind" by blast
  show ?thesis
  proof (cases "kind = MediaImage")
    case img: True
    then have x: "sp_engine s = EngineImage" "op \<in> set image_operations" using accepted_image s by auto
    then show ?thesis
      using assms s img validate_content_rejection plan_image_rejection [OF x(2) s(1) x(1)]
      by (auto simp: validate_operation_def intro: image_rejection_kind split: option.splits sum.splits)
  next
    case media: False
    then have x: "sp_engine s = EngineMedia" "video_operation op \<or> audio_operation op" using accepted_media [OF s media] by auto
    then obtain y where y: "build_plan (placeholder_media op p) = Inl y" "e = classify_media_error y"
      using assms s media by (auto simp: validate_operation_def split: sum.splits)
    then show ?thesis using build_plan_rejection [OF x(2) s(1) x(1) y(1)] media_plan_rejection_kind by (auto simp: plan_rejection_def)
  qed
qed

lemma inspect_loop_result:
  assumes "\<And>op e. check op = Some e \<Longrightarrow> kind_of e = Some FailureRejection"
    and "\<And>x. rejected = Some x \<Longrightarrow> kind_of x = Some FailureRejection"
  shows "\<exists>r. inspect_loop check preferred ops kept rejected = (kept @ filter (\<lambda>op. check op = None) ops, r, None)
    \<and> (\<forall>x. r = Some x \<longrightarrow> kind_of x = Some FailureRejection)"
  using assms
proof (induction ops arbitrary: kept rejected)
  case (Cons op ops)
  show ?case
  proof (cases "check op")
    case None
    then show ?thesis using Cons.IH [of rejected "kept @ [op]"] Cons.prems by simp
  next
    case (Some e)
    then have "kind_of e = Some FailureRejection" using Cons.prems(1) by blast
    then show ?thesis using Some Cons.IH [of "if op = preferred then Some e else rejected" kept] Cons.prems by auto
  qed
qed simp

definition valid_operations :: "unicode_tables \<Rightarrow> detected_media \<Rightarrow> image_info \<Rightarrow> probe \<Rightarrow> operation list" where
  "valid_operations U d i p =
    filter (\<lambda>op. validate_operation U op (dm_kind d) i p = None) (map sp_operation (compatible_specs (dm_kind d)))"

lemma inspect_detected_result:
  "\<exists>e. inspect_detected U d i p = (\<lparr>in_media = d,
      in_recommended = (if valid_operations U d i p = [] then no_operation
        else if (case recommended_for (dm_kind d) of None \<Rightarrow> no_operation | Some op \<Rightarrow> op) \<in> set (valid_operations U d i p)
          then (case recommended_for (dm_kind d) of None \<Rightarrow> no_operation | Some op \<Rightarrow> op) else hd (valid_operations U d i p)),
      in_compatible = valid_operations U d i p\<rparr>, e)
    \<and> (if valid_operations U d i p = [] then \<exists>x. e = Some x \<and> kind_of x = Some FailureRejection else e = None)"
proof -
  let ?check = "\<lambda>op. validate_operation U op (dm_kind d) i p"
  let ?preferred = "case recommended_for (dm_kind d) of None \<Rightarrow> no_operation | Some op \<Rightarrow> op"
  obtain r where "inspect_loop ?check ?preferred (map sp_operation (compatible_specs (dm_kind d))) [] None
      = (valid_operations U d i p, r, None)" "\<forall>x. r = Some x \<longrightarrow> kind_of x = Some FailureRejection"
    using inspect_loop_result [of ?check None ?preferred "map sp_operation (compatible_specs (dm_kind d))" "[]"]
      validate_operation_rejects by (auto simp: valid_operations_def)
  then show ?thesis by (simp add: inspect_detected_def split: option.split)
qed

text \<open>What a passed check means for a real plan of the operation.\<close>

lemma valid_image_plans:
  assumes "validate_operation U op MediaImage (ir_input rq) p = None" "ir_operation rq = op"
    and "ir_input_path rq \<noteq> []" "ir_output_dir rq \<noteq> []" "ir_work_dir rq \<noteq> []" "ir_vips rq \<noteq> []"
    and "ir_policy rq = CaptureDateStrip \<or> ir_policy rq = CaptureDatePreserveWhenSafe"
  shows "\<exists>plan. plan_image U' rq = Inr plan"
proof -
  obtain s plan where s: "lookup_spec op = Some s" "accepts s MediaImage" "plan_image U (placeholder_image op (ir_input rq)) = Inr plan"
    using assms(1) by (auto simp: validate_operation_def split: option.splits if_splits sum.splits)
  then have x: "sp_engine s = EngineImage" "op \<in> set image_operations" using accepted_image by auto
  let ?q = "placeholder_image op (ir_input rq)"
  have q: "ir_operation ?q = op" "ir_input ?q = ir_input rq" by (simp_all add: placeholder_image_def)
  have "plan_guard ?q = None" "op = OperationSmallerPhoto \<Longrightarrow> ii_width (ir_input rq) \<le> max_webp_dimension
      \<and> ii_height (ir_input rq) \<le> max_webp_dimension" "\<exists>x. early_flatten ?q (first_stage ?q) = Inr x"
    using s(3) plan_image_iff [OF x(2) q(1) s(1) x(1), of U] q by auto
  moreover have "plan_guard ?q = None \<Longrightarrow> plan_guard rq = None"
    using assms(3-7) by (auto simp: plan_guard_def placeholder_image_def split: if_splits)
  moreover have "(\<exists>x. early_flatten ?q (first_stage ?q) = Inr x) \<longleftrightarrow> (\<exists>x. early_flatten rq (first_stage rq) = Inr x)"
    by (rule early_flatten_same) (simp_all add: q assms(2))
  ultimately show ?thesis using plan_image_iff [OF x(2) assms(2) s(1) x(1), of U'] by simp
qed

lemma valid_media_plans:
  assumes "validate_operation U op kind i (pq_input rq) = None" "kind \<noteq> MediaImage" "pq_operation rq = op"
    and "request_ok rq" "normalize_acceleration (pq_acceleration rq) = Inr config"
    and "ac_mode config = ''vaapi'' \<Longrightarrow> vaapi_usable config (pq_vaapi rq)"
  shows "\<exists>plan. build_plan rq = Inr plan"
proof -
  have "\<exists>plan. build_plan (placeholder_media op (pq_input rq)) = Inr plan"
    using assms(1,2) by (auto simp: validate_operation_def split: option.splits if_splits sum.splits)
  then show ?thesis
    unfolding build_plan_iff using assms(3-6) placeholder_accepted [of op "pq_input rq"] by (auto simp: Let_def)
qed

subsection \<open>Properties\<close>

text \<open>C36: The classification of engine errors loses nothing: a classified error is a cancellation exactly when
  the context was canceled, and it answers every question about the errors it wraps as the original does.\<close>

theorem classification_keeps_cause:
  "(kind_of (classify_image_error e) = Some FailureCanceled \<longleftrightarrow> errors_is e ContextCanceled)
    \<and> (kind_of (classify_media_error e) = Some FailureCanceled \<longleftrightarrow> errors_is e ContextCanceled)
    \<and> (errors_is (classify_image_error e) s \<longleftrightarrow> errors_is e s) \<and> (errors_is (classify_media_error e) s \<longleftrightarrow> errors_is e s)"
  using image_canceled media_canceled failure_of_is [OF classified_image] failure_of_is [OF classified_media] by simp

text \<open>C37: Inspection offers exactly the operations of the detected kind that pass the content check, in the order of
  the registry. It fails, with a rejection, exactly when there are none; otherwise it recommends one of the offered
  operations, the one registered for the kind whenever that is offered.\<close>

theorem inspection_offers_valid:
  "let (ins, e) = inspect_detected U d i p;
       valid = filter (\<lambda>op. validate_operation U op (dm_kind d) i p = None) (map sp_operation (compatible_specs (dm_kind d)))
   in in_compatible ins = valid \<and> in_media ins = d
      \<and> (if valid = [] then \<exists>x. e = Some x \<and> kind_of x = Some FailureRejection
         else e = None \<and> in_recommended ins \<in> set valid
           \<and> (if recommended_for (dm_kind d) \<in> Some ` set valid then recommended_for (dm_kind d) = Some (in_recommended ins)
              else True))"
  using inspect_detected_result [of U d i p] unfolding valid_operations_def [symmetric]
  by (auto simp: Let_def)

text \<open>C38: An operation offered by inspection can be planned: for an image, every request with its paths set
  and a known metadata policy; for audio and video, every well-formed request with valid acceleration
  settings, where mode vaapi needs a usable device.\<close>

theorem offered_operations_plan:
  assumes "op \<in> set (in_compatible (fst (inspect_detected U d i p)))"
  shows "(dm_kind d = MediaImage \<and> ir_operation rq = op \<and> ir_input rq = i \<and> ir_input_path rq \<noteq> [] \<and> ir_output_dir rq \<noteq> []
        \<and> ir_work_dir rq \<noteq> [] \<and> ir_vips rq \<noteq> [] \<and> ir_policy rq \<in> {CaptureDateStrip, CaptureDatePreserveWhenSafe}
        \<longrightarrow> (\<exists>plan. plan_image U' rq = Inr plan))
    \<and> (dm_kind d \<noteq> MediaImage \<and> pq_operation mq = op \<and> pq_input mq = p \<and> request_ok mq
        \<and> normalize_acceleration (pq_acceleration mq) = Inr config \<and> (ac_mode config = ''vaapi'' \<longrightarrow> vaapi_usable config (pq_vaapi mq))
        \<longrightarrow> (\<exists>plan. build_plan mq = Inr plan))"
proof -
  obtain e where "inspect_detected U d i p = (fst (inspect_detected U d i p), e)"
      "in_compatible (fst (inspect_detected U d i p)) = valid_operations U d i p"
    using inspect_detected_result [of U d i p] by auto
  then have "validate_operation U op (dm_kind d) i p = None" using assms by (auto simp: valid_operations_def)
  then show ?thesis using valid_image_plans valid_media_plans by (metis insertE singletonD)
qed

text \<open>A video that the compatible profile takes.\<close>

definition sample_video :: detected_media where
  "sample_video = \<lparr>dm_kind = MediaVideo, dm_format = ''mp4'', dm_mime_type = [], dm_width = 1920, dm_height = 1080,
     dm_duration_millis = 0, dm_streams = []\<rparr>"

theorem offered_operations_plan_witness:
  "\<exists>plan. build_plan (plain_request OperationSmallerVideo) = Inr plan"
proof -
  let ?p = "pq_input (plain_request OperationSmallerVideo)"
  have "\<exists>plan. build_plan (placeholder_media OperationSmallerVideo ?p) = Inr plan"
    unfolding build_plan_iff using placeholder_accepted [of OperationSmallerVideo ?p]
    by (simp add: plain_selection video_operation_def plain_fields)
  then have "validate_operation ascii_tables OperationSmallerVideo MediaVideo no_image ?p = None"
    by (auto simp: validate_operation_def accepts_def registry_def)
  then have o: "OperationSmallerVideo \<in> set (in_compatible (fst (inspect_detected ascii_tables sample_video no_image ?p)))"
    using inspect_detected_result [of ascii_tables sample_video no_image ?p]
    by (auto simp: valid_operations_def sample_video_def compatible_specs_def accepts_def registry_def)
  show ?thesis
    using offered_operations_plan [OF o, of undefined ascii_tables "plain_request OperationSmallerVideo"
        "\<lparr>ac_mode = ''vaapi'', ac_device = default_vaapi_device\<rparr>"]
    by (simp add: plain_fields plain_normalized sample_video_def vaapi_usable_def)
qed

end
