(* ===== verification/Media_Validate.thy ===== *)
theory Media_Validate
  imports Media_Plan Go_Text
begin

text \<open>
  Checking a converted file: the sensitive tags of \<open>internal/media/metadata.go\<close>, the box order of
  \<open>mp4.go\<close>, the contract checks of \<open>validate.go\<close>, and FFmpeg's progress report, \<open>progress.go\<close>.
\<close>

subsection \<open>Sensitive metadata\<close>

record sensitive_metadata =
  sm_gps :: bool
  sm_exif :: bool
  sm_xmp :: bool
  sm_gain_map :: bool

definition inspect_tag :: "string \<Rightarrow> sensitive_metadata \<Rightarrow> sensitive_metadata" where
  "inspect_tag key s =
    (let key = to_lower key
     in \<lparr>sm_gps = sm_gps s \<or> contains_str key ''gps'' \<or> contains_str key ''location'' \<or> contains_str key ''iso6709'',
         sm_exif = sm_exif s \<or> contains_str key ''exif'',
         sm_xmp = sm_xmp s \<or> contains_str key ''xmp'',
         sm_gain_map = sm_gain_map s \<or> contains_str key ''gainmap'' \<or> contains_str key ''gain_map''\<rparr>)"

definition inspect_tags :: "tags \<Rightarrow> sensitive_metadata \<Rightarrow> sensitive_metadata" where
  "inspect_tags t s = fold (\<lambda>(key, _). inspect_tag key) (tag_list t) s"

definition detect_sensitive_metadata :: "probe \<Rightarrow> sensitive_metadata" where
  "detect_sensitive_metadata p =
    fold (\<lambda>s. inspect_tags (ps_tags s)) (pr_streams p)
      (inspect_tags (pf_tags (pr_format p))
        \<lparr>sm_gps = False, sm_exif = False, sm_xmp = False, sm_gain_map = False\<rparr>)"

subsection \<open>The order of MP4 boxes\<close>

text \<open>\<open>ReadAt\<close> of \<open>n\<close> bytes at an offset: the bytes, or an error.\<close>

type_synonym reader_at = "int \<Rightarrow> nat \<Rightarrow> string result"

text \<open>The type and the length of the box at an offset below the size.\<close>

definition box_at :: "reader_at \<Rightarrow> int \<Rightarrow> int \<Rightarrow> (string \<times> int) result" where
  "box_at read_at fsize offset =
    (if fsize - offset < 8 then Inl (NewError ''media: truncated MP4 box header'')
     else case read_at offset 8 of
       Inl e \<Rightarrow> Inl (Wrapped ''media: read MP4 box header'' e)
     | Inr header \<Rightarrow>
         let checked = (\<lambda>box_size header_size.
               if box_size < header_size \<or> fsize - offset < box_size
               then Inl (NewError ''media: invalid MP4 box size'')
               else Inr (take 4 (drop 4 header), box_size));
             n = big_endian (take 4 header)
         in if n = 1 then
              (if fsize - offset < 16 then Inl (NewError ''media: truncated extended MP4 box header'')
               else case read_at (offset + 8) 8 of
                 Inl e \<Rightarrow> Inl (Wrapped ''media: read extended MP4 box header'' e)
               | Inr wide \<Rightarrow> checked (wrap64 (big_endian (take 8 wide))) 16)
            else if n = 0 then checked (fsize - offset) 8
            else checked n 8)"

lemma box_at_size: "box_at read_at fsize offset = Inr (kind, n) \<Longrightarrow> 8 \<le> n \<and> offset + n \<le> fsize"
  by (auto simp: box_at_def Let_def split: if_splits sum.splits)

function fast_start_from :: "reader_at \<Rightarrow> int \<Rightarrow> int \<Rightarrow> bool \<Rightarrow> bool result" where
  "fast_start_from read_at fsize offset saw_moov =
    (if offset < fsize then
       (case box_at read_at fsize offset of
          Inl e \<Rightarrow> Inl e
        | Inr (kind, n) \<Rightarrow>
            if kind = ''moov'' then fast_start_from read_at fsize (offset + n) True
            else if kind = ''mdat'' then Inr saw_moov
            else fast_start_from read_at fsize (offset + n) saw_moov)
     else Inr False)"
  by pat_completeness auto
termination
  by (relation "measure (\<lambda>(_, fsize, offset, _). nat (fsize - offset))") (auto dest: box_at_size)

declare fast_start_from.simps [simp del]

definition has_fast_start :: "reader_at option \<Rightarrow> int \<Rightarrow> bool result" where
  "has_fast_start reader fsize =
    (case reader of
       None \<Rightarrow> Inl (NewError ''media: MP4 reader must not be nil'')
     | Some read_at \<Rightarrow>
         if fsize < 0 then Inl (NewError ''media: MP4 size must not be negative'')
         else fast_start_from read_at fsize 0 False)"

subsection \<open>Validation issues\<close>

definition issue :: "validation_code \<Rightarrow> string \<Rightarrow> string \<Rightarrow> string \<Rightarrow> validation_issue" where
  "issue code field expected actual =
    \<lparr>vi_code = code, vi_field = field, vi_expected = expected, vi_actual = actual\<rparr>"

definition undeclared_issue :: "stream \<Rightarrow> validation_issue" where
  "undeclared_issue s =
    issue ValidationUndeclaredStream (''streams['' @ itoa (ps_index s) @ '']'') ''no undeclared stream''
      (ps_type s @ '':'' @ ps_codec s)"

definition surplus_streams :: "stream list \<Rightarrow> nat \<Rightarrow> stream list" where
  "surplus_streams ss n = (if length ss \<le> n then [] else drop n ss)"

definition duration_difference :: "int \<Rightarrow> int \<Rightarrow> int" where
  "duration_difference a b = (if b \<le> a then wrap64 (a - b) else wrap64 (b - a))"

definition container_aliases :: "string \<Rightarrow> string list" where
  "container_aliases expected =
    (if expected = ''mp4'' then [''mov'', ''mp4'', ''m4a'', ''3gp'', ''3g2'', ''mj2'']
     else if expected = ''mp3'' then [''mp3'']
     else if expected = ''flac'' then [''flac'']
     else [])"

definition container_matches :: "string \<Rightarrow> string \<Rightarrow> bool" where
  "container_matches expected actual \<longleftrightarrow>
    list_ex (\<lambda>name. let name = trim_space name in name = expected \<or> name \<in> set (container_aliases expected))
      (split_on (CHR '','') actual)"

subsection \<open>\<open>ValidateProbe\<close>\<close>

text \<open>One issue when a check fails.\<close>

definition unless :: "bool \<Rightarrow> validation_issue \<Rightarrow> validation_issue list" where
  "unless ok i = (if ok then [] else [i])"

definition metadata_issues :: "probe \<Rightarrow> validation_issue list" where
  "metadata_issues out =
    (let m = detect_sensitive_metadata out
     in concat (map (\<lambda>(name, present). unless (\<not> present) (issue ValidationMetadata (''metadata.'' @ name) ''absent'' ''present''))
          [(''gps'', sm_gps m), (''exif'', sm_exif m), (''xmp'', sm_xmp m), (''gain_map'', sm_gain_map m)]))"

definition sort_stream ::
  "stream \<Rightarrow> validation_issue list \<times> stream list \<times> stream list \<Rightarrow> validation_issue list \<times> stream list \<times> stream list" where
  "sort_stream s acc =
    (case acc of (is, vs, as) \<Rightarrow>
       if ps_type s = ''video'' then
         (if di_attached_pic (ps_disposition s) \<noteq> 0 then (is @ [undeclared_issue s], vs, as) else (is, vs @ [s], as))
       else if ps_type s = ''audio'' then (is, vs, as @ [s])
       else (is @ [undeclared_issue s], vs, as))"

definition color_issue :: "string \<Rightarrow> string \<Rightarrow> string \<Rightarrow> validation_issue list" where
  "color_issue field expected actual =
    unless (expected = [] \<or> actual = expected) (issue ValidationColor (''streams.video.'' @ field) expected actual)"

definition dimensions_text :: "int \<Rightarrow> int \<Rightarrow> string" where
  "dimensions_text w h = itoa w @ ''x'' @ itoa h"

definition video_issues :: "expected_profile \<Rightarrow> stream \<Rightarrow> validation_issue list" where
  "video_issues x v =
    unless (ps_codec v = xp_video_codec x) (issue ValidationCodec ''streams.video.codec'' (xp_video_codec x) (ps_codec v))
    @ unless (ps_pixel_format v = xp_pixel_format x)
        (issue ValidationPixelFormat ''streams.video.pixel_format'' (xp_pixel_format x) (ps_pixel_format v))
    @ color_issue ''color_range'' (xp_range x) (ps_range v)
    @ color_issue ''color_space'' (xp_space x) (ps_space v)
    @ color_issue ''color_transfer'' (xp_transfer x) (ps_transfer v)
    @ color_issue ''color_primaries'' (xp_primaries x) (ps_primaries v)
    @ unless (ps_width v = xp_width x \<and> ps_height v = xp_height x)
        (issue ValidationDimensions ''streams.video.dimensions'' (dimensions_text (xp_width x) (xp_height x))
          (dimensions_text (ps_width v) (ps_height v)))
    @ unless (rotation v = xp_rotation x)
        (issue ValidationRotation ''streams.video.rotation'' (itoa (xp_rotation x)) (itoa (rotation v)))"

definition audio_issues :: "expected_profile \<Rightarrow> stream \<Rightarrow> validation_issue list" where
  "audio_issues x a =
    unless (ps_codec a = xp_audio_codec x) (issue ValidationCodec ''streams.audio.codec'' (xp_audio_codec x) (ps_codec a))
    @ unless (xp_channels x \<le> 0 \<or> ps_channels a = xp_channels x)
        (issue ValidationChannelLayout ''streams.audio.channels'' (itoa (xp_channels x)) (itoa (ps_channels a)))
    @ unless (xp_layout x = [] \<or> ps_layout a = xp_layout x)
        (issue ValidationChannelLayout ''streams.audio.channel_layout'' (xp_layout x) (ps_layout a))
    @ unless (xp_sample_rate x \<le> 0 \<or> fst (atoi (ps_sample_rate a)) = xp_sample_rate x)
        (issue ValidationSampleRate ''streams.audio.sample_rate'' (itoa (xp_sample_rate x)) (ps_sample_rate a))"

definition duration_issues :: "expected_profile \<Rightarrow> media_format \<Rightarrow> validation_issue list" where
  "duration_issues x f =
    (let actual = format_duration f; positive = (case actual of None \<Rightarrow> False | Some d \<Rightarrow> 0 < d)
     in if xp_known x then
          unless (positive \<and> duration_difference (the actual) (xp_duration x) \<le> xp_tolerance x)
            (issue ValidationDuration ''format.duration''
              (duration_text (xp_duration x) @ '' +/- '' @ duration_text (xp_tolerance x))
              (if pf_duration f = [] then ''unknown'' else pf_duration f))
        else unless positive (issue ValidationDuration ''format.duration'' ''positive duration'' (pf_duration f)))"

definition probe_issues :: "plan \<Rightarrow> probe \<Rightarrow> validation_issue list" where
  "probe_issues p out =
    (let x = pl_expected p;
         (is, vs, as) = fold sort_stream (pr_streams out)
           (metadata_issues out
             @ unless (container_matches (xp_container x) (pf_name (pr_format out)))
                 (issue ValidationContainer ''format.format_name'' (xp_container x) (pf_name (pr_format out))), [], []);
         nv = (if xp_video_codec x \<noteq> [] then 1 else 0);
         na = (if xp_audio x = AudioRequired then 1 else 0)
     in is
        @ unless (length vs = nv) (issue ValidationStreamCount ''streams.video'' (itoa (int nv)) (itoa (int (length vs))))
        @ map undeclared_issue (surplus_streams vs nv)
        @ unless (length as = na)
            (issue ValidationAudioPresence ''streams.audio'' (audio_presence_text (xp_audio x)) (itoa (int (length as))))
        @ map undeclared_issue (surplus_streams as na)
        @ (if nv = 1 then (case vs of [] \<Rightarrow> [] | v # _ \<Rightarrow> video_issues x v) else [])
        @ (if na = 1 then (case as of [] \<Rightarrow> [] | a # _ \<Rightarrow> audio_issues x a) else [])
        @ duration_issues x (pr_format out))"

text \<open>The error carries the issues.\<close>

definition validation_error :: "validation_issue list \<Rightarrow> err option" where
  "validation_error is = (if is = [] then None else Some (MediaValidationError is))"

definition validate_probe :: "plan \<Rightarrow> probe \<Rightarrow> err option" where
  "validate_probe p out = validation_error (probe_issues p out)"

subsection \<open>\<open>ValidateOutput\<close>\<close>

text \<open>What opening the output gives, and whether closing it succeeds.\<close>

datatype opened = OpenFailed | StatFailed | Opened int reader_at

definition fast_start_issues :: "opened \<Rightarrow> bool \<Rightarrow> validation_issue list" where
  "fast_start_issues op close_ok =
    (case op of
       OpenFailed \<Rightarrow> [issue ValidationFastStart ''file'' ''readable MP4'' ''unreadable'']
     | StatFailed \<Rightarrow> issue ValidationFastStart ''file'' ''readable MP4'' ''stat failed''
         # unless close_ok (issue ValidationFastStart ''file'' ''clean close'' ''close failed'')
     | Opened n read_at \<Rightarrow>
         unless (has_fast_start (Some read_at) n = Inr True)
           (issue ValidationFastStart ''file.moov'' ''before mdat'' ''after or missing'')
         @ unless close_ok (issue ValidationFastStart ''file'' ''clean close'' ''close failed''))"

definition output_issues :: "plan \<Rightarrow> probe \<Rightarrow> opened \<Rightarrow> bool \<Rightarrow> validation_issue list" where
  "output_issues p out op close_ok =
    probe_issues p out @ (if xp_fast_start (pl_expected p) then fast_start_issues op close_ok else [])"

definition validate_output :: "plan \<Rightarrow> probe \<Rightarrow> opened \<Rightarrow> bool \<Rightarrow> err option" where
  "validate_output p out op close_ok = validation_error (output_issues p out op close_ok)"

subsection \<open>Progress\<close>

record progress =
  pg_frame :: int
  pg_fps :: float64
  pg_out_time :: int
  pg_speed :: float64
  pg_done :: bool

definition no_progress :: progress where
  "no_progress = \<lparr>pg_frame = 0, pg_fps = Finite False 0 0, pg_out_time = 0, pg_speed = Finite False 0 0, pg_done = False\<rparr>"

definition parse_clock :: "(float64 \<Rightarrow> int) \<Rightarrow> string \<Rightarrow> int option" where
  "parse_clock out_of_range v =
    (case split_on (CHR '':'') v of
       [h, m, s] \<Rightarrow>
         (case (atoi h, atoi m, parse_float s) of
            ((hours, True), (minutes, True), (seconds, True)) \<Rightarrow>
              Some (wrap64 (wrap64 (wrap64 (hours * 3600000000000) + wrap64 (minutes * 60000000000))
                + float_to_int64 out_of_range (float_times seconds (float_of_int 1000000000))))
          | _ \<Rightarrow> None)
     | _ \<Rightarrow> None)"

definition progress_line :: "(float64 \<Rightarrow> int) \<Rightarrow> string \<Rightarrow> progress \<times> progress list \<Rightarrow> progress \<times> progress list" where
  "progress_line out_of_range line acc =
    (case acc of (current, updates) \<Rightarrow>
       case cut_on (CHR ''='') line of
         None \<Rightarrow> (current, updates)
       | Some (key, v) \<Rightarrow>
           if key = ''frame'' then (current\<lparr>pg_frame := fst (atoi v)\<rparr>, updates)
           else if key = ''fps'' then (current\<lparr>pg_fps := fst (parse_float v)\<rparr>, updates)
           else if key = ''out_time_us'' then
             (case atoi v of
                (us, True) \<Rightarrow> (current\<lparr>pg_out_time := wrap64 (us * 1000)\<rparr>, updates)
              | _ \<Rightarrow> (current, updates))
           else if key = ''out_time'' then
             (case parse_clock out_of_range v of
                Some d \<Rightarrow> (current\<lparr>pg_out_time := d\<rparr>, updates)
              | None \<Rightarrow> (current, updates))
           else if key = ''speed'' then (current\<lparr>pg_speed := fst (parse_float (trim_suffix v ''x''))\<rparr>, updates)
           else if key = ''progress'' then (no_progress, updates @ [current\<lparr>pg_done := (v = ''end'')\<rparr>])
           else (current, updates))"

definition parse_progress :: "(float64 \<Rightarrow> int) \<Rightarrow> string option \<Rightarrow> progress list result" where
  "parse_progress out_of_range reader =
    (case reader of
       None \<Rightarrow> Inl (NewError ''media: progress reader must not be nil'')
     | Some text \<Rightarrow>
         (case scan_lines text of
            Inl e \<Rightarrow> Inl (Wrapped ''media: read FFmpeg progress'' e)
          | Inr ls \<Rightarrow> Inr (snd (fold (progress_line out_of_range) ls (no_progress, [])))))"

subsection \<open>The contract, stated declaratively\<close>

definition sensitive_key :: "string \<Rightarrow> bool" where
  "sensitive_key key \<longleftrightarrow>
    list_ex (contains_str (to_lower key)) [''gps'', ''location'', ''iso6709'', ''exif'', ''xmp'', ''gainmap'', ''gain_map'']"

definition no_sensitive_tags :: "probe \<Rightarrow> bool" where
  "no_sensitive_tags out \<longleftrightarrow>
    (\<forall>t\<in>set (pf_tags (pr_format out) # map ps_tags (pr_streams out)). \<forall>(key, _)\<in>set (tag_list t). \<not> sensitive_key key)"

definition declared_stream :: "stream \<Rightarrow> bool" where
  "declared_stream s \<longleftrightarrow> ps_type s = ''audio'' \<or> ps_type s = ''video'' \<and> di_attached_pic (ps_disposition s) = 0"

definition video_matches :: "expected_profile \<Rightarrow> stream \<Rightarrow> bool" where
  "video_matches x v \<longleftrightarrow> ps_codec v = xp_video_codec x \<and> ps_pixel_format v = xp_pixel_format x
    \<and> xp_range x \<in> {[], ps_range v} \<and> xp_space x \<in> {[], ps_space v}
    \<and> xp_transfer x \<in> {[], ps_transfer v} \<and> xp_primaries x \<in> {[], ps_primaries v}
    \<and> ps_width v = xp_width x \<and> ps_height v = xp_height x \<and> rotation v = xp_rotation x"

definition audio_matches :: "expected_profile \<Rightarrow> stream \<Rightarrow> bool" where
  "audio_matches x a \<longleftrightarrow> ps_codec a = xp_audio_codec x
    \<and> (0 < xp_channels x \<longrightarrow> ps_channels a = xp_channels x) \<and> xp_layout x \<in> {[], ps_layout a}
    \<and> (0 < xp_sample_rate x \<longrightarrow> fst (atoi (ps_sample_rate a)) = xp_sample_rate x)"

definition duration_matches :: "expected_profile \<Rightarrow> media_format \<Rightarrow> bool" where
  "duration_matches x f \<longleftrightarrow> (\<exists>d. format_duration f = Some d \<and> 0 < d
    \<and> (xp_known x \<longrightarrow> duration_difference d (xp_duration x) \<le> xp_tolerance x))"

definition meets_contract :: "expected_profile \<Rightarrow> probe \<Rightarrow> bool" where
  "meets_contract x out \<longleftrightarrow>
    no_sensitive_tags out \<and> container_matches (xp_container x) (pf_name (pr_format out))
    \<and> list_all declared_stream (pr_streams out)
    \<and> (if xp_video_codec x = [] then videos (pr_streams out) = []
       else \<exists>v. videos (pr_streams out) = [v] \<and> video_matches x v)
    \<and> (if xp_audio x = AudioRequired then \<exists>a. audios (pr_streams out) = [a] \<and> audio_matches x a
       else audios (pr_streams out) = [])
    \<and> duration_matches x (pr_format out)"

lemma unless_Nil [simp]: "unless ok i = [] \<longleftrightarrow> ok"
  by (simp add: unless_def)

text \<open>The flags are set exactly by sensitive keys.\<close>

definition any_sensitive :: "sensitive_metadata \<Rightarrow> bool" where
  "any_sensitive s \<longleftrightarrow> sm_gps s \<or> sm_exif s \<or> sm_xmp s \<or> sm_gain_map s"

lemma inspect_tag_any: "any_sensitive (inspect_tag key s) \<longleftrightarrow> any_sensitive s \<or> sensitive_key key"
  by (auto simp: any_sensitive_def inspect_tag_def sensitive_key_def Let_def)

lemma inspect_tags_any:
  "any_sensitive (inspect_tags t s) \<longleftrightarrow> any_sensitive s \<or> (\<exists>(key, v)\<in>set (tag_list t). sensitive_key key)"
proof -
  have "any_sensitive (fold (\<lambda>(key, _). inspect_tag key) ts s) \<longleftrightarrow> any_sensitive s \<or> (\<exists>(key, v)\<in>set ts. sensitive_key key)" for ts
    by (induction ts arbitrary: s) (auto simp: inspect_tag_any)
  then show ?thesis by (simp add: inspect_tags_def)
qed

lemma metadata_issues_Nil: "metadata_issues out = [] \<longleftrightarrow> no_sensitive_tags out"
proof -
  have f: "any_sensitive (fold (\<lambda>s. inspect_tags (ps_tags s)) ss m) \<longleftrightarrow>
      any_sensitive m \<or> (\<exists>s\<in>set ss. \<exists>(key, v)\<in>set (tag_list (ps_tags s)). sensitive_key key)" for ss m
    by (induction ss arbitrary: m) (auto simp: inspect_tags_any)
  have "metadata_issues out = [] \<longleftrightarrow> \<not> any_sensitive (detect_sensitive_metadata out)"
    by (simp add: metadata_issues_def Let_def any_sensitive_def)
  also have "\<dots> \<longleftrightarrow> no_sensitive_tags out"
    unfolding detect_sensitive_metadata_def f inspect_tags_any by (auto simp: any_sensitive_def no_sensitive_tags_def)
  finally show ?thesis .
qed

lemma fold_sort_stream:
  "fold sort_stream ss (is, vs, as) =
    (is @ map undeclared_issue (filter (\<lambda>s. \<not> declared_stream s) ss),
     vs @ filter (\<lambda>s. di_attached_pic (ps_disposition s) = 0) (videos ss), as @ audios ss)"
proof (induction ss arbitrary: "is" vs as)
  case (Cons s ss)
  show ?case
    unfolding fold_simps(2) sort_stream_def [of s] by (auto simp: Cons.IH videos_def audios_def declared_stream_def)
qed (simp add: videos_def audios_def)

lemma declared_videos:
  "list_all declared_stream ss \<Longrightarrow> filter (\<lambda>s. di_attached_pic (ps_disposition s) = 0) (videos ss) = videos ss"
  by (induction ss) (auto simp: videos_def declared_stream_def)

lemma video_issues_Nil: "video_issues x v = [] \<longleftrightarrow> video_matches x v"
  by (auto simp: video_issues_def color_issue_def video_matches_def)

lemma audio_issues_Nil: "audio_issues x a = [] \<longleftrightarrow> audio_matches x a"
  by (auto simp: audio_issues_def audio_matches_def)

lemma duration_issues_Nil: "duration_issues x f = [] \<longleftrightarrow> duration_matches x f"
  by (auto simp: duration_issues_def duration_matches_def Let_def split: option.splits)

lemma exactly_one:
  "length xs = 1 \<and> surplus_streams xs 1 = [] \<and> (case xs of [] \<Rightarrow> [] | x # _ \<Rightarrow> f x) = [] \<longleftrightarrow> (\<exists>x. xs = [x] \<and> f x = [])"
  by (cases xs) (auto simp: surplus_streams_def)

lemma probe_issues_Nil: "probe_issues p out = [] \<longleftrightarrow> meets_contract (pl_expected p) out"
proof -
  let ?x = "pl_expected p" and ?ss = "pr_streams out"
  let ?vs = "filter (\<lambda>s. di_attached_pic (ps_disposition s) = 0) (videos ?ss)"
  have "probe_issues p out = [] \<longleftrightarrow>
      no_sensitive_tags out \<and> container_matches (xp_container ?x) (pf_name (pr_format out)) \<and> list_all declared_stream ?ss
      \<and> (if xp_video_codec ?x = [] then ?vs = []
         else length ?vs = 1 \<and> surplus_streams ?vs 1 = [] \<and> (case ?vs of [] \<Rightarrow> [] | v # _ \<Rightarrow> video_issues ?x v) = [])
      \<and> (if xp_audio ?x = AudioRequired
         then length (audios ?ss) = 1 \<and> surplus_streams (audios ?ss) 1 = [] \<and> (case audios ?ss of [] \<Rightarrow> [] | a # _ \<Rightarrow> audio_issues ?x a) = []
         else audios ?ss = [])
      \<and> duration_matches ?x (pr_format out)"
    unfolding probe_issues_def Let_def fold_sort_stream prod.case
    by (auto simp: metadata_issues_Nil duration_issues_Nil list_all_iff filter_empty_conv surplus_streams_def)
  also have "\<dots> \<longleftrightarrow> meets_contract ?x out"
    unfolding exactly_one video_issues_Nil audio_issues_Nil meets_contract_def
    using declared_videos [of ?ss] by (cases "list_all declared_stream ?ss") simp_all
  finally show ?thesis .
qed

subsection \<open>Well-formed box sequences\<close>

text \<open>A file as a list of boxes, each with a 32-bit or a 64-bit length field.\<close>

record mp4_box =
  bx_kind :: string
  bx_wide :: bool
  bx_payload :: string

fun byte_list :: "nat \<Rightarrow> nat \<Rightarrow> string" where
  "byte_list 0 n = []"
| "byte_list (Suc k) n = byte_list k (n div 256) @ [char_of n]"

definition encode_box :: "mp4_box \<Rightarrow> string" where
  "encode_box b =
    (if bx_wide b then byte_list 4 1 @ bx_kind b @ byte_list 8 (16 + length (bx_payload b)) @ bx_payload b
     else byte_list 4 (8 + length (bx_payload b)) @ bx_kind b @ bx_payload b)"

definition good_box :: "mp4_box \<Rightarrow> bool" where
  "good_box b \<longleftrightarrow> length (bx_kind b) = 4
    \<and> (if bx_wide b then 16 + length (bx_payload b) < 2 ^ 63 else 8 + length (bx_payload b) < 2 ^ 32)"

text \<open>Reading from a file that holds the text.\<close>

definition text_reader :: "string \<Rightarrow> reader_at" where
  "text_reader text offset n =
    (if int (length text) < offset + int n then Inl (Sentinel IoEOF) else Inr (take n (drop (nat offset) text)))"

text \<open>The index comes before the first media data.\<close>

definition moov_first :: "mp4_box list \<Rightarrow> bool" where
  "moov_first bs \<longleftrightarrow> ''mdat'' \<in> bx_kind ` set bs
    \<and> ''moov'' \<in> bx_kind ` set (takeWhile (\<lambda>b. bx_kind b \<noteq> ''mdat'') bs)"

lemma length_byte_list [simp]: "length (byte_list k n) = k"
  by (induction k arbitrary: n) auto

lemma big_endian_snoc: "big_endian (s @ [c]) = 256 * big_endian s + of_char c"
  by (simp add: big_endian_def)

lemma big_endian_byte_list: "n < 256 ^ k \<Longrightarrow> big_endian (byte_list k n) = int n"
proof (induction k arbitrary: n)
  case (Suc k)
  then have "n div 256 < 256 ^ k" by (simp add: less_mult_imp_div_less mult.commute)
  moreover have "(of_char (char_of n :: char) :: int) = int (n mod 256)"
    by (metis of_char_of of_nat_of_char)
  ultimately have "big_endian (byte_list (Suc k) n) = 256 * int (n div 256) + int (n mod 256)"
    using Suc.IH [of "n div 256"] by (simp only: byte_list.simps big_endian_snoc)
  also have "\<dots> = int (256 * (n div 256) + n mod 256)" by (simp only: of_nat_add of_nat_mult of_nat_numeral)
  also have "\<dots> = int n" by (simp only: mult_div_mod_eq)
  finally show ?case .
qed (simp add: big_endian_def)

lemma box_at_good:
  assumes b: "good_box b" and t: "text = before @ encode_box b @ rest" and o: "offset = int (length before)"
  shows "box_at (text_reader text) (int (length text)) offset = Inr (bx_kind b, int (length (encode_box b)))"
proof -
  let ?l = "length (bx_payload b)"
  have k: "length (bx_kind b) = 4" using b by (simp add: good_box_def)
  have d: "drop (nat offset) text = encode_box b @ rest" "drop (nat (offset + 8)) text = drop 8 (encode_box b) @ rest"
    using t o by (simp, cases "bx_wide b") (simp_all add: k nat_add_distrib encode_box_def)
  show ?thesis
  proof (cases "bx_wide b")
    case True
    have r: "text_reader text offset 8 = Inr (byte_list 4 1 @ bx_kind b)"
      "text_reader text (offset + 8) 8 = Inr (byte_list 8 (16 + ?l))"
      using True k t o unfolding text_reader_def d by (simp_all add: encode_box_def)
    have "big_endian (byte_list 4 1) = 1" by (subst big_endian_byte_list) auto
    moreover have "16 + ?l < 2 ^ 63" using b True by (simp add: good_box_def)
    then have l: "16 + ?l < 256 ^ 8" "int (16 + ?l) \<le> max_int64" by (simp_all add: max_int64_def)
    have "wrap64 (big_endian (byte_list 8 (16 + ?l))) = int (16 + ?l)"
      unfolding big_endian_byte_list [OF l(1)] by (rule wrap64_id) (use l in \<open>simp_all add: min_int64_def\<close>)
    ultimately show ?thesis
      unfolding box_at_def r using True k t o by (simp add: encode_box_def Let_def)
  next
    case False
    then have l: "8 + ?l < 256 ^ 4" using b by (simp add: good_box_def)
    have r: "text_reader text offset 8 = Inr (byte_list 4 (8 + ?l) @ bx_kind b)"
      using False k t o unfolding text_reader_def d by (simp add: encode_box_def)
    show ?thesis
      unfolding box_at_def r using False k t o by (simp add: encode_box_def Let_def big_endian_byte_list [OF l])
  qed
qed

lemma fast_start_boxes:
  assumes "list_all good_box bs" and "text = before @ concat (map encode_box bs)"
  shows "fast_start_from (text_reader text) (int (length text)) (int (length before)) saw
    = Inr (''mdat'' \<in> bx_kind ` set bs \<and> (saw \<or> ''moov'' \<in> bx_kind ` set (takeWhile (\<lambda>b. bx_kind b \<noteq> ''mdat'') bs)))"
  using assms
proof (induction bs arbitrary: before saw)
  case Nil
  then show ?case by (simp add: fast_start_from.simps)
next
  case (Cons b bs)
  have n: "0 < length (encode_box b)" by (simp add: encode_box_def del: length_greater_0_conv)
  have box: "box_at (text_reader text) (int (length text)) (int (length before))
      = Inr (bx_kind b, int (length (encode_box b)))"
    using Cons.prems by (intro box_at_good [where rest = "concat (map encode_box bs)"]) auto
  have IH: "fast_start_from (text_reader text) (int (length text)) (int (length before) + int (length (encode_box b))) s
    = Inr (''mdat'' \<in> bx_kind ` set bs \<and> (s \<or> ''moov'' \<in> bx_kind ` set (takeWhile (\<lambda>b. bx_kind b \<noteq> ''mdat'') bs)))" for s
    using Cons.IH [of "before @ encode_box b" s] Cons.prems by simp
  have "int (length before) < int (length text)" using Cons.prems(2) n by (simp del: length_greater_0_conv)
  then show ?case
    by (subst fast_start_from.simps, cases "bx_kind b = ''moov''"; cases "bx_kind b = ''mdat''") (simp_all add: box IH)
qed

subsection \<open>Properties\<close>

text \<open>C32: An output passes validation exactly when it meets the contract of its plan: no sensitive tag
  anywhere, the container, exactly the promised streams and no other, every promised property of
  each, a positive duration within the tolerance, and for an MP4 a readable file whose index comes
  before its media data.\<close>

theorem validate_output_iff:
  "validate_output p out op close_ok = None \<longleftrightarrow>
    meets_contract (pl_expected p) out
    \<and> (if xp_fast_start (pl_expected p)
       then \<exists>n read_at. op = Opened n read_at \<and> has_fast_start (Some read_at) n = Inr True \<and> close_ok
       else True)"
  by (auto simp: validate_output_def validation_error_def output_issues_def probe_issues_Nil fast_start_issues_def
      split: opened.splits)

text \<open>C33: On every file that is a sequence of well-formed boxes, with short or extended length fields, the
  scan finds exactly whether there is media data and the index stands before the first of it.\<close>

theorem has_fast_start_spec:
  assumes "list_all good_box bs"
  shows "has_fast_start (Some (text_reader (concat (map encode_box bs)))) (int (length (concat (map encode_box bs))))
    = Inr (moov_first bs)"
  using fast_start_boxes [OF assms, of _ "[]" False]
  by (auto simp: has_fast_start_def moov_first_def)

theorem has_fast_start_spec_witness:
  "has_fast_start (Some (text_reader (concat (map encode_box
      [\<lparr>bx_kind = ''ftyp'', bx_wide = False, bx_payload = ''isom''\<rparr>, \<lparr>bx_kind = ''moov'', bx_wide = True, bx_payload = []\<rparr>,
       \<lparr>bx_kind = ''mdat'', bx_wide = False, bx_payload = ''xyz''\<rparr>])))) 39 = Inr True"
proof -
  let ?bs = "[\<lparr>bx_kind = ''ftyp'', bx_wide = False, bx_payload = ''isom''\<rparr>, \<lparr>bx_kind = ''moov'', bx_wide = True, bx_payload = []\<rparr>,
       \<lparr>bx_kind = ''mdat'', bx_wide = False, bx_payload = ''xyz''\<rparr>]"
  have g: "list_all good_box ?bs" by (simp add: good_box_def)
  have l: "int (length (concat (map encode_box ?bs))) = 39" by (simp add: encode_box_def)
  have m: "moov_first ?bs" by (simp add: moov_first_def)
  show ?thesis using has_fast_start_spec [OF g] unfolding l using m by simp
qed

end
