(* ===== verification/File_Tree.thy ===== *)
theory File_Tree
  imports Runner
begin

text \<open>
  Files as the converters see them: a map from paths to contents, the hard link that publishes
  without replacing, the removal of a directory, and run functions that leave a part of the
  world alone.
\<close>

type_synonym files = "string \<rightharpoonup> string"

text \<open>\<open>os.Link\<close>, with the fault the system may have; an existing name is refused.\<close>

definition hard_link :: "err option \<Rightarrow> string \<Rightarrow> string \<Rightarrow> files \<Rightarrow> err option \<times> files" where
  "hard_link fault source target fs =
    (case fault of
       Some e \<Rightarrow> (Some e, fs)
     | None \<Rightarrow>
         if fs source = None then (Some (LinkError ''link'' (Sentinel OsErrNotExist)), fs)
         else if fs target \<noteq> None then (Some (LinkError ''link'' (Sentinel OsErrExist)), fs)
         else (None, fs(target := fs source)))"

definition below :: "string \<Rightarrow> string \<Rightarrow> bool" where
  "below dir path \<longleftrightarrow> path = dir \<or> has_prefix path (dir @ ''/'')"

text \<open>\<open>os.RemoveAll\<close>: what it could not remove stays.\<close>

definition remove_tree :: "(string \<Rightarrow> bool) \<Rightarrow> string \<Rightarrow> files \<Rightarrow> files" where
  "remove_tree stays dir fs = (\<lambda>p. if below dir p \<and> \<not> stays p then None else fs p)"

lemma hard_link_error: "hard_link fault a b fs = (Some e, fs') \<Longrightarrow> fs' = fs"
  by (auto simp: hard_link_def split: option.splits if_splits)

lemma hard_link_done: "hard_link fault a b fs = (None, fs') \<Longrightarrow> fs b = None \<and> fs a \<noteq> None \<and> fs' = fs(b := fs a) \<and> a \<noteq> b"
  by (auto simp: hard_link_def split: option.splits if_splits)

lemma remove_tree_keeps [simp]: "\<not> below dir p \<Longrightarrow> remove_tree stays dir fs p = fs p"
  by (simp add: remove_tree_def)

text \<open>\<open>filepath.Dir\<close>: everything up to the last slash, cleaned.\<close>

definition file_dir :: "string \<Rightarrow> string" where
  "file_dir p = clean_path (take (length p - length (after_last slash p)) p)"

text \<open>A run function that does not change \<open>f\<close> of the world.\<close>

definition keeps :: "'w run_fun \<Rightarrow> ('w \<Rightarrow> 'a) \<Rightarrow> bool" where
  "keeps run f \<longleftrightarrow> (\<forall>c w. f (snd (run c w)) = f w)"

lemma keeps_run: "keeps run f \<Longrightarrow> run c w = (x, w') \<Longrightarrow> f w' = f w"
  by (metis keeps_def snd_conv)

end
