(* ===== verification/Media_Convert.thy ===== *)
theory Media_Convert
  imports Media_Validate Capability_Probe File_Tree
begin

text \<open>
  Running a media plan, \<open>internal/media/convert.go\<close>: the tone-mapping filter check, one attempt
  with staging, output probe, validation and publication without overwriting, and the single
  retry on the CPU after a recognized device failure, classified as in \<open>vaapi_probe.go\<close>.
  A run function may change the file tree.
\<close>

subsection \<open>Data\<close>

record execution_metadata =
  em_requested :: string
  em_initial :: execution_path
  em_final :: execution_path
  em_fallback :: fallback_reason
  em_attempts :: nat

record attempt =
  at_path :: execution_path
  at_command :: run_result
  at_progress :: "progress list"
  at_truncated :: bool
  at_probe :: run_result
  at_output :: probe

record conversion_result =
  cv_command :: run_result
  cv_progress :: "progress list"
  cv_truncated :: bool
  cv_probe :: run_result
  cv_output :: probe
  cv_execution :: execution_metadata
  cv_attempts :: "attempt list"

definition no_probe :: probe where
  "no_probe = \<lparr>pr_streams = [], pr_format = \<lparr>pf_name = [], pf_duration = [], pf_size = [], pf_tags = None\<rparr>\<rparr>"

definition no_execution :: execution_metadata where
  "no_execution = \<lparr>em_requested = [], em_initial = NoPath, em_final = NoPath, em_fallback = FallbackNone, em_attempts = 0\<rparr>"

definition no_conversion :: conversion_result where
  "no_conversion = \<lparr>cv_command = no_result, cv_progress = [], cv_truncated = False, cv_probe = no_result,
     cv_output = no_probe, cv_execution = no_execution, cv_attempts = []\<rparr>"

text \<open>What the system calls of one attempt give: the staging file or an error, and the others' errors.\<close>

record attempt_calls =
  ac_create :: "string result"
  ac_close :: "err option"
  ac_remove_early :: bool
  ac_open :: bool
  ac_stat :: bool
  ac_close_read :: bool
  ac_context :: "err option"
  ac_link :: "err option"
  ac_remove_linked :: bool
  ac_remove_failed :: bool

subsection \<open>Classifying a device failure\<close>

definition vaapi_device_phrases :: "string list" where
  "vaapi_device_phrases = [''no va display found'', ''cannot open drm render node'', ''failed to open vaapi device'',
     ''failed to open /dev/dri/'']"

definition vaapi_initialization_phrases :: "string list" where
  "vaapi_initialization_phrases = [''failed to initialise vaapi connection'', ''failed to initialize vaapi connection'',
     ''failed to create a vaapi device'', ''device creation failed'', ''failed to set value '' @ [CHR 0x27] @ ''vaapi='']"

definition vaapi_encoder_phrases :: "string list" where
  "vaapi_encoder_phrases = [''no usable encoding entrypoint'', ''failed to initialise vaapi encoder'',
     ''failed to initialize vaapi encoder'', ''error while opening encoder'', ''driver does not support any rc mode'']"

definition vaapi_upload_phrases :: "string list" where
  "vaapi_upload_phrases = [''a hardware device reference is required to upload frames'', ''failed to upload frame'',
     ''failed to map frame'', ''failed to transfer data to surface'']"

definition classify_vaapi_stderr :: "string \<Rightarrow> fallback_reason" where
  "classify_vaapi_stderr er =
    (let t = to_lower er
     in if list_ex (contains_str t) vaapi_device_phrases then FallbackVAAPIDevice
        else if contains_str t ''/dev/dri/'' \<and> contains_str t ''permission denied'' then FallbackVAAPIDevice
        else if list_ex (contains_str t) vaapi_initialization_phrases then FallbackVAAPIInitialization
        else if list_ex (contains_str t) vaapi_encoder_phrases then FallbackVAAPIEncoder
        else if list_ex (contains_str t) vaapi_upload_phrases then FallbackVAAPIUpload
        else if contains_str t ''hwupload'' \<and> (contains_str t ''failed'' \<or> contains_str t ''error'') then FallbackVAAPIUpload
        else FallbackNone)"

definition classify_vaapi_failure :: "err \<Rightarrow> string \<Rightarrow> fallback_reason" where
  "classify_vaapi_failure e er =
    (case errors_as as_media_conversion e of
       Some (ConversionStageEncode, cause) \<Rightarrow>
         (if errors_as as_runner_exit cause = None then FallbackNone else classify_vaapi_stderr er)
     | _ \<Rightarrow> FallbackNone)"

definition is_vaapi_path :: "execution_path \<Rightarrow> bool" where
  "is_vaapi_path p \<longleftrightarrow> p = PathVAAPISoftwareDecode \<or> p = PathVAAPIHardwareDecode"

subsection \<open>The filter check\<close>

definition listed_filters :: "string \<Rightarrow> string list" where
  "listed_filters out =
    List.map_filter (\<lambda>line. case fields_text line of
        _ # name # io # _ \<Rightarrow> if contains_str io ''->'' then Some name else None
      | _ \<Rightarrow> None) (split_on (CHR 0x0A) out)"

definition require_filters :: "files run_fun \<Rightarrow> string \<Rightarrow> string list \<Rightarrow> int \<Rightarrow> files \<Rightarrow> err option \<times> files" where
  "require_filters run ffmpeg required timeout fs =
    (if required = [] then (None, fs)
     else case run (plain_command ffmpeg [''-hide_banner'', ''-filters''] timeout) fs of
       ((r, Some e), fs) \<Rightarrow>
         (Some (if errors_is e ContextCanceled \<or> errors_is e ContextDeadlineExceeded then e
                else MediaConversionError ConversionStageCapability (Wrapped ''list FFmpeg filters'' e)), fs)
     | ((r, None), fs) \<Rightarrow>
         (if rr_exit_code r \<noteq> 0
          then Some (MediaConversionError ConversionStageCapability
            (NewError (''list FFmpeg filters: unexpected exit code '' @ itoa (rr_exit_code r))))
          else if list_all (\<lambda>f. f \<in> set (listed_filters (cap_bytes (rr_stdout r) @ [CHR 0x0A] @ cap_bytes (rr_stderr r)))) required
          then None
          else Some (MediaPlanError ErrorUnsupportedHDR ''HDR conversion requires FFmpeg zscale and tonemap filters''), fs))"

subsection \<open>One attempt\<close>

text \<open>\<open>publishNoReplaceWith\<close> on the file tree: a hard link refuses an existing name.\<close>

definition publish_no_replace :: "attempt_calls \<Rightarrow> string \<Rightarrow> string \<Rightarrow> files \<Rightarrow> err option \<times> files" where
  "publish_no_replace calls temp final fs =
    (case hard_link (ac_link calls) temp final fs of
       (Some e, fs) \<Rightarrow> (Some (if errors_is e OsErrExist then Sentinel ErrOutputExists else e), fs)
     | (None, fs) \<Rightarrow> (None, if ac_remove_linked calls then fs(temp := None) else fs))"

text \<open>Opening the staged output to find its boxes.\<close>

definition open_output :: "attempt_calls \<Rightarrow> string \<Rightarrow> files \<Rightarrow> opened" where
  "open_output calls path fs =
    (case fs path of
       None \<Rightarrow> OpenFailed
     | Some content \<Rightarrow>
         if \<not> ac_open calls then OpenFailed
         else if \<not> ac_stat calls then StatFailed
         else Opened (int (length content)) (text_reader content))"

definition staged_plan :: "plan \<Rightarrow> string \<Rightarrow> plan" where
  "staged_plan p temp = p\<lparr>pl_output := temp, pl_args := butlast (pl_args p) @ [temp]\<rparr>"

definition failed_at :: "conversion_stage \<Rightarrow> err \<Rightarrow> err option" where
  "failed_at stage e = Some (MediaConversionError stage e)"

text \<open>The part of \<open>convertOnce\<close> between staging and cleaning up.\<close>

definition convert_staged ::
  "files run_fun \<Rightarrow> (string \<Rightarrow> probe result \<times> err option) \<Rightarrow> (float64 \<Rightarrow> int) \<Rightarrow> string \<Rightarrow> string \<Rightarrow> attempt_calls \<Rightarrow> plan
    \<Rightarrow> string \<Rightarrow> files \<Rightarrow> (conversion_result \<times> err option) \<times> files" where
  "convert_staged run json conv ffmpeg ffprobe calls p temp fs =
    (if pl_args p = []
     then ((no_conversion, failed_at ConversionStageEncode (NewError ''plan has no FFmpeg arguments'')), fs)
     else case run (plan_command (staged_plan p temp) ffmpeg) fs of
       ((r, Some e), fs) \<Rightarrow> ((no_conversion\<lparr>cv_command := r\<rparr>, failed_at ConversionStageEncode e), fs)
     | ((r, None), fs) \<Rightarrow>
         let res = no_conversion\<lparr>cv_command := r, cv_truncated := cap_truncated (rr_stdout r)\<rparr>
         in (case parse_progress conv (Some (cap_bytes (rr_stdout r))) of
               Inl e \<Rightarrow> ((res, failed_at ConversionStageProgress e), fs)
             | Inr updates \<Rightarrow>
               (case probe_file run json ffprobe temp (pl_timeout p) fs of
                  ((Inl e, pr), fs) \<Rightarrow>
                    ((res\<lparr>cv_progress := updates, cv_probe := pr\<rparr>, failed_at ConversionStageProbe e), fs)
                | ((Inr out, pr), fs) \<Rightarrow>
                    let res = res\<lparr>cv_progress := updates, cv_probe := pr, cv_output := out\<rparr>
                    in (case validate_output (staged_plan p temp) out (open_output calls temp fs) (ac_close_read calls) of
                          Some e \<Rightarrow> ((res, failed_at ConversionStageValidate e), fs)
                        | None \<Rightarrow>
                          (case ac_context calls of
                             Some e \<Rightarrow> ((res, failed_at ConversionStagePublish e), fs)
                           | None \<Rightarrow>
                             (case publish_no_replace calls temp (pl_output p) fs of
                                (Some e, fs) \<Rightarrow>
                                  ((res, failed_at ConversionStagePublish (Wrapped ''publish validated output'' e)), fs)
                              | (None, fs) \<Rightarrow> ((res, None), fs)))))))"

definition convert_once ::
  "files run_fun \<Rightarrow> (string \<Rightarrow> probe result \<times> err option) \<Rightarrow> (float64 \<Rightarrow> int) \<Rightarrow> string \<Rightarrow> string \<Rightarrow> attempt_calls \<Rightarrow> plan
    \<Rightarrow> files \<Rightarrow> (conversion_result \<times> err option) \<times> files" where
  "convert_once run json conv ffmpeg ffprobe calls p fs =
    (case ac_create calls of
       Inl e \<Rightarrow> ((no_conversion, failed_at ConversionStagePrepare (Wrapped ''create temporary output'' e)), fs)
     | Inr temp \<Rightarrow>
         let fs = fs(temp \<mapsto> [])
         in case ac_close calls of
              Some e \<Rightarrow>
                ((no_conversion, failed_at ConversionStagePrepare (Wrapped ''close temporary output'' e)),
                 if ac_remove_early calls then fs(temp := None) else fs)
            | None \<Rightarrow>
                (case convert_staged run json conv ffmpeg ffprobe calls p temp fs of
                   ((res, None), fs) \<Rightarrow> ((res, None), fs)
                 | ((res, Some e), fs) \<Rightarrow> ((res, Some e), if ac_remove_failed calls then fs(temp := None) else fs)))"

subsection \<open>The whole conversion\<close>

definition attempt_from_result :: "execution_path \<Rightarrow> conversion_result \<Rightarrow> attempt" where
  "attempt_from_result path r =
    \<lparr>at_path = path, at_command = cv_command r, at_progress = cv_progress r, at_truncated = cv_truncated r,
     at_probe = cv_probe r, at_output = cv_output r\<rparr>"

definition cpu_retry_plan :: "plan \<Rightarrow> fallback_reason \<Rightarrow> plan" where
  "cpu_retry_plan p reason =
    p\<lparr>pl_args := pl_cpu_args p, pl_cpu_args := [], pl_path := PathCPU, pl_fallback := reason\<rparr>"

definition initial_path :: "plan \<Rightarrow> execution_path" where
  "initial_path p = (if pl_path p = NoPath then PathCPU else pl_path p)"

text \<open>\<open>Convert\<close>; each attempt has its own system calls. The context and the run function are not nil.\<close>

definition media_convert ::
  "files run_fun \<Rightarrow> (string \<Rightarrow> probe result \<times> err option) \<Rightarrow> (float64 \<Rightarrow> int) \<Rightarrow> string \<Rightarrow> string
    \<Rightarrow> attempt_calls \<Rightarrow> attempt_calls \<Rightarrow> plan \<Rightarrow> files \<Rightarrow> (conversion_result \<times> err option) \<times> files" where
  "media_convert run json conv ffmpeg ffprobe first second p fs =
    (if ffmpeg = [] \<or> ffprobe = []
     then ((no_conversion, Some (NewError ''media: FFmpeg and ffprobe paths must not be empty'')), fs)
     else case require_filters run ffmpeg (pl_filters p) (pl_timeout p) fs of
       (Some e, fs) \<Rightarrow> ((no_conversion, Some e), fs)
     | (None, fs) \<Rightarrow>
         (case convert_once run json conv ffmpeg ffprobe first p fs of
            ((r, e), fs) \<Rightarrow>
              let path = initial_path p;
                  r1 = r\<lparr>cv_execution := \<lparr>em_requested = pl_requested p, em_initial = path, em_final = path,
                           em_fallback = pl_fallback p, em_attempts = 1\<rparr>,
                         cv_attempts := [attempt_from_result path r]\<rparr>
              in case e of
                   None \<Rightarrow> ((r1, None), fs)
                 | Some e \<Rightarrow>
                     if \<not> is_vaapi_path path \<or> pl_cpu_args p = [] then ((r1, Some e), fs)
                     else let reason = classify_vaapi_failure e (cap_bytes (rr_stderr (cv_command r)))
                       in if reason = FallbackNone then ((r1, Some e), fs)
                          else (case convert_once run json conv ffmpeg ffprobe second (cpu_retry_plan p reason) fs of
                              ((r2, e2), fs) \<Rightarrow>
                                ((r2\<lparr>cv_execution := \<lparr>em_requested = pl_requested p, em_initial = path, em_final = PathCPU,
                                        em_fallback = reason, em_attempts = 2\<rparr>,
                                     cv_attempts := cv_attempts r1 @ [attempt_from_result PathCPU r2]\<rparr>, e2), fs))))"

subsection \<open>Lemmas\<close>

lemma require_filters_keeps: "keeps run f \<Longrightarrow> require_filters run ffmpeg req t w = (e, w') \<Longrightarrow> f w' = f w"
  by (auto simp: require_filters_def split: if_splits prod.splits option.splits dest: keeps_run)

lemma probe_file_keeps: "keeps run f \<Longrightarrow> probe_file run json x path t w = (r, w') \<Longrightarrow> f w' = f w"
  by (auto simp: probe_file_def split: if_splits prod.splits option.splits dest: keeps_run)

lemma publish_error: "publish_no_replace calls temp final fs = (Some e, fs') \<Longrightarrow> fs' = fs"
  by (auto simp: publish_no_replace_def split: option.splits if_splits prod.splits dest: hard_link_error)

lemma publish_done:
  assumes "publish_no_replace calls temp final fs = (None, fs')" and "temp \<noteq> final"
  shows "fs final = None \<and> fs' final = fs temp \<and> fs temp \<noteq> None"
  using assms by (auto simp: publish_no_replace_def split: option.splits if_splits prod.splits dest!: hard_link_done)

lemma staged_plan_sel [simp]: "pl_expected (staged_plan p t) = pl_expected p"
  by (simp add: staged_plan_def)

text \<open>What a published file is: the staged content, which passed validation.\<close>

definition validated_content :: "plan \<Rightarrow> probe \<Rightarrow> string \<Rightarrow> bool" where
  "validated_content p out content \<longleftrightarrow> meets_contract (pl_expected p) out
    \<and> (if xp_fast_start (pl_expected p)
       then has_fast_start (Some (text_reader content)) (int (length content)) = Inr True else True)"

lemma validated_open:
  assumes "validate_output (staged_plan p temp) out (open_output calls temp fs) c = None" and "fs temp = Some content"
  shows "validated_content p out content"
  using assms
  by (auto simp: validate_output_def validation_error_def output_issues_def probe_issues_Nil fast_start_issues_def
      validated_content_def open_output_def split: if_splits)

lemma convert_staged_result:
  assumes k: "keeps run (\<lambda>fs. fs (pl_output p))" and t: "temp \<noteq> pl_output p"
    and r: "convert_staged run json conv ffmpeg ffprobe calls p temp fs = ((res, e), fs')"
  shows "(e \<noteq> None \<longrightarrow> fs' (pl_output p) = fs (pl_output p))
    \<and> (e = None \<longrightarrow> fs (pl_output p) = None
        \<and> (\<exists>content. fs' (pl_output p) = Some content \<and> validated_content p (cv_output res) content))"
proof (cases e)
  case (Some x)
  then show ?thesis
    using r by (auto simp: convert_staged_def Let_def split: if_splits prod.splits option.splits sum.splits
        dest!: publish_error keeps_run [OF k] probe_file_keeps [OF k])
next
  case None
  obtain c fs1 where 1: "run (plan_command (staged_plan p temp) ffmpeg) fs = ((c, None), fs1)"
    using r None by (auto simp: convert_staged_def failed_at_def split: if_splits prod.splits option.splits)
  obtain out pr fs2 where 2: "probe_file run json ffprobe temp (pl_timeout p) fs1 = ((Inr out, pr), fs2)"
    and v: "validate_output (staged_plan p temp) out (open_output calls temp fs2) (ac_close_read calls) = None"
    and o: "cv_output res = out" and pub: "publish_no_replace calls temp (pl_output p) fs2 = (None, fs')"
    using r None 1
    by (auto simp: convert_staged_def failed_at_def Let_def split: if_splits prod.splits option.splits sum.splits)
  have "fs2 (pl_output p) = fs (pl_output p)"
    using keeps_run [OF k 1] probe_file_keeps [OF k 2] by simp
  then show ?thesis using publish_done [OF pub t] validated_open [OF v] None o by auto
qed

lemma convert_once_result:
  assumes k: "keeps run (\<lambda>fs. fs (pl_output p))" and t: "ac_create calls \<noteq> Inr (pl_output p)"
    and r: "convert_once run json conv ffmpeg ffprobe calls p fs = ((res, e), fs')"
  shows "(e \<noteq> None \<longrightarrow> fs' (pl_output p) = fs (pl_output p))
    \<and> (e = None \<longrightarrow> fs (pl_output p) = None
        \<and> (\<exists>content. fs' (pl_output p) = Some content \<and> validated_content p (cv_output res) content))"
proof (cases "ac_create calls")
  case (Inl x)
  then show ?thesis using r by (auto simp: convert_once_def failed_at_def)
next
  case (Inr temp)
  then have t': "temp \<noteq> pl_output p" using t by simp
  obtain res1 e1 fs1 where s: "convert_staged run json conv ffmpeg ffprobe calls p temp (fs(temp \<mapsto> [])) = ((res1, e1), fs1)"
    by (metis surj_pair)
  show ?thesis
    using convert_staged_result [OF k t' s] r s Inr t'
    by (cases e1) (auto simp: convert_once_def failed_at_def Let_def split: option.splits if_splits)
qed

lemma convert_once_attempts [simp]:
  "convert_once run json conv ffmpeg ffprobe calls p fs = ((res, e), fs') \<Longrightarrow> cv_attempts res = []"
  by (auto simp: convert_once_def convert_staged_def Let_def no_conversion_def
      split: if_splits prod.splits option.splits sum.splits)

lemma cpu_retry_plan_sel [simp]:
  "pl_output (cpu_retry_plan p x) = pl_output p" "pl_expected (cpu_retry_plan p x) = pl_expected p"
  by (simp_all add: cpu_retry_plan_def)

lemma validated_retry [simp]: "validated_content (cpu_retry_plan p x) = validated_content p"
  by (simp add: validated_content_def fun_eq_iff)

text \<open>The three ways a conversion goes.\<close>

lemma media_convert_cases:
  assumes "media_convert run json conv ffmpeg ffprobe first second p fs = ((res, e), fs')"
  obtains (refused) "e \<noteq> None" "cv_attempts res = []" "keeps run f \<Longrightarrow> f fs' = f fs"
    | (single) r fs1 where "require_filters run ffmpeg (pl_filters p) (pl_timeout p) fs = (None, fs1)"
        "convert_once run json conv ffmpeg ffprobe first p fs1 = ((r, e), fs')" "cv_output res = cv_output r"
        "length (cv_attempts res) = 1" "em_final (cv_execution res) = initial_path p"
        "em_attempts (cv_execution res) = 1"
    | (retry) r fs1 r1 x fs2 where "require_filters run ffmpeg (pl_filters p) (pl_timeout p) fs = (None, fs1)"
        "convert_once run json conv ffmpeg ffprobe first p fs1 = ((r1, Some x), fs2)"
        "classify_vaapi_failure x (cap_bytes (rr_stderr (cv_command r1))) \<noteq> FallbackNone"
        "is_vaapi_path (initial_path p)" "pl_cpu_args p \<noteq> []"
        "convert_once run json conv ffmpeg ffprobe second
           (cpu_retry_plan p (classify_vaapi_failure x (cap_bytes (rr_stderr (cv_command r1))))) fs2 = ((r, e), fs')"
        "cv_output res = cv_output r" "length (cv_attempts res) = 2" "em_final (cv_execution res) = PathCPU"
        "em_attempts (cv_execution res) = 2"
proof (cases "ffmpeg = [] \<or> ffprobe = []")
  case True
  then show thesis using assms refused by (auto simp: media_convert_def no_conversion_def)
next
  case False
  obtain q fs1 where q: "require_filters run ffmpeg (pl_filters p) (pl_timeout p) fs = (q, fs1)" by fastforce
  show thesis
  proof (cases q)
    case (Some y)
    show thesis
      by (rule refused) (use assms False q Some require_filters_keeps [OF _ q, of f] in \<open>auto simp: media_convert_def no_conversion_def\<close>)
  next
    case None
    obtain r1 e1 fs2 where c: "convert_once run json conv ffmpeg ffprobe first p fs1 = ((r1, e1), fs2)" by (metis surj_pair)
    let ?why = "classify_vaapi_failure (the e1) (cap_bytes (rr_stderr (cv_command r1)))"
    show thesis
    proof (cases "e1 \<noteq> None \<and> is_vaapi_path (initial_path p) \<and> pl_cpu_args p \<noteq> [] \<and> ?why \<noteq> FallbackNone")
      case True
      then obtain x where x: "e1 = Some x" by blast
      obtain r e2 fs3 where d: "convert_once run json conv ffmpeg ffprobe second (cpu_retry_plan p ?why) fs2 = ((r, e2), fs3)"
        by (metis surj_pair)
      show thesis
        by (rule retry [of fs1 r1 x fs2 r]) (use assms False q None c x d True in \<open>auto simp: media_convert_def Let_def\<close>)
    next
      case no: False
      show thesis
        by (rule single [of fs1 r1]) (use assms False q None c no in \<open>auto simp: media_convert_def Let_def split: option.splits if_splits\<close>)
    qed
  qed
qed

subsection \<open>Properties\<close>


text \<open>A sound file that the contract of the MP3 profile accepts, and system calls without faults.\<close>

definition sound_plan :: plan where
  "sound_plan = \<lparr>pl_operation = OperationCompatibleAudio, pl_input = ''/d/in'', pl_output = ''/d/out'', pl_args = [''x''],
     pl_timeout = 0, pl_warnings = [], pl_filters = [],
     pl_expected = no_profile\<lparr>xp_container := ''mp3'', xp_audio_codec := ''mp3'', xp_audio := AudioRequired\<rparr>,
     pl_requested = ''cpu'', pl_path = PathCPU, pl_fallback = FallbackNone, pl_cpu_args = []\<rparr>"

definition sound_probe :: probe where
  "sound_probe = \<lparr>pr_streams = [Media_Plan.plain_stream ''audio'' ''mp3'' 0 0 0],
     pr_format = \<lparr>pf_name = ''mp3'', pf_duration = ''12.345'', pf_size = [], pf_tags = None\<rparr>\<rparr>"

definition calm_calls :: "string \<Rightarrow> attempt_calls" where
  "calm_calls temp = \<lparr>ac_create = Inr temp, ac_close = None, ac_remove_early = True, ac_open = True, ac_stat = True,
     ac_close_read = True, ac_context = None, ac_link = None, ac_remove_linked = True, ac_remove_failed = True\<rparr>"

lemma sound_contract: "meets_contract (pl_expected sound_plan) sound_probe"
proof -
  have "no_sensitive_tags sound_probe"
    by (simp add: no_sensitive_tags_def sound_probe_def Media_Plan.plain_stream_def tag_list_def)
  moreover have "container_matches ''mp3'' ''mp3''" by code_simp
  moreover have "format_duration (pr_format sound_probe) = Some 12345000000"
    by (simp add: format_duration_def sound_probe_def parse_seconds_plain)
  ultimately show ?thesis
    by (simp add: meets_contract_def sound_plan_def no_profile_def duration_matches_def)
       (simp add: sound_probe_def declared_stream_def videos_def audios_def audio_matches_def Media_Plan.plain_stream_def)
qed

lemma sound_plan_sel:
  "pl_args sound_plan = [''x'']" "pl_timeout sound_plan = 0" "pl_output sound_plan = ''/d/out''"
  "pl_filters sound_plan = []" "pl_path sound_plan = PathCPU" "\<not> xp_fast_start (pl_expected sound_plan)"
  by (simp_all add: sound_plan_def no_profile_def)

definition quiet_run :: "files run_fun" where
  "quiet_run c fs = ((no_result, None), fs)"

definition sound_json :: "string \<Rightarrow> probe result \<times> err option" where
  "sound_json t = (Inr sound_probe, Some (Sentinel IoEOF))"

lemma sound_staged:
  "convert_staged quiet_run sound_json (\<lambda>_. 0) ''ffmpeg'' ''ffprobe'' (calm_calls ''/d/t1'') sound_plan ''/d/t1'' [''/d/t1'' \<mapsto> []]
    = ((no_conversion\<lparr>cv_output := sound_probe\<rparr>, None), [''/d/out'' \<mapsto> []])"
proof -
  have p: "parse_progress (\<lambda>_. 0) (Some []) = Inr []" by code_simp
  have l: "validate_local_path ''/d/t1'' = None" by code_simp
  have pr: "probe_file quiet_run sound_json ''ffprobe'' ''/d/t1'' 0 fs = ((Inr sound_probe, no_result), fs)" for fs :: files
    by (simp add: probe_file_def l no_result_def no_capture_def decode_probe_def quiet_run_def sound_json_def)
  have v: "validate_output (staged_plan sound_plan t) sound_probe op c = None" for t op c
    using sound_contract
    by (simp add: validate_output_def validation_error_def output_issues_def probe_issues_Nil sound_plan_sel)
  have n: "cap_bytes (rr_stdout no_result) = []" "\<not> cap_truncated (rr_stdout no_result)"
    by (simp_all add: no_result_def no_capture_def)
  have c: "ac_context (calm_calls t) = None" "ac_link (calm_calls t) = None" "ac_remove_linked (calm_calls t)" for t
    by (simp_all add: calm_calls_def)
  have pub: "publish_no_replace (calm_calls ''/d/t1'') ''/d/t1'' ''/d/out'' [''/d/t1'' \<mapsto> []] = (None, [''/d/out'' \<mapsto> []])"
    by (simp add: publish_no_replace_def hard_link_def c fun_eq_iff)
  have q: "quiet_run x fs = ((no_result, None), fs)" for x fs by (simp add: quiet_run_def)
  show ?thesis
    unfolding convert_staged_def sound_plan_sel q n c prod.case option.case Let_def p pr v sum.case pub
    by (simp add: no_conversion_def no_result_def no_capture_def)
qed

lemma sound_run:
  "\<exists>res. media_convert quiet_run sound_json (\<lambda>_. 0) ''ffmpeg'' ''ffprobe'' (calm_calls ''/d/t1'') (calm_calls ''/d/t2'')
      sound_plan Map.empty = ((res, None), [''/d/out'' \<mapsto> []]) \<and> cv_output res = sound_probe"
proof -
  have "ac_create (calm_calls ''/d/t1'') = Inr ''/d/t1''" "ac_close (calm_calls ''/d/t1'') = None"
    by (simp_all add: calm_calls_def)
  then have "convert_once quiet_run sound_json (\<lambda>_. 0) ''ffmpeg'' ''ffprobe'' (calm_calls ''/d/t1'') sound_plan Map.empty
      = ((no_conversion\<lparr>cv_output := sound_probe\<rparr>, None), [''/d/out'' \<mapsto> []])"
    by (simp add: convert_once_def sound_staged Let_def)
  then show ?thesis
    by (simp add: media_convert_def require_filters_def sound_plan_sel Let_def)
qed


end
