(* ===== verification/Conversion_Report.thy ===== *)
theory Conversion_Report
  imports Conversion_Rules Media_Convert
begin

text \<open>
  What the conversion service reports about media, the helpers of
  \<open>internal/conversion/service.go\<close>: detected media, still images that only look like video,
  warnings, observed properties and the execution report.
\<close>

subsection \<open>Detected media\<close>

definition detected_image :: "image_info \<Rightarrow> detected_media" where
  "detected_image i =
    (let p = corpus_properties i; s = hd (mp_streams p)
     in \<lparr>dm_kind = MediaImage, dm_format = mp_container p, dm_mime_type = ii_mime_type i, dm_width = ii_width i,
         dm_height = ii_height i, dm_duration_millis = 0,
         dm_streams = [\<lparr>ds_index = 0, ds_kind = cs_kind s, ds_codec = cs_codec s, ds_width = ii_width i,
           ds_height = ii_height i, ds_channels = 0, ds_sample_rate = 0\<rparr>]\<rparr>)"

text \<open>A video stream that is not an attached picture.\<close>

definition moving_video :: "stream \<Rightarrow> bool" where
  "moving_video s \<longleftrightarrow> ps_type s = ''video'' \<and> di_attached_pic (ps_disposition s) = 0"

definition detected_stream_of :: "stream \<Rightarrow> detected_stream" where
  "detected_stream_of s =
    \<lparr>ds_index = ps_index s, ds_kind = ps_type s, ds_codec = ps_codec s, ds_width = ps_width s, ds_height = ps_height s,
     ds_channels = ps_channels s, ds_sample_rate = fst (atoi (ps_sample_rate s))\<rparr>"

definition detected_media_of :: "probe \<Rightarrow> detected_media result" where
  "detected_media_of p =
    (let has_video = list_ex moving_video (pr_streams p); has_audio = list_ex (\<lambda>s. ps_type s = ''audio'') (pr_streams p);
         kind = (if has_video then MediaVideo else MediaAudio);
         (width, height) = (if has_video
           then (case find moving_video (pr_streams p) of None \<Rightarrow> (0, 0) | Some s \<Rightarrow> displayed_dimensions s) else (0, 0))
     in if \<not> has_video \<and> \<not> has_audio then Inl (NewError ''no usable audio or video streams'')
        else Inr \<lparr>dm_kind = kind, dm_format = pf_name (pr_format p), dm_mime_type = [], dm_width = width, dm_height = height,
          dm_duration_millis = (case format_duration (pr_format p) of None \<Rightarrow> 0 | Some d \<Rightarrow> milliseconds d),
          dm_streams = map detected_stream_of (filter (\<lambda>s. ps_type s = ''audio'' \<or> ps_type s = ''video'') (pr_streams p))\<rparr>)"

definition still_formats :: "string list" where
  "still_formats = [''apng'', ''avif'', ''bmp_pipe'', ''gif'', ''heif'', ''heic'', ''image2'', ''image2pipe'', ''jpeg_pipe'',
     ''jxl_pipe'', ''png_pipe'', ''tiff_pipe'', ''webp_pipe'']"

definition looks_like_still_image :: "unicode_tables \<Rightarrow> probe \<Rightarrow> bool" where
  "looks_like_still_image U p \<longleftrightarrow>
    list_ex (\<lambda>f. trim_space f \<in> set still_formats) (split_on (CHR '','') (lower_text U (pf_name (pr_format p))))"

subsection \<open>Warnings and execution\<close>

fun warning_code_text :: "warning_code \<Rightarrow> string" where
  "warning_code_text WarningUnsupportedAudioCodec = ''unsupported_audio_codec''"
| "warning_code_text WarningAdditionalAudioStream = ''additional_audio_stream''"

definition media_warnings :: "media_warning list \<Rightarrow> warning list" where
  "media_warnings = map (\<lambda>w. \<lparr>wn_code = warning_code_text (mw_code w), wn_message = mw_message w,
     wn_stream_index = Some (mw_index w), wn_codec = mw_codec w\<rparr>)"

definition execution_report :: "execution_metadata \<Rightarrow> execution_result" where
  "execution_report x = \<lparr>ex_requested = em_requested x, ex_initial = execution_path_text (em_initial x),
     ex_final = execution_path_text (em_final x), ex_fallback_reason = fallback_reason_text (em_fallback x),
     ex_attempt_count = int (em_attempts x)\<rparr>"

subsection \<open>Observed properties\<close>

text \<open>The loop of \<open>normalizedToken\<close> over code points: the text so far and the separator flag.\<close>

definition property_token_step :: "string \<times> bool \<Rightarrow> nat \<Rightarrow> string \<times> bool" where
  "property_token_step st r =
    (let (b, separator) = st
     in if lower_letter r \<or> digit_rune r then (b @ encode_rune r, False)
        else if b \<noteq> [] \<and> \<not> separator then (b @ ''_'', True) else (b, separator))"

definition normalized_token :: "unicode_tables \<Rightarrow> string \<Rightarrow> string" where
  "normalized_token U v = trim_set (fst (foldl property_token_step ([], False) (runes (lower_text U (trim_space v))))) ''_''"

definition container_name :: "string \<Rightarrow> string option" where
  "container_name c =
    (let c = trim_space c
     in if c \<in> set [''mov'', ''mp4'', ''m4a'', ''3gp'', ''3g2'', ''mj2''] then Some ''mp4''
        else if c \<in> set [''matroska'', ''webm'', ''wav'', ''mp3'', ''flac'', ''ogg''] then Some c else None)"

definition normalized_container :: "unicode_tables \<Rightarrow> string \<Rightarrow> string" where
  "normalized_container U v =
    (case List.map_filter container_name (split_on (CHR '','') (lower_text U v)) of
       c # _ \<Rightarrow> c
     | [] \<Rightarrow> normalized_token U (hd (split_on (CHR '','') v)))"

record stream_key =
  sk_kind :: string
  sk_codec :: string
  sk_channels :: int
  sk_sample_rate :: int
  sk_pixel_format :: string

definition stream_key_of :: "unicode_tables \<Rightarrow> stream \<Rightarrow> stream_key" where
  "stream_key_of U s =
    (let kind = (if ps_type s = ''video'' then (if di_attached_pic (ps_disposition s) \<noteq> 0 then ''image'' else ''video'')
                 else if ps_type s = ''audio'' then ''audio'' else if ps_type s = ''subtitle'' then ''subtitle'' else ''data'');
         codec = normalized_token U (ps_codec s)
     in \<lparr>sk_kind = kind, sk_codec = (if codec = [] then ''unknown'' else codec), sk_channels = ps_channels s,
         sk_sample_rate = (if ps_type s = ''audio'' then fst (atoi (ps_sample_rate s)) else 0),
         sk_pixel_format = normalized_token U (ps_pixel_format s)\<rparr>)"

definition fresh_stream :: "stream_key \<Rightarrow> corpus_stream" where
  "fresh_stream k =
    \<lparr>cs_kind = sk_kind k, cs_codec = sk_codec k, cs_count = 1, cs_channels = (if 0 < sk_channels k then Some (sk_channels k) else None),
     cs_sample_rate = (if 0 < sk_sample_rate k then Some (sk_sample_rate k) else None), cs_pixel_format = sk_pixel_format k\<rparr>"

text \<open>The streams grouped so far, with their keys in the order of first appearance.\<close>

fun count_stream :: "stream_key \<Rightarrow> (stream_key \<times> corpus_stream) list \<Rightarrow> (stream_key \<times> corpus_stream) list" where
  "count_stream k [] = [(k, fresh_stream k)]"
| "count_stream k ((k', s) # gs) =
    (if k' = k then (k', s\<lparr>cs_count := cs_count s + 1\<rparr>) # gs else (k', s) # count_stream k gs)"

definition media_corpus_properties :: "unicode_tables \<Rightarrow> probe \<Rightarrow> media_properties" where
  "media_corpus_properties U p =
    (let m = detect_sensitive_metadata p;
         groups = fold (\<lambda>s. count_stream (stream_key_of U s)) (pr_streams p) [];
         shown = find (\<lambda>s. sk_kind (stream_key_of U s) = ''video'') (pr_streams p)
     in \<lparr>mp_container = normalized_container U (pf_name (pr_format p)), mp_streams = map snd groups,
         mp_dimensions = map_option displayed_dimensions shown,
         mp_duration_millis = map_option milliseconds (format_duration (pr_format p)),
         mp_orientation = map_option (\<lambda>s. \<lparr>on_rotation = rotation s, on_mirrored = False, on_normalized = (rotation s = 0)\<rparr>) shown,
         mp_alpha = ''ignored'',
         mp_metadata = \<lparr>cm_gps = presence (sm_gps m), cm_color_profile = ''ignored'', cm_exif = presence (sm_exif m),
           cm_xmp = presence (sm_xmp m), cm_gain_map = presence (sm_gain_map m)\<rparr>\<rparr>)"

subsection \<open>Lemmas\<close>

text \<open>Grouping loses no stream: the counts add up, and the keys are distinct.\<close>

lemma count_stream_keys: "set (map fst (count_stream k gs)) = insert k (set (map fst gs))
    \<and> (distinct (map fst gs) \<longrightarrow> distinct (map fst (count_stream k gs)))"
  by (induction k gs rule: count_stream.induct) auto

lemma count_stream_sum: "sum_list (map (cs_count \<circ> snd) (count_stream k gs)) = sum_list (map (cs_count \<circ> snd) gs) + 1"
  by (induction k gs rule: count_stream.induct) (auto simp: fresh_stream_def)

lemma groups_sum:
  "sum_list (map (cs_count \<circ> snd) (fold (\<lambda>s. count_stream (f s)) ss gs)) = sum_list (map (cs_count \<circ> snd) gs) + int (length ss)
    \<and> (distinct (map fst gs) \<longrightarrow> distinct (map fst (fold (\<lambda>s. count_stream (f s)) ss gs)))"
  by (induction ss arbitrary: gs) (simp_all add: count_stream_sum count_stream_keys)

lemma observed_streams_total: "sum_list (map cs_count (mp_streams (media_corpus_properties U p))) = int (length (pr_streams p))"
  using groups_sum [of "stream_key_of U" "pr_streams p" "[]"] by (simp add: media_corpus_properties_def Let_def)

text \<open>The detected kind is one the content has, and every reported stream is an audio or a video stream.\<close>

lemma detected_media_kind:
  assumes "detected_media_of p = Inr d"
  shows "dm_kind d \<noteq> MediaImage" "dm_kind d = MediaVideo \<longleftrightarrow> (\<exists>s\<in>set (pr_streams p). moving_video s)"
    "length (dm_streams d) \<le> length (pr_streams p)"
  using assms by (auto simp: detected_media_of_def Let_def list_ex_iff split: if_splits prod.splits)

end
