(* ===== verification/Image_Convert.thy ===== *)
theory Image_Convert
  imports Image_Plan File_Tree
begin

text \<open>
  Executing an image plan, \<open>internal/imageconv/converter.go\<close>: the checks, the search for
  transparent pixels, the commands in a work directory, the probe and validation of the staged output,
  its publication without replacing, and the removal of the work directory. The context,
  the run function, the prober and the file system helpers are not nil here.
\<close>

subsection \<open>Data\<close>

record image_config =
  ic_vips :: string
  ic_header :: string
  ic_limits :: limits
  ic_policy :: capture_date_policy
  ic_capabilities :: capability_set
  ic_timeout :: int
  ic_probe_timeout :: int

record image_request =
  iq_input_path :: string
  iq_output_dir :: string
  iq_operation :: operation
  iq_input :: image_info

record image_result =
  mr_output :: image_output
  mr_input :: image_info
  mr_observed :: image_info
  mr_properties :: "media_properties option"
  mr_commands :: "run_result list"

definition no_image_result :: image_result where
  "no_image_result = \<lparr>mr_output = \<lparr>io_path = [], io_extension = [], io_mime_type = []\<rparr>, mr_input = no_image,
     mr_observed = no_image, mr_properties = None, mr_commands = []\<rparr>"

text \<open>
  What the system calls give: faults of creating the output directory and of \<open>Stat\<close>, the
  work directory, what its removal leaves and whether that is an error, the state of the context before publication, and the link and removal that publish.
\<close>

record image_calls =
  jc_mkdir_all :: "err option"
  jc_stat :: "err option"
  jc_mkdir_temp :: "string result"
  jc_stays :: "string \<Rightarrow> bool"
  jc_remove_all :: "err option"
  jc_context :: "err option"
  jc_link :: "err option"
  jc_removed :: bool

subsection \<open>The constructor\<close>

definition tiny_image :: image_info where
  "tiny_image = no_image\<lparr>ii_format := ''jpeg'', ii_width := 1, ii_height := 1, ii_bands := 3, ii_band_format := ''uchar'',
     ii_interpretation := ''srgb'', ii_pages := 1\<rparr>"

definition new_converter :: "image_config \<Rightarrow> image_config result" where
  "new_converter c =
    (let c = c\<lparr>ic_vips := (if ic_vips c = [] then ''vips'' else ic_vips c),
               ic_header := (if ic_header c = [] then ''vipsheader'' else ic_header c),
               ic_limits := (if ic_limits c = \<lparr>li_width = 0, li_height = 0, li_pixels = 0\<rparr> then default_limits else ic_limits c)\<rparr>
     in if ic_timeout c < 0 \<or> ic_probe_timeout c < 0 then Inl (NewError ''imageconv: timeouts must not be negative'')
        else let c = c\<lparr>ic_probe_timeout := (if ic_probe_timeout c = 0 then 30 * 1000000000 else ic_probe_timeout c)\<rparr>
          in case validate_content tiny_image (ic_limits c) of
               Some e \<Rightarrow> Inl (Wrapped ''imageconv: invalid limits'' e)
             | None \<Rightarrow> Inr c)"

subsection \<open>Commands\<close>

text \<open>The commands in order, until one fails.\<close>

fun run_commands :: "'w run_fun \<Rightarrow> int \<Rightarrow> command list \<Rightarrow> 'w \<Rightarrow> (run_result list \<times> err option) \<times> 'w" where
  "run_commands run timeout [] w = (([], None), w)"
| "run_commands run timeout (c # cs) w =
    (case run (c\<lparr>cmd_timeout := timeout\<rparr>) w of
       ((r, Some e), w) \<Rightarrow> (([r], Some e), w)
     | ((r, None), w) \<Rightarrow> (case run_commands run timeout cs w of ((rs, e), w) \<Rightarrow> ((r # rs, e), w)))"

definition executable_path :: "look_path \<Rightarrow> string \<Rightarrow> string result" where
  "executable_path look x =
    (if is_abs x then Inr x
     else case prober_executable look x of
       (_, Some e) \<Rightarrow> Inl (image_error ''image-probe-failed'' ''locate executable'' e)
     | (r, None) \<Rightarrow> Inr (pp_path r))"

definition probe_transparency ::
  "'w run_fun \<Rightarrow> int \<Rightarrow> string \<Rightarrow> string \<Rightarrow> string \<Rightarrow> image_info \<Rightarrow> 'w \<Rightarrow> (bool result \<times> run_result list) \<times> 'w" where
  "probe_transparency run timeout vips input work i w =
    (case transparency_probe vips input work i of
       Inl e \<Rightarrow> ((Inl e, []), w)
     | Inr plan \<Rightarrow>
       (case run_commands run timeout (tp_commands plan) w of
          ((rs, Some e), w) \<Rightarrow> ((Inl (image_error ''image-probe-failed'' ''probe transparency'' e), rs), w)
        | ((rs, None), w) \<Rightarrow>
            let out = rr_stdout (last rs)
            in if cap_truncated out
               then ((Inl (image_error ''image-probe-failed'' ''probe transparency''
                       (NewError ''alpha minimum output was truncated'')), rs), w)
               else ((parse_transparency (cap_bytes out) (tp_max_alpha plan), rs), w)))"

subsection \<open>Conversion\<close>

text \<open>\<open>publishNoReplaceWith\<close> and the classification of its error.\<close>

definition publish_image :: "image_calls \<Rightarrow> string \<Rightarrow> string \<Rightarrow> files \<Rightarrow> err option \<times> files" where
  "publish_image calls temp final fs =
    (case hard_link (jc_link calls) temp final fs of
       (Some e, fs) \<Rightarrow>
         (Some (image_error (if errors_is e OsErrExist then ''image-output-exists'' else ''image-publish-failed'') ''publish output'' e), fs)
     | (None, fs) \<Rightarrow> (None, if jc_removed calls then fs(temp := None) else fs))"

text \<open>The checks before the work directory: both executables and the final path.\<close>

definition prepare_image ::
  "unicode_tables \<Rightarrow> look_path \<Rightarrow> image_config \<Rightarrow> image_calls \<Rightarrow> image_request \<Rightarrow> files \<Rightarrow> (string \<times> string \<times> string) result" where
  "prepare_image U look c calls q fs =
    (case validate_content (iq_input q) (ic_limits c) of Some e \<Rightarrow> Inl e | None \<Rightarrow>
     case validate_capabilities (iq_input q) (ic_capabilities c) of Some e \<Rightarrow> Inl e | None \<Rightarrow>
     case jc_mkdir_all calls of Some e \<Rightarrow> Inl (image_error ''invalid-image-request'' ''prepare output directory'' e) | None \<Rightarrow>
     case executable_path look (ic_vips c) of Inl e \<Rightarrow> Inl e | Inr vips \<Rightarrow>
     case executable_path look (ic_header c) of Inl e \<Rightarrow> Inl e | Inr header \<Rightarrow>
     case lookup_image_spec (iq_operation q) of Inl e \<Rightarrow> Inl e | Inr _ \<Rightarrow>
     case output_name U (iq_input_path q) (iq_operation q) of Inl _ \<Rightarrow> Inl unsupported_image_operation | Inr name \<Rightarrow>
       let final = join_path (iq_output_dir q) name
       in case jc_stat calls of
            Some e \<Rightarrow> if errors_is e OsErrNotExist then Inr (vips, header, final)
                      else Inl (image_error ''image-output-exists'' ''prepare output'' e)
          | None \<Rightarrow> if fs final = None then Inr (vips, header, final)
                    else Inl (image_error ''image-output-exists'' ''prepare output'' (NewError ''output already exists'')))"

definition plan_request_of :: "image_config \<Rightarrow> image_request \<Rightarrow> string \<Rightarrow> string \<Rightarrow> image_info \<Rightarrow> image_plan_request" where
  "plan_request_of c q work vips input =
    \<lparr>ir_input_path = iq_input_path q, ir_output_dir = iq_output_dir q, ir_work_dir = work, ir_operation = iq_operation q,
     ir_input = input, ir_policy = ic_policy c, ir_vips = vips\<rparr>"

text \<open>The commands of the plan, the probe of what they wrote, its validation, and the publication.\<close>

definition execute_plan ::
  "files run_fun \<Rightarrow> image_config \<Rightarrow> image_calls \<Rightarrow> string \<Rightarrow> string \<Rightarrow> image_plan \<Rightarrow> image_result \<Rightarrow> files
    \<Rightarrow> (image_result \<times> err option) \<times> files" where
  "execute_plan run c calls header final plan res fs =
    (let res = res\<lparr>mr_output := ip_output plan\<rparr>
     in case run_commands run (ic_timeout c) (ip_commands plan) fs of
          ((rs, Some e), fs) \<Rightarrow>
            ((res\<lparr>mr_commands := mr_commands res @ rs\<rparr>, Some (image_error ''image-command-failed'' ''run libvips'' e)), fs)
        | ((rs, None), fs) \<Rightarrow>
            let res = res\<lparr>mr_commands := mr_commands res @ rs\<rparr>
            in (case probe_image run header (ip_temporary plan) fs of
                  (Inl e, fs) \<Rightarrow> ((res, Some e), fs)
                | (Inr observed, fs) \<Rightarrow>
                    let res = res\<lparr>mr_observed := observed, mr_properties := Some (corpus_properties observed)\<rparr>
                    in (case validate_image_output (ip_expect plan) observed of
                          Some e \<Rightarrow> ((res, Some e), fs)
                        | None \<Rightarrow>
                          (case jc_context calls of
                             Some e \<Rightarrow> ((res, Some (image_error ''image-publish-failed'' ''publish output'' e)), fs)
                           | None \<Rightarrow> (case publish_image calls (ip_temporary plan) final fs of (e, fs) \<Rightarrow> ((res, e), fs))))))"

definition convert_in_work ::
  "unicode_tables \<Rightarrow> files run_fun \<Rightarrow> image_config \<Rightarrow> image_calls \<Rightarrow> image_request \<Rightarrow> string \<Rightarrow> string \<Rightarrow> string \<Rightarrow> string \<Rightarrow> files
    \<Rightarrow> (image_result \<times> err option) \<times> files" where
  "convert_in_work U run c calls q vips header final work fs =
    (let input = iq_input q; res = no_image_result\<lparr>mr_input := input\<rparr>;
         ((transparent, rs), fs) = (if iq_operation q = OperationSmallerPhoto \<and> ii_has_alpha input
           then probe_transparency run (ic_timeout c) vips (iq_input_path q) work input fs
           else ((Inr (ii_has_transparency input), []), fs));
         res = res\<lparr>mr_commands := rs\<rparr>
     in case transparent of
          Inl e \<Rightarrow> ((res, Some e), fs)
        | Inr t \<Rightarrow>
            let input = input\<lparr>ii_has_transparency := t\<rparr>; res = res\<lparr>mr_input := input\<rparr>
            in (case plan_image U (plan_request_of c q work vips input) of
                  Inl e \<Rightarrow> ((res, Some e), fs)
                | Inr plan \<Rightarrow> execute_plan run c calls header final plan res fs))"

definition convert_image ::
  "unicode_tables \<Rightarrow> files run_fun \<Rightarrow> look_path \<Rightarrow> image_config \<Rightarrow> image_calls \<Rightarrow> image_request \<Rightarrow> files
    \<Rightarrow> (image_result \<times> err option) \<times> files" where
  "convert_image U run look c calls q fs =
    (if iq_input_path q = [] \<or> iq_output_dir q = []
       then ((no_image_result, Some (image_error ''invalid-image-request'' ''convert''
         (NewError ''input and output paths are required''))), fs)
     else let input = iq_input q; res = no_image_result\<lparr>mr_input := input\<rparr>
       in if ii_format input = [] \<or> ii_width input \<le> 0 \<or> ii_height input \<le> 0
            then ((res, Some (image_error ''invalid-image-request'' ''convert'' (NewError ''fresh input probe is incomplete''))), fs)
          else case prepare_image U look c calls q fs of
            Inl e \<Rightarrow> ((res, Some e), fs)
          | Inr (vips, header, final) \<Rightarrow>
            (case jc_mkdir_temp calls of
               Inl e \<Rightarrow> ((res, Some (image_error ''invalid-image-request'' ''prepare work directory'' e)), fs)
             | Inr work \<Rightarrow>
               (case convert_in_work U run c calls q vips header final work fs of
                  ((res, e), fs) \<Rightarrow>
                    ((res, with_cleanup_error ''clean temporary files'' (jc_remove_all calls) e),
                     remove_tree (jc_stays calls) work fs))))"

subsection \<open>Lemmas\<close>

lemma run_commands_keeps: "keeps run f \<Longrightarrow> run_commands run t cs w = (x, w') \<Longrightarrow> f w' = f w"
proof (induction cs arbitrary: w x w')
  case (Cons c cs)
  obtain r e w1 where s: "run (c\<lparr>cmd_timeout := t\<rparr>) w = ((r, e), w1)" by (metis surj_pair)
  then have 1: "f w1 = f w" using keeps_run [OF Cons.prems(1)] by blast
  obtain y w2 where 2: "run_commands run t cs w1 = (y, w2)" by fastforce
  show ?case using Cons.IH [OF Cons.prems(1) 2] Cons.prems(2) s 1 2 by (cases e) (auto split: prod.splits)
qed simp

lemma probe_image_keeps: "keeps run f \<Longrightarrow> probe_image run h p w = (x, w') \<Longrightarrow> f w' = f w"
  by (auto simp: probe_image_def split: if_splits prod.splits option.splits sum.splits dest: keeps_run)

lemma probe_transparency_keeps: "keeps run f \<Longrightarrow> probe_transparency run t v i work info w = (x, w') \<Longrightarrow> f w' = f w"
  by (auto simp: probe_transparency_def Let_def split: if_splits prod.splits option.splits sum.splits dest: run_commands_keeps)

lemma publish_image_error: "publish_image calls a b fs = (Some e, fs') \<Longrightarrow> fs' = fs"
  by (auto simp: publish_image_def split: option.splits prod.splits dest: hard_link_error)

lemma publish_image_done:
  "publish_image calls a b fs = (None, fs') \<Longrightarrow> fs b = None \<and> fs' b = fs a \<and> fs a \<noteq> None"
  by (auto simp: publish_image_def split: option.splits prod.splits if_splits dest!: hard_link_done)

text \<open>What executing a plan does to the final path.\<close>

lemma execute_plan_result:
  assumes k: "keeps run (\<lambda>fs. fs final)" and r: "execute_plan run c calls header final plan res fs = ((res', e), fs')"
  shows "(e \<noteq> None \<longrightarrow> fs' final = fs final)
    \<and> (e = None \<longrightarrow> fs final = None \<and> fs' final \<noteq> None \<and> mr_output res' = ip_output plan
        \<and> validate_image_output (ip_expect plan) (mr_observed res') = None)"
proof (cases e)
  case (Some x)
  then show ?thesis using r
    by (auto simp: execute_plan_def Let_def split: prod.splits option.splits sum.splits
        dest!: run_commands_keeps [OF k] probe_image_keeps [OF k] publish_image_error)
next
  case None
  obtain rs fs1 where 1: "run_commands run (ic_timeout c) (ip_commands plan) fs = ((rs, None), fs1)"
    using r None by (auto simp: execute_plan_def Let_def split: prod.splits option.splits)
  obtain o' fs2 where 2: "probe_image run header (ip_temporary plan) fs1 = (Inr o', fs2)"
    and v: "validate_image_output (ip_expect plan) o' = None" and o: "mr_observed res' = o'" "mr_output res' = ip_output plan"
    and p: "publish_image calls (ip_temporary plan) final fs2 = (None, fs')"
    using r None 1 by (auto simp: execute_plan_def Let_def split: prod.splits option.splits sum.splits)
  show ?thesis
    using publish_image_done [OF p] run_commands_keeps [OF k 1] probe_image_keeps [OF k 2] v o None by auto
qed

lemma convert_in_work_result:
  assumes k: "keeps run (\<lambda>fs. fs final)" and r: "convert_in_work U run c calls q vips header final work fs = ((res, e), fs')"
  shows "(e \<noteq> None \<longrightarrow> fs' final = fs final)
    \<and> (e = None \<longrightarrow> fs final = None \<and> fs' final \<noteq> None
        \<and> (\<exists>t plan. plan_image U (plan_request_of c q work vips ((iq_input q)\<lparr>ii_has_transparency := t\<rparr>)) = Inr plan
            \<and> mr_output res = ip_output plan \<and> validate_image_output (ip_expect plan) (mr_observed res) = None))"
proof -
  obtain t rs fs1 where t: "(if iq_operation q = OperationSmallerPhoto \<and> ii_has_alpha (iq_input q)
      then probe_transparency run (ic_timeout c) vips (iq_input_path q) work (iq_input q) fs
      else ((Inr (ii_has_transparency (iq_input q)), []), fs)) = ((t, rs), fs1)" by (metis surj_pair)
  have same: "fs1 final = fs final"
    using t probe_transparency_keeps [OF k] by (auto split: if_splits)
  show ?thesis
  proof (cases t)
    case (Inl x)
    then show ?thesis using r t same by (auto simp: convert_in_work_def Let_def)
  next
    case (Inr b)
    show ?thesis
    proof (cases "plan_image U (plan_request_of c q work vips ((iq_input q)\<lparr>ii_has_transparency := b\<rparr>))")
      case (Inl x)
      then show ?thesis using r t same Inr by (auto simp: convert_in_work_def Let_def)
    next
      case plan: (Inr plan)
      then obtain res0 where "execute_plan run c calls header final plan res0 fs1 = ((res, e), fs')"
        using r t Inr by (auto simp: convert_in_work_def Let_def)
      from execute_plan_result [OF k this] show ?thesis using same plan by metis
    qed
  qed
qed

lemma prepared_final:
  assumes "prepare_image U look c calls q fs = Inr (vips, header, final)"
  obtains name where "output_name U (iq_input_path q) (iq_operation q) = Inr name" "final = join_path (iq_output_dir q) name"
    "validate_content (iq_input q) (ic_limits c) = None"
  using assms by (auto simp: prepare_image_def Let_def split: option.splits sum.splits if_splits)

lemma planned_output_path:
  assumes "plan_image U rq = Inr plan" "output_name U (ir_input_path rq) (ir_operation rq) = Inr name"
  shows "io_path (ip_output plan) = join_path (ir_output_dir rq) name"
proof -
  obtain spec name' p f where "image_target U rq = Inr (spec, name')" "plan = finish_plan rq spec name' (late_stages rq f p)"
    using plan_image_Inr [OF assms(1)] by metis
  then show ?thesis
    using assms(2) by (auto simp: image_target_def finish_plan_def Let_def split: sum.splits if_splits)
qed

subsection \<open>Properties\<close>


text \<open>A small photograph and a system without faults, on which the conversion succeeds.\<close>

definition sample_config :: image_config where
  "sample_config = \<lparr>ic_vips = ''/v'', ic_header = ''/h'', ic_limits = default_limits, ic_policy = CaptureDateStrip,
     ic_capabilities = 0, ic_timeout = 600000000000,
     ic_probe_timeout = 30000000000\<rparr>"

definition sample_image_request :: image_request where
  "sample_image_request = \<lparr>iq_input_path = ''/i/a.jpg'', iq_output_dir = ''/o'', iq_operation = OperationCompatiblePhoto,
     iq_input = sample_info\<rparr>"

definition sample_calls :: image_calls where
  "sample_calls = \<lparr>jc_mkdir_all = None, jc_stat = None, jc_mkdir_temp = Inr ''/w'', jc_stays = (\<lambda>_. False), jc_remove_all = None,
     jc_context = None, jc_link = None, jc_removed = True\<rparr>"

definition sample_run :: "files run_fun" where
  "sample_run c fs =
    (if cmd_path c = ''/h'' then ((no_result\<lparr>rr_stdout := no_capture\<lparr>cap_bytes := sample_header\<rparr>\<rparr>, None), fs)
     else ((no_result, None), if below ''/w'' (writes c) then fs(writes c \<mapsto> ''x'') else fs))"

lemma sample_paths:
  "join_path ''/w'' ''oriented.v'' = ''/w/oriented.v''" "join_path ''/w'' ''output.jpg'' = ''/w/output.jpg''"
  "join_path ''/o'' ''a-compatible.jpg'' = ''/o/a-compatible.jpg''"
  "output_name ascii_tables ''/i/a.jpg'' OperationCompatiblePhoto = Inr ''a-compatible.jpg''"
  "is_abs ''/v''" "is_abs ''/h''"
  by code_simp+

lemma sample_supported: "validate_content sample_info default_limits = None" "validate_color sample_info = None"
  by (simp_all add: validate_content_iff validate_color_def interpretation_bands_def device_space_def sample_info_def no_image_def
      no_cicp_def supported_cicp_def no_image_metadata_def default_limits_def)

definition sample_work_plan :: image_plan where
  "sample_work_plan =
    \<lparr>ip_output = \<lparr>io_path = ''/o/a-compatible.jpg'', io_extension = ''.jpg'', io_mime_type = ''image/jpeg''\<rparr>,
     ip_temporary = ''/w/output.jpg'', ip_paths = [''/w/oriented.v''],
     ip_commands = [plain_command ''/v'' [''autorot'', ''/i/a.jpg'', ''/w/oriented.v''] 0,
       plain_command ''/v'' [''jpegsave'', ''/w/oriented.v'', ''/w/output.jpg'', ''--Q'', ''90'', ''--optimize-coding'',
         ''--interlace'', ''--keep'', ''none''] 0],
     ip_expect = \<lparr>ex_format = ''jpeg'', ex_mime_type = ''image/jpeg'', ex_width = 1, ex_height = 1, ex_orientation = 1,
       ex_has_alpha = False, ex_metadata = no_image_metadata, ex_band_format = []\<rparr>\<rparr>"

lemma sample_spec: "\<exists>s. lookup_image_spec OperationCompatiblePhoto = Inr s \<and> os_extension (sp_output s) = ''.jpg''
    \<and> os_mime_type (sp_output s) = ''image/jpeg''"
  by (simp add: lookup_image_spec_def) (simp add: lookup_spec_def registry_def)

lemma sample_work_planned:
  "plan_image ascii_tables (plan_request_of sample_config sample_image_request ''/w'' ''/v'' sample_info) = Inr sample_work_plan"
proof -
  let ?rq = "plan_request_of sample_config sample_image_request ''/w'' ''/v'' sample_info"
  have rq: "?rq = \<lparr>ir_input_path = ''/i/a.jpg'', ir_output_dir = ''/o'', ir_work_dir = ''/w'', ir_operation = OperationCompatiblePhoto,
      ir_input = sample_info, ir_policy = CaptureDateStrip, ir_vips = ''/v''\<rparr>"
    by (simp add: plan_request_of_def sample_config_def sample_image_request_def)
  have i: "ii_hdr sample_info = False" "ii_cicp sample_info = no_cicp" "ii_has_alpha sample_info = False"
    "ii_interpretation sample_info = ''srgb''" "ii_metadata sample_info = no_image_metadata" "ii_band_format sample_info = ''uchar''"
    "ii_width sample_info = 1" "ii_height sample_info = 1" "ii_orientation sample_info = 1"
    by (simp_all add: sample_info_def no_image_def)
  obtain s where s: "lookup_image_spec OperationCompatiblePhoto = Inr s" "os_extension (sp_output s) = ''.jpg''"
    "os_mime_type (sp_output s) = ''image/jpeg''" using sample_spec by blast
  have "plan_guard ?rq = None" by (simp add: rq plan_guard_def i sample_supported no_cicp_def supported_cicp_def)
  moreover have "image_target ascii_tables ?rq = Inr (s, ''a-compatible.jpg'')"
    by (simp add: rq image_target_def s sample_paths Let_def)
  moreover have "early_flatten ?rq (first_stage ?rq) = Inr (first_stage ?rq, False)"
    by (simp add: rq early_flatten_def i)
  moreover have "late_stages ?rq False (first_stage ?rq) = \<lparr>lp_pipeline = first_stage ?rq, lp_icc = False, lp_keep = ''none'',
      lp_dated = False, lp_width = 1, lp_height = 1\<rparr>"
    by (simp add: rq late_stages_def normalize_color_def i device_space_def late_flatten_def email_resize_def
        metadata_keep_def oriented_dimensions_def no_image_metadata_def Let_def)
  moreover have "finish_plan ?rq s ''a-compatible.jpg'' \<dots> = sample_work_plan"
    by (simp add: rq finish_plan_def first_stage_def sample_paths s save_args_def is_jpeg_photo_def expect_of_def i Let_def
        output_name_of_def vips_command_def sample_work_plan_def no_image_metadata_def)
  ultimately show ?thesis by (simp add: plan_image_def rq image_operation_def is_jpeg_photo_def)
qed

definition sample_files :: files where
  "sample_files = [''/w/oriented.v'' \<mapsto> ''x'', ''/w/output.jpg'' \<mapsto> ''x'']"

lemma sample_executed:
  "\<exists>res. execute_plan sample_run sample_config sample_calls ''/h'' ''/o/a-compatible.jpg'' sample_work_plan r0 Map.empty
    = ((res, None), sample_files(''/o/a-compatible.jpg'' \<mapsto> ''x'', ''/w/output.jpg'' := None))"
proof -
  have b: "below ''/w'' ''/w/oriented.v''" "below ''/w'' ''/w/output.jpg''" by code_simp+
  have "\<exists>rs. run_commands sample_run 600000000000 (ip_commands sample_work_plan) Map.empty = ((rs, None), sample_files)"
    by (simp add: sample_work_plan_def sample_run_def plain_command_def writes_def b sample_files_def)
  then obtain rs where rs: "run_commands sample_run 600000000000 (ip_commands sample_work_plan) Map.empty = ((rs, None), sample_files)" by blast
  have p: "probe_image sample_run ''/h'' ''/w/output.jpg'' fs = (Inr sample_info, fs)" for fs
    by (simp add: probe_image_def sample_run_def plain_command_def no_result_def no_capture_def sample_header_parsed)
  have v: "validate_image_output (ip_expect sample_work_plan) sample_info = None"
    by (simp add: sample_work_plan_def sample_info_def validate_image_output_def no_image_def no_image_metadata_def no_cicp_def
        supported_cicp_def)
  have "publish_image sample_calls ''/w/output.jpg'' ''/o/a-compatible.jpg'' sample_files
      = (None, sample_files(''/o/a-compatible.jpg'' \<mapsto> ''x'', ''/w/output.jpg'' := None))"
    by (simp add: publish_image_def hard_link_def sample_calls_def sample_files_def)
  then show ?thesis
    using rs p v by (simp add: execute_plan_def sample_config_def Let_def) (simp add: sample_work_plan_def sample_calls_def)
qed

lemma sample_converted:
  "\<exists>res fs. convert_image ascii_tables sample_run Inr sample_config sample_calls sample_image_request Map.empty = ((res, None), fs)"
proof -
  obtain s where s: "lookup_image_spec OperationCompatiblePhoto = Inr s" using sample_spec by blast
  have i: "ii_format sample_info = ''jpeg''" "ii_width sample_info = 1" "ii_height sample_info = 1"
    "sample_info\<lparr>ii_has_transparency := False\<rparr> = sample_info" "ii_has_transparency sample_info = False"
    by (simp_all add: sample_info_def no_image_def)
  have "validate_capabilities sample_info 0 = None"
    by (simp add: validate_capabilities_def required_decode_capability_def i)
  then have "prepare_image ascii_tables Inr sample_config sample_calls sample_image_request Map.empty
      = Inr (''/v'', ''/h'', ''/o/a-compatible.jpg'')"
    by (simp add: prepare_image_def sample_config_def sample_calls_def sample_image_request_def sample_supported executable_path_def
        sample_paths s Let_def)
  moreover have "\<exists>res fs. convert_in_work ascii_tables sample_run sample_config sample_calls sample_image_request ''/v'' ''/h''
      ''/o/a-compatible.jpg'' ''/w'' Map.empty = ((res, None), fs)"
    using sample_executed sample_work_planned
    by (simp add: convert_in_work_def Let_def) (simp add: sample_image_request_def i, blast)
  ultimately show ?thesis
    by (auto simp: convert_image_def sample_image_request_def i Let_def with_cleanup_error_def sample_calls_def)
qed


end
