(* ===== verification/Conversion_Service.thy ===== *)
theory Conversion_Service
  imports Conversion_Report Image_Convert
begin

text \<open>
  The conversion service, \<open>internal/conversion/service.go\<close> and \<open>Inspect\<close> of \<open>inspect.go\<close>:
  request checks, detection through both engines, the choice of the operation and of the output
  path, the dispatch to an engine and the publication out of the staging directory. The engines are a record of functions on the file tree; times are not modelled.
\<close>

subsection \<open>Data\<close>

record media_request =
  me_input_path :: string
  me_output_path :: string
  me_operation :: operation
  me_input :: probe

record media_result =
  mx_conversion :: conversion_result
  mx_warnings :: "media_warning list"

record engines =
  en_image_probe :: "string \<Rightarrow> files \<Rightarrow> image_info result \<times> files"
  en_image_convert :: "image_request \<Rightarrow> files \<Rightarrow> (image_result \<times> err option) \<times> files"
  en_media_probe :: "string \<Rightarrow> files \<Rightarrow> probe result \<times> files"
  en_media_convert :: "media_request \<Rightarrow> files \<Rightarrow> (media_result \<times> err option) \<times> files"

record service_result =
  sr_status :: string
  sr_detected :: "detected_media option"
  sr_observed :: "media_properties option"
  sr_operation :: operation
  sr_source :: string
  sr_output_path :: string
  sr_validation :: validation_result
  sr_warnings :: "warning list"
  sr_execution :: execution_result
  sr_error :: "err option"

definition fresh_result :: service_result where
  "fresh_result = \<lparr>sr_status = ''error'', sr_detected = None, sr_observed = None, sr_operation = no_operation, sr_source = [],
     sr_output_path = [], sr_validation = \<lparr>vr_status = ''not_run'', vr_issues = []\<rparr>, sr_warnings = [],
     sr_execution = zero_execution, sr_error = None\<rparr>"

text \<open>The outcome of \<open>os.Stat\<close> of a path that is not one of the converted files' contents.\<close>

datatype stat_info = StatRegular | StatDirectory | StatOther | StatError err

record service_calls =
  sc_stat_input :: stat_info
  sc_stat_output :: stat_info
  sc_mkdir :: "err option"
  sc_mkdir_temp :: "string result"
  sc_stays :: "string \<Rightarrow> bool"
  sc_context :: "err option"
  sc_link :: "err option"
  sc_removed :: bool

subsection \<open>Requests and detection\<close>

definition configuration :: "string \<Rightarrow> string \<Rightarrow> err option \<Rightarrow> err" where
  "configuration code message cause = conversion_failure FailureConfiguration code message cause"

definition validate_request :: "service_calls \<Rightarrow> conversion_request \<Rightarrow> err option" where
  "validate_request calls rq =
    (if trim_space (rq_input_path rq) = [] then Some (configuration ''missing_input'' ''input path is required'' None)
     else if trim_space (rq_output rq) = []
       then Some (configuration ''missing_output'' ''output path or directory is required'' None)
     else case (if rq_operation_set rq then parse_operation (operation_text (rq_operation rq)) else Inr (rq_operation rq)) of
       Inl e \<Rightarrow> Some (configuration ''invalid_operation'' ''operation is not supported'' (Some e))
     | Inr _ \<Rightarrow>
         (case sc_stat_input calls of
            StatError e \<Rightarrow> Some (configuration ''invalid_input'' ''input must be an accessible local file'' (Some e))
          | StatRegular \<Rightarrow> None
          | _ \<Rightarrow> Some (configuration ''invalid_input'' ''input must be a regular local file'' None)))"

definition unidentified :: "err \<Rightarrow> err \<Rightarrow> err" where
  "unidentified image_err media_err =
    (case probe_context_failure media_err of
       Some e \<Rightarrow> e
     | None \<Rightarrow>
         if errors_as as_probe media_err = Some StagePresence
         then configuration ''converter_unavailable'' ''required media probe executables are unavailable''
           (Some (Joined [image_err, media_err]))
         else conversion_failure FailureProbe ''content_probe_failed'' ''input content could not be identified''
           (Some (Joined [image_err, media_err])))"

text \<open>The detection with the probe of the engine that recognized the input; the other one is empty.\<close>

definition detect ::
  "unicode_tables \<Rightarrow> engines \<Rightarrow> string \<Rightarrow> files \<Rightarrow> (detected_media \<times> image_info \<times> probe) result \<times> files" where
  "detect U en path fs =
    (case en_image_probe en path fs of
       (Inr i, fs) \<Rightarrow> (Inr (detected_image i, i, no_probe), fs)
     | (Inl image_err, fs) \<Rightarrow>
         (case probe_context_failure image_err of
            Some e \<Rightarrow> (Inl e, fs)
          | None \<Rightarrow>
            (case en_media_probe en path fs of
               (Inl media_err, fs) \<Rightarrow> (Inl (unidentified image_err media_err), fs)
             | (Inr p, fs) \<Rightarrow>
                 if looks_like_still_image U p then (Inl (classify_image_error image_err), fs)
                 else (case detected_media_of p of
                     Inr d \<Rightarrow> (Inr (d, no_image, p), fs)
                   | Inl e \<Rightarrow> (Inl (unidentified image_err e), fs)))))"

definition service_inspect ::
  "unicode_tables \<Rightarrow> engines \<Rightarrow> service_calls \<Rightarrow> string \<Rightarrow> files \<Rightarrow> (inspection option \<times> err option) \<times> files" where
  "service_inspect U en calls path fs =
    (case validate_request calls \<lparr>rq_input_path = path, rq_output = ''.'', rq_operation = no_operation, rq_operation_set = False\<rparr> of
       Some e \<Rightarrow> ((None, Some e), fs)
     | None \<Rightarrow>
       (case detect U en path fs of
          (Inl e, fs) \<Rightarrow> ((None, Some e), fs)
        | (Inr (d, i, p), fs) \<Rightarrow> (case inspect_detected U d i p of (ins, e) \<Rightarrow> ((Some ins, e), fs))))"

subsection \<open>The output path\<close>

text \<open>The path, whether it was derived from a directory, and the error.\<close>

definition resolve_output ::
  "unicode_tables \<Rightarrow> service_calls \<Rightarrow> string \<Rightarrow> string \<Rightarrow> operation \<Rightarrow> string \<times> bool \<times> err option" where
  "resolve_output U calls input target op =
    (case (lookup_spec op, output_name U input op) of
       (None, _) \<Rightarrow> ([], False, Some (configuration ''invalid_operation'' ''operation is not supported'' None))
     | (Some spec, Inl e) \<Rightarrow> ([], False, Some (configuration ''invalid_operation'' ''operation is not supported'' (Some e)))
     | (Some spec, Inr name) \<Rightarrow>
         let extension = os_extension (sp_output spec);
             in_directory = (\<lambda>message. case sc_mkdir calls of
                 Some e \<Rightarrow> ([], False, Some (configuration ''invalid_output'' message (Some e)))
               | None \<Rightarrow> (join_path target name, True, None));
             absent = (if has_suffix target ''/'' \<or> file_ext target = [] then in_directory ''output directory could not be created''
               else if \<not> equal_fold (file_ext target) extension
                 then ([], False, Some (configuration ''invalid_output_extension''
                   (''output path must use the '' @ extension @ '' extension for '' @ operation_text op) None))
               else case sc_mkdir calls of
                 Some e \<Rightarrow> ([], False, Some (configuration ''invalid_output'' ''output directory could not be created'' (Some e)))
               | None \<Rightarrow> (target, False, None))
         in case sc_stat_output calls of
              StatDirectory \<Rightarrow> in_directory ''output directory is not writable''
            | StatError e \<Rightarrow>
                if errors_is e OsErrNotExist then absent
                else ([], False, Some (configuration ''invalid_output'' ''output location is not accessible'' (Some e)))
            | _ \<Rightarrow> (target, False, Some (conversion_failure FailureRejection ''output_exists'' ''output already exists''
                (Some (Sentinel OsErrExist)))))"

subsection \<open>Dispatch\<close>

definition set_validation_failure :: "service_result \<Rightarrow> err \<Rightarrow> Conversion_Types.validation_issue list \<Rightarrow> service_result" where
  "set_validation_failure r e issues =
    (if kind_of e \<noteq> Some FailureValidation then r
     else r\<lparr>sr_validation := \<lparr>vr_status = ''failed'', vr_issues = issues\<rparr>\<rparr>)"

fun validation_code_text :: "validation_code \<Rightarrow> string" where
  "validation_code_text ValidationContainer = ''container''"
| "validation_code_text ValidationCodec = ''codec''"
| "validation_code_text ValidationStreamCount = ''stream_count''"
| "validation_code_text ValidationPixelFormat = ''pixel_format''"
| "validation_code_text ValidationColor = ''color''"
| "validation_code_text ValidationDuration = ''duration''"
| "validation_code_text ValidationDimensions = ''dimensions''"
| "validation_code_text ValidationRotation = ''rotation''"
| "validation_code_text ValidationFastStart = ''faststart''"
| "validation_code_text ValidationAudioPresence = ''audio_presence''"
| "validation_code_text ValidationChannelLayout = ''channel_layout''"
| "validation_code_text ValidationSampleRate = ''sample_rate''"
| "validation_code_text ValidationMetadata = ''metadata''"
| "validation_code_text ValidationUndeclaredStream = ''undeclared_stream''"

definition reported_issue :: "Go_Errors.validation_issue \<Rightarrow> Conversion_Types.validation_issue" where
  "reported_issue x = Conversion_Types.validation_issue.make (validation_code_text (Go_Errors.validation_issue.vi_code x))
     (Go_Errors.validation_issue.vi_field x) (Go_Errors.validation_issue.vi_expected x) (Go_Errors.validation_issue.vi_actual x)"

definition libvips_execution :: execution_result where
  "libvips_execution = \<lparr>ex_requested = ''libvips'', ex_initial = ''libvips'', ex_final = ''libvips'', ex_fallback_reason = [],
     ex_attempt_count = 1\<rparr>"

text \<open>
  Publication out of the staging directory. The error of an ended context is one of the two that
  \<open>contextFailure\<close> classifies; the model keeps any other as it is.
\<close>

definition publish_staged :: "service_calls \<Rightarrow> string \<Rightarrow> string \<Rightarrow> files \<Rightarrow> err option \<times> files" where
  "publish_staged calls source target fs =
    (case sc_context calls of
       Some e \<Rightarrow> (Some (case context_failure e of Some canceled \<Rightarrow> canceled | None \<Rightarrow> e), fs)
     | None \<Rightarrow>
       (case hard_link (sc_link calls) source target fs of
          (Some e, fs) \<Rightarrow>
            (Some (if errors_is e OsErrExist
               then conversion_failure FailureRejection ''output_exists'' ''output already exists'' (Some e)
               else conversion_failure FailureConversion ''publish_failed'' ''validated output could not be published'' (Some e)), fs)
        | (None, fs) \<Rightarrow> (None, if sc_removed calls then fs(source := None) else fs)))"

definition run_image ::
  "engines \<Rightarrow> string \<Rightarrow> string \<Rightarrow> operation \<Rightarrow> image_info \<Rightarrow> service_result \<Rightarrow> files
    \<Rightarrow> (service_result \<times> string \<times> err option) \<times> files" where
  "run_image en input dir op i r fs =
    (case en_image_convert en \<lparr>iq_input_path = input, iq_output_dir = dir, iq_operation = op, iq_input = i\<rparr> fs of
       ((x, e), fs) \<Rightarrow>
         let r = (case mr_properties x of None \<Rightarrow> r
               | Some p \<Rightarrow> if mp_container p = [] then r else r\<lparr>sr_observed := Some p\<rparr>)
         in case e of
              None \<Rightarrow> ((r, io_path (mr_output x), None), fs)
            | Some e \<Rightarrow>
                let e = classify_image_error e in ((set_validation_failure r e [], io_path (mr_output x), Some e), fs))"

definition service_image ::
  "engines \<Rightarrow> service_calls \<Rightarrow> string \<Rightarrow> string \<Rightarrow> bool \<Rightarrow> operation \<Rightarrow> image_info \<Rightarrow> service_result \<Rightarrow> files
    \<Rightarrow> (service_result \<times> err option) \<times> files" where
  "service_image en calls input out is_dir op i r fs =
    (let r = r\<lparr>sr_execution := libvips_execution\<rparr>
     in if is_dir then (case run_image en input (file_dir out) op i r fs of ((r, _, e), fs) \<Rightarrow> ((r, e), fs))
        else case sc_mkdir_temp calls of
          Inl e \<Rightarrow> ((r, Some (configuration ''invalid_output'' ''output directory is not writable'' (Some e))), fs)
        | Inr staging \<Rightarrow>
            (case run_image en input staging op i r fs of
               ((r, _, Some e), fs) \<Rightarrow> ((r, Some e), remove_tree (sc_stays calls) staging fs)
             | ((r, source, None), fs) \<Rightarrow>
                 (case publish_staged calls source out fs of (e, fs) \<Rightarrow> ((r, e), remove_tree (sc_stays calls) staging fs))))"

definition service_media ::
  "unicode_tables \<Rightarrow> engines \<Rightarrow> string \<Rightarrow> string \<Rightarrow> operation \<Rightarrow> probe \<Rightarrow> service_result \<Rightarrow> files
    \<Rightarrow> (service_result \<times> err option) \<times> files" where
  "service_media U en input out op p r fs =
    (case en_media_convert en \<lparr>me_input_path = input, me_output_path = out, me_operation = op, me_input = p\<rparr> fs of
       ((x, e), fs) \<Rightarrow>
         let got = cv_output (mx_conversion x);
             r = (if pf_name (pr_format got) \<noteq> [] \<or> pr_streams got \<noteq> []
                  then r\<lparr>sr_observed := Some (media_corpus_properties U got)\<rparr> else r);
             r = r\<lparr>sr_warnings := media_warnings (mx_warnings x), sr_execution := execution_report (cv_execution (mx_conversion x))\<rparr>
         in case e of
              None \<Rightarrow> ((r, None), fs)
            | Some e \<Rightarrow>
                let issues = (case errors_as as_media_validation e of None \<Rightarrow> [] | Some issues \<Rightarrow> map reported_issue issues)
                in ((set_validation_failure r (classify_media_error e) issues, Some (classify_media_error e)), fs))"

text \<open>After detection: the operation, its check, the output path and the engine.\<close>

definition convert_detected ::
  "unicode_tables \<Rightarrow> engines \<Rightarrow> service_calls \<Rightarrow> conversion_request \<Rightarrow> detected_media \<Rightarrow> image_info \<Rightarrow> probe \<Rightarrow> files
    \<Rightarrow> (service_result \<times> err option) \<times> files" where
  "convert_detected U en calls rq d i p fs =
    (let op = (if rq_operation_set rq then rq_operation rq
               else case recommended_for (dm_kind d) of None \<Rightarrow> no_operation | Some op \<Rightarrow> op);
         r = fresh_result\<lparr>sr_detected := Some d,
               sr_warnings := (if dm_kind d = MediaImage then [] else media_warnings (sel_warnings (select_streams p))),
               sr_source := (if rq_operation_set rq then ''requested'' else ''recommended''), sr_operation := op\<rparr>
     in case validate_operation U op (dm_kind d) i p of
          Some e \<Rightarrow> ((r, Some e), fs)
        | None \<Rightarrow>
          (case resolve_output U calls (rq_input_path rq) (rq_output rq) op of
             (out, is_dir, Some e) \<Rightarrow> ((r\<lparr>sr_output_path := out\<rparr>, Some e), fs)
           | (out, is_dir, None) \<Rightarrow>
               let r = r\<lparr>sr_output_path := out\<rparr>
               in (case map_option sp_engine (lookup_spec op) of
                     Some EngineImage \<Rightarrow> service_image en calls (rq_input_path rq) out is_dir op i r fs
                   | Some EngineMedia \<Rightarrow> service_media U en (rq_input_path rq) out op p r fs
                   | _ \<Rightarrow> ((r, Some (conversion_failure FailureProbe ''unsupported_media''
                       ''input is not supported image, audio, or video content'' None)), fs))))"

text \<open>\<open>Convert\<close> with a context that is not nil; an error that is a conversion error is also reported.\<close>

definition service_attempt ::
  "unicode_tables \<Rightarrow> engines \<Rightarrow> service_calls \<Rightarrow> conversion_request \<Rightarrow> files \<Rightarrow> (service_result \<times> err option) \<times> files" where
  "service_attempt U en calls rq fs =
    (case validate_request calls rq of
       Some e \<Rightarrow> ((fresh_result, Some e), fs)
     | None \<Rightarrow>
       (case detect U en (rq_input_path rq) fs of
          (Inl e, fs) \<Rightarrow> ((fresh_result, Some e), fs)
        | (Inr (d, i, p), fs) \<Rightarrow> convert_detected U en calls rq d i p fs))"

definition service_convert ::
  "unicode_tables \<Rightarrow> engines \<Rightarrow> service_calls \<Rightarrow> conversion_request \<Rightarrow> files \<Rightarrow> (service_result \<times> err option) \<times> files" where
  "service_convert U en calls rq fs =
    (case service_attempt U en calls rq fs of
       ((r, None), fs) \<Rightarrow>
         ((r\<lparr>sr_status := ''success'', sr_validation := (sr_validation r)\<lparr>vr_status := ''passed''\<rparr>\<rparr>, None), fs)
     | ((r, Some e), fs) \<Rightarrow> ((if kind_of e = None then r else r\<lparr>sr_error := Some e\<rparr>, Some e), fs))"

end
