(* ===== verification/Conversion_Contract.thy ===== *)
theory Conversion_Contract
  imports Conversion_Service
begin

text \<open>
  What the conversion service relies on in its engines, as a locale, and what it guarantees on top:
  the file at the reported output path is new when a conversion succeeds, and no other protected file
  changes, whatever happens.
\<close>

subsection \<open>Output names and directories\<close>

lemma output_name_plain:
  assumes "output_name U p op = Inr n"
  shows "plain_name n"
proof -
  obtain s st where s: "s \<in> set registry" "n = st @ os_suffix (sp_output s)" "st \<noteq> []" "\<forall>c\<in>set st. stem_byte c"
    using output_name_shape [OF assms] by blast
  moreover have "slash \<notin> set (os_suffix (sp_output s))" using registry_suffix [OF s(1)] by auto
  moreover have "slash \<notin> set st" "dot \<notin> set st" using s(4) stem_byte_not_special by blast+
  ultimately show ?thesis by (cases st) (auto simp: plain_name_def)
qed

lemma path_parts_slash: "p \<noteq> [] \<Longrightarrow> path_parts (p @ ''/'') = path_parts p"
proof -
  assume "p \<noteq> []"
  moreover have "clean_acc r acc (xs @ [[]]) = clean_acc r acc xs" for r acc xs
    by (induction r acc xs rule: clean_acc.induct) (auto split: list.splits)
  ultimately show ?thesis using split_on_append_sep [of slash p "[]"] by (simp add: path_parts_def is_abs_append)
qed

lemma path_parts_ok: "normal_parts (is_abs d) (path_parts d)" "x \<in> set (path_parts d) \<Longrightarrow> x \<noteq> [] \<and> slash \<notin> set x"
  using path_parts_normal path_parts_no_slash by blast+

lemma cleaned_dir_parts:
  assumes "d \<noteq> []"
  shows "is_abs (clean_path d) = is_abs d \<and> path_parts (clean_path d) = path_parts d \<and> clean_path d \<noteq> []"
proof (cases "path_parts d = []")
  case True
  have "path_parts ''/'' = []" "path_parts ''.'' = []" "is_abs ''/''" "\<not> is_abs ''.''" by code_simp+
  then show ?thesis using True assms by (cases "is_abs d") (simp_all add: clean_path_def render_path_def)
next
  case False
  have "render_path (is_abs d) (path_parts d) \<noteq> []"
    using False path_parts_ok(2) [of "hd (path_parts d)" d]
    by (cases "path_parts d"; cases "tl (path_parts d)") (auto simp: render_path_def)
  then show ?thesis
    using parts_render_path [OF path_parts_ok(1) [of d] _ False] path_parts_ok(2) [of _ d] assms
    by (simp add: clean_path_def)
qed

text \<open>The directory of a file joined to a directory is that directory, cleaned; joining the name again gives the file back.\<close>

lemma file_dir_join:
  assumes "d \<noteq> []" "plain_name n"
  shows "file_dir (join_path d n) = clean_path d"
proof -
  have n: "slash \<notin> set n" using assms(2) by (simp add: plain_name_def)
  have a: "after_last slash (x @ slash # n) = n" for x using after_last_cons [OF n] .
  let ?r = "is_abs d" and ?ps = "path_parts d"
  show ?thesis
  proof (cases "?ps = []")
    case True
    have c: "clean_path ''/'' = ''/''" "clean_path [] = ''.''" by code_simp+
    show ?thesis
    proof (cases ?r)
      case rooted: True
      then have "join_path d n = [] @ slash # n" using True by (simp add: join_path_plain [OF assms] render_path_def)
      then have "file_dir (join_path d n) = clean_path ''/''" unfolding file_dir_def using a [of "[]"] by simp
      then show ?thesis using rooted True assms(1) c by (simp add: clean_path_def render_path_def)
    next
      case rel: False
      then have "join_path d n = n" using True by (simp add: join_path_plain [OF assms] render_path_def)
      then have "file_dir (join_path d n) = clean_path []" unfolding file_dir_def using after_last_absent [OF n] by simp
      then show ?thesis using rel True assms(1) c by (simp add: clean_path_def render_path_def)
    qed
  next
    case False
    have "join_path d n = render_path ?r ?ps @ slash # n"
      using False by (simp add: join_path_plain [OF assms] render_path_def join_with_snoc)
    then have "file_dir (join_path d n) = clean_path (render_path ?r ?ps @ ''/'')"
      unfolding file_dir_def by (simp add: a)
    moreover have "render_path ?r ?ps = clean_path d" using assms(1) by (simp add: clean_path_def)
    moreover have "clean_path (clean_path d @ ''/'') = clean_path d"
    proof -
      note c = cleaned_dir_parts [OF assms(1)]
      have "path_parts (clean_path d @ ''/'') = ?ps" "is_abs (clean_path d @ ''/'') = ?r"
        using path_parts_slash [of "clean_path d"] is_abs_append [of "clean_path d"] c by metis+
      then have "clean_path (clean_path d @ ''/'') = render_path ?r ?ps" by (simp add: clean_path_def [of "_ @ _"])
      then show ?thesis using assms(1) by (simp add: clean_path_def [of d])
    qed
    ultimately show ?thesis by metis
  qed
qed

lemma join_clean: "d \<noteq> [] \<Longrightarrow> plain_name n \<Longrightarrow> join_path (clean_path d) n = join_path d n"
  using cleaned_dir_parts [of d] by (simp add: join_path_plain)

subsection \<open>The status of a result\<close>

lemma set_validation_failure_status [simp]: "sr_status (set_validation_failure r e x) = sr_status r"
  by (simp add: set_validation_failure_def)

lemma run_image_status: "run_image en input dir op i r fs = ((r', x), fs') \<Longrightarrow> sr_status r' = sr_status r"
  by (auto simp: run_image_def Let_def split: prod.splits option.splits if_splits)

lemma service_image_status: "service_image en calls input out is_dir op i r fs = ((r', e), fs') \<Longrightarrow> sr_status r' = sr_status r"
  by (auto simp: service_image_def Let_def split: prod.splits option.splits sum.splits if_splits dest!: run_image_status)

lemma service_media_status: "service_media U en input out op p r fs = ((r', e), fs') \<Longrightarrow> sr_status r' = sr_status r"
  by (auto simp: service_media_def Let_def split: prod.splits option.splits if_splits)

lemma service_attempt_status: "service_attempt U en calls rq fs = ((r, e), fs') \<Longrightarrow> sr_status r = ''error''"
  by (auto simp: service_attempt_def convert_detected_def Let_def fresh_result_def
      split: prod.splits option.splits sum.splits if_splits engine.splits
      dest!: service_image_status service_media_status)

subsection \<open>The contract of the engines\<close>

text \<open>What a run leaves of a protected path: unchanged, or new if it is the published one.\<close>

definition published_only :: "bool \<Rightarrow> string \<Rightarrow> string \<Rightarrow> files \<Rightarrow> files \<Rightarrow> bool" where
  "published_only ok out p fs fs' \<longleftrightarrow> (if ok \<and> p = out then fs p = None \<and> fs' p \<noteq> None else fs' p = fs p)"

lemma published_only_failed [simp]: "published_only False out p fs fs' \<longleftrightarrow> fs' p = fs p"
  by (simp add: published_only_def)

text \<open>A path that is neither below a directory nor the result of joining a plain name to it.\<close>

definition outside_dir :: "string \<Rightarrow> string \<Rightarrow> bool" where
  "outside_dir d p \<longleftrightarrow> \<not> below d p \<and> (\<forall>n. plain_name n \<longrightarrow> p \<noteq> join_path d n)"

locale engine_contract =
  fixes U :: unicode_tables and en :: engines and protected :: "string \<Rightarrow> bool"
  assumes image_probe: "protected p \<Longrightarrow> en_image_probe en x fs = (r, fs') \<Longrightarrow> fs' p = fs p"
    and media_probe: "protected p \<Longrightarrow> en_media_probe en x fs = (r', fs') \<Longrightarrow> fs' p = fs p"
    and image_convert: "protected p \<Longrightarrow> en_image_convert en q fs = ((x', e), fs') \<Longrightarrow>
      published_only (e = None) (io_path (mr_output x')) p fs fs'"
    and image_path: "en_image_convert en q fs = ((x', None), fs') \<Longrightarrow>
      \<exists>n. output_name U (iq_input_path q) (iq_operation q) = Inr n \<and> io_path (mr_output x') = join_path (iq_output_dir q) n"
    and media_convert: "protected p \<Longrightarrow> en_media_convert en mq fs = ((y, e), fs') \<Longrightarrow>
      published_only (e = None) (me_output_path mq) p fs fs'"
begin

lemma detect_keeps:
  assumes "protected p" "detect U en x fs = (r, fs')"
  shows "fs' p = fs p"
proof -
  obtain r1 fs1 r2 fs2 where p: "en_image_probe en x fs = (r1, fs1)" "en_media_probe en x fs1 = (r2, fs2)" by fastforce
  have "fs1 p = fs p" "fs2 p = fs1 p" by (rule image_probe [OF assms(1) p(1)], rule media_probe [OF assms(1) p(2)])
  moreover have "fs' = fs1 \<or> fs' = fs2"
    using assms(2) p by (auto simp: detect_def split: sum.splits option.splits if_splits)
  ultimately show ?thesis by auto
qed

lemma run_image_result:
  assumes "protected p" "run_image en input dir op i r fs = ((r', source, e), fs')"
  shows "published_only (e = None) source p fs fs'"
    "e = None \<Longrightarrow> \<exists>n. output_name U input op = Inr n \<and> source = join_path dir n"
    "sr_output_path r' = sr_output_path r"
proof -
  let ?q = "\<lparr>iq_input_path = input, iq_output_dir = dir, iq_operation = op, iq_input = i\<rparr>"
  obtain x e1 fs1 where c: "en_image_convert en ?q fs = ((x, e1), fs1)" by (metis surj_pair)
  have r: "fs' = fs1" "source = io_path (mr_output x)" "(e = None) = (e1 = None)" "sr_output_path r' = sr_output_path r"
    using assms(2) c by (auto simp: run_image_def Let_def set_validation_failure_def split: option.splits if_splits)
  show "published_only (e = None) source p fs fs'" using image_convert [OF assms(1) c] r by simp
  show "sr_output_path r' = sr_output_path r" by (rule r)
  show "\<exists>n. output_name U input op = Inr n \<and> source = join_path dir n" if "e = None"
    using image_path [of ?q fs x fs1] c r that by simp
qed

lemma service_media_result:
  assumes "protected p" "service_media U en input out op pr r fs = ((r', e), fs')"
  shows "published_only (e = None) out p fs fs' \<and> sr_output_path r' = sr_output_path r"
proof -
  let ?q = "\<lparr>me_input_path = input, me_output_path = out, me_operation = op, me_input = pr\<rparr>"
  obtain x e1 fs1 where c: "en_media_convert en ?q fs = ((x, e1), fs1)" by (metis surj_pair)
  have "fs' = fs1 \<and> (e = None) = (e1 = None) \<and> sr_output_path r' = sr_output_path r"
    using assms(2) c by (auto simp: service_media_def Let_def set_validation_failure_def split: option.splits)
  then show ?thesis using media_convert [OF assms(1) c] by simp
qed

lemma service_image_result:
  assumes p: "protected p" and out: "is_dir \<Longrightarrow> \<exists>d n. out = join_path d n \<and> d \<noteq> [] \<and> output_name U input op = Inr n"
    and staging: "\<And>d. sc_mkdir_temp calls = Inr d \<Longrightarrow> outside_dir d p"
    and r: "service_image en calls input out is_dir op i r fs = ((r', e), fs')"
  shows "published_only (e = None) out p fs fs' \<and> sr_output_path r' = sr_output_path r"
proof (cases is_dir)
  case True
  obtain x source e1 fs1 where c: "run_image en input (file_dir out) op i (r\<lparr>sr_execution := libvips_execution\<rparr>) fs = ((x, source, e1), fs1)"
    by (metis surj_pair)
  have e: "e = e1" "fs' = fs1" "r' = x" using r c True by (auto simp: service_image_def Let_def)
  have "e1 = None \<Longrightarrow> source = out"
    using run_image_result(2) [OF p c] out [OF True] output_name_plain file_dir_join join_clean by fastforce
  then show ?thesis using run_image_result(1,3) [OF p c] e by (cases e1) (auto simp: published_only_def)
next
  case False
  show ?thesis
  proof (cases "sc_mkdir_temp calls")
    case (Inl x)
    then show ?thesis using r False by (auto simp: service_image_def Let_def)
  next
    case (Inr d)
    obtain x source e1 fs1 where c: "run_image en input d op i (r\<lparr>sr_execution := libvips_execution\<rparr>) fs = ((x, source, e1), fs1)"
      by (metis surj_pair)
    note run = run_image_result [OF p c]
    have o: "\<not> below d p" "\<And>n. plain_name n \<Longrightarrow> p \<noteq> join_path d n" using staging [OF Inr] by (simp_all add: outside_dir_def)
    have same: "fs1 p = fs p" using run(1,2) o(2) output_name_plain by (cases e1) (fastforce simp: published_only_def)+
    show ?thesis
    proof (cases e1)
      case (Some y)
      then show ?thesis using r False Inr c run(3) same o(1) by (auto simp: service_image_def Let_def)
    next
      case None
      obtain e2 fs2 where pub: "publish_staged calls source out fs1 = (e2, fs2)" by fastforce
      have e: "e = e2" "fs' = remove_tree (sc_stays calls) d fs2" "r' = x"
        using r False Inr c None pub by (auto simp: service_image_def Let_def)
      have "p \<noteq> source" using run(2) [OF None] o(2) output_name_plain by blast
      then have "published_only (e2 = None) out p fs1 fs2"
        using pub by (auto simp: publish_staged_def published_only_def dest!: hard_link_error hard_link_done
            split: option.splits prod.splits if_splits)
      then show ?thesis using e same o(1) run(3) by (auto simp: published_only_def split: if_splits)
    qed
  qed
qed

lemma convert_detected_result:
  assumes p: "protected p" and t: "rq_output rq \<noteq> []"
    and staging: "\<And>d. sc_mkdir_temp calls = Inr d \<Longrightarrow> outside_dir d p"
    and r: "convert_detected U en calls rq d i pr fs = ((r', e), fs')"
  shows "published_only (e = None) (sr_output_path r') p fs fs'"
proof -
  define op where "op = (if rq_operation_set rq then rq_operation rq
    else case recommended_for (dm_kind d) of None \<Rightarrow> no_operation | Some op \<Rightarrow> op)"
  define r0 where "r0 = fresh_result\<lparr>sr_detected := Some d,
    sr_warnings := (if dm_kind d = MediaImage then [] else media_warnings (sel_warnings (select_streams pr))),
    sr_source := (if rq_operation_set rq then ''requested'' else ''recommended''), sr_operation := op\<rparr>"
  obtain out is_dir oe where o: "resolve_output U calls (rq_input_path rq) (rq_output rq) op = (out, is_dir, oe)" by (metis surj_pair)
  note c = r [unfolded convert_detected_def op_def [symmetric] Let_def, folded r0_def]
  show ?thesis
  proof (cases "validate_operation U op (dm_kind d) i pr = None \<and> oe = None")
    case False
    have "e \<noteq> None \<and> fs' = fs"
    proof (cases "validate_operation U op (dm_kind d) i pr")
      case None
      then obtain y where "oe = Some y" using False by (cases oe) auto
      then show ?thesis using c o None by auto
    qed (use c in \<open>auto dest: sym\<close>)
    then show ?thesis by (auto simp: published_only_def)
  next
    case True
    then have dir: "is_dir \<Longrightarrow> \<exists>d n. out = join_path d n \<and> d \<noteq> [] \<and> output_name U (rq_input_path rq) op = Inr n"
      using o t by (auto simp: resolve_output_def Let_def split: option.splits sum.splits stat_info.splits if_splits)
    let ?r = "r0\<lparr>sr_output_path := out\<rparr>"
    consider (image) "service_image en calls (rq_input_path rq) out is_dir op i ?r fs = ((r', e), fs')"
      | (media) "service_media U en (rq_input_path rq) out op pr ?r fs = ((r', e), fs')"
      | (none) "e \<noteq> None" "fs' = fs"
      using c o True by (auto split: option.splits engine.splits)
    then show ?thesis
    proof cases
      case image
      from service_image_result [OF p dir staging this] show ?thesis by simp
    next
      case media
      from service_media_result [OF p this] show ?thesis by simp
    next
      case none
      then show ?thesis by (auto simp: published_only_def)
    qed
  qed
qed

lemma service_convert_result:
  assumes p: "protected p" and staging: "\<And>d. sc_mkdir_temp calls = Inr d \<Longrightarrow> outside_dir d p"
    and r: "service_convert U en calls rq fs = ((r', e), fs')"
  shows "published_only (e = None) (sr_output_path r') p fs fs'"
    and "sr_status r' = (if e = None then ''success'' else ''error'')"
proof -
  obtain r1 e1 fs1 where c: "service_attempt U en calls rq fs = ((r1, e1), fs1)" by (metis surj_pair)
  have e: "e = e1" "fs' = fs1" "sr_output_path r' = sr_output_path r1"
    using r c by (auto simp: service_convert_def split: option.splits if_splits)
  have "published_only (e1 = None) (sr_output_path r1) p fs fs1"
  proof (cases "validate_request calls rq")
    case (Some x)
    then show ?thesis using c by (auto simp: service_attempt_def published_only_def dest: sym)
  next
    case None
    have "trim_space [] = []" by code_simp
    then have t: "rq_output rq \<noteq> []" using None by (auto simp: validate_request_def split: if_splits)
    obtain det fs0 where d: "detect U en (rq_input_path rq) fs = (det, fs0)" by fastforce
    have 0: "fs0 p = fs p" by (rule detect_keeps [OF p d])
    show ?thesis
    proof (cases det)
      case (Inl x)
      then show ?thesis using c None d 0 by (auto simp: service_attempt_def)
    next
      case (Inr x)
      obtain d' i pr where x: "x = (d', i, pr)" by (metis surj_pair)
      then have "convert_detected U en calls rq d' i pr fs0 = ((r1, e1), fs1)" using c None d Inr by (simp add: service_attempt_def)
      from convert_detected_result [OF p t staging this] show ?thesis using 0 by (auto simp: published_only_def split: if_splits)
    qed
  qed
  then show "published_only (e = None) (sr_output_path r') p fs fs'" using e by simp
  show "sr_status r' = (if e = None then ''success'' else ''error'')"
    using r c service_attempt_status [OF c] by (auto simp: service_convert_def split: option.splits if_splits)
qed

end

end
