(* ===== verification/Media_VAAPI.thy ===== *)
theory Media_VAAPI
  imports Media_Convert
begin

text \<open>
  The functional device probe, \<open>internal/media/vaapi_probe.go\<close>: a real encode, the probe and
  validation of its output, and a decode attempt. The device check and the temporary directory
  are arguments.
\<close>

subsection \<open>The device check\<close>

text \<open>\<open>checkVAAPIDevice\<close> from the outcomes of its system calls.\<close>

record device_calls =
  dc_stat :: "err option"
  dc_char_device :: bool
  dc_open :: "err option"
  dc_close :: "err option"

definition check_vaapi_device :: "device_calls \<Rightarrow> err option" where
  "check_vaapi_device d =
    (case dc_stat d of
       Some e \<Rightarrow> Some (Wrapped ''stat VA-API device'' e)
     | None \<Rightarrow>
         if \<not> dc_char_device d then Some (NewError ''VA-API device is not a character device'')
         else case dc_open d of
           Some e \<Rightarrow> Some (Wrapped ''open VA-API device read-write'' e)
         | None \<Rightarrow> map_option (Wrapped ''close VA-API device'') (dc_close d))"

subsection \<open>The probe\<close>

record vaapi_probe_result =
  vp_readiness :: vaapi_readiness
  vp_encode :: functional_result
  vp_probe :: run_result
  vp_output :: probe
  vp_decode :: functional_result

definition no_functional :: functional_result where
  "no_functional = \<lparr>fr_name = [], fr_presence = \<lparr>pp_executable = [], pp_path = [], pp_found = False\<rparr>,
     fr_command = no_result, fr_passed = False\<rparr>"

definition no_readiness :: vaapi_readiness where
  "no_readiness = \<lparr>vr_device = [], vr_ready = False, vr_codecs = [], vr_reason = FallbackNone, vr_complete = False\<rparr>"

definition no_vaapi_probe :: vaapi_probe_result where
  "no_vaapi_probe = \<lparr>vp_readiness = no_readiness, vp_encode = no_functional, vp_probe = no_result,
     vp_output = no_probe, vp_decode = no_functional\<rparr>"

definition encode_spec :: "string \<Rightarrow> string \<Rightarrow> string \<Rightarrow> string \<Rightarrow> int \<Rightarrow> functional_spec" where
  "encode_spec ffmpeg device dir out timeout =
    \<lparr>fs_name = ''VA-API H.264 encode'', fs_executable = ffmpeg,
     fs_args = [''-hide_banner'', ''-loglevel'', ''error'', ''-nostdin'', ''-y'', ''-init_hw_device'',
       ''vaapi=filetwist:'' @ device, ''-filter_hw_device'', ''filetwist'', ''-f'', ''lavfi'', ''-i'',
       ''testsrc2=size=320x180:rate=10'', ''-t'', ''0.4'', ''-an'', ''-vf'', ''format=nv12,hwupload'', ''-c:v'',
       ''h264_vaapi'', ''-qp'', ''24'', ''-movflags'', ''+faststart'', ''-f'', ''mp4'', out],
     fs_dir = dir, fs_env = [], fs_timeout = timeout\<rparr>"

definition decode_spec :: "string \<Rightarrow> string \<Rightarrow> string \<Rightarrow> string \<Rightarrow> int \<Rightarrow> functional_spec" where
  "decode_spec ffmpeg device dir out timeout =
    \<lparr>fs_name = ''VA-API H.264 decode'', fs_executable = ffmpeg,
     fs_args = [''-hide_banner'', ''-loglevel'', ''error'', ''-nostdin'', ''-init_hw_device'',
       ''vaapi=filetwist:'' @ device, ''-hwaccel'', ''vaapi'', ''-hwaccel_device'', ''filetwist'',
       ''-hwaccel_output_format'', ''vaapi'', ''-i'', out, ''-map'', ''0:v:0'', ''-an'', ''-f'', ''null'', ''-''],
     fs_dir = dir, fs_env = [], fs_timeout = timeout\<rparr>"

definition vaapi_profile :: expected_profile where
  "vaapi_profile = no_profile\<lparr>xp_container := ''mp4'', xp_video_codec := ''h264'', xp_pixel_format := ''yuv420p'',
     xp_width := 320, xp_height := 180, xp_rotation := 0, xp_audio := AudioForbidden, xp_tolerance := 1000000000,
     xp_fast_start := True\<rparr>"

definition vaapi_plan :: "string \<Rightarrow> plan" where
  "vaapi_plan out = \<lparr>pl_operation = OperationCompatibleVideo, pl_input = [], pl_output = out, pl_args = [], pl_timeout = 0,
     pl_warnings = [], pl_filters = [], pl_expected = vaapi_profile, pl_requested = [], pl_path = NoPath,
     pl_fallback = FallbackNone, pl_cpu_args = []\<rparr>"

definition unavailable :: "fallback_reason \<Rightarrow> vaapi_probe_result \<Rightarrow> vaapi_probe_result" where
  "unavailable reason r = r\<lparr>vp_readiness := (vp_readiness r)\<lparr>vr_reason := reason\<rparr>\<rparr>"

definition vaapi_error :: "err \<Rightarrow> err option" where
  "vaapi_error cause = Some (Wrapped ''media: VA-API functional probe failed'' cause)"

text \<open>The stages that run in the temporary directory.\<close>

definition probe_in_directory ::
  "files run_fun \<Rightarrow> (string \<Rightarrow> probe result \<times> err option) \<Rightarrow> attempt_calls \<Rightarrow> string \<Rightarrow> string \<Rightarrow> string \<Rightarrow> string \<Rightarrow> int
    \<Rightarrow> vaapi_probe_result \<Rightarrow> files \<Rightarrow> (vaapi_probe_result \<times> err option) \<times> files" where
  "probe_in_directory run json calls ffmpeg ffprobe device dir timeout r fs =
    (let out = join_path dir ''probe.mp4'';
         ((enc, e), fs) = probe_functional run Inr (encode_spec ffmpeg device dir out timeout) fs;
         r = r\<lparr>vp_encode := enc\<rparr>
     in case e of
          Some e \<Rightarrow>
            let why = classify_vaapi_stderr (cap_bytes (rr_stderr (fr_command enc)));
                why = (if why = FallbackNone then FallbackVAAPIProbeUnavailable else why)
            in ((unavailable why r, vaapi_error e), fs)
        | None \<Rightarrow>
          (case probe_file run json ffprobe out timeout fs of
             ((Inl e, pr), fs) \<Rightarrow> ((unavailable FallbackVAAPIProbeValidation (r\<lparr>vp_probe := pr\<rparr>), vaapi_error e), fs)
           | ((Inr found, pr), fs) \<Rightarrow>
               let r = r\<lparr>vp_probe := pr, vp_output := found\<rparr>
               in (case validate_output (vaapi_plan out) found (open_output calls out fs) (ac_close_read calls) of
                     Some e \<Rightarrow> ((unavailable FallbackVAAPIProbeValidation r, vaapi_error e), fs)
                   | None \<Rightarrow>
                       let ready = (vp_readiness r)\<lparr>vr_ready := True, vr_complete := True\<rparr>;
                           ((dec, e), fs) = probe_functional run Inr (decode_spec ffmpeg device dir out timeout) fs;
                           r = r\<lparr>vp_decode := dec\<rparr>
                       in (case e of
                             None \<Rightarrow> ((r\<lparr>vp_readiness := ready\<lparr>vr_codecs := [''h264'']\<rparr>\<rparr>, None), fs)
                           | Some e \<Rightarrow>
                               if errors_is e ContextCanceled \<or> errors_is e ContextDeadlineExceeded
                               then ((r\<lparr>vp_readiness := ready\<lparr>vr_ready := False, vr_reason := FallbackVAAPIProbeUnavailable\<rparr>\<rparr>,
                                      vaapi_error e), fs)
                               else ((r\<lparr>vp_readiness := ready\<rparr>, None), fs)))))"

definition probe_vaapi ::
  "files run_fun \<Rightarrow> (string \<Rightarrow> probe result \<times> err option) \<Rightarrow> attempt_calls \<Rightarrow> (string \<Rightarrow> err option) \<Rightarrow> string result \<Rightarrow> bool
    \<Rightarrow> string \<Rightarrow> string \<Rightarrow> acceleration_config \<Rightarrow> int \<Rightarrow> files \<Rightarrow> (vaapi_probe_result \<times> err option) \<times> files" where
  "probe_vaapi run json calls check_device mkdir_temp removed ffmpeg ffprobe config timeout fs =
    (if ffmpeg = [] \<or> ffprobe = []
     then ((no_vaapi_probe, Some (NewError ''media: FFmpeg and ffprobe paths must not be empty'')), fs)
     else if timeout < 0
     then ((no_vaapi_probe, Some (NewError ''media: VA-API probe timeout must not be negative'')), fs)
     else case normalize_acceleration config of
       Inl e \<Rightarrow> ((no_vaapi_probe, Some e), fs)
     | Inr normalized \<Rightarrow>
         let r = no_vaapi_probe\<lparr>vp_readiness := no_readiness\<lparr>vr_device := ac_device normalized\<rparr>\<rparr>
         in case check_device (ac_device normalized) of
              Some e \<Rightarrow> ((unavailable FallbackVAAPIDevice r, vaapi_error e), fs)
            | None \<Rightarrow>
              (case mkdir_temp of
                 Inl e \<Rightarrow> ((r, vaapi_error (Wrapped ''create VA-API probe directory'' e)), fs)
               | Inr dir \<Rightarrow>
                   (case probe_in_directory run json calls ffmpeg ffprobe (ac_device normalized) dir timeout r fs of
                      (x, fs) \<Rightarrow> (x, remove_tree (\<lambda>_. \<not> removed) dir fs))))"

subsection \<open>Lemmas\<close>

lemma unavailable_sel [simp]:
  "vp_readiness (unavailable x r) = (vp_readiness r)\<lparr>vr_reason := x\<rparr>" "vp_encode (unavailable x r) = vp_encode r"
  "vp_output (unavailable x r) = vp_output r" "vp_decode (unavailable x r) = vp_decode r"
  by (simp_all add: unavailable_def)

lemma probe_functional_passed: "probe_functional run look spec fs = ((r, e), fs') \<Longrightarrow> fr_passed r = (e = None)"
  by (auto simp: probe_functional_def Let_def split: prod.splits option.splits if_splits)

lemma probe_in_directory_ready:
  assumes "probe_in_directory run json calls ffmpeg ffprobe device dir timeout r fs = ((res, e), fs')"
    and "\<not> vr_ready (vp_readiness r)" and "vr_codecs (vp_readiness r) = []" and "vr_reason (vp_readiness r) = FallbackNone"
  shows "(vr_ready (vp_readiness res) \<longleftrightarrow> e = None) \<and> vr_device (vp_readiness res) = vr_device (vp_readiness r)
    \<and> (e = None \<longrightarrow> vr_complete (vp_readiness res) \<and> fr_passed (vp_encode res) \<and> meets_contract vaapi_profile (vp_output res)
        \<and> vr_codecs (vp_readiness res) = (if fr_passed (vp_decode res) then [''h264''] else []))
    \<and> (e \<noteq> None \<longrightarrow> vr_reason (vp_readiness res) \<noteq> FallbackNone \<and> vr_codecs (vp_readiness res) = [])"
proof -
  have v: "validate_output (vaapi_plan out) p x c = None \<Longrightarrow> meets_contract vaapi_profile p" for out p x c
    by (auto simp: validate_output_def validation_error_def output_issues_def probe_issues_Nil vaapi_plan_def split: if_splits)
  show ?thesis
    using assms
    by (auto simp: probe_in_directory_def Let_def vaapi_error_def dest!: probe_functional_passed v
        split: prod.splits option.splits sum.splits if_splits)
qed

subsection \<open>Properties\<close>

text \<open>A device probe reports a ready device exactly when it returns no error, and then the test encode passed
  and its output met the test contract; hardware decoding is offered exactly when the
  decode attempt passed. A probe that got past the device check and the temporary directory and
  failed leaves the reason for the fallback, so that planning can record it.\<close>

theorem ready_means_validated:
  assumes "probe_vaapi run json calls check mkdir removed ffmpeg ffprobe config timeout fs = ((res, e), fs')"
  shows "(vr_ready (vp_readiness res) \<longleftrightarrow> e = None)
    \<and> (e = None \<longrightarrow> (\<exists>c. normalize_acceleration config = Inr c \<and> vr_device (vp_readiness res) = ac_device c)
        \<and> vr_complete (vp_readiness res) \<and> fr_passed (vp_encode res) \<and> meets_contract vaapi_profile (vp_output res)
        \<and> vr_codecs (vp_readiness res) = (if fr_passed (vp_decode res) then [''h264''] else []))
    \<and> (e \<noteq> None \<and> (\<exists>dir. mkdir = Inr dir) \<and> vr_device (vp_readiness res) \<noteq> [] \<longrightarrow>
        vr_reason (vp_readiness res) \<noteq> FallbackNone)"
proof (cases "ffmpeg = [] \<or> ffprobe = [] \<or> timeout < 0")
  case True
  then show ?thesis using assms by (auto simp: probe_vaapi_def no_vaapi_probe_def no_readiness_def split: if_splits)
next
  case False
  show ?thesis
  proof (cases "normalize_acceleration config")
    case (Inl x)
    then show ?thesis using assms False by (auto simp: probe_vaapi_def no_vaapi_probe_def no_readiness_def)
  next
    case (Inr c)
    let ?r = "no_vaapi_probe\<lparr>vp_readiness := no_readiness\<lparr>vr_device := ac_device c\<rparr>\<rparr>"
    show ?thesis
    proof (cases "check (ac_device c) = None \<and> (\<exists>dir. mkdir = Inr dir)")
      case no: False
      then show ?thesis
        using assms False Inr
        by (auto simp: probe_vaapi_def no_vaapi_probe_def no_readiness_def vaapi_error_def Let_def
            split: option.splits sum.splits)
    next
      case True
      then obtain dir where d: "mkdir = Inr dir" by blast
      obtain fs1 where p: "probe_in_directory run json calls ffmpeg ffprobe (ac_device c) dir timeout ?r fs = ((res, e), fs1)"
        using assms False Inr True d by (auto simp: probe_vaapi_def Let_def split: prod.splits)
      from probe_in_directory_ready [OF p] show ?thesis
        using Inr by (simp add: no_vaapi_probe_def no_readiness_def)
    qed
  qed
qed

theorem ready_means_validated_witness:
  "\<exists>res e fs'. probe_vaapi quiet_run sound_json (calm_calls []) (\<lambda>_. None) (Inr ''/tmp/x'') True ''ffmpeg'' ''ffprobe''
      \<lparr>ac_mode = ''auto'', ac_device = []\<rparr> 0 Map.empty = ((res, e), fs')
    \<and> (vr_ready (vp_readiness res) \<longleftrightarrow> e = None)"
proof -
  obtain res e fs' where r: "probe_vaapi quiet_run sound_json (calm_calls []) (\<lambda>_. None) (Inr ''/tmp/x'') True ''ffmpeg'' ''ffprobe''
      \<lparr>ac_mode = ''auto'', ac_device = []\<rparr> 0 Map.empty = ((res, e), fs')" by (metis surj_pair)
  then show ?thesis using ready_means_validated [OF r] by blast
qed

end
