(* ===== verification/Local_Engines.thy ===== *)
theory Local_Engines
  imports Conversion_Contract Media_VAAPI
begin

text \<open>
  The engines behind the conversion service, \<open>internal/conversion/local.go\<close>: libvips and FFmpeg as
  subprocesses, the decode and device probes that precede them, and the proof that they meet the
  contract of \<open>Conversion_Contract\<close>. The run function and the prober are not nil here.
\<close>

subsection \<open>Configuration\<close>

record local_config =
  lc_acceleration :: acceleration_config
  lc_readiness :: "vaapi_readiness option"
  lc_timeout :: int
  lc_probe_timeout :: int
  lc_temporary_root :: string
  lc_vips :: string
  lc_header :: string
  lc_ffmpeg :: string
  lc_ffprobe :: string

definition new_local :: "local_config \<Rightarrow> local_config result" where
  "new_local c =
    (if lc_timeout c < 0 \<or> lc_probe_timeout c < 0 then Inl (NewError ''conversion: timeouts must not be negative'')
     else Inr (c\<lparr>lc_timeout := (if lc_timeout c = 0 then 10 * 60 * 1000000000 else lc_timeout c),
                 lc_probe_timeout := (if lc_probe_timeout c = 0 then 30 * 1000000000 else lc_probe_timeout c),
                 lc_vips := (if lc_vips c = [] then ''vips'' else lc_vips c),
                 lc_header := (if lc_header c = [] then ''vipsheader'' else lc_header c),
                 lc_ffmpeg := (if lc_ffmpeg c = [] then ''ffmpeg'' else lc_ffmpeg c),
                 lc_ffprobe := (if lc_ffprobe c = [] then ''ffprobe'' else lc_ffprobe c)\<rparr>))"

text \<open>What the system calls of a conversion give, and the environment: processes, their JSON and the device check.\<close>

record local_calls =
  lo_image :: image_calls
  lo_decode :: work_calls
  lo_decode_stays :: "string \<Rightarrow> bool"
  lo_first :: attempt_calls
  lo_second :: attempt_calls
  lo_device :: attempt_calls
  lo_check_device :: "string \<Rightarrow> err option"
  lo_device_dir :: "string result"
  lo_device_removed :: bool

record local_world =
  lw_run :: "files run_fun"
  lw_look :: look_path
  lw_json :: "string \<Rightarrow> probe result \<times> err option"
  lw_conv :: "float64 \<Rightarrow> int"

definition local_executable :: "look_path \<Rightarrow> string \<Rightarrow> string result" where
  "local_executable look x = (case prober_executable look x of (r, None) \<Rightarrow> Inr (pp_path r) | (_, Some e) \<Rightarrow> Inl e)"

subsection \<open>The image engine\<close>

definition local_image_probe :: "local_world \<Rightarrow> local_config \<Rightarrow> string \<Rightarrow> files \<Rightarrow> image_info result \<times> files" where
  "local_image_probe W c path fs =
    (case local_executable (lw_look W) (lc_header c) of
       Inl e \<Rightarrow> (Inl e, fs)
     | Inr header \<Rightarrow> probe_image (lw_run W) header path fs)"

definition temporary_root :: "local_config \<Rightarrow> string \<Rightarrow> string" where
  "temporary_root c output_dir = (if lc_temporary_root c \<noteq> [] then lc_temporary_root c else output_dir)"

definition classify_decode_probe_error :: "string \<Rightarrow> string \<Rightarrow> err \<Rightarrow> err" where
  "classify_decode_probe_error code stage e = (if errors_as as_probe e \<noteq> None then ImageError code stage e else e)"

text \<open>The decode probe that a HEIF or AVIF input needs, and the removal of its work directory.\<close>

definition local_decode ::
  "local_world \<Rightarrow> local_config \<Rightarrow> local_calls \<Rightarrow> string \<Rightarrow> image_request \<Rightarrow> files \<Rightarrow> capability_set result \<times> files" where
  "local_decode W c calls vips q fs =
    (let f = ii_format (iq_input q); root = temporary_root c (iq_output_dir q)
     in if f \<noteq> ''heif'' \<and> f \<noteq> ''avif'' then (Inr 0, fs)
        else let ((caps, e), fs) = probe_decode (lw_run W) (lw_look W) vips (iq_input_path q) root f (lo_decode calls) fs;
                 fs = (case wc_mkdir (lo_decode calls) of
                     Inr dir \<Rightarrow> if root = [] then fs else remove_tree (lo_decode_stays calls) dir fs
                   | Inl _ \<Rightarrow> fs)
          in case e of
               None \<Rightarrow> (Inr caps, fs)
             | Some e \<Rightarrow>
                 (Inl (if f = ''heif'' then classify_decode_probe_error ''heif-loader-unavailable'' ''probe HEIF decode'' e
                       else classify_decode_probe_error ''avif-loader-unavailable'' ''probe AVIF decode'' e), fs))"

definition local_image_convert ::
  "unicode_tables \<Rightarrow> local_world \<Rightarrow> local_config \<Rightarrow> local_calls \<Rightarrow> image_request \<Rightarrow> files
    \<Rightarrow> (image_result \<times> err option) \<times> files" where
  "local_image_convert U W c calls q fs =
    (case validate_content (iq_input q) default_limits of Some e \<Rightarrow> ((no_image_result, Some e), fs) | None \<Rightarrow>
     case local_executable (lw_look W) (lc_vips c) of Inl e \<Rightarrow> ((no_image_result, Some e), fs) | Inr vips \<Rightarrow>
     case local_executable (lw_look W) (lc_header c) of Inl e \<Rightarrow> ((no_image_result, Some e), fs) | Inr header \<Rightarrow>
     case local_decode W c calls vips q fs of
       (Inl e, fs) \<Rightarrow> ((no_image_result, Some e), fs)
     | (Inr caps, fs) \<Rightarrow>
         (case validate_capabilities (iq_input q) caps of Some e \<Rightarrow> ((no_image_result, Some e), fs) | None \<Rightarrow>
          case new_converter \<lparr>ic_vips = vips, ic_header = header, ic_limits = default_limits, ic_policy = CaptureDateStrip,
              ic_capabilities = caps, ic_timeout = lc_timeout c, ic_probe_timeout = lc_probe_timeout c\<rparr> of
            Inl e \<Rightarrow> ((no_image_result, Some e), fs)
          | Inr config \<Rightarrow> convert_image U (lw_run W) (lw_look W) config (lo_image calls) q fs))"

subsection \<open>The media engine\<close>

definition local_media_probe :: "local_world \<Rightarrow> local_config \<Rightarrow> string \<Rightarrow> files \<Rightarrow> probe result \<times> files" where
  "local_media_probe W c path fs =
    (case local_executable (lw_look W) (lc_ffprobe c) of
       Inl e \<Rightarrow> (Inl e, fs)
     | Inr ffprobe \<Rightarrow>
         (case probe_file (lw_run W) (lw_json W) ffprobe path (lc_probe_timeout c) fs of ((r, _), fs) \<Rightarrow> (r, fs)))"

text \<open>The readiness a plan is made with; an ended context ends the conversion.\<close>

definition local_readiness ::
  "local_world \<Rightarrow> local_config \<Rightarrow> local_calls \<Rightarrow> string \<Rightarrow> string \<Rightarrow> operation \<Rightarrow> files
    \<Rightarrow> vaapi_readiness option result \<times> files" where
  "local_readiness W c calls ffmpeg ffprobe op fs =
    (if \<not> (video_operation op \<and> ac_mode (lc_acceleration c) \<noteq> ''cpu'') then (Inr None, fs)
     else case lc_readiness c of
       Some r \<Rightarrow> (Inr (Some r), fs)
     | None \<Rightarrow>
         (case probe_vaapi (lw_run W) (lw_json W) (lo_device calls) (lo_check_device calls) (lo_device_dir calls)
              (lo_device_removed calls) ffmpeg ffprobe (lc_acceleration c) (lc_probe_timeout c) fs of
            ((r, Some e), fs) \<Rightarrow>
              (if errors_is e ContextCanceled \<or> errors_is e ContextDeadlineExceeded then Inl e
               else Inr (Some (vp_readiness r)), fs)
          | ((r, None), fs) \<Rightarrow> (Inr (Some (vp_readiness r)), fs)))"

definition no_media_result :: media_result where
  "no_media_result = \<lparr>mx_conversion = no_conversion, mx_warnings = []\<rparr>"

definition local_plan_request :: "local_config \<Rightarrow> media_request \<Rightarrow> vaapi_readiness option \<Rightarrow> plan_request" where
  "local_plan_request c q readiness =
    \<lparr>pq_operation = me_operation q, pq_input_path = me_input_path q, pq_output_path = me_output_path q, pq_input = me_input q,
     pq_timeout = lc_timeout c, pq_tolerance = 0, pq_acceleration = lc_acceleration c, pq_vaapi = readiness\<rparr>"

definition local_media_convert ::
  "local_world \<Rightarrow> local_config \<Rightarrow> local_calls \<Rightarrow> media_request \<Rightarrow> files \<Rightarrow> (media_result \<times> err option) \<times> files" where
  "local_media_convert W c calls q fs =
    (case local_executable (lw_look W) (lc_ffmpeg c) of Inl e \<Rightarrow> ((no_media_result, Some e), fs) | Inr ffmpeg \<Rightarrow>
     case local_executable (lw_look W) (lc_ffprobe c) of Inl e \<Rightarrow> ((no_media_result, Some e), fs) | Inr ffprobe \<Rightarrow>
     case local_readiness W c calls ffmpeg ffprobe (me_operation q) fs of
       (Inl e, fs) \<Rightarrow> ((no_media_result, Some e), fs)
     | (Inr readiness, fs) \<Rightarrow>
         (case build_plan (local_plan_request c q readiness) of
            Inl e \<Rightarrow> ((no_media_result\<lparr>mx_warnings := sel_warnings (select_streams (me_input q))\<rparr>, Some e), fs)
          | Inr plan \<Rightarrow>
              (case media_convert (lw_run W) (lw_json W) (lw_conv W) ffmpeg ffprobe (lo_first calls) (lo_second calls) plan fs of
                 ((r, e), fs) \<Rightarrow> ((\<lparr>mx_conversion = r, mx_warnings = pl_warnings plan\<rparr>, e), fs))))"

definition local_engines :: "unicode_tables \<Rightarrow> local_world \<Rightarrow> local_config \<Rightarrow> local_calls \<Rightarrow> engines" where
  "local_engines U W c calls =
    \<lparr>en_image_probe = local_image_probe W c, en_image_convert = local_image_convert U W c calls,
     en_media_probe = local_media_probe W c, en_media_convert = local_media_convert W c calls\<rparr>"

subsection \<open>Paths the engines leave alone\<close>

text \<open>No process changes the path, and it is none of the temporary files and directories.\<close>

definition left_alone :: "local_world \<Rightarrow> local_calls \<Rightarrow> string \<Rightarrow> bool" where
  "left_alone W calls p \<longleftrightarrow> keeps (lw_run W) (\<lambda>fs. fs p) \<and> ac_create (lo_first calls) \<noteq> Inr p \<and> ac_create (lo_second calls) \<noteq> Inr p
    \<and> (\<forall>d. jc_mkdir_temp (lo_image calls) = Inr d \<or> wc_mkdir (lo_decode calls) = Inr d \<or> lo_device_dir calls = Inr d
        \<longrightarrow> outside_dir d p)"

lemma published_only_start: "published_only ok out p fs1 fs' \<Longrightarrow> fs1 p = fs p \<Longrightarrow> published_only ok out p fs fs'"
  by (cases "ok \<and> p = out") (auto simp: published_only_def)

lemma published_only_end: "published_only ok out p fs fs1 \<Longrightarrow> fs' p = fs1 p \<Longrightarrow> published_only ok out p fs fs'"
  by (cases "ok \<and> p = out") (auto simp: published_only_def)

lemma publish_image_other:
  "publish_image calls a b fs = (x, fs') \<Longrightarrow> p \<noteq> a \<Longrightarrow> published_only (x = None) b p fs fs'"
  by (auto simp: publish_image_def published_only_def split: option.splits prod.splits if_splits
      dest!: hard_link_error hard_link_done)

lemma execute_plan_other:
  assumes k: "keeps run (\<lambda>fs. fs p)" and p: "p \<noteq> ip_temporary plan"
    and r: "execute_plan run c calls header final plan res fs = ((res', e), fs')"
  shows "published_only (e = None) final p fs fs'"
proof -
  obtain rs e1 fs1 where 1: "run_commands run (ic_timeout c) (ip_commands plan) fs = ((rs, e1), fs1)" by (metis surj_pair)
  obtain o' fs2 where 2: "probe_image run header (ip_temporary plan) fs1 = (o', fs2)" by fastforce
  obtain e3 fs3 where 3: "publish_image calls (ip_temporary plan) final fs2 = (e3, fs3)" by fastforce
  have "fs1 p = fs p" "fs2 p = fs1 p" by (rule run_commands_keeps [OF k 1], rule probe_image_keeps [OF k 2])
  then have same: "fs1 p = fs p" "fs2 p = fs p" by simp_all
  show ?thesis
  proof (cases "e1 = None \<and> (\<exists>x. o' = Inr x \<and> validate_image_output (ip_expect plan) x = None) \<and> jc_context calls = None")
    case True
    then have "e = e3" "fs' = fs3" using r 1 2 3 by (auto simp: execute_plan_def Let_def)
    then show ?thesis using published_only_start [OF publish_image_other [OF 3 p]] same(2) by simp
  next
    case False
    then have "e \<noteq> None \<and> fs' p = fs p" using r 1 2 same
      by (cases e1; cases o') (auto simp: execute_plan_def Let_def split: option.splits dest: sym)
    then show ?thesis by (auto simp: published_only_def)
  qed
qed

lemma convert_in_work_other:
  assumes k: "keeps run (\<lambda>fs. fs p)" and p: "outside_dir work p"
    and r: "convert_in_work U run c calls q vips header final work fs = ((res, e), fs')"
  shows "published_only (e = None) final p fs fs'"
proof -
  obtain t rs fs1 where t: "(if iq_operation q = OperationSmallerPhoto \<and> ii_has_alpha (iq_input q)
      then probe_transparency run (ic_timeout c) vips (iq_input_path q) work (iq_input q) fs
      else ((Inr (ii_has_transparency (iq_input q)), []), fs)) = ((t, rs), fs1)" by (metis surj_pair)
  have same: "fs1 p = fs p" using t probe_transparency_keeps [OF k] by (auto split: if_splits)
  show ?thesis
  proof (cases t)
    case (Inl x)
    then show ?thesis using r t same by (auto simp: convert_in_work_def Let_def published_only_def)
  next
    case (Inr b)
    show ?thesis
    proof (cases "plan_image U (plan_request_of c q work vips ((iq_input q)\<lparr>ii_has_transparency := b\<rparr>))")
      case (Inl x)
      then show ?thesis using r t same Inr by (auto simp: convert_in_work_def Let_def published_only_def)
    next
      case plan: (Inr plan)
      obtain spec name p' f where "plan = finish_plan (plan_request_of c q work vips ((iq_input q)\<lparr>ii_has_transparency := b\<rparr>))
          spec name (late_stages (plan_request_of c q work vips ((iq_input q)\<lparr>ii_has_transparency := b\<rparr>)) f p')"
        using plan_image_Inr [OF plan] by metis
      then have "ip_temporary plan = join_path work (output_name_of (iq_operation q))" by (simp add: finish_plan_def Let_def plan_request_of_def)
      moreover have "plain_name (output_name_of (iq_operation q))" using work_names_plain by (simp add: list_all_iff)
      ultimately have "p \<noteq> ip_temporary plan" using p by (simp add: outside_dir_def)
      moreover obtain res0 where "execute_plan run c calls header final plan res0 fs1 = ((res, e), fs')"
        using r t Inr plan by (auto simp: convert_in_work_def Let_def)
      ultimately have "published_only (e = None) final p fs1 fs'" by (rule execute_plan_other [OF k])
      then show ?thesis using published_only_start same by blast
    qed
  qed
qed

text \<open>An image conversion either ends before its work directory, or works in it and removes it.\<close>

lemma convert_image_cases:
  assumes "convert_image U run look c calls q fs = ((res, e), fs')"
  obtains (refused) "e \<noteq> None" "fs' = fs"
    | (work) vips header final work e1 fs1 where "prepare_image U look c calls q fs = Inr (vips, header, final)"
        "jc_mkdir_temp calls = Inr work" "convert_in_work U run c calls q vips header final work fs = ((res, e1), fs1)"
        "e = None \<longleftrightarrow> e1 = None" "fs' = remove_tree (jc_stays calls) work fs1"
  using assms
  by (auto simp: convert_image_def Let_def with_cleanup_error_def split: if_splits sum.splits prod.splits option.splits)

lemma convert_in_work_path:
  assumes "convert_in_work U run c calls q vips header final work fs = ((res, None), fs')"
  shows "\<exists>i plan. plan_image U (plan_request_of c q work vips i) = Inr plan \<and> mr_output res = ip_output plan"
proof -
  have "mr_output r' = ip_output plan" if "execute_plan run c calls header final plan r0 fs0 = ((r', None), fs1)" for plan r0 r' fs0 fs1
    using that by (auto simp: execute_plan_def Let_def split: prod.splits option.splits sum.splits)
  then show ?thesis using assms
    by (auto simp: convert_in_work_def Let_def split: prod.splits sum.splits if_splits)
qed

lemma convert_image_path:
  assumes "convert_image U run look c calls q fs = ((res, None), fs')"
  shows "\<exists>n. output_name U (iq_input_path q) (iq_operation q) = Inr n \<and> io_path (mr_output res) = join_path (iq_output_dir q) n
    \<and> (\<exists>vips header. prepare_image U look c calls q fs = Inr (vips, header, join_path (iq_output_dir q) n))"
  using assms
proof (cases rule: convert_image_cases)
  case (work vips header final w e1 fs1)
  then have e: "e1 = None" by simp
  obtain i plan where p: "plan_image U (plan_request_of c q w vips i) = Inr plan" "mr_output res = ip_output plan"
    using convert_in_work_path work(3) [unfolded e] by metis
  obtain n where n: "output_name U (iq_input_path q) (iq_operation q) = Inr n" "final = join_path (iq_output_dir q) n"
    using prepared_final [OF work(1)] by metis
  then show ?thesis using planned_output_path [OF p(1)] p(2) work(1) by (auto simp: plan_request_of_def)
qed simp

lemma convert_image_other:
  assumes k: "keeps run (\<lambda>fs. fs p)" and p: "\<And>d. jc_mkdir_temp calls = Inr d \<Longrightarrow> outside_dir d p"
    and r: "convert_image U run look c calls q fs = ((res, e), fs')"
  shows "published_only (e = None) (io_path (mr_output res)) p fs fs'"
  using r
proof (cases rule: convert_image_cases)
  case (work vips header final w e1 fs1)
  have o: "published_only (e1 = None) final p fs fs1" by (rule convert_in_work_other [OF k p [OF work(2)] work(3)])
  have b: "fs' p = fs1 p" using p [OF work(2)] work(5) by (simp add: outside_dir_def)
  show ?thesis
  proof (cases e)
    case None
    then have "final = io_path (mr_output res)" using convert_image_path r work(1) by fastforce
    then show ?thesis using published_only_end [OF o] b None work(4) by simp
  next
    case (Some x)
    then obtain y where "e1 = Some y" using work(4) by auto
    then show ?thesis using o b Some by simp
  qed
qed auto

lemma probe_functional_keeps: "keeps run f \<Longrightarrow> probe_functional run look spec w = (x, w') \<Longrightarrow> f w' = f w"
  by (auto simp: probe_functional_def Let_def split: if_splits prod.splits option.splits dest: keeps_run)

lemma probe_decode_keeps: "keeps run f \<Longrightarrow> probe_decode run look x i t g calls w = (r, w') \<Longrightarrow> f w' = f w"
  by (auto simp: probe_decode_def Let_def split: if_splits prod.splits option.splits sum.splits dest!: probe_functional_keeps)

lemma local_decode_keeps:
  assumes "left_alone W calls p" "local_decode W c calls vips q fs = (r, fs')"
  shows "fs' p = fs p"
proof -
  let ?f = "ii_format (iq_input q)" and ?root = "temporary_root c (iq_output_dir q)"
  obtain x fs1 where d: "probe_decode (lw_run W) (lw_look W) vips (iq_input_path q) ?root ?f (lo_decode calls) fs = (x, fs1)"
    by fastforce
  have "fs1 p = fs p" using probe_decode_keeps [OF _ d, of "\<lambda>fs. fs p"] assms(1) by (simp add: left_alone_def)
  moreover have "wc_mkdir (lo_decode calls) = Inr d \<Longrightarrow> \<not> below d p" for d
    using assms(1) by (simp add: left_alone_def outside_dir_def)
  ultimately show ?thesis using assms(2) d
    by (auto simp: local_decode_def Let_def split: if_splits prod.splits option.splits sum.splits)
qed

text \<open>A media attempt: whatever its outcome, a protected path is left alone unless it is the output.\<close>

lemma publish_no_replace_other:
  "publish_no_replace calls a b fs = (x, fs') \<Longrightarrow> p \<noteq> a \<Longrightarrow> published_only (x = None) b p fs fs'"
  by (auto simp: publish_no_replace_def published_only_def split: option.splits prod.splits if_splits
      dest!: hard_link_error hard_link_done)

lemma convert_staged_other:
  assumes k: "keeps run (\<lambda>fs. fs p)" and p: "p \<noteq> temp"
    and r: "convert_staged run json conv ffmpeg ffprobe calls plan temp fs = ((res, e), fs')"
  shows "published_only (e = None) (pl_output plan) p fs fs'"
proof -
  obtain c e1 fs1 where 1: "run (plan_command (staged_plan plan temp) ffmpeg) fs = ((c, e1), fs1)" by (metis surj_pair)
  obtain x fs2 where 2: "probe_file run json ffprobe temp (pl_timeout plan) fs1 = (x, fs2)" by fastforce
  obtain e3 fs3 where 3: "publish_no_replace calls temp (pl_output plan) fs2 = (e3, fs3)" by fastforce
  have "fs1 p = fs p" "fs2 p = fs1 p" by (rule keeps_run [OF k 1], rule probe_file_keeps [OF k 2])
  then show ?thesis using publish_no_replace_other [OF 3 p] r 1 2 3
    by (auto simp: convert_staged_def failed_at_def Let_def published_only_def split: option.splits sum.splits prod.splits if_splits)
qed

lemma convert_once_other:
  assumes k: "keeps run (\<lambda>fs. fs p)" and p: "ac_create calls \<noteq> Inr p"
    and r: "convert_once run json conv ffmpeg ffprobe calls plan fs = ((res, e), fs')"
  shows "published_only (e = None) (pl_output plan) p fs fs'"
proof (cases "ac_create calls")
  case (Inl x)
  then show ?thesis using r by (auto simp: convert_once_def failed_at_def)
next
  case (Inr temp)
  then have t: "p \<noteq> temp" using p by auto
  obtain x e1 fs1 where s: "convert_staged run json conv ffmpeg ffprobe calls plan temp (fs(temp \<mapsto> [])) = ((x, e1), fs1)"
    by (metis surj_pair)
  show ?thesis using convert_staged_other [OF k t s] r s Inr t
    by (cases e1) (auto simp: convert_once_def failed_at_def Let_def published_only_def split: option.splits if_splits)
qed

lemma media_convert_other:
  assumes k: "keeps run (\<lambda>fs. fs p)" and p: "ac_create first \<noteq> Inr p" "ac_create second \<noteq> Inr p"
    and r: "media_convert run json conv ffmpeg ffprobe first second plan fs = ((res, e), fs')"
  shows "published_only (e = None) (pl_output plan) p fs fs'"
  using r
proof (cases rule: media_convert_cases [where f = "\<lambda>fs. fs p"])
  case refused
  then show ?thesis using k by auto
next
  case (single r fs1)
  show ?thesis
    using published_only_start [OF convert_once_other [OF k p(1) single(2)]] require_filters_keeps [OF k single(1)] by simp
next
  case (retry r fs1 r1 x fs2)
  have "fs2 p = fs p" using convert_once_other [OF k p(1) retry(2)] require_filters_keeps [OF k retry(1)] by simp
  then show ?thesis using published_only_start [OF convert_once_other [OF k p(2) retry(6)]] by simp
qed

lemma planned_output: "build_plan rq = Inr p \<Longrightarrow> pl_output p = pq_output_path rq"
proof (cases "video_operation (pq_operation rq)")
  assume b: "build_plan rq = Inr p"
  case True
  obtain config v r where "apply_video_acceleration config (pq_vaapi rq) v (sel_audio (select_streams (pq_input rq)))
       (pq_operation rq = OperationSmallerVideo) (video_start rq config v) = Inr r" "p = with_container ''mp4'' r"
    using video_plan [OF b True] by metis
  then show ?thesis
    by (auto simp: apply_video_acceleration_def Let_def video_start_def with_container_def split: if_splits option.splits)
next
  assume b: "build_plan rq = Inr p"
  case False
  then show ?thesis
  proof (rule audio_plan [OF b])
    fix config a
    let ?q = "set_duration (audio_duration (pq_input rq) (select_streams (pq_input rq))) (fresh_plan rq config)"
    assume "p \<in> {with_container ''mp4'' (build_aac_audio a ?q), with_container ''mp3'' (build_mp3_audio a ?q),
      with_container ''flac'' (build_flac_audio a ?q)}"
    then show ?thesis
      by (elim insertE emptyE) (simp_all add: with_container_def build_aac_audio_def build_mp3_audio_def build_flac_audio_def)
  qed
qed

lemma probe_in_directory_keeps:
  assumes k: "keeps run f" and r: "probe_in_directory run json calls a b dev dir t r fs = (x, fs')"
  shows "f fs' = f fs"
proof -
  let ?out = "join_path dir ''probe.mp4''"
  obtain enc e1 fs1 where 1: "probe_functional run Inr (encode_spec a dev dir ?out t) fs = ((enc, e1), fs1)" by (metis surj_pair)
  obtain y pr fs2 where 2: "probe_file run json b ?out t fs1 = ((y, pr), fs2)" by (metis surj_pair)
  obtain dec e3 fs3 where 3: "probe_functional run Inr (decode_spec a dev dir ?out t) fs2 = ((dec, e3), fs3)" by (metis surj_pair)
  have "f fs1 = f fs" "f fs2 = f fs1" "f fs3 = f fs2"
    using probe_functional_keeps [OF k 1] probe_file_keeps [OF k 2] probe_functional_keeps [OF k 3] by simp_all
  moreover have "fs' = fs1 \<or> fs' = fs2 \<or> fs' = fs3"
  proof (cases e1)
    case (Some z)
    then show ?thesis using r unfolding probe_in_directory_def Let_def 1 prod.case by simp
  next
    case None
    note r1 = r [unfolded probe_in_directory_def Let_def 1 prod.case None option.case 2]
    show ?thesis
    proof (cases y)
      case (Inl z)
      then show ?thesis using r1 by simp
    next
      case (Inr z)
      then show ?thesis using r1 [unfolded Inr prod.case sum.case 3]
        by (cases e3) (simp_all split: option.splits if_splits)
    qed
  qed
  ultimately show ?thesis by auto
qed

lemma probe_vaapi_keeps:
  assumes k: "keeps run (\<lambda>fs. fs p)" and d: "\<And>d. dir = Inr d \<Longrightarrow> \<not> below d p"
    and r: "probe_vaapi run json calls check dir removed a b config t fs = (x, fs')"
  shows "fs' p = fs p"
proof (cases "fs' = fs")
  case False
  then obtain y dev d' r0 fs1 where i: "dir = Inr d'" "probe_in_directory run json calls a b dev d' t r0 fs = (y, fs1)"
    "fs' = remove_tree (\<lambda>_. \<not> removed) d' fs1"
    using r by (auto simp: probe_vaapi_def Let_def split: if_splits prod.splits option.splits sum.splits)
  show ?thesis using probe_in_directory_keeps [OF k i(2)] d [OF i(1)] i(3) by simp
qed simp

lemma local_readiness_keeps:
  assumes "left_alone W calls p" "local_readiness W c calls a b op fs = (r, fs')"
  shows "fs' p = fs p"
proof -
  have d: "lo_device_dir calls = Inr d \<Longrightarrow> \<not> below d p" for d using assms(1) by (simp add: left_alone_def outside_dir_def)
  have k: "keeps (lw_run W) (\<lambda>fs. fs p)" using assms(1) by (simp add: left_alone_def)
  obtain x e fs1 where v: "probe_vaapi (lw_run W) (lw_json W) (lo_device calls) (lo_check_device calls) (lo_device_dir calls)
      (lo_device_removed calls) a b (lc_acceleration c) (lc_probe_timeout c) fs = ((x, e), fs1)" by (metis surj_pair)
  have "fs1 p = fs p" by (rule probe_vaapi_keeps [OF k d v])
  then show ?thesis using assms(2) v by (auto simp: local_readiness_def split: if_splits option.splits)
qed

subsection \<open>The contract\<close>

lemma local_image_convert_result:
  assumes l: "left_alone W calls p" and r: "local_image_convert U W c calls q fs = ((x, e), fs')"
  shows "published_only (e = None) (io_path (mr_output x)) p fs fs'"
proof -
  consider (refused) y where "e = Some y" "fs' = fs"
    | (decoded) vips r y where "local_decode W c calls vips q fs = (r, fs')" "e = Some y"
    | (run) vips r fs1 config where "local_decode W c calls vips q fs = (r, fs1)"
        "convert_image U (lw_run W) (lw_look W) config (lo_image calls) q fs1 = ((x, e), fs')"
    using r by (auto simp: local_image_convert_def split: option.splits sum.splits prod.splits
        dest!: sym [of "Some _" "validate_content _ _"] sym [of "Some _" "validate_capabilities _ _"])
  then show ?thesis
  proof cases
    case refused
    then show ?thesis by simp
  next
    case decoded
    then show ?thesis using local_decode_keeps [OF l] by simp
  next
    case (run vips r fs1 config)
    have k: "keeps (lw_run W) (\<lambda>fs. fs p)" "jc_mkdir_temp (lo_image calls) = Inr d \<Longrightarrow> outside_dir d p" for d
      using l by (simp_all add: left_alone_def)
    show ?thesis using published_only_start [OF convert_image_other [OF k run(2)]] local_decode_keeps [OF l run(1)] by simp
  qed
qed

lemma local_media_convert_result:
  assumes l: "left_alone W calls p" and r: "local_media_convert W c calls q fs = ((y, e), fs')"
  shows "published_only (e = None) (me_output_path q) p fs fs'"
proof -
  consider (refused) z where "e = Some z" "fs' = fs"
    | (probed) ffmpeg ffprobe r z where "local_readiness W c calls ffmpeg ffprobe (me_operation q) fs = (r, fs')" "e = Some z"
    | (run) ffmpeg ffprobe r fs1 readiness plan z where
        "local_readiness W c calls ffmpeg ffprobe (me_operation q) fs = (r, fs1)"
        "build_plan (local_plan_request c q readiness) = Inr plan"
        "media_convert (lw_run W) (lw_json W) (lw_conv W) ffmpeg ffprobe (lo_first calls) (lo_second calls) plan fs1 = ((z, e), fs')"
    using r by (auto simp: local_media_convert_def split: option.splits sum.splits prod.splits)
  then show ?thesis
  proof cases
    case refused
    then show ?thesis by simp
  next
    case probed
    then show ?thesis using local_readiness_keeps [OF l] by simp
  next
    case (run ffmpeg ffprobe r fs1 readiness plan z)
    have k: "keeps (lw_run W) (\<lambda>fs. fs p)" "ac_create (lo_first calls) \<noteq> Inr p" "ac_create (lo_second calls) \<noteq> Inr p"
      using l by (simp_all add: left_alone_def)
    have "pl_output plan = me_output_path q" using planned_output [OF run(2)] by (simp add: local_plan_request_def)
    then show ?thesis
      using published_only_start [OF media_convert_other [OF k run(3)]] local_readiness_keeps [OF l run(1)] by simp
  qed
qed

lemma local_probes_keep:
  assumes "left_alone W calls p"
  shows "local_image_probe W c x fs = (r, fs') \<Longrightarrow> fs' p = fs p"
    and "local_media_probe W c x fs = (r', fs') \<Longrightarrow> fs' p = fs p"
proof -
  have k: "keeps (lw_run W) (\<lambda>fs. fs p)" using assms by (simp add: left_alone_def)
  show "local_image_probe W c x fs = (r, fs') \<Longrightarrow> fs' p = fs p"
    by (auto simp: local_image_probe_def split: sum.splits dest: probe_image_keeps [OF k])
  show "local_media_probe W c x fs = (r', fs') \<Longrightarrow> fs' p = fs p"
    by (auto simp: local_media_probe_def split: sum.splits prod.splits dest: probe_file_keeps [OF k])
qed

lemma local_image_path:
  assumes "local_image_convert U W c calls q fs = ((x, None), fs')"
  shows "\<exists>n. output_name U (iq_input_path q) (iq_operation q) = Inr n \<and> io_path (mr_output x) = join_path (iq_output_dir q) n"
proof -
  obtain config fs1 where "convert_image U (lw_run W) (lw_look W) config (lo_image calls) q fs1 = ((x, None), fs')"
    using assms by (auto simp: local_image_convert_def split: option.splits sum.splits prod.splits)
  from convert_image_path [OF this] show ?thesis by blast
qed

interpretation local_engine: engine_contract U "local_engines U W c calls" "left_alone W calls"
  by unfold_locales
    (auto simp: local_engines_def dest: local_probes_keep local_image_convert_result local_media_convert_result local_image_path)

subsection \<open>Properties\<close>


text \<open>A photograph converted into a directory, with the tools at \<open>/v\<close> and \<open>/h\<close> and no faults.\<close>

definition sample_world :: local_world where
  "sample_world = \<lparr>lw_run = sample_run, lw_look = Inr, lw_json = sound_json, lw_conv = (\<lambda>_. 0)\<rparr>"

definition sample_local :: local_config where
  "sample_local = \<lparr>lc_acceleration = \<lparr>ac_mode = ''auto'', ac_device = []\<rparr>, lc_readiness = None, lc_timeout = 600000000000,
     lc_probe_timeout = 30000000000, lc_temporary_root = [], lc_vips = ''/v'', lc_header = ''/h'', lc_ffmpeg = ''ffmpeg'',
     lc_ffprobe = ''ffprobe''\<rparr>"

lemma sample_local_new:
  "new_local (sample_local\<lparr>lc_timeout := 0, lc_probe_timeout := 0, lc_ffmpeg := [], lc_ffprobe := []\<rparr>) = Inr sample_local"
  by (simp add: new_local_def sample_local_def)

definition sample_local_calls :: local_calls where
  "sample_local_calls = \<lparr>lo_image = sample_calls, lo_decode = \<lparr>wc_mkdir = Inr ''/d'', wc_remove = None\<rparr>, lo_decode_stays = (\<lambda>_. False),
     lo_first = calm_calls ''/t1'', lo_second = calm_calls ''/t2'', lo_device = calm_calls [], lo_check_device = (\<lambda>_. None),
     lo_device_dir = Inr ''/x'', lo_device_removed = True\<rparr>"

definition sample_service_calls :: service_calls where
  "sample_service_calls = \<lparr>sc_stat_input = StatRegular, sc_stat_output = StatError (Sentinel OsErrNotExist), sc_mkdir = None,
     sc_mkdir_temp = Inr ''/s'', sc_stays = (\<lambda>_. False), sc_context = None, sc_link = None, sc_removed = True\<rparr>"

definition sample_conversion :: conversion_request where
  "sample_conversion = \<lparr>rq_input_path = ''/i/a.jpg'', rq_output = ''/o/'', rq_operation = no_operation, rq_operation_set = False\<rparr>"

lemma sample_probed: "local_image_probe sample_world sample_local ''/i/a.jpg'' fs = (Inr sample_info, fs)"
  by (simp add: local_image_probe_def sample_world_def sample_local_def local_executable_def prober_executable_def
      probe_image_def sample_run_def plain_command_def no_result_def no_capture_def sample_header_parsed)

lemma sample_operation: "validate_operation ascii_tables OperationCompatiblePhoto MediaImage sample_info p = None"
proof -
  obtain s where s: "lookup_image_spec OperationCompatiblePhoto = Inr s" using sample_spec by blast
  have n: "output_name ascii_tables ''input'' OperationCompatiblePhoto = Inr ''input-compatible.jpg''" by code_simp
  have i: "ii_hdr sample_info = False" "ii_cicp sample_info = no_cicp" "ii_has_alpha sample_info = False"
    "ii_width sample_info = 1" "ii_height sample_info = 1" by (simp_all add: sample_info_def no_image_def)
  have "\<exists>plan. plan_image ascii_tables (placeholder_image OperationCompatiblePhoto sample_info) = Inr plan"
    by (simp add: plan_image_def plan_guard_def placeholder_image_def i sample_supported no_cicp_def supported_cicp_def
        image_operation_def is_jpeg_photo_def image_target_def s n early_flatten_def Let_def)
  then show ?thesis
    by (auto simp: validate_operation_def sample_supported accepts_def registry_def)
qed

lemma sample_image_converted:
  "\<exists>x fs. local_image_convert ascii_tables sample_world sample_local sample_local_calls sample_image_request Map.empty = ((x, None), fs)"
proof -
  have c: "new_converter \<lparr>ic_vips = ''/v'', ic_header = ''/h'', ic_limits = default_limits, ic_policy = CaptureDateStrip,
      ic_capabilities = 0, ic_timeout = 600000000000, ic_probe_timeout = 30000000000\<rparr> = Inr sample_config"
  proof -
    have "validate_content tiny_image default_limits = None"
      by (simp add: validate_content_iff validate_color_def interpretation_bands_def device_space_def tiny_image_def no_image_def
          no_cicp_def supported_cicp_def no_image_metadata_def default_limits_def)
    moreover have "default_limits \<noteq> \<lparr>li_width = 0, li_height = 0, li_pixels = 0\<rparr>" by (simp add: default_limits_def)
    ultimately show ?thesis by (simp add: new_converter_def sample_config_def Let_def)
  qed
  have i: "ii_format sample_info = ''jpeg''" by (simp add: sample_info_def)
  have v: "validate_capabilities sample_info 0 = None" by (simp add: validate_capabilities_def required_decode_capability_def i)
  have e: "local_executable Inr ''/v'' = Inr ''/v''" "local_executable Inr ''/h'' = Inr ''/h''"
    by (simp_all add: local_executable_def prober_executable_def)
  have q: "iq_input sample_image_request = sample_info" by (simp add: sample_image_request_def)
  have w: "lw_run sample_world = sample_run" "lw_look sample_world = Inr" "lc_vips sample_local = ''/v''" "lc_header sample_local = ''/h''"
    "lc_timeout sample_local = 600000000000" "lc_probe_timeout sample_local = 30000000000" "lo_image sample_local_calls = sample_calls"
    by (simp_all add: sample_world_def sample_local_def sample_local_calls_def)
  show ?thesis using sample_converted
    by (simp add: local_image_convert_def local_decode_def q i v e w c sample_supported)
qed

lemma sample_detected: "dm_kind (detected_image i) = MediaImage"
  by (simp add: detected_image_def Let_def)

lemma sample_resolved:
  "resolve_output ascii_tables sample_service_calls ''/i/a.jpg'' ''/o/'' OperationCompatiblePhoto
    = (''/o/a-compatible.jpg'', True, None)"
proof -
  have j: "join_path ''/o/'' ''a-compatible.jpg'' = ''/o/a-compatible.jpg''" "has_suffix ''/o/'' ''/''" by code_simp+
  obtain s where "lookup_spec OperationCompatiblePhoto = Some s" by (simp add: registry_def)
  then show ?thesis
    by (simp add: resolve_output_def sample_paths Let_def) (simp add: sample_service_calls_def j)
qed

lemma sample_service:
  "\<exists>r fs. service_convert ascii_tables (local_engines ascii_tables sample_world sample_local sample_local_calls) sample_service_calls
      sample_conversion Map.empty = ((r, None), fs) \<and> sr_output_path r = ''/o/a-compatible.jpg''"
proof -
  let ?en = "local_engines ascii_tables sample_world sample_local sample_local_calls"
  have t: "trim_space ''/i/a.jpg'' \<noteq> []" "trim_space ''/o/'' \<noteq> []" "file_dir ''/o/a-compatible.jpg'' = ''/o''" by code_simp+
  have rq: "rq_input_path sample_conversion = ''/i/a.jpg''" "rq_output sample_conversion = ''/o/''" "\<not> rq_operation_set sample_conversion"
    by (simp_all add: sample_conversion_def)
  have v: "validate_request sample_service_calls sample_conversion = None"
    by (simp add: validate_request_def rq t) (simp add: sample_service_calls_def)
  have d: "detect ascii_tables ?en ''/i/a.jpg'' Map.empty = (Inr (detected_image sample_info, sample_info, no_probe), Map.empty)"
    by (simp add: detect_def local_engines_def sample_probed)
  have op: "recommended_for MediaImage = Some OperationCompatiblePhoto" by code_simp
  have en: "map_option sp_engine (lookup_spec OperationCompatiblePhoto) = Some EngineImage" by (simp add: registry_def)
  obtain x fs where c: "local_image_convert ascii_tables sample_world sample_local sample_local_calls sample_image_request Map.empty
      = ((x, None), fs)" using sample_image_converted by blast
  have q: "\<lparr>iq_input_path = ''/i/a.jpg'', iq_output_dir = ''/o'', iq_operation = OperationCompatiblePhoto, iq_input = sample_info\<rparr>
      = sample_image_request" by (simp add: sample_image_request_def)
  have i: "\<exists>r'. service_image ?en sample_service_calls ''/i/a.jpg'' ''/o/a-compatible.jpg'' True OperationCompatiblePhoto sample_info r Map.empty
      = ((r', None), fs) \<and> sr_output_path r' = sr_output_path r" for r
    by (auto simp: service_image_def run_image_def t q local_engines_def c Let_def split: option.splits)
  have "\<exists>r'. convert_detected ascii_tables ?en sample_service_calls sample_conversion (detected_image sample_info) sample_info no_probe
      Map.empty = ((r', None), fs) \<and> sr_output_path r' = ''/o/a-compatible.jpg''"
    using i [of "fresh_result\<lparr>sr_detected := Some (detected_image sample_info), sr_warnings := [], sr_source := ''recommended'',
      sr_operation := OperationCompatiblePhoto, sr_output_path := ''/o/a-compatible.jpg''\<rparr>"]
    by (simp add: convert_detected_def rq sample_detected op sample_operation sample_resolved en Let_def)
  then show ?thesis
    by (auto simp: service_convert_def service_attempt_def v rq d)
qed


end
