(* ===== verification/Go_Net.thy ===== *)
theory Go_Net
  imports Go_Paths
begin

text \<open>
  The address functions of \<open>net\<close> and \<open>net/netip\<close> that the service uses: \<open>SplitHostPort\<close>,
  \<open>JoinHostPort\<close>, \<open>ParseAddr\<close>, \<open>ParsePrefix\<close>, \<open>Unmap\<close>, \<open>Masked\<close> and \<open>Contains\<close>. An
  address is its number; an error is \<open>None\<close>, since the program only asks whether there was one.
\<close>

subsection \<open>Host and port\<close>

definition before_last :: "char \<Rightarrow> string \<Rightarrow> string" where
  "before_last c s = take (length s - length (after_last c s) - 1) s"

definition split_host_port :: "string \<Rightarrow> (string \<times> string) option" where
  "split_host_port s =
    (if CHR '':'' \<notin> set s then None
     else let port = after_last (CHR '':'') s; host = before_last (CHR '':'') s
       in if has_prefix s ''[''
          then (case cut_on (CHR '']'') (drop 1 s) of
              None \<Rightarrow> None
            | Some (inner, rest) \<Rightarrow>
                if rest \<noteq> CHR '':'' # port then None
                else if CHR ''['' \<in> set (drop 1 s) \<or> CHR '']'' \<in> set rest then None
                else Some (inner, port))
          else if CHR '':'' \<in> set host \<or> CHR ''['' \<in> set s \<or> CHR '']'' \<in> set s then None
          else Some (host, port))"

definition join_host_port :: "string \<Rightarrow> string \<Rightarrow> string" where
  "join_host_port host port = (if CHR '':'' \<in> set host then ''['' @ host @ '']:'' @ port else host @ '':'' @ port)"

subsection \<open>Addresses\<close>

text \<open>The number of an address, and the zone of an IPv6 address.\<close>

datatype ip_addr = IPv4 nat | IPv6 nat string

definition octet :: "string \<Rightarrow> nat option" where
  "octet s =
    (if s = [] \<or> (1 < length s \<and> hd s = CHR ''0'') then None
     else case digits_value 0 s of None \<Rightarrow> None | Some n \<Rightarrow> if n \<le> 255 then Some n else None)"

definition ipv4_fields :: "string \<Rightarrow> nat list option" where
  "ipv4_fields s = (let fs = map octet (split_on dot s) in if length fs = 4 \<and> None \<notin> set fs then Some (map the fs) else None)"

definition number_of :: "nat \<Rightarrow> nat list \<Rightarrow> nat" where
  "number_of base ds = foldl (\<lambda>n d. base * n + d) 0 ds"

definition hex_digit :: "char \<Rightarrow> nat option" where
  "hex_digit c =
    (let r = of_char c :: nat
     in if digit_rune r then Some (r - 48)
        else if 97 \<le> r \<and> r \<le> 102 then Some (r - 87)
        else if 65 \<le> r \<and> r \<le> 70 then Some (r - 55) else None)"

definition is_hex :: "char \<Rightarrow> bool" where
  "is_hex c \<longleftrightarrow> hex_digit c \<noteq> None"

text \<open>The loop of \<open>parseIPv6\<close>: groups of 16 bits read so far, the place of the ellipsis, and what is left.\<close>

function read_groups :: "string \<Rightarrow> nat list \<Rightarrow> nat option \<Rightarrow> (nat list \<times> nat option) option" where
  "read_groups s gs ell =
    (if 8 \<le> length gs then (if s = [] then Some (gs, ell) else None)
     else let ds = takeWhile is_hex s; rest = dropWhile is_hex s
       in if ds = [] \<or> 4 < length ds then None
          else if has_prefix rest ''.'' then
            (if ell = None \<and> length gs \<noteq> 6 \<or> 6 < length gs then None
             else case ipv4_fields s of
               Some [a, b, c, d] \<Rightarrow> Some (gs @ [256 * a + b, 256 * c + d], ell)
             | _ \<Rightarrow> None)
          else let gs = gs @ [number_of 16 (map (the \<circ> hex_digit) ds)]
            in if rest = [] then Some (gs, ell)
               else if hd rest \<noteq> CHR '':'' \<or> length rest = 1 then None
               else let s = tl rest
                 in if hd s \<noteq> CHR '':'' then read_groups s gs ell
                    else if ell \<noteq> None then None
                    else if length s = 1 then Some (gs, Some (length gs))
                    else read_groups (tl s) gs (Some (length gs)))"
  by pat_completeness auto
termination
proof (relation "measure (\<lambda>(s, gs, ell). length s)", goal_cases)
  case (2 s gs ell ds rest gs' s')
  then show ?case using length_dropWhile_le [of is_hex s] by (cases "dropWhile is_hex s") auto
next
  case (3 s gs ell ds rest gs' s')
  then show ?case using length_dropWhile_le [of is_hex s] by (cases "dropWhile is_hex s"; cases "tl (dropWhile is_hex s)") auto
qed simp

declare read_groups.simps [simp del]

text \<open>The ellipsis stands for at least one group of zeros.\<close>

definition expand_groups :: "nat list \<Rightarrow> nat option \<Rightarrow> nat list option" where
  "expand_groups gs ell =
    (case ell of
       None \<Rightarrow> if length gs = 8 then Some gs else None
     | Some i \<Rightarrow> if length gs < 8 then Some (take i gs @ replicate (8 - length gs) 0 @ drop i gs) else None)"

definition parse_ipv6 :: "string \<Rightarrow> ip_addr option" where
  "parse_ipv6 t =
    (let zoned = cut_on (CHR ''%'') t; s = (case zoned of None \<Rightarrow> t | Some (a, _) \<Rightarrow> a);
         zone = (case zoned of None \<Rightarrow> [] | Some (_, z) \<Rightarrow> z); leading = has_prefix s ''::''
     in if zoned \<noteq> None \<and> zone = [] then None
        else if s = ''::'' then Some (IPv6 0 zone)
        else case read_groups (if leading then drop 2 s else s) [] (if leading then Some 0 else None) of
          None \<Rightarrow> None
        | Some (gs, ell) \<Rightarrow> map_option (\<lambda>gs. IPv6 (number_of 65536 gs) zone) (expand_groups gs ell))"

definition parse_addr :: "string \<Rightarrow> ip_addr option" where
  "parse_addr s =
    (case dropWhile (\<lambda>c. c \<notin> {dot, CHR '':'', CHR ''%''}) s of
       [] \<Rightarrow> None
     | c # _ \<Rightarrow>
         if c = dot then map_option (\<lambda>fs. IPv4 (number_of 256 fs)) (ipv4_fields s)
         else if c = CHR '':'' then parse_ipv6 s else None)"

definition unmap :: "ip_addr \<Rightarrow> ip_addr" where
  "unmap a = (case a of IPv6 n _ \<Rightarrow> if n div 2 ^ 32 = 0xFFFF then IPv4 (n mod 2 ^ 32) else a | _ \<Rightarrow> a)"

definition is_loopback :: "ip_addr \<Rightarrow> bool" where
  "is_loopback a = (case unmap a of IPv4 n \<Rightarrow> n div 2 ^ 24 = 127 | IPv6 n _ \<Rightarrow> n = 1)"

definition is_unspecified :: "ip_addr \<Rightarrow> bool" where
  "is_unspecified a \<longleftrightarrow> a = IPv4 0 \<or> a = IPv6 0 []"

subsection \<open>Prefixes\<close>

record ip_prefix =
  px_addr :: ip_addr
  px_bits :: nat

fun addr_bits :: "ip_addr \<Rightarrow> nat" where
  "addr_bits (IPv4 _) = 32"
| "addr_bits (IPv6 _ _) = 128"

fun addr_number :: "ip_addr \<Rightarrow> nat" where
  "addr_number (IPv4 n) = n"
| "addr_number (IPv6 n _) = n"

definition parse_prefix :: "string \<Rightarrow> ip_prefix option" where
  "parse_prefix s =
    (if slash \<notin> set s then None
     else let bits = after_last slash s
       in case parse_addr (before_last slash s) of
            None \<Rightarrow> None
          | Some a \<Rightarrow>
              if (case a of IPv6 _ z \<Rightarrow> z \<noteq> [] | _ \<Rightarrow> False) then None
              else if 1 < length bits \<and> \<not> (digit_rune (of_char (hd bits)) \<and> hd bits \<noteq> CHR ''0'') then None
              else case atoi bits of
                (n, ok) \<Rightarrow> if ok \<and> 0 \<le> n \<and> n \<le> int (addr_bits a) then Some \<lparr>px_addr = a, px_bits = nat n\<rparr> else None)"

definition masked :: "ip_prefix \<Rightarrow> ip_prefix" where
  "masked p =
    (let k = 2 ^ (addr_bits (px_addr p) - px_bits p)
     in p\<lparr>px_addr := (case px_addr p of IPv4 n \<Rightarrow> IPv4 (n div k * k) | IPv6 n z \<Rightarrow> IPv6 (n div k * k) [])\<rparr>)"

definition contains_addr :: "ip_prefix \<Rightarrow> ip_addr \<Rightarrow> bool" where
  "contains_addr p a \<longleftrightarrow>
    (case a of IPv6 _ z \<Rightarrow> z = [] | _ \<Rightarrow> True) \<and> addr_bits (px_addr p) = addr_bits a
    \<and> addr_number (px_addr p) div 2 ^ (addr_bits a - px_bits p) = addr_number a div 2 ^ (addr_bits a - px_bits p)"

end
