(* ===== verification/Config.thy ===== *)
theory Config
  imports Go_Net Go_Text Media_Probe Store
begin

text \<open>
  The environment of the web service, \<open>internal/config/config.go\<close>: every setting with its default
  and its validation, and the health URL. The number of processors and \<open>url.Parse\<close> (scheme and host)
  are arguments. An error of the standard library that the code wraps has no text here, and
  \<open>%q\<close> is taken to quote without escapes.
\<close>

subsection \<open>Data\<close>

record config =
  cf_data_dir :: string
  cf_job_ttl :: int
  cf_max_processes :: int
  cf_max_files :: int
  cf_max_upload :: int
  cf_min_free :: int
  cf_command_timeout :: int
  cf_listen :: string
  cf_web_root :: string
  cf_diagnostics :: string
  cf_cleanup :: int
  cf_read_stall :: int
  cf_write_stall :: int
  cf_min_rate :: int
  cf_proxies :: "ip_prefix list"
  cf_health_url :: string
  cf_acceleration :: acceleration_config

type_synonym lookup = "string \<rightharpoonup> string"
type_synonym url_parser = "string \<Rightarrow> (string \<times> string) option"

definition second :: int where
  "second = 1000000000"

definition default_max_processes :: "int \<Rightarrow> int" where
  "default_max_processes cpus = (if cpus \<le> 1 then 1 else if 4 \<le> cpus then 4 else cpus)"

definition default_config :: "int \<Rightarrow> config" where
  "default_config cpus =
    \<lparr>cf_data_dir = ''/data'', cf_job_ttl = 24 * 60 * 60 * second, cf_max_processes = default_max_processes cpus, cf_max_files = 25,
     cf_max_upload = 4 * 2 ^ 30, cf_min_free = 2 * 2 ^ 30, cf_command_timeout = 10 * 60 * second, cf_listen = '':8080'',
     cf_web_root = [], cf_diagnostics = ''local'', cf_cleanup = 5 * 60 * second, cf_read_stall = 60 * second,
     cf_write_stall = 60 * second, cf_min_rate = 4 * 2 ^ 10, cf_proxies = [], cf_health_url = [],
     cf_acceleration = \<lparr>ac_mode = [], ac_device = []\<rparr>\<rparr>"

definition config_error :: "string \<Rightarrow> string \<Rightarrow> err" where
  "config_error name rest = NewError (''config: '' @ name @ rest)"

definition library_error :: err where
  "library_error = NewError []"

definition quoted :: "string \<Rightarrow> string" where
  "quoted s = CHR 0x22 # s @ [CHR 0x22]"

subsection \<open>Readers\<close>

text \<open>The shape of most readers: a default, no blank value, and a check of the trimmed one.\<close>

definition load_value :: "lookup \<Rightarrow> string \<Rightarrow> 'a \<Rightarrow> (string \<Rightarrow> 'a result) \<Rightarrow> 'a result" where
  "load_value env name fallback check =
    (case env name of
       None \<Rightarrow> Inr fallback
     | Some v \<Rightarrow> if trim_space v = [] then Inl (config_error name '' must not be empty'') else check (trim_space v))"

definition load_data_dir :: "lookup \<Rightarrow> string result" where
  "load_data_dir env = load_value env ''DATA_DIR'' ''/data'' (\<lambda>v.
    if \<not> is_abs v then Inl (config_error ''DATA_DIR'' '' must be an absolute path'')
    else if clean_path v = ''/'' then Inl (config_error ''DATA_DIR'' '' must not be the filesystem root'')
    else Inr (clean_path v))"

definition load_duration :: "lookup \<Rightarrow> string \<Rightarrow> int \<Rightarrow> int result" where
  "load_duration env name fallback = load_value env name fallback (\<lambda>v.
    case parse_duration v of
      None \<Rightarrow> Inl (Wrapped (''config: '' @ name @ '' must be a Go duration such as 24h'') library_error)
    | Some d \<Rightarrow> if d \<le> 0 then Inl (config_error name '' must be positive'') else Inr d)"

definition load_count :: "lookup \<Rightarrow> string \<Rightarrow> int \<Rightarrow> int \<Rightarrow> int result" where
  "load_count env name fallback maximum = load_value env name fallback (\<lambda>v.
    case atoi v of
      (n, False) \<Rightarrow> Inl (Wrapped (''config: '' @ name @ '' must be a positive integer'') library_error)
    | (n, True) \<Rightarrow>
        if n < 1 then Inl (config_error name '' must be at least 1'')
        else if maximum < n then Inl (config_error name ('' must not exceed '' @ itoa maximum)) else Inr n)"

definition byte_units :: "(string \<times> int) list" where
  "byte_units =
    [(''kib'', 2 ^ 10), (''mib'', 2 ^ 20), (''gib'', 2 ^ 30), (''tib'', 2 ^ 40), (''kb'', 10 ^ 3), (''mb'', 10 ^ 6), (''gb'', 10 ^ 9),
     (''tb'', 10 ^ 12), (''k'', 2 ^ 10), (''m'', 2 ^ 20), (''g'', 2 ^ 30), (''t'', 2 ^ 40), (''b'', 1)]"

text \<open>The part of \<open>ParseBytes\<close> after the number is parsed.\<close>

definition scaled_size :: "float64 \<Rightarrow> int \<Rightarrow> int result" where
  "scaled_size x multiplier =
    (if (case x of Finite _ _ _ \<Rightarrow> \<not> float_less (float_of_int 0) x | _ \<Rightarrow> True) then Inl (NewError ''size must be positive'')
     else let s = float_times x (float_of_int multiplier)
       in if float_less s (float_of_int 1) then Inl (NewError ''size must be at least one byte'')
          else if float_less (float_of_int (2 ^ 62)) s then Inl (NewError ''size is too large'')
          else Inr (float_trunc s))"

definition parse_bytes :: "string \<Rightarrow> int result" where
  "parse_bytes value =
    (let lowered = to_lower (trim_space value);
         (number, multiplier) = (case find (\<lambda>(suffix, _). has_suffix lowered suffix) byte_units of
             None \<Rightarrow> (lowered, 1)
           | Some (suffix, k) \<Rightarrow> (trim_space (trim_suffix lowered suffix), k))
     in if trim_space value = [] then Inl (NewError ''size must not be empty'')
        else if number = [] then Inl (NewError ''size must contain a number'')
        else case parse_float number of
          (x, False) \<Rightarrow> Inl (NewError (''size '' @ quoted value @ '' is not a number with an optional unit''))
        | (x, True) \<Rightarrow> scaled_size x multiplier)"

definition load_bytes :: "lookup \<Rightarrow> string \<Rightarrow> int \<Rightarrow> int result" where
  "load_bytes env name fallback = load_value env name fallback (\<lambda>v.
    case parse_bytes v of
      Inl e \<Rightarrow> Inl (Wrapped (''config: '' @ name @ '' is invalid'') e)
    | Inr n \<Rightarrow> Inr n)"

definition is_disabled :: "string \<Rightarrow> bool" where
  "is_disabled v \<longleftrightarrow> to_lower (trim_space v) \<in> set [''off'', ''none'', ''0'']"

definition load_stall_timeout :: "lookup \<Rightarrow> string \<Rightarrow> int \<Rightarrow> int result" where
  "load_stall_timeout env name fallback =
    (case env name of
       None \<Rightarrow> Inr fallback
     | Some v \<Rightarrow> if is_disabled v then Inr 0 else load_duration env name fallback)"

definition load_rate :: "lookup \<Rightarrow> string \<Rightarrow> int \<Rightarrow> int result" where
  "load_rate env name fallback =
    (case env name of
       None \<Rightarrow> Inr fallback
     | Some v \<Rightarrow> if is_disabled v then Inr 0 else load_bytes env name fallback)"

subsection \<open>Addresses\<close>

text \<open>\<open>strings.FieldsFunc\<close> at commas, spaces, tabs and line feeds.\<close>

definition proxy_separator :: "char \<Rightarrow> bool" where
  "proxy_separator c \<longleftrightarrow> c \<in> {CHR '','', CHR '' '', CHR 0x09, CHR 0x0A}"

function proxy_fields :: "string \<Rightarrow> string list" where
  "proxy_fields s =
    (let s = dropWhile proxy_separator s
     in if s = [] then [] else takeWhile (Not \<circ> proxy_separator) s # proxy_fields (dropWhile (Not \<circ> proxy_separator) s))"
  by pat_completeness auto
termination
proof (relation "measure length", goal_cases)
  case (2 s t)
  then have t: "dropWhile proxy_separator s = t" "t \<noteq> []" by simp_all
  then obtain c cs where "t = c # cs" by (cases t) auto
  with t have c: "dropWhile proxy_separator s = c # cs" "t = c # cs" by simp_all
  then have "\<not> proxy_separator c" by (metis dropWhile_eq_Cons_conv)
  then have "length (dropWhile (Not \<circ> proxy_separator) t) \<le> length cs" using c(2) by (simp add: length_dropWhile_le)
  moreover have "length t \<le> length s" using c by (metis length_dropWhile_le)
  ultimately show ?case using c(2) by simp
qed simp

declare proxy_fields.simps [simp del]

definition proxy_error :: "string \<Rightarrow> err" where
  "proxy_error field = Wrapped (''config: TRUSTED_PROXIES entry '' @ quoted field @ '' is not an address or CIDR'') library_error"

definition parse_proxy_prefix :: "string \<Rightarrow> ip_prefix result" where
  "parse_proxy_prefix field =
    (if slash \<in> set field
     then (case parse_prefix field of None \<Rightarrow> Inl (proxy_error field) | Some p \<Rightarrow> Inr (masked p))
     else case parse_addr field of
       None \<Rightarrow> Inl (proxy_error field)
     | Some a \<Rightarrow>
         Inr \<lparr>px_addr = (case unmap a of IPv4 n \<Rightarrow> IPv4 n | IPv6 n z \<Rightarrow> IPv6 n []), px_bits = addr_bits (unmap a)\<rparr>)"

definition loopback_prefixes :: "ip_prefix list" where
  "loopback_prefixes = [\<lparr>px_addr = IPv4 (127 * 2 ^ 24), px_bits = 8\<rparr>, \<lparr>px_addr = IPv6 1 [], px_bits = 128\<rparr>]"

fun proxy_prefixes :: "string list \<Rightarrow> ip_prefix list result" where
  "proxy_prefixes [] = Inr []"
| "proxy_prefixes (f # fs) =
    (case (if equal_fold f ''loopback'' then Inr loopback_prefixes else map_sum (\<lambda>e. e) (\<lambda>p. [p]) (parse_proxy_prefix f)) of
       Inl e \<Rightarrow> Inl e
     | Inr ps \<Rightarrow> map_sum (\<lambda>e. e) ((@) ps) (proxy_prefixes fs))"

definition load_trusted_proxies :: "lookup \<Rightarrow> ip_prefix list result" where
  "load_trusted_proxies env = load_value env ''TRUSTED_PROXIES'' [] (\<lambda>v.
    if is_disabled v then Inr []
    else case proxy_prefixes (proxy_fields v) of
      Inl e \<Rightarrow> Inl e
    | Inr [] \<Rightarrow> Inl (config_error ''TRUSTED_PROXIES'' '' must list at least one address or CIDR'')
    | Inr ps \<Rightarrow> Inr ps)"

definition load_health_url :: "url_parser \<Rightarrow> lookup \<Rightarrow> string result" where
  "load_health_url url env = load_value env ''HEALTHCHECK_URL'' [] (\<lambda>v.
    case url v of
      None \<Rightarrow> Inl (Wrapped ''config: HEALTHCHECK_URL is not a URL'' library_error)
    | Some (scheme, host) \<Rightarrow>
        if scheme \<noteq> ''http'' \<and> scheme \<noteq> ''https'' then Inl (config_error ''HEALTHCHECK_URL'' '' must use http or https'')
        else if host = [] then Inl (config_error ''HEALTHCHECK_URL'' '' must include a host'') else Inr v)"

definition health_host :: "string \<Rightarrow> string" where
  "health_host host =
    (let t = trim_set (trim_space host) ''[]''
     in if t = [] then ''127.0.0.1''
        else case parse_addr t of
          None \<Rightarrow> t
        | Some a \<Rightarrow> if is_unspecified a then (case a of IPv4 _ \<Rightarrow> ''127.0.0.1'' | _ \<Rightarrow> ''::1'') else t)"

definition health_url :: "config \<Rightarrow> string result" where
  "health_url c =
    (if cf_health_url c \<noteq> [] then Inr (cf_health_url c)
     else case split_host_port (cf_listen c) of
       None \<Rightarrow> Inl (Wrapped ''config: LISTEN_ADDRESS is not host:port'' library_error)
     | Some (host, port) \<Rightarrow>
         if port = [] then Inl (config_error ''LISTEN_ADDRESS'' '' must include a port such as :8080'')
         else Inr (''http://'' @ join_host_port (health_host host) port @ ''/healthz''))"

definition load_listen_address :: "lookup \<Rightarrow> string \<Rightarrow> string result" where
  "load_listen_address env fallback = load_value env ''LISTEN_ADDRESS'' fallback (\<lambda>v.
    case split_host_port v of
      None \<Rightarrow> Inl (config_error ''LISTEN_ADDRESS'' '' must include a port such as :8080'')
    | Some (host, port) \<Rightarrow>
        if port = [] then Inl (config_error ''LISTEN_ADDRESS'' '' must include a port such as :8080'')
        else case atoi port of
          (n, ok) \<Rightarrow>
            if \<not> ok \<or> n < 1 \<or> 65535 < n
            then Inl (config_error ''LISTEN_ADDRESS'' '' must use a numeric port between 1 and 65535'') else Inr v)"

subsection \<open>The web root\<close>

definition web_root_rune :: "nat \<Rightarrow> bool" where
  "web_root_rune r \<longleftrightarrow> lower_letter r \<or> upper_rune r \<or> digit_rune r \<or> r \<in> set [47, 45, 95]"

definition normalize_web_root :: "string \<Rightarrow> string result" where
  "normalize_web_root value =
    (let t = trim_space value
     in if t = [] \<or> t = ''/'' then Inr []
        else let t = (if has_prefix t ''/'' then t else slash # t)
          in if has_prefix t ''//'' \<or> has_prefix t [slash, CHR 0x5C]
               then Inl (config_error ''WEBROOT'' '' must not start with a second slash or backslash'')
             else if ''..'' \<in> set (split_on slash t)
               then Inl (config_error ''WEBROOT'' '' must not contain parent directory segments'')
             else let cleaned = clean_path t
               in if cleaned = ''/'' \<or> cleaned = ''.'' then Inr []
                  else if contains_str cleaned ''..''
                    then Inl (config_error ''WEBROOT'' '' must not contain parent directory segments'')
                  else if \<not> list_all web_root_rune (runes cleaned)
                    then Inl (config_error ''WEBROOT'' '' may only contain letters, digits, -, _, and /'')
                  else Inr cleaned)"

definition load_web_root :: "lookup \<Rightarrow> string result" where
  "load_web_root env = (case env ''WEBROOT'' of None \<Rightarrow> Inr [] | Some v \<Rightarrow> normalize_web_root v)"

definition load_diagnostics :: "lookup \<Rightarrow> string \<Rightarrow> string result" where
  "load_diagnostics env fallback =
    (case env ''DIAGNOSTICS'' of
       None \<Rightarrow> Inr fallback
     | Some v \<Rightarrow>
         let t = to_lower (trim_space v)
         in if t \<in> set [''local'', ''disabled'', ''enabled''] then Inr t
            else Inl (config_error ''DIAGNOSTICS'' '' must be local, disabled, or enabled''))"

subsection \<open>Loading\<close>

text \<open>One setting: read it, and store it or stop with the error.\<close>

definition setting :: "'a result \<Rightarrow> ('a \<Rightarrow> config \<Rightarrow> config) \<Rightarrow> config \<Rightarrow> config result" where
  "setting read store c = map_sum (\<lambda>e. e) (\<lambda>v. store v c) read"

fun load_settings :: "(config \<Rightarrow> config result) list \<Rightarrow> config \<Rightarrow> config result" where
  "load_settings [] c = Inr c"
| "load_settings (f # fs) c = (case f c of Inl e \<Rightarrow> Inl e | Inr c \<Rightarrow> load_settings fs c)"

definition load_acceleration_setting :: "lookup \<Rightarrow> acceleration_config result" where
  "load_acceleration_setting env =
    (case load_acceleration (Some env) of Inl e \<Rightarrow> Inl (Wrapped ''config'' e) | Inr a \<Rightarrow> Inr a)"

definition config_settings :: "int \<Rightarrow> url_parser \<Rightarrow> lookup \<Rightarrow> (config \<Rightarrow> config result) list" where
  "config_settings cpus url env =
    (let d = default_config cpus in
    [setting (load_data_dir env) (\<lambda>v c. c\<lparr>cf_data_dir := v\<rparr>),
     setting (load_duration env ''JOB_TTL'' (cf_job_ttl d)) (\<lambda>v c. c\<lparr>cf_job_ttl := v\<rparr>),
     setting (load_duration env ''COMMAND_TIMEOUT'' (cf_command_timeout d)) (\<lambda>v c. c\<lparr>cf_command_timeout := v\<rparr>),
     setting (load_duration env ''CLEANUP_INTERVAL'' (cf_cleanup d)) (\<lambda>v c. c\<lparr>cf_cleanup := v\<rparr>),
     setting (load_count env ''MAX_CONCURRENT_PROCESSES'' (cf_max_processes d) 1024) (\<lambda>v c. c\<lparr>cf_max_processes := v\<rparr>),
     setting (load_count env ''MAX_FILES_PER_JOB'' (cf_max_files d) 10000) (\<lambda>v c. c\<lparr>cf_max_files := v\<rparr>),
     setting (load_bytes env ''MAX_UPLOAD_SIZE'' (cf_max_upload d)) (\<lambda>v c. c\<lparr>cf_max_upload := v\<rparr>),
     setting (load_bytes env ''MIN_FREE_SPACE'' (cf_min_free d)) (\<lambda>v c. c\<lparr>cf_min_free := v\<rparr>),
     setting (load_listen_address env (cf_listen d)) (\<lambda>v c. c\<lparr>cf_listen := v\<rparr>),
     setting (load_web_root env) (\<lambda>v c. c\<lparr>cf_web_root := v\<rparr>),
     setting (load_diagnostics env (cf_diagnostics d)) (\<lambda>v c. c\<lparr>cf_diagnostics := v\<rparr>),
     setting (load_stall_timeout env ''READ_STALL_TIMEOUT'' (cf_read_stall d)) (\<lambda>v c. c\<lparr>cf_read_stall := v\<rparr>),
     setting (load_stall_timeout env ''WRITE_STALL_TIMEOUT'' (cf_write_stall d)) (\<lambda>v c. c\<lparr>cf_write_stall := v\<rparr>),
     setting (load_rate env ''MIN_UPLOAD_RATE'' (cf_min_rate d)) (\<lambda>v c. c\<lparr>cf_min_rate := v\<rparr>),
     setting (load_trusted_proxies env) (\<lambda>v c. c\<lparr>cf_proxies := v\<rparr>),
     setting (load_health_url url env) (\<lambda>v c. c\<lparr>cf_health_url := v\<rparr>),
     setting (load_acceleration_setting env) (\<lambda>v c. c\<lparr>cf_acceleration := v\<rparr>)])"

definition load_config :: "int \<Rightarrow> url_parser \<Rightarrow> lookup option \<Rightarrow> config result" where
  "load_config cpus url env =
    (case env of
       None \<Rightarrow> Inl (NewError ''config: environment lookup must not be nil'')
     | Some env \<Rightarrow> load_settings (config_settings cpus url env) (default_config cpus))"

subsection \<open>Sizes\<close>

lemma float_less_positive: "0 < m' \<Longrightarrow> s \<or> m = 0 \<Longrightarrow> float_less (Finite s m e) (Finite False m' e')"
proof -
  assume m: "0 < m'" "s \<or> m = 0"
  have "signed_int s (scale_num m (- e)) * int (scale_den 1 (- e')) \<le> 0"
    using m(2) by (auto simp: signed_int_def scale_num_def mult_nonneg_nonpos mult_nonpos_nonneg)
  moreover have "0 < int (scale_num m' (- e')) * int (scale_den 1 (- e))" using m(1) by (simp add: scale_num_def scale_den_def)
  ultimately show ?thesis by (simp add: signed_int_def)
qed

lemma power_value: "n \<le> 970 \<Longrightarrow> has_value (float_of_int (2 ^ n)) (2 ^ n)"
proof -
  assume n: "n \<le> 970"
  have r: "ratio (nat \<bar>2 ^ n\<bar>) 1 = real 1 * pow2 (int n)" by (simp add: ratio_def pow2_def nat_power_eq)
  obtain m e where e: "round_ratio False (nat \<bar>2 ^ n\<bar>) 1 = Finite False m e" "real m * pow2 e = ratio (nat \<bar>2 ^ n\<bar>) 1"
    using round_ratio_exact [OF _ _ r, of False] n by auto
  then have "real m * pow2 e = 2 ^ n" using r by (simp add: pow2_def)
  moreover from this have "0 < m" by (cases m) auto
  ultimately show ?thesis using e by (auto simp: float_of_int_def has_value_def)
qed

lemma one_value: "has_value (float_of_int 1) 1"
  using power_value [of 0] by simp

lemma float_at_least_one:
  assumes "\<not> float_less x (float_of_int 1)" "x \<noteq> NaN" "x \<noteq> Infinite False"
  obtains v where "has_value x v" "1 \<le> v"
proof (cases x)
  case (Finite s m e)
  obtain k j where one: "float_of_int 1 = Finite False k j" "0 < k" using one_value by (auto simp: has_value_def)
  have "\<not> s \<and> 0 < m" using assms(1) float_less_positive [OF one(2), of s m e j] unfolding one(1) Finite by auto
  then have v: "has_value x (real m * pow2 e)" by (auto simp: Finite has_value_def)
  moreover have "1 \<le> real m * pow2 e" using assms(1) float_less_value [OF v one_value] by simp
  ultimately show thesis by (rule that)
next
  case (Infinite t)
  obtain k j where "float_of_int 1 = Finite False k j" using one_value by (auto simp: has_value_def)
  then show thesis using assms Infinite by simp
qed (use assms in simp)

lemma scaled_size_range: "scaled_size x k = Inr n \<Longrightarrow> 1 \<le> n \<and> n \<le> 2 ^ 62"
proof -
  assume p: "scaled_size x k = Inr n"
  let ?s = "float_times x (float_of_int k)"
  have s: "\<not> float_less ?s (float_of_int 1)" "\<not> float_less (float_of_int (2 ^ 62)) ?s" "n = float_trunc ?s"
    "\<exists>t m e. x = Finite t m e \<and> float_less (float_of_int 0) x"
    using p by (auto simp: scaled_size_def Let_def split: if_splits float64.splits)
  obtain t m e where x: "x = Finite t m e" "float_less (Finite False 0 0) x"
    using s(4) by (auto simp: float_of_int_def round_ratio_def)
  have "m \<noteq> 0"
  proof
    assume "m = 0"
    then show False using x by (cases t) (simp_all add: signed_int_def scale_num_def)
  qed
  moreover have "float_of_int k \<noteq> NaN" by (simp add: float_of_int_def round_ratio_def Let_def)
  ultimately have "?s \<noteq> NaN"
    by (cases "float_of_int k") (auto simp: x round_scaled_def round_ratio_def Let_def)
  moreover have hb: "has_value (float_of_int (2 ^ 62)) (2 ^ 62)" by (rule power_value) simp
  then have "?s \<noteq> Infinite False" using s(2) by (auto simp: has_value_def)
  ultimately obtain u where u: "has_value ?s u" "1 \<le> u" using float_at_least_one [OF s(1)] by blast
  have "u \<le> 2 ^ 62" using s(2) float_less_value [OF hb u(1)] by simp
  then show ?thesis using u s(3) float_trunc_value [OF u(1)] by (simp add: floor_le_iff le_floor_iff)
qed

lemma parse_bytes_range: "parse_bytes v = Inr n \<Longrightarrow> 1 \<le> n \<and> n \<le> 2 ^ 62"
proof -
  assume p: "parse_bytes v = Inr n"
  obtain number k where f: "(case find (\<lambda>(suffix, _). has_suffix (to_lower (trim_space v)) suffix) byte_units of
      None \<Rightarrow> (to_lower (trim_space v), 1)
    | Some (suffix, k) \<Rightarrow> (trim_space (trim_suffix (to_lower (trim_space v)) suffix), k)) = (number, k)" by fastforce
  obtain x b where "parse_float number = (x, b)" by fastforce
  then show ?thesis using p scaled_size_range [of x k n] unfolding parse_bytes_def Let_def f
    by (auto split: if_splits bool.splits)
qed

subsection \<open>The web root\<close>

text \<open>A normalized web root is empty or a sequence of segments of letters, digits, hyphens and underscores.\<close>

definition segment_char :: "char \<Rightarrow> bool" where
  "segment_char c \<longleftrightarrow> web_root_rune (of_char c) \<and> c \<noteq> slash"

definition web_segments :: "string list \<Rightarrow> string" where
  "web_segments ps = concat (map ((#) slash) ps)"

lemma web_segments_join: "ps \<noteq> [] \<Longrightarrow> web_segments ps = slash # join_with slash ps"
  by (induction ps rule: list_nonempty_induct) (auto simp: web_segments_def join_with_Cons)

lemma segment_plain: "web_root_rune (of_char c) \<Longrightarrow> plain_byte c \<and> c \<noteq> dot \<and> c \<noteq> CHR 0x5C"
  by (auto simp: web_root_rune_def plain_byte_def lower_letter_def upper_rune_def digit_rune_def)

lemma normalize_web_root_cases:
  assumes "normalize_web_root v = Inr r"
  obtains "r = []"
    | t where "r = clean_path t" "is_abs t" "r \<noteq> ''/''" "\<not> contains_str r ''..''" "list_all web_root_rune (runes r)"
proof (cases "r = []")
  case False
  then obtain t where "r = clean_path t" "is_abs t" "r \<noteq> ''/''" "\<not> contains_str r ''..''" "list_all web_root_rune (runes r)"
    using assms by (auto simp: normalize_web_root_def Let_def is_abs_def has_prefix_iff split: if_splits)
  then show thesis using that by blast
qed (use that in blast)

lemma normalized_segments:
  assumes r: "r = clean_path t" and t: "is_abs t" and ne: "r \<noteq> ''/''" and c: "list_all web_root_rune (runes r)"
  shows "\<exists>ps. ps \<noteq> [] \<and> r = web_segments ps \<and> (\<forall>p\<in>set ps. p \<noteq> [] \<and> list_all segment_char p)"
proof -
  have "t \<noteq> []" using t by (auto simp: is_abs_def has_prefix_iff)
  then have p: "r = slash # join_with slash (path_parts t)" using r t by (simp add: clean_path_def render_path_def)
  then have n: "path_parts t \<noteq> []" using ne by auto
  then have w: "r = web_segments (path_parts t)" using p by (simp add: web_segments_join)
  have "list_all (\<lambda>x. web_root_rune (of_char x)) r"
    by (rule runes_low_bytes [OF c]) (auto simp: web_root_rune_def lower_letter_def upper_rune_def digit_rune_def)
  then have "\<forall>x\<in>set r. web_root_rune (of_char x)" by (simp add: list_all_iff)
  moreover have "set p \<subseteq> set r" if "p \<in> set (path_parts t)" for p using w that by (auto simp: web_segments_def)
  ultimately show ?thesis
    using n w path_parts_no_slash [of _ t] by (auto simp: list_all_iff segment_char_def intro!: exI [of _ "path_parts t"])
qed

lemma segments_fixed:
  assumes "ps \<noteq> []" and "\<forall>p\<in>set ps. p \<noteq> [] \<and> list_all segment_char p"
  shows "normalize_web_root (web_segments ps) = Inr (web_segments ps)"
proof -
  let ?r = "web_segments ps"
  have j: "?r = slash # join_with slash ps" by (rule web_segments_join [OF assms(1)])
  have no_dot: "slash \<notin> set p \<and> dot \<notin> set p" if "p \<in> set ps" for p
    using assms(2) that segment_plain unfolding list_all_iff segment_char_def by blast
  then have s: "slash \<notin> set p" "''..'' \<noteq> p" "''.'' \<noteq> p" "p \<noteq> []" if "p \<in> set ps" for p
    using no_dot [OF that] that assms(2) by (blast, fastforce, fastforce, blast)
  have c: "web_root_rune (of_char x)" if x: "x \<in> set ?r" for x
  proof (cases "x = slash")
    case True
    then show ?thesis by (simp add: web_root_rune_def)
  next
    case False
    then obtain p where p: "p \<in> set ps" "x \<in> set p" using x False by (auto simp: web_segments_def split: if_splits)
    then have "list_all segment_char p" using assms(2) by blast
    then show ?thesis using p(2) unfolding list_all_iff segment_char_def by blast
  qed
  have trim: "trim_space ?r = ?r" using c segment_plain by (intro trim_space_id) (auto simp: list_all_iff)
  have split: "split_on slash ?r = [] # ps"
    using split_join_on [of ps slash] assms(1) s(1) by (simp add: j)
  have a: "is_abs ?r" by (simp add: j is_abs_def has_prefix_def)
  have "\<forall>p\<in>set ps. real_name p" using s by (auto simp: real_name_def)
  then have parts: "path_parts ?r = ps"
    using clean_acc_real [of ps True "[]"] a unfolding path_parts_def split by simp
  have clean: "clean_path ?r = ?r" using a by (simp add: clean_path_def parts render_path_def) (simp add: j)
  obtain p ps' where ps: "ps = p # ps'" using assms(1) by (cases ps) auto
  obtain x p' where p: "p = x # p'" using s(4) [of p] ps by (cases p) auto
  have x: "x \<noteq> slash" "x \<noteq> CHR 0x5C" using assms(2) segment_plain by (auto simp: ps p segment_char_def)
  have r: "?r = slash # x # p' @ concat (map ((#) slash) ps')" by (simp add: web_segments_def ps p)
  have "dot \<notin> set ?r" using c segment_plain by blast
  then have dots: "\<not> contains_str ?r ''..''"
  proof -
    have "contains_str y (c # z) \<Longrightarrow> c \<in> set y" for y c z by (induction y) (auto simp: has_prefix_def split: list.splits)
    then show ?thesis using \<open>dot \<notin> set ?r\<close> by blast
  qed
  have runes: "list_all web_root_rune (runes ?r)"
  proof -
    have "is_ascii ?r" using c segment_plain by (auto simp: is_ascii_def list_all_iff plain_byte_def)
    then show ?thesis using c by (auto simp: runes_ascii list_all_iff)
  qed
  have ne: "?r \<noteq> []" "?r \<noteq> ''/''" "?r \<noteq> ''.''" "has_prefix ?r ''/''" "\<not> has_prefix ?r ''//''" "\<not> has_prefix ?r [slash, CHR 0x5C]"
    unfolding r using x by (auto simp: has_prefix_def)
  show ?thesis
    using s(2) by (simp add: normalize_web_root_def trim clean ne dots runes split Let_def) blast
qed

subsection \<open>A loaded configuration\<close>

lemma load_settings_setting [simp]:
  "load_settings (setting r st # fs) c = Inr c' \<longleftrightarrow> (\<exists>v. r = Inr v \<and> load_settings fs (st v c) = Inr c')"
  by (cases r) (auto simp: setting_def)

lemma load_value_Inr:
  "load_value env name fallback check = Inr v \<Longrightarrow>
    (env name = None \<and> v = fallback) \<or> (\<exists>t. trim_space t \<noteq> [] \<and> env name = Some t \<and> check (trim_space t) = Inr v)"
  by (auto simp: load_value_def split: option.splits if_splits)

lemma load_data_dir_Inr: "load_data_dir env = Inr v \<Longrightarrow> is_abs v \<and> v \<noteq> ''/'' \<and> clean_path v = v"
proof -
  assume "load_data_dir env = Inr v"
  then consider "v = ''/data''" | t where "v = clean_path t" "is_abs t" "v \<noteq> ''/''"
    unfolding load_data_dir_def by (auto dest!: load_value_Inr split: if_splits)
  then show ?thesis
  proof cases
    case 1
    have "is_abs ''/data'' \<and> ''/data'' \<noteq> ''/'' \<and> clean_path ''/data'' = ''/data''" by code_simp
    then show ?thesis unfolding 1 .
  next
    case (2 t)
    then have "t \<noteq> []" by (auto simp: is_abs_def has_prefix_def)
    then show ?thesis using 2 clean_path_parts(2) [of t] clean_path_idem by simp
  qed
qed

lemma load_duration_Inr: "load_duration env name f = Inr v \<Longrightarrow> 0 < f \<Longrightarrow> 0 < v"
  unfolding load_duration_def by (auto dest!: load_value_Inr split: option.splits if_splits)

lemma load_count_Inr: "load_count env name f m = Inr v \<Longrightarrow> 1 \<le> f \<Longrightarrow> f \<le> m \<Longrightarrow> 1 \<le> v \<and> v \<le> m"
  unfolding load_count_def by (auto dest!: load_value_Inr split: prod.splits bool.splits if_splits)

lemma load_bytes_Inr: "load_bytes env name f = Inr v \<Longrightarrow> 1 \<le> f \<Longrightarrow> f \<le> 2 ^ 62 \<Longrightarrow> 1 \<le> v \<and> v \<le> 2 ^ 62"
  unfolding load_bytes_def by (auto dest!: load_value_Inr parse_bytes_range split: sum.splits)

lemma load_stall_Inr: "load_stall_timeout env name f = Inr v \<Longrightarrow> 0 < f \<Longrightarrow> 0 \<le> v"
  unfolding load_stall_timeout_def by (auto split: option.splits if_splits dest!: load_duration_Inr)

lemma load_rate_Inr: "load_rate env name f = Inr v \<Longrightarrow> 1 \<le> f \<Longrightarrow> f \<le> 2 ^ 62 \<Longrightarrow> 0 \<le> v \<and> v \<le> 2 ^ 62"
  unfolding load_rate_def by (auto split: option.splits if_splits dest!: load_bytes_Inr)

text \<open>An address to listen on has a numeric port.\<close>

definition numeric_port :: "string \<Rightarrow> bool" where
  "numeric_port a = (case split_host_port a of None \<Rightarrow> False
     | Some (h, p) \<Rightarrow> (case atoi p of (n, ok) \<Rightarrow> p \<noteq> [] \<and> ok \<and> 1 \<le> n \<and> n \<le> 65535))"

lemma load_listen_Inr: "load_listen_address env f = Inr v \<Longrightarrow> numeric_port f \<Longrightarrow> numeric_port v"
  unfolding load_listen_address_def
  by (auto dest!: load_value_Inr simp: numeric_port_def split: option.splits prod.splits if_splits)

lemma load_web_root_Inr: "load_web_root env = Inr v \<Longrightarrow> normalize_web_root v = Inr v
    \<and> (\<exists>ps. v = web_segments ps \<and> (\<forall>p\<in>set ps. p \<noteq> [] \<and> list_all segment_char p))"
proof -
  have e: "normalize_web_root [] = Inr []" "trim_space [] = []" by code_simp+
  assume l: "load_web_root env = Inr v"
  show ?thesis
  proof (cases "v = []")
    case True
    then show ?thesis using e by (auto intro: exI [of _ "[]"] simp: web_segments_def)
  next
    case False
    then obtain w where "normalize_web_root w = Inr v" using l by (auto simp: load_web_root_def split: option.splits)
    then obtain t where "v = clean_path t" "is_abs t" "v \<noteq> ''/''" "list_all web_root_rune (runes v)"
      using False by (cases rule: normalize_web_root_cases) auto
    from normalized_segments [OF this] show ?thesis using segments_fixed by metis
  qed
qed

lemma parse_prefix_bits: "parse_prefix s = Some p \<Longrightarrow> px_bits p \<le> addr_bits (px_addr p)"
  by (auto simp: parse_prefix_def Let_def split: if_splits option.splits prod.splits)

lemma masked_bits [simp]: "px_bits (masked p) = px_bits p" "addr_bits (px_addr (masked p)) = addr_bits (px_addr p)"
  by (simp_all add: masked_def Let_def split: ip_addr.splits)

lemma parse_proxy_prefix_bits: "parse_proxy_prefix f = Inr p \<Longrightarrow> px_bits p \<le> addr_bits (px_addr p)"
  by (auto simp: parse_proxy_prefix_def dest: parse_prefix_bits split: if_splits option.splits ip_addr.splits)

lemma proxy_prefixes_bits: "proxy_prefixes fs = Inr ps \<Longrightarrow> \<forall>p\<in>set ps. px_bits p \<le> addr_bits (px_addr p)"
proof (induction fs arbitrary: ps)
  case (Cons f fs)
  then show ?case
    by (cases "proxy_prefixes fs"; cases "parse_proxy_prefix f")
       (auto simp: loopback_prefixes_def split: if_splits dest: parse_proxy_prefix_bits)
qed simp

lemma load_proxies_Inr: "load_trusted_proxies env = Inr ps \<Longrightarrow> \<forall>p\<in>set ps. px_bits p \<le> addr_bits (px_addr p)"
proof -
  assume "load_trusted_proxies env = Inr ps"
  then have "ps = [] \<or> (\<exists>fs. proxy_prefixes fs = Inr ps)" unfolding load_trusted_proxies_def
    by (auto dest!: load_value_Inr split: if_splits sum.splits list.splits)
  then show ?thesis using proxy_prefixes_bits by auto
qed

lemma load_diagnostics_Inr:
  "load_diagnostics env f = Inr v \<Longrightarrow> f \<in> {''local'', ''disabled'', ''enabled''} \<Longrightarrow> v \<in> {''local'', ''disabled'', ''enabled''}"
  by (auto simp: load_diagnostics_def Let_def split: option.splits if_splits)

text \<open>Every setting of a loaded configuration is what its reader gave.\<close>

definition settings_read :: "int \<Rightarrow> url_parser \<Rightarrow> lookup \<Rightarrow> config \<Rightarrow> bool" where
  "settings_read cpus url env c \<longleftrightarrow> (let d = default_config cpus in
    load_data_dir env = Inr (cf_data_dir c) \<and> load_duration env ''JOB_TTL'' (cf_job_ttl d) = Inr (cf_job_ttl c)
    \<and> load_duration env ''COMMAND_TIMEOUT'' (cf_command_timeout d) = Inr (cf_command_timeout c)
    \<and> load_duration env ''CLEANUP_INTERVAL'' (cf_cleanup d) = Inr (cf_cleanup c)
    \<and> load_count env ''MAX_CONCURRENT_PROCESSES'' (cf_max_processes d) 1024 = Inr (cf_max_processes c)
    \<and> load_count env ''MAX_FILES_PER_JOB'' (cf_max_files d) 10000 = Inr (cf_max_files c)
    \<and> load_bytes env ''MAX_UPLOAD_SIZE'' (cf_max_upload d) = Inr (cf_max_upload c)
    \<and> load_bytes env ''MIN_FREE_SPACE'' (cf_min_free d) = Inr (cf_min_free c)
    \<and> load_listen_address env (cf_listen d) = Inr (cf_listen c) \<and> load_web_root env = Inr (cf_web_root c)
    \<and> load_diagnostics env (cf_diagnostics d) = Inr (cf_diagnostics c)
    \<and> load_stall_timeout env ''READ_STALL_TIMEOUT'' (cf_read_stall d) = Inr (cf_read_stall c)
    \<and> load_stall_timeout env ''WRITE_STALL_TIMEOUT'' (cf_write_stall d) = Inr (cf_write_stall c)
    \<and> load_rate env ''MIN_UPLOAD_RATE'' (cf_min_rate d) = Inr (cf_min_rate c)
    \<and> load_trusted_proxies env = Inr (cf_proxies c) \<and> load_health_url url env = Inr (cf_health_url c)
    \<and> load_acceleration_setting env = Inr (cf_acceleration c))"

lemma settings_readI:
  assumes "load_settings (config_settings cpus url env) (default_config cpus) = Inr c"
  shows "settings_read cpus url env c"
  using assms
  unfolding config_settings_def settings_read_def Let_def load_settings_setting load_settings.simps(1) sum.inject
  by (elim exE conjE, hypsubst_thin) (intro conjI; simp (no_asm); assumption)

lemma config_settings_Inr:
  assumes "load_config cpus url (Some env) = Inr c"
  shows "load_data_dir env = Inr (cf_data_dir c)" "load_duration env ''JOB_TTL'' (cf_job_ttl (default_config cpus)) = Inr (cf_job_ttl c)"
    "load_duration env ''COMMAND_TIMEOUT'' (cf_command_timeout (default_config cpus)) = Inr (cf_command_timeout c)"
    "load_duration env ''CLEANUP_INTERVAL'' (cf_cleanup (default_config cpus)) = Inr (cf_cleanup c)"
    "load_count env ''MAX_CONCURRENT_PROCESSES'' (cf_max_processes (default_config cpus)) 1024 = Inr (cf_max_processes c)"
    "load_count env ''MAX_FILES_PER_JOB'' (cf_max_files (default_config cpus)) 10000 = Inr (cf_max_files c)"
    "load_bytes env ''MAX_UPLOAD_SIZE'' (cf_max_upload (default_config cpus)) = Inr (cf_max_upload c)"
    "load_bytes env ''MIN_FREE_SPACE'' (cf_min_free (default_config cpus)) = Inr (cf_min_free c)"
    "load_listen_address env (cf_listen (default_config cpus)) = Inr (cf_listen c)" "load_web_root env = Inr (cf_web_root c)"
    "load_diagnostics env (cf_diagnostics (default_config cpus)) = Inr (cf_diagnostics c)"
    "load_stall_timeout env ''READ_STALL_TIMEOUT'' (cf_read_stall (default_config cpus)) = Inr (cf_read_stall c)"
    "load_stall_timeout env ''WRITE_STALL_TIMEOUT'' (cf_write_stall (default_config cpus)) = Inr (cf_write_stall c)"
    "load_rate env ''MIN_UPLOAD_RATE'' (cf_min_rate (default_config cpus)) = Inr (cf_min_rate c)"
    "load_trusted_proxies env = Inr (cf_proxies c)" "load_health_url url env = Inr (cf_health_url c)"
proof -
  have "settings_read cpus url env c" using assms unfolding load_config_def option.case by (rule settings_readI)
  note r = this [unfolded settings_read_def Let_def]
  show "load_data_dir env = Inr (cf_data_dir c)" "load_duration env ''JOB_TTL'' (cf_job_ttl (default_config cpus)) = Inr (cf_job_ttl c)"
    "load_duration env ''COMMAND_TIMEOUT'' (cf_command_timeout (default_config cpus)) = Inr (cf_command_timeout c)"
    "load_duration env ''CLEANUP_INTERVAL'' (cf_cleanup (default_config cpus)) = Inr (cf_cleanup c)"
    "load_count env ''MAX_CONCURRENT_PROCESSES'' (cf_max_processes (default_config cpus)) 1024 = Inr (cf_max_processes c)"
    "load_count env ''MAX_FILES_PER_JOB'' (cf_max_files (default_config cpus)) 10000 = Inr (cf_max_files c)"
    "load_bytes env ''MAX_UPLOAD_SIZE'' (cf_max_upload (default_config cpus)) = Inr (cf_max_upload c)"
    "load_bytes env ''MIN_FREE_SPACE'' (cf_min_free (default_config cpus)) = Inr (cf_min_free c)"
    "load_listen_address env (cf_listen (default_config cpus)) = Inr (cf_listen c)" "load_web_root env = Inr (cf_web_root c)"
    "load_diagnostics env (cf_diagnostics (default_config cpus)) = Inr (cf_diagnostics c)"
    "load_stall_timeout env ''READ_STALL_TIMEOUT'' (cf_read_stall (default_config cpus)) = Inr (cf_read_stall c)"
    "load_stall_timeout env ''WRITE_STALL_TIMEOUT'' (cf_write_stall (default_config cpus)) = Inr (cf_write_stall c)"
    "load_rate env ''MIN_UPLOAD_RATE'' (cf_min_rate (default_config cpus)) = Inr (cf_min_rate c)"
    "load_trusted_proxies env = Inr (cf_proxies c)" "load_health_url url env = Inr (cf_health_url c)"
    by (insert r; elim conjE; assumption)+
qed

text \<open>What the rest of the service relies on.\<close>

definition valid_config :: "config \<Rightarrow> bool" where
  "valid_config c \<longleftrightarrow>
    is_abs (cf_data_dir c) \<and> cf_data_dir c \<noteq> ''/'' \<and> clean_path (cf_data_dir c) = cf_data_dir c
    \<and> 0 < cf_job_ttl c \<and> 0 < cf_command_timeout c \<and> 0 < cf_cleanup c \<and> 0 \<le> cf_read_stall c \<and> 0 \<le> cf_write_stall c
    \<and> cf_max_processes c \<in> {1..1024} \<and> cf_max_files c \<in> {1..10000}
    \<and> cf_max_upload c \<in> {1..2 ^ 62} \<and> cf_min_free c \<in> {1..2 ^ 62} \<and> cf_min_rate c \<in> {0..2 ^ 62}
    \<and> numeric_port (cf_listen c) \<and> normalize_web_root (cf_web_root c) = Inr (cf_web_root c)
    \<and> cf_diagnostics c \<in> {''local'', ''disabled'', ''enabled''}
    \<and> (\<forall>p\<in>set (cf_proxies c). px_bits p \<le> addr_bits (px_addr p))"

lemma loaded_config:
  assumes "load_config cpus url (Some env) = Inr c"
  shows "valid_config c"
proof -
  note r = config_settings_Inr [OF assms]
  have d: "0 < cf_job_ttl (default_config cpus)" "0 < cf_command_timeout (default_config cpus)" "0 < cf_cleanup (default_config cpus)"
    "0 < cf_read_stall (default_config cpus)" "0 < cf_write_stall (default_config cpus)"
    "1 \<le> cf_max_processes (default_config cpus)" "cf_max_processes (default_config cpus) \<le> 1024"
    "1 \<le> cf_max_files (default_config cpus)" "cf_max_files (default_config cpus) \<le> 10000"
    "1 \<le> cf_max_upload (default_config cpus)" "cf_max_upload (default_config cpus) \<le> 2 ^ 62"
    "1 \<le> cf_min_free (default_config cpus)" "cf_min_free (default_config cpus) \<le> 2 ^ 62"
    "1 \<le> cf_min_rate (default_config cpus)" "cf_min_rate (default_config cpus) \<le> 2 ^ 62"
    by (simp_all add: default_config_def second_def default_max_processes_def)
  have "numeric_port '':8080''" by code_simp
  then have l: "numeric_port (cf_listen (default_config cpus))" "cf_diagnostics (default_config cpus) \<in> {''local'', ''disabled'', ''enabled''}"
    by (simp_all add: default_config_def)
  have "is_abs (cf_data_dir c) \<and> cf_data_dir c \<noteq> ''/'' \<and> clean_path (cf_data_dir c) = cf_data_dir c"
    by (rule load_data_dir_Inr [OF r(1)])
  moreover have "0 < cf_job_ttl c" "0 < cf_command_timeout c" "0 < cf_cleanup c"
    by (rule load_duration_Inr [OF r(2) d(1)], rule load_duration_Inr [OF r(3) d(2)], rule load_duration_Inr [OF r(4) d(3)])
  moreover have "0 \<le> cf_read_stall c" "0 \<le> cf_write_stall c"
    by (rule load_stall_Inr [OF r(12) d(4)], rule load_stall_Inr [OF r(13) d(5)])
  moreover have "cf_max_processes c \<in> {1..1024}" "cf_max_files c \<in> {1..10000}"
    unfolding atLeastAtMost_iff by (rule load_count_Inr [OF r(5) d(6,7)], rule load_count_Inr [OF r(6) d(8,9)])
  moreover have "cf_max_upload c \<in> {1..2 ^ 62}" "cf_min_free c \<in> {1..2 ^ 62}"
    unfolding atLeastAtMost_iff by (rule load_bytes_Inr [OF r(7) d(10,11)], rule load_bytes_Inr [OF r(8) d(12,13)])
  moreover have "cf_min_rate c \<in> {0..2 ^ 62}" unfolding atLeastAtMost_iff by (rule load_rate_Inr [OF r(14) d(14,15)])
  moreover have "numeric_port (cf_listen c)" by (rule load_listen_Inr [OF r(9) l(1)])
  moreover have "normalize_web_root (cf_web_root c) = Inr (cf_web_root c)" using load_web_root_Inr [OF r(10)] by simp
  moreover have "cf_diagnostics c \<in> {''local'', ''disabled'', ''enabled''}" by (rule load_diagnostics_Inr [OF r(11) l(2)])
  moreover have "\<forall>p\<in>set (cf_proxies c). px_bits p \<le> addr_bits (px_addr p)" by (rule load_proxies_Inr [OF r(15)])
  ultimately show ?thesis unfolding valid_config_def by blast
qed

subsection \<open>Defaults and blank values\<close>

lemma default_loaded:
  "load_config cpus url (Some Map.empty) =
    Inr ((default_config cpus)\<lparr>cf_acceleration := \<lparr>ac_mode = ''auto'', ac_device = default_vaapi_device\<rparr>\<rparr>)"
proof -
  have a: "load_acceleration_setting Map.empty = Inr \<lparr>ac_mode = ''auto'', ac_device = default_vaapi_device\<rparr>" by code_simp
  have r: "load_data_dir Map.empty = Inr ''/data''" "load_duration Map.empty n f = Inr f" "load_count Map.empty n f m = Inr f"
    "load_bytes Map.empty n f = Inr f" "load_listen_address Map.empty g = Inr g" "load_web_root Map.empty = Inr []"
    "load_diagnostics Map.empty g = Inr g" "load_stall_timeout Map.empty n f = Inr f" "load_rate Map.empty n f = Inr f"
    "load_trusted_proxies Map.empty = Inr []" "load_health_url url Map.empty = Inr []" for n f m g
    by (simp_all add: load_data_dir_def load_duration_def load_count_def load_bytes_def load_listen_address_def load_web_root_def
        load_diagnostics_def load_stall_timeout_def load_rate_def load_trusted_proxies_def load_health_url_def load_value_def)
  show ?thesis
    unfolding load_config_def config_settings_def Let_def option.case load_settings_setting load_settings.simps(1) r a sum.inject
    by (simp add: default_config_def fun_eq_iff)
qed

definition strict_settings :: "string list" where
  "strict_settings =
    [''DATA_DIR'', ''JOB_TTL'', ''COMMAND_TIMEOUT'', ''CLEANUP_INTERVAL'', ''MAX_CONCURRENT_PROCESSES'', ''MAX_FILES_PER_JOB'',
     ''MAX_UPLOAD_SIZE'', ''MIN_FREE_SPACE'', ''LISTEN_ADDRESS'', ''DIAGNOSTICS'', ''READ_STALL_TIMEOUT'', ''WRITE_STALL_TIMEOUT'',
     ''MIN_UPLOAD_RATE'', ''TRUSTED_PROXIES'', ''HEALTHCHECK_URL'']"

lemma blank_readers:
  assumes "env name = Some blank" "trim_space blank = []"
  shows "load_duration env name f \<noteq> Inr v" "load_count env name f m \<noteq> Inr v" "load_bytes env name f \<noteq> Inr v"
    "load_stall_timeout env name f \<noteq> Inr v" "load_rate env name f \<noteq> Inr v"
    "name = ''DATA_DIR'' \<Longrightarrow> load_data_dir env \<noteq> Inr w" "name = ''LISTEN_ADDRESS'' \<Longrightarrow> load_listen_address env g \<noteq> Inr w"
    "name = ''DIAGNOSTICS'' \<Longrightarrow> load_diagnostics env g \<noteq> Inr w" "name = ''HEALTHCHECK_URL'' \<Longrightarrow> load_health_url url env \<noteq> Inr w"
    "name = ''TRUSTED_PROXIES'' \<Longrightarrow> load_trusted_proxies env \<noteq> Inr ps"
  using assms
  by (simp_all add: load_duration_def load_count_def load_bytes_def load_stall_timeout_def load_rate_def load_data_dir_def
      load_listen_address_def load_diagnostics_def load_health_url_def load_trusted_proxies_def load_value_def is_disabled_def
      to_lower_def encode_runes_def)

lemma blank_rejected:
  assumes "name \<in> set strict_settings" "env name = Some blank" "trim_space blank = []"
  shows "\<exists>e. load_config cpus url (Some env) = Inl e"
proof (rule ccontr)
  assume "\<not> (\<exists>e. load_config cpus url (Some env) = Inl e)"
  then obtain c where c: "load_config cpus url (Some env) = Inr c" by (cases "load_config cpus url (Some env)") auto
  note b = blank_readers [of env name blank, OF assms(2,3)]
  note r = config_settings_Inr [OF c]
  have n: "name = n \<Longrightarrow> n \<in> set strict_settings \<Longrightarrow> False" for n
    using b(1-5,7-9) b(6) [where w = "cf_data_dir c"] b(10) [where ps = "cf_proxies c"] r by (auto simp: strict_settings_def)
  show False using n [OF refl assms(1)] .
qed

subsection \<open>Properties\<close>



text \<open>Without any environment variable the configuration loads with the documented defaults; a blank value is
  an error for every setting that has a reader of its own, except for the web root, where it means no prefix.\<close>

theorem defaults_and_blank_settings:
  "load_config cpus url (Some Map.empty) =
      Inr ((default_config cpus)\<lparr>cf_acceleration := \<lparr>ac_mode = ''auto'', ac_device = default_vaapi_device\<rparr>\<rparr>)
    \<and> (if name \<in> set strict_settings \<and> map_option trim_space (env name) = Some [] then \<exists>e. load_config cpus url (Some env) = Inl e else True)
    \<and> (if map_option trim_space (env ''WEBROOT'') = Some [] then load_web_root env = Inr [] else True)"
  using default_loaded blank_rejected [of name env]
  by (auto simp: load_web_root_def normalize_web_root_def Let_def)

end
