(* ===== verification/Web_Access.thy ===== *)
theory Web_Access
  imports Config
begin

text \<open>
  Whom a request is attributed to and what it may see: \<open>internal/web/clientaddr.go\<close>, and of
  \<open>internal/web/app.go\<close> the diagnostics policy and the URLs under the web root.
\<close>

subsection \<open>The client address\<close>

record web_request =
  wr_remote :: string
  wr_forwarded_for :: "string list"
  wr_forwarded :: "string list"

definition max_forwarded_hops :: nat where
  "max_forwarded_hops = 32"

definition parse_address :: "string \<Rightarrow> ip_addr option" where
  "parse_address value =
    (let t = trim_space value
     in if t = [] then None
        else let t = (case split_host_port t of None \<Rightarrow> t | Some (host, _) \<Rightarrow> host);
                 t = trim_set t ''[]'';
                 t = (case cut_on (CHR ''%'') t of None \<Rightarrow> t | Some (a, _) \<Rightarrow> if a = [] then t else a)
          in map_option unmap (parse_addr t))"

definition is_trusted_proxy :: "ip_prefix list \<Rightarrow> ip_addr \<Rightarrow> bool" where
  "is_trusted_proxy trusted a \<longleftrightarrow> list_ex (\<lambda>p. contains_addr p a) trusted"

fun collect_hops :: "string list \<Rightarrow> string list \<Rightarrow> string list" where
  "collect_hops chain [] = chain"
| "collect_hops chain (e # es) =
    (let t = trim_space e
     in if t = [] then collect_hops chain es
        else if max_forwarded_hops < length (chain @ [t]) then chain @ [t] else collect_hops (chain @ [t]) es)"

definition forwarded_chain :: "string list \<Rightarrow> string list" where
  "forwarded_chain values = collect_hops [] (concat (map (split_on (CHR '','')) values))"

text \<open>The loop over the chain from its right end; the chain is given reversed.\<close>

fun walk_chain :: "ip_prefix list \<Rightarrow> ip_addr \<Rightarrow> string list \<Rightarrow> ip_addr option \<times> bool" where
  "walk_chain trusted peer [] = (Some peer, True)"
| "walk_chain trusted peer (x # xs) =
    (case parse_address x of
       None \<Rightarrow> (None, False)
     | Some a \<Rightarrow> if is_trusted_proxy trusted a \<and> xs \<noteq> [] then walk_chain trusted peer xs else (Some a, True))"

definition client_address :: "ip_prefix list \<Rightarrow> web_request \<Rightarrow> ip_addr option \<times> bool" where
  "client_address trusted rq =
    (case parse_address (wr_remote rq) of
       None \<Rightarrow> (None, False)
     | Some peer \<Rightarrow>
         if \<not> is_trusted_proxy trusted peer then (Some peer, wr_forwarded_for rq = [] \<and> wr_forwarded rq = [])
         else let chain = forwarded_chain (wr_forwarded_for rq)
           in if chain = [] then (Some peer, wr_forwarded rq = [])
              else if max_forwarded_hops < length chain then (None, False)
              else walk_chain trusted peer (rev chain))"

definition diagnostics_allowed :: "string \<Rightarrow> ip_prefix list \<Rightarrow> web_request \<Rightarrow> bool" where
  "diagnostics_allowed policy trusted rq =
    (if policy = ''enabled'' then True
     else if policy = ''disabled'' then False
     else case client_address trusted rq of
       (Some a, resolved) \<Rightarrow> resolved \<and> is_loopback a
     | (None, _) \<Rightarrow> False)"

subsection \<open>URLs under the web root\<close>

definition join_url :: "string \<Rightarrow> string \<Rightarrow> string" where
  "join_url base target =
    (let t = (if target = [] \<or> hd target = CHR 0x5C
                \<or> has_prefix target ''/'' \<and> 1 < length target \<and> (target ! 1 = slash \<or> target ! 1 = CHR 0x5C)
              then ''/'' else if \<not> has_prefix target ''/'' then slash # target else target)
     in if base = [] then t else base @ t)"

definition asset_url :: "string \<Rightarrow> string \<Rightarrow> string" where
  "asset_url base name = join_url base (join_path ''/static'' name)"

subsection \<open>Lemmas\<close>

text \<open>The position of the hop the walk ends at: everything to its right is trusted.\<close>

definition attributed :: "ip_prefix list \<Rightarrow> string list \<Rightarrow> ip_addr \<Rightarrow> bool" where
  "attributed trusted chain a \<longleftrightarrow>
    (\<exists>l x r. chain = l @ x # r \<and> parse_address x = Some a \<and> (l = [] \<or> \<not> is_trusted_proxy trusted a)
      \<and> (\<forall>y\<in>set r. \<exists>b. parse_address y = Some b \<and> is_trusted_proxy trusted b))"

lemma walk_chain_attributed:
  "xs \<noteq> [] \<Longrightarrow> walk_chain trusted peer xs = (Some a, ok) \<longleftrightarrow> ok \<and> attributed trusted (rev xs) a"
proof (induction xs)
  case (Cons x xs)
  show ?case
  proof (cases "parse_address x")
    case None
    have "\<not> attributed trusted (rev (x # xs)) a"
    proof
      assume "attributed trusted (rev (x # xs)) a"
      then obtain l y r where a: "rev xs @ [x] = l @ y # r" "parse_address y = Some a"
        "\<forall>y\<in>set r. \<exists>b. parse_address y = Some b \<and> is_trusted_proxy trusted b" by (auto simp: attributed_def)
      then show False using None by (cases r rule: rev_cases) auto
    qed
    then show ?thesis using None by simp
  next
    case (Some b)
    have step: "attributed trusted (rev (x # xs)) a \<longleftrightarrow>
        b = a \<and> (xs = [] \<or> \<not> is_trusted_proxy trusted b) \<or> is_trusted_proxy trusted b \<and> attributed trusted (rev xs) a" (is "?L \<longleftrightarrow> ?R")
    proof
      assume ?L
      then obtain l y r where a: "rev xs @ [x] = l @ y # r" "parse_address y = Some a" "l = [] \<or> \<not> is_trusted_proxy trusted a"
        "\<forall>y\<in>set r. \<exists>b. parse_address y = Some b \<and> is_trusted_proxy trusted b" by (auto simp: attributed_def)
      show ?R
      proof (cases r rule: rev_cases)
        case Nil
        then show ?thesis using a Some by auto
      next
        case (snoc r' z)
        then have "rev xs = l @ y # r'" "z = x" using a(1) by auto
        then show ?thesis using a Some snoc by (auto simp: attributed_def)
      qed
    next
      assume ?R
      then show ?L
      proof
        assume "b = a \<and> (xs = [] \<or> \<not> is_trusted_proxy trusted b)"
        then show ?L unfolding attributed_def using Some by (intro exI [of _ "rev xs"] exI [of _ x] exI [of _ "[]"]) auto
      next
        assume r: "is_trusted_proxy trusted b \<and> attributed trusted (rev xs) a"
        then obtain l y r where "rev xs = l @ y # r" "parse_address y = Some a" "l = [] \<or> \<not> is_trusted_proxy trusted a"
          "\<forall>y\<in>set r. \<exists>b. parse_address y = Some b \<and> is_trusted_proxy trusted b" by (auto simp: attributed_def)
        then show ?L unfolding attributed_def using Some r
          by (intro exI [of _ l] exI [of _ y] exI [of _ "r @ [x]"]) auto
      qed
    qed
    have empty: "\<not> attributed trusted [] a" by (simp add: attributed_def)
    show ?thesis
    proof (cases "xs = []")
      case True
      then show ?thesis using Some step empty by auto
    next
      case False
      then show ?thesis using Some step Cons.IH by auto
    qed
  qed
qed simp

lemma rooted_target: "\<exists>u. join_url [] target = slash # u \<and> (u = [] \<or> hd u \<noteq> slash \<and> hd u \<noteq> CHR 0x5C)"
proof (cases target)
  case (Cons c cs)
  then show ?thesis by (cases cs) (auto simp: join_url_def has_prefix_def)
qed (simp add: join_url_def)

subsection \<open>Properties\<close>

text \<open>C13: Local diagnostics are served exactly to a loopback client. Without a trusted proxy that is the peer itself, and
  only if it sent no forwarding header; behind one it is the hop of the forwarded chain whose right neighbors are
  all trusted proxies and which is not one itself, unless it is the leftmost, in a chain of at most 32 hops. What a client writes in front of its own hop cannot matter.\<close>

theorem local_diagnostics_iff:
  "diagnostics_allowed ''local'' trusted rq \<longleftrightarrow>
    (case parse_address (wr_remote rq) of
       None \<Rightarrow> False
     | Some peer \<Rightarrow>
         let chain = forwarded_chain (wr_forwarded_for rq)
         in if \<not> is_trusted_proxy trusted peer then is_loopback peer \<and> wr_forwarded_for rq = [] \<and> wr_forwarded rq = []
            else if chain = [] then is_loopback peer \<and> wr_forwarded rq = []
            else length chain \<le> 32 \<and> (\<exists>a. attributed trusted chain a \<and> is_loopback a))"
proof (cases "parse_address (wr_remote rq)")
  case None
  then show ?thesis by (simp add: diagnostics_allowed_def client_address_def)
next
  case (Some peer)
  let ?chain = "forwarded_chain (wr_forwarded_for rq)"
  have w: "(case walk_chain trusted peer (rev ?chain) of (Some a, resolved) \<Rightarrow> resolved \<and> is_loopback a | (None, _) \<Rightarrow> False)
      \<longleftrightarrow> (\<exists>a. attributed trusted ?chain a \<and> is_loopback a)" if "?chain \<noteq> []"
  proof -
    have iff: "walk_chain trusted peer (rev ?chain) = (Some a, ok) \<longleftrightarrow> ok \<and> attributed trusted ?chain a" for a ok
      using walk_chain_attributed [of "rev ?chain" trusted peer a ok] that by simp
    obtain x ok where r: "walk_chain trusted peer (rev ?chain) = (x, ok)" by fastforce
    show ?thesis
    proof (cases x)
      case None
      then have "\<not> attributed trusted ?chain a" for a using iff [of a True] r by simp
      then show ?thesis using r None by simp
    next
      case (Some b)
      have "attributed trusted ?chain a \<longleftrightarrow> b = a \<and> ok" for a using iff [of a True] iff [of b ok] r Some by auto
      then show ?thesis using r Some by auto
    qed
  qed
  show ?thesis using w Some
    by (auto simp: diagnostics_allowed_def client_address_def max_forwarded_hops_def Let_def not_less)
qed

text \<open>A URL built under the web root a loaded configuration holds stays on this host, whatever the target: it starts with one
  slash that is not followed by another slash or a backslash, so no browser takes it for an address on another host.\<close>

theorem joined_url_is_local:
  assumes "load_web_root env = Inr base"
  shows "\<exists>u. join_url base target = slash # u \<and> (u = [] \<or> hd u \<noteq> slash \<and> hd u \<noteq> CHR 0x5C)"
proof -
  define t where "t = join_url [] target"
  have t: "\<exists>u. t = slash # u \<and> (u = [] \<or> hd u \<noteq> slash \<and> hd u \<noteq> CHR 0x5C)" unfolding t_def by (rule rooted_target)
  obtain ps where ps: "base = web_segments ps" "\<forall>p\<in>set ps. p \<noteq> [] \<and> list_all segment_char p"
    using load_web_root_Inr [OF assms] by blast
  have j: "join_url base target = base @ t" by (simp add: t_def join_url_def Let_def)
  show ?thesis
  proof (cases ps)
    case Nil
    then show ?thesis using t j ps by (simp add: web_segments_def)
  next
    case (Cons p qs)
    then obtain x p' where p: "p = x # p'" using ps(2) by (cases p) auto
    have "x \<noteq> slash" "x \<noteq> CHR 0x5C" using ps(2) segment_plain by (auto simp: Cons p segment_char_def)
    then show ?thesis using j ps(1) by (simp add: web_segments_def Cons p)
  qed
qed

theorem joined_url_is_local_witness:
  "\<exists>u. join_url ''/app'' ''//evil.example'' = slash # u \<and> (u = [] \<or> hd u \<noteq> slash \<and> hd u \<noteq> CHR 0x5C)"
proof -
  have "load_web_root [''WEBROOT'' \<mapsto> ''/app''] = Inr ''/app''" by code_simp
  then show ?thesis by (rule joined_url_is_local)
qed

end
