(* ===== verification/Web_View.thy ===== *)
theory Web_View
  imports Web_Access Transitions
begin

text \<open>
  What a page shows of a job, \<open>internal/web/view.go\<close> and \<open>internal/web/guidance.go\<close>: the texts of
  states, sizes and times, the stages of a job, and the views of a job and of its files with the
  actions they offer. The tables behind \<open>strings.ToUpper\<close> for code points outside ASCII
  are an argument.
\<close>

subsection \<open>Numbers as text\<close>

text \<open>The sum of two \<open>float64\<close>: exact, then rounded once.\<close>

fun float_plus :: "float64 \<Rightarrow> float64 \<Rightarrow> float64" where
  "float_plus (Finite s m e) (Finite t n f) =
    (let g = min e f; x = signed_int s (m * 2 ^ nat (e - g)) + signed_int t (n * 2 ^ nat (f - g))
     in round_scaled (x < 0) (nat \<bar>x\<bar>) 1 g)"
| "float_plus (Infinite s) (Finite t n f) = Infinite s"
| "float_plus (Finite s m e) (Infinite t) = Infinite t"
| "float_plus (Infinite s) (Infinite t) = (if s = t then Infinite s else NaN)"
| "float_plus _ _ = NaN"

text \<open>\<open>Duration.Hours\<close>, \<open>Minutes\<close> and \<open>Seconds\<close>: whole units and the rest as a fraction, added.\<close>

definition trunc_div :: "int \<Rightarrow> int \<Rightarrow> int" where
  "trunc_div a b = (if 0 \<le> a then a div b else - (- a div b))"

definition in_units :: "int \<Rightarrow> int \<Rightarrow> float64" where
  "in_units d u =
    (let q = trunc_div d u in float_plus (float_of_int q) (float_divide (float_of_int (d - q * u)) (float_of_int u)))"

definition one_second :: int where "one_second = 1000000000"
definition one_minute :: int where "one_minute = 60 * one_second"
definition one_hour :: int where "one_hour = 60 * one_minute"

text \<open>The verb \<open>%.1f\<close>: the nearest multiple of one tenth, ties to even.\<close>

fun fixed_tenth :: "float64 \<Rightarrow> string" where
  "fixed_tenth (Finite s m e) =
    (let t = div_nearest (10 * scale_num m (- e)) (scale_den 1 (- e))
     in (if s then ''-'' else []) @ nat_text (t div 10) @ ''.'' @ [digit_char (t mod 10)])"
| "fixed_tenth (Infinite s) = (if s then ''-Inf'' else ''+Inf'')"
| "fixed_tenth NaN = ''NaN''"

text \<open>\<open>Time.Sub\<close> keeps the difference inside 64 bits.\<close>

definition time_sub :: "time \<Rightarrow> time \<Rightarrow> int" where
  "time_sub a b = max min_int64 (min max_int64 (a - b))"

definition plural :: "int \<Rightarrow> string" where
  "plural n = (if n = 1 then [] else ''s'')"

text \<open>The loop of \<open>humanBytes\<close>: the size and the index of its unit.\<close>

function size_loop :: "float64 \<Rightarrow> int \<Rightarrow> float64 \<times> int" where
  "size_loop v index =
    (if v \<noteq> NaN \<and> \<not> float_less v (float_of_int 1024) \<and> index < 3
     then size_loop (float_divide v (float_of_int 1024)) (index + 1) else (v, index))"
  by pat_completeness auto
termination by (relation "measure (\<lambda>(v, index). nat (3 - index))") auto

declare size_loop.simps [simp del]

definition human_bytes :: "int \<Rightarrow> string" where
  "human_bytes v =
    (if v < 1024 then itoa v @ '' B''
     else case size_loop (float_of_int v) (-1) of
       (f, index) \<Rightarrow> fixed_tenth f @ '' '' @ ([''KiB'', ''MiB'', ''GiB'', ''TiB''] ! nat index))"

definition human_duration :: "int \<Rightarrow> string" where
  "human_duration d =
    (if 24 * one_hour \<le> d then
       (let days = float_trunc (float_divide (in_units d one_hour) (float_of_int 24)) in itoa days @ '' day'' @ plural days)
     else if one_hour \<le> d then
       (let hours = float_trunc (in_units d one_hour) in itoa hours @ '' hour'' @ plural hours)
     else if one_minute \<le> d then
       (let minutes = float_trunc (in_units d one_minute) in itoa minutes @ '' minute'' @ plural minutes)
     else fixed_tenth (in_units d one_second) @ '' seconds'')"

definition human_until :: "time \<Rightarrow> time \<Rightarrow> string" where
  "human_until instant now =
    (if instant = 0 then ''unknown''
     else let remaining = time_sub instant now
       in if remaining \<le> 0 then ''expired'' else ''in '' @ human_duration remaining)"

definition human_since :: "time \<Rightarrow> time \<Rightarrow> string" where
  "human_since instant now =
    (if instant = 0 then ''unknown''
     else let elapsed = time_sub now instant
       in if elapsed < one_minute then ''just now'' else human_duration elapsed @ '' ago'')"

subsection \<open>Labels\<close>

fun job_state_text :: "job_state \<Rightarrow> string" where
  "job_state_text JobPending = ''pending''"
| "job_state_text JobQueued = ''queued''"
| "job_state_text JobRunning = ''running''"
| "job_state_text JobCompleted = ''completed''"
| "job_state_text JobFailed = ''failed''"
| "job_state_text JobCanceled = ''canceled''"
| "job_state_text JobInterrupted = ''interrupted''"

fun file_state_text :: "file_state \<Rightarrow> string" where
  "file_state_text FileUploaded = ''uploaded''"
| "file_state_text FileInspected = ''inspected''"
| "file_state_text FileQueued = ''queued''"
| "file_state_text FileRunning = ''running''"
| "file_state_text FileCompleted = ''completed''"
| "file_state_text FileFailed = ''failed''"
| "file_state_text FileCanceled = ''canceled''"
| "file_state_text FileInterrupted = ''interrupted''"

fun job_state_label :: "job_state \<Rightarrow> string" where
  "job_state_label JobPending = ''Ready to convert''"
| "job_state_label JobQueued = ''Queued''"
| "job_state_label JobRunning = ''Converting''"
| "job_state_label JobCompleted = ''Completed''"
| "job_state_label JobFailed = ''Failed''"
| "job_state_label JobCanceled = ''Canceled''"
| "job_state_label JobInterrupted = ''Interrupted''"

definition job_badge_class :: "job_state \<Rightarrow> string" where
  "job_badge_class s =
    (case s of JobCompleted \<Rightarrow> ''badge--ok'' | JobFailed \<Rightarrow> ''badge--error'' | JobInterrupted \<Rightarrow> ''badge--error''
     | JobQueued \<Rightarrow> ''badge--busy'' | JobRunning \<Rightarrow> ''badge--busy'' | _ \<Rightarrow> [])"

fun file_state_label :: "file_state \<Rightarrow> string" where
  "file_state_label FileUploaded = ''Uploaded''"
| "file_state_label FileInspected = ''Ready''"
| "file_state_label FileQueued = ''Queued''"
| "file_state_label FileRunning = ''Converting''"
| "file_state_label FileCompleted = ''Converted''"
| "file_state_label FileFailed = ''Failed''"
| "file_state_label FileCanceled = ''Canceled''"
| "file_state_label FileInterrupted = ''Interrupted''"

definition file_badge_class :: "file_state \<Rightarrow> string" where
  "file_badge_class s =
    (case s of FileCompleted \<Rightarrow> ''badge--ok'' | FileFailed \<Rightarrow> ''badge--error'' | FileInterrupted \<Rightarrow> ''badge--error''
     | FileQueued \<Rightarrow> ''badge--busy'' | FileRunning \<Rightarrow> ''badge--busy'' | _ \<Rightarrow> [])"

definition file_state_shows_output_preview :: "file_state \<Rightarrow> bool" where
  "file_state_shows_output_preview s =
    (case s of FileInspected \<Rightarrow> True | FileQueued \<Rightarrow> True | FileRunning \<Rightarrow> True | _ \<Rightarrow> False)"

definition short_id :: "string \<Rightarrow> string" where
  "short_id i = (if length i \<le> 8 then i else take 8 i)"

definition job_title :: "manifest \<Rightarrow> string" where
  "job_title m =
    (case m_files m of
       [] \<Rightarrow> ''Empty job''
     | f # fs \<Rightarrow>
         let title = (if f_original_name f = [] then f_name f else f_original_name f)
         in if 1 < length (m_files m) then title @ '' + '' @ itoa (int (length (m_files m)) - 1) @ '' more'' else title)"

definition to_upper :: "(nat \<Rightarrow> nat) \<Rightarrow> string \<Rightarrow> string" where
  "to_upper up s = encode_runes (map (\<lambda>r. if lower_letter r then r - 32 else if r < 0x80 then r else up r) (runes s))"

definition friendly_format :: "(nat \<Rightarrow> nat) \<Rightarrow> string \<Rightarrow> string" where
  "friendly_format up format =
    (let first = hd (split_on (CHR '','') format); lowered = to_lower first
     in if lowered \<in> set [''jpeg'', ''mjpeg''] then ''JPEG''
        else if lowered = ''png'' then ''PNG''
        else if lowered = ''webp'' then ''WebP''
        else if lowered \<in> set [''heif'', ''heic''] then ''HEIF / HEIC''
        else if lowered = ''avif'' then ''AVIF''
        else if lowered \<in> set [''mov'', ''mp4'', ''m4a''] then ''QuickTime / MP4''
        else if lowered \<in> set [''matroska'', ''webm''] then ''Matroska / WebM''
        else to_upper up first)"

fun view_kind_text :: "media_kind \<Rightarrow> string" where
  "view_kind_text MediaImage = ''image''"
| "view_kind_text MediaAudio = ''audio''"
| "view_kind_text MediaVideo = ''video''"

text \<open>
  \<open>time.Duration(n) * time.Millisecond\<close> wraps around in 64 bits.
\<close>

definition wrap_int64 :: "int \<Rightarrow> int" where
  "wrap_int64 i = (i + 2 ^ 63) mod 2 ^ 64 - 2 ^ 63"

definition media_summary :: "(nat \<Rightarrow> nat) \<Rightarrow> detected_media \<Rightarrow> string" where
  "media_summary up d =
    (let parts = [trim_space (friendly_format up (dm_format d) @ '' '' @ view_kind_text (dm_kind d))];
         parts = (if 0 < dm_width d \<and> 0 < dm_height d then parts @ [itoa (dm_width d) @ ''x'' @ itoa (dm_height d)] else parts);
         parts = (if 0 < dm_duration_millis d then parts @ [human_duration (wrap_int64 (dm_duration_millis d * 1000000))] else parts)
     in hd parts @ concat (map (\<lambda>p. '', '' @ p) (tl parts)))"

subsection \<open>Operations\<close>

record option_view =
  ov_value :: string
  ov_label :: string
  ov_format :: string
  ov_description :: string
  ov_selected :: bool

definition operation_description :: "operation \<Rightarrow> string" where
  "operation_description op =
    (case op of
        OperationCompatiblePhoto \<Rightarrow> ''JPEG with lossy compression. Applies orientation and flattens transparency onto white.''
      | OperationEmailPhoto \<Rightarrow> ''JPEG fitted within a 1920-pixel longest edge at quality 85. Applies orientation, never ''
          @ ''upscales, and flattens transparency onto white. A smaller file is not guaranteed.''
      | OperationSmallerPhoto \<Rightarrow> ''WebP with stronger compression and supported transparency. A smaller file is not ''
          @ ''guaranteed.''
      | OperationLosslessImage \<Rightarrow> ''PNG preserves supported transparency and decoded sample precision. Color and ''
          @ ''orientation can change; capture metadata is removed. This is not an original-file copy.''
      | OperationCompatibleVideo \<Rightarrow> ''H.264 MP4 with selected audio converted to stereo AAC. Normalizes rotation; supported ''
          @ ''HDR becomes SDR. Extra tracks and subtitles are dropped.''
      | OperationSmallerVideo \<Rightarrow> ''H.264 MP4 fitted within 1280 x 720, with stronger compression and stereo AAC when ''
          @ ''supported audio is present. Supported HDR becomes SDR; extra tracks and subtitles are ''
          @ ''dropped. A smaller file is not guaranteed.''
      | OperationExtractAudio \<Rightarrow> ''M4A containing the selected audio track re-encoded to stereo 48 kHz AAC. This is not a ''
          @ ''bit-for-bit extraction; video is not included.''
      | OperationCompatibleAudio \<Rightarrow> ''MP3 re-encoded to stereo 48 kHz at 192 kb/s. This changes the audio and can reduce ''
          @ ''quality.''
      | OperationLosslessAudio \<Rightarrow> ''FLAC preserves the selected track'' @ [CHR 0x27] @ ''s channel count and sample rate. Floating-point and ''
          @ ''greater-than-24-bit PCM are unsupported. It cannot restore quality already lost.''
      | OtherOperation _ \<Rightarrow> [])"

definition operation_option :: "operation \<Rightarrow> option_view" where
  "operation_option op =
    (let o1 = \<lparr>ov_value = operation_text op, ov_label = operation_text op, ov_format = [], ov_description = [],
               ov_selected = False\<rparr>;
         o2 = (case lookup_spec op of
                 Some s \<Rightarrow> o1\<lparr>ov_label := sp_label s, ov_format := os_format_label (sp_output s)\<rparr>
               | None \<Rightarrow> o1)
     in o2\<lparr>ov_description := operation_description op\<rparr>)"

definition selected_or_recommended :: "job_file \<Rightarrow> operation" where
  "selected_or_recommended f = (if f_selected f \<noteq> no_operation then f_selected f else f_recommended f)"

subsection \<open>Stages\<close>

record job_stage_view =
  sg_label :: string
  sg_class :: string
  sg_current :: bool

text \<open>The stage a job is at and the stage it failed at, if any.\<close>

definition stage_position :: "job_state \<Rightarrow> bool \<Rightarrow> bool \<Rightarrow> int \<times> int" where
  "stage_position s has_outputs validation_failed =
    (if s = JobPending then (1, -1)
     else if job_active s then (2, -1)
     else if s = JobCompleted \<and> has_outputs then (4, -1)
     else if s = JobFailed \<and> validation_failed then (3, 3)
     else if s \<in> set [JobFailed, JobCanceled, JobInterrupted, JobCompleted] then (2, 2)
     else (0, -1))"

definition stage_view :: "int \<Rightarrow> int \<Rightarrow> int \<Rightarrow> string \<Rightarrow> job_stage_view" where
  "stage_view current failed index label =
    (if index < current then \<lparr>sg_label = label, sg_class = ''stage--complete'', sg_current = False\<rparr>
     else if index = failed then \<lparr>sg_label = label, sg_class = ''stage--error'', sg_current = True\<rparr>
     else if index = current then \<lparr>sg_label = label, sg_class = ''stage--current'', sg_current = True\<rparr>
     else \<lparr>sg_label = label, sg_class = ''stage--pending'', sg_current = False\<rparr>)"

definition job_stages :: "job_state \<Rightarrow> bool \<Rightarrow> bool \<Rightarrow> job_stage_view list" where
  "job_stages s has_outputs validation_failed =
    (case stage_position s has_outputs validation_failed of
       (current, failed) \<Rightarrow>
         map2 (stage_view current failed) [0..4] [''Inspect'', ''Configure'', ''Convert'', ''Validate'', ''Download''])"

subsection \<open>The view of a file\<close>

record file_view =
  fv_id :: string
  fv_name :: string
  fv_size_label :: string
  fv_state :: string
  fv_state_label :: string
  fv_badge_class :: string
  fv_media_summary :: string
  fv_can_select :: bool
  fv_can_remove :: bool
  fv_operation_help :: string
  fv_probe_format :: string
  fv_options :: "option_view list"
  fv_recommended_label :: string
  fv_selected_label :: string
  fv_operation_format :: string
  fv_show_output_preview :: bool
  fv_validation_label :: string
  fv_validation_summary :: string
  fv_validation_class :: string
  fv_execution_label :: string
  fv_warnings :: "string list"
  fv_error_message :: string
  fv_download_url :: string
  fv_output_name :: string
  fv_output_size_label :: string

definition issue_text :: "validation_issue \<Rightarrow> string" where
  "issue_text i =
    ''validation '' @ vi_code i @ '': expected '' @ vi_expected i @ '', observed '' @ vi_actual i"

text \<open>The label, the summary, the class and the warnings a validation report contributes.\<close>

definition validation_view :: "validation_result \<Rightarrow> string \<times> string \<times> string \<times> string list" where
  "validation_view v =
    (if vr_status v \<noteq> [] \<and> vr_status v \<noteq> ''not_run'' then
       (if vr_status v = ''passed''
        then (vr_status v, ''Output passed profile validation'', ''validation--ok'', map issue_text (vr_issues v))
        else (vr_status v,
              ''Output validation: '' @ map (\<lambda>c. if c = CHR ''_'' then CHR '' '' else c) (vr_status v),
              ''validation--error'', map issue_text (vr_issues v)))
     else ([], [], [], []))"

definition execution_label :: "job_file \<Rightarrow> string" where
  "execution_label f =
    (let x = f_execution f
     in if ex_final x \<noteq> [] then
          (if ex_initial x \<noteq> ex_final x \<or> f_fallback_reason f \<noteq> []
           then ex_initial x @ '' to '' @ ex_final x @ '' ('' @ f_fallback_reason f @ '')''
           else ex_final x)
        else [])"

definition build_file_view :: "(nat \<Rightarrow> nat) \<Rightarrow> string \<Rightarrow> string \<Rightarrow> job_file \<Rightarrow> file_view" where
  "build_file_view up base job_id f =
    (let selected = operation_option (selected_or_recommended f);
         (label, summary, class, issues) = validation_view (f_validation f);
         out = (if f_state f = FileCompleted then f_output f else None)
     in \<lparr>fv_id = f_id f,
         fv_name = (if f_original_name f = [] then f_name f else f_original_name f),
         fv_size_label = human_bytes (f_size f),
         fv_state = file_state_text (f_state f),
         fv_state_label = file_state_label (f_state f),
         fv_badge_class = file_badge_class (f_state f),
         fv_media_summary = (case f_media f of None \<Rightarrow> [] | Some d \<Rightarrow> media_summary up d),
         fv_can_select = (f_state f = FileInspected),
         fv_can_remove = False,
         fv_operation_help = ov_description selected,
         fv_probe_format = (case f_media f of None \<Rightarrow> [] | Some d \<Rightarrow> dm_format d),
         fv_options = map (\<lambda>op. (operation_option op)\<lparr>ov_selected := (op = selected_or_recommended f)\<rparr>) (f_compatible f),
         fv_recommended_label = (if f_recommended f \<noteq> no_operation then ov_label (operation_option (f_recommended f)) else []),
         fv_selected_label = (if f_selected f \<noteq> no_operation then ov_label (operation_option (f_selected f)) else []),
         fv_operation_format = ov_format selected,
         fv_show_output_preview = file_state_shows_output_preview (f_state f),
         fv_validation_label = label,
         fv_validation_summary = summary,
         fv_validation_class = class,
         fv_execution_label = execution_label f,
         fv_warnings = issues @ map wn_message (f_warnings f),
         fv_error_message = (case f_error f of None \<Rightarrow> [] | Some e \<Rightarrow> fl_message e),
         fv_download_url = (case out of None \<Rightarrow> [] | Some p \<Rightarrow> join_url base (''/jobs/'' @ job_id @ ''/files/'' @ f_id f)),
         fv_output_name = (case out of None \<Rightarrow> [] | Some p \<Rightarrow> op_name p),
         fv_output_size_label = (case out of None \<Rightarrow> [] | Some p \<Rightarrow> human_bytes (op_size p))\<rparr>)"

subsection \<open>The view of a job\<close>

record job_view =
  jv_id :: string
  jv_heading :: string
  jv_status_message :: string
  jv_completed_count :: int
  jv_finished_count :: int
  jv_short_id :: string
  jv_state :: string
  jv_state_label :: string
  jv_badge_class :: string
  jv_file_count :: int
  jv_total_bytes_label :: string
  jv_expires_label :: string
  jv_error_message :: string
  jv_poll :: bool
  jv_can_start :: bool
  jv_can_cancel :: bool
  jv_has_outputs :: bool
  jv_convertible_count :: int
  jv_files :: "file_view list"
  jv_batch_options :: "option_view list"
  jv_stages :: "job_stage_view list"

definition batch_options :: "manifest \<Rightarrow> option_view list" where
  "batch_options m =
    map (\<lambda>s. operation_option (sp_operation s))
      (filter (\<lambda>s. list_ex (\<lambda>f. f_state f = FileInspected \<and> contains_operation (f_compatible f) (sp_operation s)) (m_files m))
        all_specs)"

definition count_files :: "(job_file \<Rightarrow> bool) \<Rightarrow> manifest \<Rightarrow> int" where
  "count_files p m = int (length (filter p (m_files m)))"

definition has_output :: "job_file \<Rightarrow> bool" where
  "has_output f \<longleftrightarrow> f_state f = FileCompleted \<and> f_output f \<noteq> None"

text \<open>The heading and the message, by what the job can do.\<close>

definition job_heading :: "bool \<Rightarrow> bool \<Rightarrow> bool \<Rightarrow> int \<Rightarrow> int \<Rightarrow> int \<Rightarrow> string \<Rightarrow> string \<times> string" where
  "job_heading can_start poll has_outputs finished completed files label =
    (if can_start then
       (''Review your files'', ''Choose your outputs, then convert. You can remove files before starting.'')
     else if poll then
       (''Converting your files'',
        itoa finished @ '' of '' @ itoa files @ '' file'' @ plural files @ '' finished. '' @ label
          @ ''. You can return to this job while it runs.'')
     else if has_outputs then
       ((if completed < files then ''Some downloads are ready'' else ''Your downloads are ready''),
        itoa completed @ '' of '' @ itoa files @ '' file'' @ plural files
          @ '' converted. Download the results you want to keep before they expire.'')
     else (''This job needs your attention'',
        ''No downloads are available. Review the messages below and upload your originals again to retry.''))"

definition job_file_view :: "(nat \<Rightarrow> nat) \<Rightarrow> string \<Rightarrow> manifest \<Rightarrow> job_file \<Rightarrow> file_view" where
  "job_file_view up base m f =
    (let v = build_file_view up base (m_id m) f
     in v\<lparr>fv_can_remove := (m_state m = JobPending),
          fv_can_select := (fv_can_select v \<and> m_state m = JobPending)\<rparr>)"

definition build_job_view :: "(nat \<Rightarrow> nat) \<Rightarrow> string \<Rightarrow> manifest \<Rightarrow> time \<Rightarrow> job_view" where
  "build_job_view up base m now =
    (let convertible = count_files (\<lambda>f. f_state f = FileInspected) m;
         completed = count_files has_output m;
         finished = count_files (\<lambda>f. file_terminal (f_state f)) m;
         files = int (length (m_files m));
         has_outputs = 0 < completed;
         poll = job_active (m_state m);
         can_start = (m_state m = JobPending \<and> 0 < convertible);
         validation_failed = list_ex (\<lambda>f. vr_status (f_validation f) = ''failed'') (m_files m);
         (heading, message) =
           job_heading can_start poll has_outputs finished completed files (job_state_label (m_state m))
     in \<lparr>jv_id = m_id m, jv_heading = heading, jv_status_message = message,
         jv_completed_count = completed, jv_finished_count = finished,
         jv_short_id = short_id (m_id m),
         jv_state = job_state_text (m_state m),
         jv_state_label = job_state_label (m_state m),
         jv_badge_class = job_badge_class (m_state m),
         jv_file_count = files,
         jv_total_bytes_label = human_bytes (m_total_bytes m),
         jv_expires_label = human_until (m_expires_at m) now,
         jv_error_message = (case m_error m of None \<Rightarrow> [] | Some e \<Rightarrow> fl_message e),
         jv_poll = poll, jv_can_start = can_start, jv_can_cancel = job_active (m_state m),
         jv_has_outputs = has_outputs, jv_convertible_count = convertible,
         jv_files = map (job_file_view up base m) (m_files m),
         jv_batch_options = (if can_start then batch_options m else []),
         jv_stages = job_stages (m_state m) has_outputs validation_failed\<rparr>)"

record job_summary =
  su_id :: string
  su_title :: string
  su_short_id :: string
  su_state_label :: string
  su_badge_class :: string
  su_file_count :: int
  su_created_label :: string

definition job_summary_of :: "time \<Rightarrow> manifest \<Rightarrow> job_summary" where
  "job_summary_of now m =
    \<lparr>su_id = m_id m, su_title = job_title m, su_short_id = short_id (m_id m),
     su_state_label = job_state_label (m_state m), su_badge_class = job_badge_class (m_state m),
     su_file_count = int (length (m_files m)), su_created_label = human_since (m_created_at m) now\<rparr>"

text \<open>The recent jobs of the front page: the first ten of the listing.\<close>

definition recent_jobs :: "manifest list \<Rightarrow> time \<Rightarrow> job_summary list" where
  "recent_jobs ms now = map (job_summary_of now) (take 10 ms)"

subsection \<open>Lemmas\<close>

lemma count_files_pos [simp]: "0 < count_files p m \<longleftrightarrow> (\<exists>f\<in>set (m_files m). p f)"
  by (auto simp: count_files_def filter_empty_conv)

lemma count_files_state: "count_files (\<lambda>f. f_state f = s) m = int (count_state s (m_files m))"
  by (simp add: count_files_def count_state_def)

lemma contains_operation_set [simp]: "contains_operation ops op \<longleftrightarrow> op \<in> set ops"
  by (induction ops) auto

text \<open>Selections that every inspected file accepts are never refused.\<close>

lemma start_files_accepts:
  assumes "\<And>f op. f \<in> set fs \<Longrightarrow> f_state f = FileInspected \<Longrightarrow> sel (f_id f) = Some op \<Longrightarrow> op \<noteq> no_operation
    \<Longrightarrow> op \<in> set (f_compatible f)"
  shows "\<exists>gs. start_files sel fs = Inr (gs, count_state FileInspected fs)"
  using assms
proof (induction fs)
  case (Cons f fs)
  then obtain gs where gs: "start_files sel fs = Inr (gs, count_state FileInspected fs)" by auto
  show ?case
  proof (cases "f_state f = FileInspected \<and> sel (f_id f) \<noteq> None \<and> the (sel (f_id f)) \<noteq> no_operation")
    case True
    then have "the (sel (f_id f)) \<in> set (f_compatible f)" using Cons.prems [of f "the (sel (f_id f))"] by auto
    then show ?thesis using gs True by (simp add: count_state_def Let_def)
  next
    case False
    then show ?thesis using gs by (auto simp: count_state_def Let_def)
  qed
qed (simp add: count_state_def)

lemma start_change_accepts:
  assumes "m_state m = JobPending" and "f \<in> set (m_files m)" "f_state f = FileInspected"
    and "\<And>f op. f \<in> set (m_files m) \<Longrightarrow> f_state f = FileInspected \<Longrightarrow> sel (f_id f) = Some op \<Longrightarrow> op \<noteq> no_operation
      \<Longrightarrow> op \<in> set (f_compatible f)"
  shows "\<exists>m'. start_change sel False m = Inr m'"
proof -
  have "count_state FileInspected (m_files m) \<noteq> 0"
    using assms(2,3) by (auto simp: count_state_def filter_empty_conv)
  then show ?thesis using assms(1) start_files_accepts [of "m_files m" sel] assms(4) by (fastforce simp: start_change_def)
qed

lemma job_view_fields:
  "jv_can_start (build_job_view up base m now) \<longleftrightarrow> m_state m = JobPending \<and> (\<exists>f\<in>set (m_files m). f_state f = FileInspected)"
  "jv_files (build_job_view up base m now) = map (job_file_view up base m) (m_files m)"
  "jv_has_outputs (build_job_view up base m now) \<longleftrightarrow> completed_outputs m \<noteq> []"
  "jv_stages (build_job_view up base m now) = job_stages (m_state m) (jv_has_outputs (build_job_view up base m now))
     (list_ex (\<lambda>f. vr_status (f_validation f) = ''failed'') (m_files m))"
  by (simp_all add: build_job_view_def Let_def completed_outputs_def has_output_def filter_empty_conv split: prod.split)

lemma file_view_fields:
  "fv_can_select (job_file_view up base m f) \<longleftrightarrow> m_state m = JobPending \<and> f_state f = FileInspected"
  "map ov_value (fv_options (job_file_view up base m f)) = map operation_text (f_compatible f)"
  "fv_id (job_file_view up base m f) = f_id f"
  by (auto simp: job_file_view_def build_file_view_def Let_def operation_option_def split: prod.split option.split)

subsection \<open>Properties\<close>



text \<open>Exactly one stage of a job is the current one: those before it are complete, those after it pending, and it is marked as an
  error exactly when the job has ended without downloads or failed.\<close>

theorem one_current_stage:
  "\<exists>a c b. job_stages s has_outputs validation_failed = a @ c # b
    \<and> list_all (\<lambda>g. sg_class g = ''stage--complete'' \<and> \<not> sg_current g) a
    \<and> list_all (\<lambda>g. sg_class g = ''stage--pending'' \<and> \<not> sg_current g) b
    \<and> sg_current c \<and> sg_class c = (if job_terminal s \<and> \<not> (s = JobCompleted \<and> has_outputs) then ''stage--error'' else ''stage--current'')"
  by (rule exI [of _ "take (nat (fst (stage_position s has_outputs validation_failed))) (job_stages s has_outputs validation_failed)"],
      rule exI [of _ "job_stages s has_outputs validation_failed ! nat (fst (stage_position s has_outputs validation_failed))"],
      rule exI [of _ "drop (Suc (nat (fst (stage_position s has_outputs validation_failed)))) (job_stages s has_outputs validation_failed)"],
      cases s; cases has_outputs rule: bool.exhaust; cases validation_failed rule: bool.exhaust; hypsubst_thin; code_simp)

end
