(* ===== verification/Web_Handlers.thy ===== *)
theory Web_Handlers
  imports Web_View Remove_File Uploads
begin

text \<open>
  What the HTTP handlers answer, \<open>internal/web/handlers.go\<close>: the forms they read, the operation
  of the manager they call, the status and message of every outcome, and the two downloads with
  their headers, entry names and leases. A template is rendered from the view given with the
  response.
\<close>

subsection \<open>Responses\<close>

record web_app =
  wa_base :: string
  wa_upper :: "nat \<Rightarrow> nat"
  wa_root :: string
  wa_options :: options
  wa_min_free :: int

text \<open>
  A notice has a status, a class and a message; a fragment and a page show a job; a plain error
  is the one of \<open>http.Error\<close>.
\<close>

datatype response =
    Notice nat string string
  | Fragment nat job_view
  | Page nat "job_view option"
  | Redirect nat string
  | PlainError nat string

definition job_fragment :: "web_app \<Rightarrow> manifest \<Rightarrow> time \<Rightarrow> response" where
  "job_fragment a m now = Fragment 200 (build_job_view (wa_upper a) (wa_base a) m now)"

definition gone_notice :: response where
  "gone_notice = Notice 404 ''error'' ''This job is no longer available.''"

subsection \<open>Showing, starting, canceling and deleting\<close>

definition load_web_job :: "err option \<Rightarrow> string \<Rightarrow> mgr \<Rightarrow> manifest result" where
  "load_web_job re i s = (case validate_id i of Some e \<Rightarrow> Inl e | None \<Rightarrow> load_job re i s)"

definition handle_job_page :: "web_app \<Rightarrow> err option \<Rightarrow> string \<Rightarrow> time \<Rightarrow> mgr \<Rightarrow> response" where
  "handle_job_page a re i now s =
    (case load_web_job re i s of
       Inl e \<Rightarrow> Page 404 None
     | Inr m \<Rightarrow> Page 200 (Some (build_job_view (wa_upper a) (wa_base a) m now)))"

definition handle_job_status :: "web_app \<Rightarrow> err option \<Rightarrow> string \<Rightarrow> time \<Rightarrow> mgr \<Rightarrow> response" where
  "handle_job_status a re i now s =
    (case load_web_job re i s of
       Inl e \<Rightarrow> Notice 404 ''hint'' ''This job is no longer available.''
     | Inr m \<Rightarrow> job_fragment a m now)"

text \<open>
  \<open>parseSelections\<close>: the parsed form as an association list in the order the map is ranged over;
  \<open>None\<close> is a body that could not be read.
\<close>

fun select_operations :: "(string \<times> string list) list \<Rightarrow> (string \<rightharpoonup> operation) \<Rightarrow> (string \<rightharpoonup> operation) result" where
  "select_operations [] sel = Inr sel"
| "select_operations ((key, vs) # rest) sel =
    (if \<not> has_prefix key ''operation.'' \<or> vs = [] \<or> hd vs = [] then select_operations rest sel
     else let fid = trim_prefix key ''operation.''
       in if validate_file_id fid \<noteq> None then select_operations rest sel
          else case parse_operation (hd vs) of
            Inl e \<Rightarrow> Inl e
          | Inr op \<Rightarrow> select_operations rest (sel(fid \<mapsto> op)))"

definition parse_selections :: "(string \<times> string list) list result \<Rightarrow> (string \<rightharpoonup> operation) result" where
  "parse_selections form = (case form of Inl e \<Rightarrow> Inl e | Inr vs \<Rightarrow> select_operations vs Map.empty)"

definition start_failure :: "err \<Rightarrow> response" where
  "start_failure e =
    (if errors_is e ErrNotFound then gone_notice
     else if errors_is e ErrIncompatibleOperation then
       Notice 400 ''error'' ''The chosen operation is not compatible with the detected media.''
     else if errors_is e ErrNoConvertibleFiles then
       Notice 400 ''error'' ''None of the uploaded files supports a conversion operation.''
     else if errors_is e ErrNotStartable then Notice 409 ''error'' ''This job was already started.''
     else if errors_is e ErrQueueFull then
       Notice 503 ''error'' ''The conversion queue is full. Try again shortly.''
     else if errors_is e ErrShuttingDown then
       Notice 503 ''error'' ''The service is shutting down and is not starting new work.''
     else Notice 500 ''error'' ''The job could not be started.'')"

definition handle_start ::
  "web_app \<Rightarrow> io_env \<Rightarrow> (string \<times> string list) list result \<Rightarrow> string \<Rightarrow> time \<Rightarrow> mgr \<Rightarrow> response \<times> mgr" where
  "handle_start a io form i now s =
    (if validate_id i \<noteq> None then (gone_notice, s)
     else case parse_selections form of
       Inl e \<Rightarrow> (Notice 400 ''error'' ''The selected operations could not be read.'', s)
     | Inr sel \<Rightarrow> (case start_job io sel i s of
         (Inl e, s1) \<Rightarrow> (start_failure e, s1)
       | (Inr m, s1) \<Rightarrow> (job_fragment a m now, s1)))"

definition handle_cancel :: "web_app \<Rightarrow> io_env \<Rightarrow> string \<Rightarrow> time \<Rightarrow> mgr \<Rightarrow> response \<times> mgr" where
  "handle_cancel a io i now s =
    (if validate_id i \<noteq> None then (gone_notice, s)
     else case cancel_job io i s of
       (Inl e, s1) \<Rightarrow>
         (if errors_is e ErrNotFound then gone_notice
          else Notice 500 ''error'' ''The job could not be canceled.'', s1)
     | (Inr m, s1) \<Rightarrow> (job_fragment a m now, s1))"

text \<open>The answer to a deletion, from what \<open>Manager.Delete\<close> returned for a valid identifier.\<close>

definition handle_delete :: "string \<Rightarrow> err option \<Rightarrow> response" where
  "handle_delete i deleted =
    (if validate_id i \<noteq> None then Notice 404 ''hint'' ''This job is no longer available.''
     else case deleted of
       None \<Rightarrow> Notice 200 ''hint'' ''The job and all of its files were deleted.''
     | Some e \<Rightarrow>
         if errors_is e ErrNotFound then Notice 404 ''hint'' ''This job is no longer available.''
         else if errors_is e ErrLeased then
           Notice 409 ''error'' ''The job is still in use. Try again in a moment.''
         else Notice 500 ''error'' ''The job could not be deleted.'')"

definition remove_failure :: "err \<Rightarrow> response" where
  "remove_failure e =
    (if errors_is e ErrNotFound then
       Notice 404 ''error'' ''This file is no longer available. Reload the job to see its current files.''
     else if errors_is e ErrNotStartable then
       Notice 409 ''error''
         ''Files can only be removed before conversion starts. Reload the job to see its current status.''
     else if errors_is e ErrLeased then
       Notice 409 ''error'' ''The job is still in use. Try removing the file again in a moment.''
     else Notice 500 ''error'' ''The file could not be removed. Reload the job before trying again.'')"

definition handle_remove_file ::
  "web_app \<Rightarrow> remove_env \<Rightarrow> string \<Rightarrow> string \<Rightarrow> time \<Rightarrow> mgr \<Rightarrow> response \<times> mgr" where
  "handle_remove_file a env i fid now s =
    (if validate_id i \<noteq> None \<or> validate_file_id fid \<noteq> None
     then (Notice 404 ''error'' ''This file is no longer available.'', s)
     else case remove_file env (wa_root a) i fid s of
       (Inl e, s1) \<Rightarrow> (remove_failure e, s1)
     | (Inr None, s1) \<Rightarrow>
         (Notice 200 ''hint'' ''The last file was removed and the empty job was deleted.'', s1)
     | (Inr (Some m), s1) \<Rightarrow> (job_fragment a m now, s1))"

subsection \<open>Uploading\<close>

definition upload_framing_allowance :: int where
  "upload_framing_allowance = 16 * 2 ^ 20"

record upload_request =
  ur_media_type :: "string option"
  ur_content_length :: int
  ur_multipart :: bool
  ur_stalled :: bool
  ur_htmx :: bool

definition upload_body_limit :: "web_app \<Rightarrow> int" where
  "upload_body_limit a = wrap_int64 (o_max_upload (wa_options a) + upload_framing_allowance)"

text \<open>What is refused before the manager sees the stream.\<close>

definition upload_refused :: "web_app \<Rightarrow> upload_request \<Rightarrow> response option" where
  "upload_refused a rq =
    (if ur_media_type rq = None \<or> \<not> has_prefix (the (ur_media_type rq)) ''multipart/'' then
       Some (Notice 415 ''error'' ''The upload must be sent as a multipart form.'')
     else if 0 < ur_content_length rq \<and> upload_body_limit a < ur_content_length rq then
       Some (Notice 413 ''error'' (''The upload exceeds the '' @ human_bytes (o_max_upload (wa_options a)) @ '' limit.''))
     else if \<not> ur_multipart rq then
       Some (Notice 400 ''error'' ''The upload could not be read as a multipart stream.'')
     else None)"

definition upload_failure :: "err \<Rightarrow> int \<Rightarrow> int \<Rightarrow> nat \<times> string" where
  "upload_failure e max_size max_files =
    (if errors_is e ErrNoFiles then (400, ''Select at least one file before uploading.'')
     else if errors_is e ErrTooManyFiles then (413, ''Upload at most '' @ itoa max_files @ '' files in one job.'')
     else if errors_is e ErrUploadTooLarge then (413, ''The upload exceeds the '' @ human_bytes max_size @ '' limit.'')
     else if errors_is e ErrInsufficientSpace then (507, ''The server does not have enough free disk space.'')
     else if errors_is e ErrShuttingDown then
       (503, ''The service is shutting down and is not accepting uploads.'')
     else if errors_is e ErrInvalidUpload then (400, ''The upload was malformed and was discarded.'')
     else if errors_is e ErrUploadStalled then (408, ''The upload stopped making progress and was canceled.'')
     else if errors_is e ContextCanceled then (408, ''The upload was canceled.'')
     else (500, ''The upload could not be stored.''))"

text \<open>The answer once \<open>Manager.Accept\<close> has returned.\<close>

definition upload_answer :: "web_app \<Rightarrow> upload_request \<Rightarrow> manifest result \<Rightarrow> time \<Rightarrow> response" where
  "upload_answer a rq accepted now =
    (case accepted of
       Inl e \<Rightarrow>
         (case (if ur_stalled rq then (408, ''The upload stopped making progress and was canceled.'')
                else upload_failure e (o_max_upload (wa_options a)) (o_max_files (wa_options a))) of
            (status, message) \<Rightarrow> Notice status ''error'' message)
     | Inr m \<Rightarrow>
         if \<not> ur_htmx rq then Redirect 303 (join_url (wa_base a) (''/jobs/'' @ m_id m))
         else job_fragment a m now)"

definition handle_upload ::
  "web_app \<Rightarrow> upload_request \<Rightarrow> accept_env \<Rightarrow> time \<Rightarrow> mgr \<Rightarrow> (response \<times> mgr) option" where
  "handle_upload a rq env now s =
    (case upload_refused a rq of
       Some refused \<Rightarrow> Some (refused, s)
     | None \<Rightarrow> (case accept_upload (wa_options a) (wa_root a) env s of
         None \<Rightarrow> None
       | Some (accepted, s1) \<Rightarrow> Some (upload_answer a rq accepted now, s1)))"

subsection \<open>Attachments\<close>

definition hex_upper :: "nat \<Rightarrow> char" where
  "hex_upper n = (if n < 10 then char_of (48 + n) else char_of (55 + n))"

definition unreserved_byte :: "char \<Rightarrow> bool" where
  "unreserved_byte c \<longleftrightarrow>
    (let n = of_char c :: nat
     in lower_letter n \<or> upper_rune n \<or> digit_rune n \<or> n = 45 \<or> n = 46 \<or> n = 95 \<or> n = 126)"

definition encode_octet :: "char \<Rightarrow> string" where
  "encode_octet c =
    (if unreserved_byte c then [c]
     else let n = of_char c :: nat in [CHR ''%'', hex_upper (n div 16), hex_upper (n mod 16)])"

definition url_encode_path :: "string \<Rightarrow> string" where
  "url_encode_path v = concat (map encode_octet v)"

definition ascii_name :: "string \<Rightarrow> string" where
  "ascii_name name =
    encode_runes (map (\<lambda>r. if r < 0x20 \<or> 0x7E < r then 95 else if r \<in> set [34, 92, 59, 44] then 95 else r) (runes name))"

text \<open>The verb \<open>%q\<close> on printable ASCII text, which is what file names and identifiers have been reduced to here.\<close>

definition quoted_text :: "string \<Rightarrow> string" where
  "quoted_text s =
    CHR 0x22 # concat (map (\<lambda>c. if c = CHR 0x22 \<or> c = CHR 0x5C then [CHR 0x5C, c] else [c]) s) @ [CHR 0x22]"

definition content_disposition :: "string \<Rightarrow> string" where
  "content_disposition name =
    (let ascii = ascii_name name; ascii = (if ascii = [] then ''download'' else ascii)
     in ''attachment; filename='' @ quoted_text ascii @ ''; filename*=UTF-8'' @ [CHR 0x27, CHR 0x27] @ url_encode_path name)"

definition attachment_headers :: "string \<Rightarrow> string \<Rightarrow> (string \<times> string) list" where
  "attachment_headers mime filename =
    [(''Content-Type'', mime), (''X-Content-Type-Options'', ''nosniff''), (''Cache-Control'', ''no-store''),
     (''Content-Security-Policy'', ''default-src '' @ [CHR 0x27] @ ''none'' @ [CHR 0x27] @ ''; sandbox''),
     (''Content-Disposition'', content_disposition filename)]"

subsection \<open>Downloads\<close>

text \<open>
  What the system answers during a download: reading the manifest for the lease and again for
  the file, and opening and examining a path, with whether it is a regular file and its size.
  Between the lease and its release other operations may run, but none that removes the job.
\<close>

record serve_env =
  se_lease :: "err option"
  se_read :: "err option"
  se_stat :: "string \<Rightarrow> (bool \<times> int) result"

text \<open>The path and headers that are served, with the lease held; \<open>None\<close> is the answer 404.\<close>

definition download_file ::
  "web_app \<Rightarrow> serve_env \<Rightarrow> string \<Rightarrow> string \<Rightarrow> mgr \<Rightarrow> (string \<times> (string \<times> string) list) option \<times> mgr" where
  "download_file a env i fid s =
    (if validate_id i \<noteq> None \<or> validate_file_id fid \<noteq> None then (None, s)
     else case lease_job (se_lease env) i s of
       (Some e, s1) \<Rightarrow> (None, s1)
     | (None, s1) \<Rightarrow>
         (let fail = (None, release_lease i s1)
          in case load_job (se_read env) i s1 of Inl e \<Rightarrow> fail | Inr m \<Rightarrow>
             case file_by_id m fid of None \<Rightarrow> fail | Some f \<Rightarrow>
             if f_state f \<noteq> FileCompleted then fail
             else case f_output f of None \<Rightarrow> fail | Some out \<Rightarrow>
             case output_path (wa_root a) i f of Inl e \<Rightarrow> fail | Inr path \<Rightarrow>
             case se_stat env path of Inl e \<Rightarrow> fail | Inr (regular, bytes) \<Rightarrow>
               if \<not> regular then fail
               else (Some (path, attachment_headers (op_mime_type out) (op_name out)
                                   @ [(''Content-Length'', itoa bytes)]), s1)))"

text \<open>The checks of the archive: every output must be a regular file before anything is sent.\<close>

fun archive_paths :: "(string \<Rightarrow> (bool \<times> int) result) \<Rightarrow> string \<Rightarrow> string \<Rightarrow> job_file list \<Rightarrow> string list option" where
  "archive_paths stat data_dir i [] = Some []"
| "archive_paths stat data_dir i (f # fs) =
    (case output_path data_dir i f of Inl e \<Rightarrow> None | Inr path \<Rightarrow>
     case stat path of Inl e \<Rightarrow> None | Inr (regular, bytes) \<Rightarrow>
       if \<not> regular then None else map_option ((#) path) (archive_paths stat data_dir i fs))"

definition archive_entry_name :: "string \<Rightarrow> string \<Rightarrow> string" where
  "archive_entry_name name fallback =
    (let mapped = map (\<lambda>r. if r \<in> set [47, 92, 58] then 95 else r)
                    (filter (\<lambda>r. \<not> (r < 0x20 \<or> r = 0x7F)) (runes name));
         cleaned = trim_set (encode_runes mapped) ''. ''
     in if cleaned = [] then fallback else cleaned)"

text \<open>
  The loop over the outputs: the entries written in full, name and path, and whether all were. An entry
  that cannot be opened or copied ends the archive without its directory.
\<close>

fun append_entries ::
  "(string \<Rightarrow> err option) \<Rightarrow> string set option \<Rightarrow> (string \<times> job_file) list \<Rightarrow> (string \<times> string) list \<times> bool" where
  "append_entries copy taken [] = ([], True)"
| "append_entries copy taken ((path, f) # rest) =
    (case unique_file_name taken (archive_entry_name (op_name (the (f_output f))) (f_id f)) of
       None \<Rightarrow> ([], False)
     | Some (name, taken1) \<Rightarrow>
         if copy path \<noteq> None then ([], False)
         else case append_entries copy taken1 rest of (es, ok) \<Rightarrow> ((name, path) # es, ok))"

definition download_archive ::
  "web_app \<Rightarrow> serve_env \<Rightarrow> string \<Rightarrow> mgr
    \<Rightarrow> ((string \<times> job_file) list \<times> (string \<times> string) list) option \<times> mgr" where
  "download_archive a env i s =
    (if validate_id i \<noteq> None then (None, s)
     else case lease_job (se_lease env) i s of
       (Some e, s1) \<Rightarrow> (None, s1)
     | (None, s1) \<Rightarrow>
         (let fail = (None, release_lease i s1)
          in case load_job (se_read env) i s1 of Inl e \<Rightarrow> fail | Inr m \<Rightarrow>
             let outputs = completed_outputs m
             in if outputs = [] then fail
                else case archive_paths (se_stat env) (wa_root a) i outputs of None \<Rightarrow> fail | Some paths \<Rightarrow>
                  (Some (zip paths outputs,
                         attachment_headers ''application/zip'' (''filetwist-'' @ short_id i @ ''.zip'')), s1)))"

definition archive_stream :: "(string \<Rightarrow> err option) \<Rightarrow> (string \<times> job_file) list \<Rightarrow> (string \<times> string) list \<times> bool" where
  "archive_stream copy plan = append_entries copy (Some {}) plan"

subsection \<open>Health\<close>

definition handle_health :: "web_app \<Rightarrow> int result \<Rightarrow> mgr \<Rightarrow> nat \<times> string" where
  "handle_health a free s =
    (if \<not> g_accepting s then (503, ''unavailable'')
     else case free of
       Inl e \<Rightarrow> (503, ''unavailable'')
     | Inr n \<Rightarrow> if n < wa_min_free a then (503, ''unavailable'') else (200, ''ok''))"

subsection \<open>Characters of an encoded text\<close>

lemma of_char_bound [simp]: "(of_char c :: nat) < 256"
  using of_char_mod_256 [of c] by (metis mod_less_divisor zero_less_numeral)

lemma encode_rune_bytes:
  assumes "c \<in> set (encode_rune r)"
  shows "r < 0x80 \<and> c = char_of r \<or> 0x80 \<le> (of_char c :: nat)"
proof -
  consider "r < 0x80" | "0x80 \<le> r" "r < 0x800" | "0x800 \<le> r" "r < 0x10000" | "0x10000 \<le> r" "r < 0x110000" | "0x110000 \<le> r"
    by linarith
  then show ?thesis using assms by cases (auto simp: encode_rune_def split: if_splits)
qed

lemma encode_runes_bytes: "c \<in> set (encode_runes rs) \<Longrightarrow> (\<exists>r\<in>set rs. r < 0x80 \<and> c = char_of r) \<or> 0x80 \<le> (of_char c :: nat)"
  unfolding encode_runes_def using encode_rune_bytes by fastforce

definition hex_value :: "char \<Rightarrow> nat option" where
  "hex_value c =
    (let n = of_char c :: nat
     in if 48 \<le> n \<and> n \<le> 57 then Some (n - 48) else if 65 \<le> n \<and> n \<le> 70 then Some (n - 55) else None)"

text \<open>How a client reads the extended form back.\<close>

fun percent_decode :: "string \<Rightarrow> string option" where
  "percent_decode [] = Some []"
| "percent_decode (c # cs) =
    (if c \<noteq> CHR ''%'' then map_option ((#) c) (percent_decode cs)
     else case cs of
       a # b # ds \<Rightarrow> (case (hex_value a, hex_value b) of
           (Some x, Some y) \<Rightarrow> map_option ((#) (char_of (16 * x + y))) (percent_decode ds)
         | _ \<Rightarrow> None)
     | _ \<Rightarrow> None)"

lemma hex_value_upper [simp]: "n < 16 \<Longrightarrow> hex_value (hex_upper n) = Some n"
  by (auto simp: hex_value_def hex_upper_def Let_def)

lemma percent_decode_octet: "percent_decode (encode_octet c @ s) = map_option ((#) c) (percent_decode s)"
proof (cases "unreserved_byte c")
  case True
  then have "c \<noteq> CHR ''%''" by (auto simp: unreserved_byte_def lower_letter_def upper_rune_def digit_rune_def)
  then show ?thesis using True by (simp add: encode_octet_def)
next
  case False
  have "(of_char c :: nat) div 16 < 16" using of_char_bound [of c] by linarith
  moreover have "char_of (16 * (of_char c div 16) + of_char c mod 16 :: nat) = c" by (simp del: of_char_of)
  ultimately show ?thesis using False by (simp add: encode_octet_def Let_def)
qed

lemma url_round_trip: "percent_decode (url_encode_path v) = Some v"
  by (induction v) (simp_all add: url_encode_path_def percent_decode_octet)

lemma hex_upper_unreserved: "n < 16 \<Longrightarrow> unreserved_byte (hex_upper n)"
  by (auto simp: unreserved_byte_def hex_upper_def Let_def digit_rune_def upper_rune_def)

lemma url_encode_chars: "list_all (\<lambda>c. unreserved_byte c \<or> c = CHR ''%'') (url_encode_path v)"
proof -
  have "(of_char c :: nat) div 16 < 16" for c using of_char_bound [of c] by linarith
  then show ?thesis by (auto simp: url_encode_path_def list_all_iff encode_octet_def Let_def hex_upper_unreserved)
qed

definition header_safe :: "char \<Rightarrow> bool" where
  "header_safe c \<longleftrightarrow>
    (let n = of_char c :: nat in 0x20 \<le> n \<and> n \<le> 0x7E \<and> n \<notin> set [34, 92, 59, 44])"

lemma ascii_name_safe: "list_all header_safe (ascii_name name)"
proof -
  have "header_safe c" if c: "c \<in> set (ascii_name name)" for c
  proof -
    let ?f = "\<lambda>r. if r < 0x20 \<or> 0x7E < r then 95 else if r \<in> set [34, 92, 59, 44] then 95 else r :: nat"
    obtain r where "c \<in> set (encode_rune (?f r))" using c by (auto simp: ascii_name_def encode_runes_def)
    moreover have "?f r < 0x80" "0x20 \<le> ?f r" "?f r \<le> 0x7E" "?f r \<notin> set [34, 92, 59, 44]" by auto
    ultimately show ?thesis by (simp only: encode_rune_ascii) (simp add: header_safe_def Let_def)
  qed
  then show ?thesis by (simp add: list_all_iff)
qed

lemma quoted_safe: "list_all header_safe s \<Longrightarrow> quoted_text s = CHR 0x22 # s @ [CHR 0x22]"
proof -
  assume a: "list_all header_safe s"
  have "concat (map (\<lambda>c. if c = CHR 0x22 \<or> c = CHR 0x5C then [CHR 0x5C, c] else [c]) s) = s"
    using a by (induction s) (auto simp: header_safe_def Let_def)
  then show ?thesis by (simp add: quoted_text_def)
qed

subsection \<open>Names of archive entries\<close>

definition entry_safe :: "string \<Rightarrow> bool" where
  "entry_safe n \<longleftrightarrow>
    list_all (\<lambda>c. 0x20 \<le> (of_char c :: nat) \<and> c \<noteq> CHR 0x7F \<and> c \<noteq> slash \<and> c \<noteq> CHR 0x5C \<and> c \<noteq> CHR '':'') n"

lemma entry_safe_subset: "set a \<subseteq> set b \<Longrightarrow> entry_safe b \<Longrightarrow> entry_safe a"
  unfolding entry_safe_def list_all_iff by blast

lemma entry_char:
  assumes "0x20 \<le> (of_char c :: nat)" "(of_char c :: nat) \<notin> set [0x7F, 47, 92, 58]"
  shows "0x20 \<le> (of_char c :: nat) \<and> c \<noteq> CHR 0x7F \<and> c \<noteq> slash \<and> c \<noteq> CHR 0x5C \<and> c \<noteq> CHR '':''"
  using assms by (intro conjI notI) simp_all

lemma file_id_char:
  assumes "file_id_rune (of_char c)"
  shows "0x20 \<le> (of_char c :: nat) \<and> c \<noteq> CHR 0x7F \<and> c \<noteq> slash \<and> c \<noteq> CHR 0x5C \<and> c \<noteq> CHR '':'' \<and> c \<noteq> dot"
proof -
  define n :: nat where "n = of_char c"
  have n: "0x20 \<le> n \<and> n \<notin> set [0x7F, 47, 92, 58] \<and> n \<noteq> 46"
    using assms by (fold n_def) (auto simp: file_id_rune_def lower_letter_def digit_rune_def)
  then have "c \<noteq> dot" unfolding n_def by (intro notI) simp
  then show ?thesis using entry_char [of c] n unfolding n_def by blast
qed

lemma entry_plain: "entry_safe n \<Longrightarrow> n \<noteq> [] \<Longrightarrow> hd n \<noteq> dot \<Longrightarrow> plain_name n"
  unfolding entry_safe_def list_all_iff plain_name_def by (metis list.sel(1))

lemma file_id_entry:
  assumes "validate_file_id i = None"
  shows "plain_name i \<and> entry_safe i"
proof -
  have r: "i \<noteq> []" "list_all file_id_rune (runes i)" using assms by (auto simp: validate_file_id_def split: if_splits)
  have "list_all (\<lambda>c. file_id_rune (of_char c)) i"
    by (rule runes_low_bytes [OF r(2)]) (auto simp: file_id_rune_def lower_letter_def digit_rune_def)
  then have "\<forall>c\<in>set i. 0x20 \<le> (of_char c :: nat) \<and> c \<noteq> CHR 0x7F \<and> c \<noteq> slash \<and> c \<noteq> CHR 0x5C \<and> c \<noteq> CHR '':'' \<and> c \<noteq> dot"
    unfolding list_all_iff using file_id_char by blast
  then have "entry_safe i" "hd i \<noteq> dot" using r(1) unfolding entry_safe_def list_all_iff by (blast, simp)
  then show ?thesis using entry_plain r(1) by blast
qed

lemma archive_entry_name_safe:
  assumes "validate_file_id fb = None"
  shows "plain_name (archive_entry_name n fb) \<and> entry_safe (archive_entry_name n fb)"
proof -
  let ?rs = "map (\<lambda>r. if r \<in> set [47, 92, 58] then 95 else r) (filter (\<lambda>r. \<not> (r < 0x20 \<or> r = 0x7F)) (runes n))"
  let ?c = "trim_set (encode_runes ?rs) ''. ''"
  have rs: "\<forall>r\<in>set ?rs. 0x20 \<le> r \<and> r \<notin> set [0x7F, 47, 92, 58]" by auto
  have "entry_safe (encode_runes ?rs)"
    unfolding entry_safe_def list_all_iff
  proof (intro ballI)
    fix c assume "c \<in> set (encode_runes ?rs)"
    from encode_runes_bytes [OF this]
    show "0x20 \<le> (of_char c :: nat) \<and> c \<noteq> CHR 0x7F \<and> c \<noteq> slash \<and> c \<noteq> CHR 0x5C \<and> c \<noteq> CHR '':''"
    proof
      assume "\<exists>r\<in>set ?rs. r < 0x80 \<and> c = char_of r"
      then obtain r where r: "r \<in> set ?rs" "r < 0x80" "c = char_of r" by blast
      then have o: "of_char c = r" by simp
      have "0x20 \<le> r \<and> r \<notin> set [0x7F, 47, 92, 58]" using rs r(1) by blast
      then show ?thesis using entry_char [of c] o by blast
    next
      assume "0x80 \<le> (of_char c :: nat)"
      then have "0x20 \<le> (of_char c :: nat)" "(of_char c :: nat) \<notin> set [0x7F, 47, 92, 58]" by simp_all
      then show ?thesis by (rule entry_char)
    qed
  qed
  then have s: "entry_safe ?c" by (rule entry_safe_subset [OF set_trim_set])
  show ?thesis
  proof (cases "?c = []")
    case True
    then show ?thesis using file_id_entry [OF assms] by (simp add: archive_entry_name_def)
  next
    case False
    from hd_trim_set [OF this] have "hd ?c \<noteq> dot" by (simp only: list.set insert_iff de_Morgan_disj) simp
    then have "plain_name ?c" using False s entry_plain by blast
    then show ?thesis using s False by (simp add: archive_entry_name_def Let_def)
  qed
qed

lemma entry_safe_append [simp]: "entry_safe (a @ b) \<longleftrightarrow> entry_safe a \<and> entry_safe b"
  by (simp add: entry_safe_def)

lemma numbered_name_safe:
  assumes "entry_safe n"
  shows "entry_safe (numbered_name (trim_suffix n (file_ext n)) (file_ext n) k)"
proof -
  have "entry_safe (nat_text k)" using nat_text_digits by (fastforce simp: entry_safe_def list_all_iff digit_rune_def)
  moreover have "set (file_ext n) \<subseteq> set n"
    using set_after_last [of dot "after_last slash n"] set_after_last [of slash n] by (auto simp: file_ext_def Let_def)
  ultimately show ?thesis
    using assms entry_safe_subset [OF set_trim_suffix assms] entry_safe_subset [of "file_ext n" n]
    by (simp add: numbered_name_def) (simp add: entry_safe_def)
qed

lemma append_entries_safe:
  assumes "finite T" and "\<forall>x\<in>set plan. validate_file_id (f_id (snd x)) = None"
    and "append_entries copy (Some T) plan = (es, ok)"
  shows "distinct (map fst es) \<and> fst ` set es \<inter> T = {} \<and> (\<forall>e\<in>set es. plain_name (fst e) \<and> entry_safe (fst e))
    \<and> map snd es = take (length es) (map fst plan) \<and> (ok \<longleftrightarrow> length es = length plan)"
  using assms
proof (induction plan arbitrary: T es ok)
  case (Cons x plan)
  obtain path f where x: "x = (path, f)" by fastforce
  let ?n = "archive_entry_name (op_name (the (f_output f))) (f_id f)"
  have n: "plain_name ?n" "entry_safe ?n" using archive_entry_name_safe Cons.prems(2) x by auto
  obtain m where m: "unique_file_name (Some T) ?n = Some (m, Some (insert m T))" "m \<notin> T"
    using unique_file_name_spec [OF Cons.prems(1)] by blast
  have p: "plain_name m" by (rule unique_file_name_plain [OF n(1) m(1)]) (simp add: real_map_def Cons.prems(1))
  have "entry_safe m"
    using m(1) unique_loop_finds [OF Cons.prems(1), of 2 "trim_suffix ?n (file_ext ?n)" "file_ext ?n"] n(2)
      numbered_name_safe [OF n(2)]
    by (auto simp: unique_file_name_def Let_def split: if_splits)
  note m' = this p m
  show ?case
  proof (cases "copy path")
    case (Some e)
    then show ?thesis using Cons.prems(3) x m(1) by auto
  next
    case None
    obtain es' where es: "append_entries copy (Some (insert m T)) plan = (es', ok)" "es = (m, path) # es'"
      using Cons.prems(3) x m(1) None by (auto split: prod.splits)
    have "finite (insert m T)" "\<forall>x\<in>set plan. validate_file_id (f_id (snd x)) = None" using Cons.prems by auto
    from Cons.IH [OF this es(1)] show ?thesis using m' x es(2) by auto
  qed
qed auto

subsection \<open>Leases of a download\<close>

lemma lease_release [simp]: "release_lease i (acquire_lease i s) = s"
  by (simp add: release_lease_def acquire_lease_def)

lemma load_job_lease [simp]: "load_job re i (acquire_lease j s) = load_job re i s"
  by (simp add: load_job_def acquire_lease_def)

lemma leased_acquired [simp]: "leased i (acquire_lease i s)"
  by (simp add: leased_def acquire_lease_def)

lemma lease_job_cases:
  "lease_job re i s = (x, s1) \<Longrightarrow> s1 = (if x = None then acquire_lease i s else s)"
  by (auto simp: lease_job_def split: sum.splits)

text \<open>An output's path is the job's output directory, the file's directory and the last component of its name.\<close>

lemma served_path_parts:
  assumes "root_dir \<noteq> []" and "output_path root_dir i f = Inr p"
  shows "\<exists>out. f_output f = Some out
    \<and> path_parts p = path_parts root_dir @ [''jobs'', i, ''output'', f_id f, file_base (op_name out)] \<and> is_abs p = is_abs root_dir"
proof -
  obtain out d q where o: "f_output f = Some out" "output_dir_path root_dir i = Inr d" "resolve d (f_id f) = Inr q"
      "resolve q (file_base (op_name out)) = Inr p"
    using assms(2) by (auto simp: output_path_def split: option.splits sum.splits)
  obtain j where j: "job_dir_path root_dir i = Inr j" "d = join_path j ''output''"
    using o(2) by (auto simp: output_dir_path_def sub_dir_path_def split: sum.splits)
  note P = job_dir_parts [OF assms(1) j(1)]
  have out: "plain_name ''output''" by (simp add: plain_name_def)
  have d: "path_parts d = path_parts j @ [''output'']" "is_abs d = is_abs j"
    using clean_join_plain [OF _ out, of j] P j(2) by simp_all
  then have dn: "d \<noteq> []" by (auto simp: path_parts_def)
  note Q = resolve_Inr [OF dn, of "f_id f" q]
  have q: "path_parts q = path_parts d @ [f_id f]" "is_abs q = is_abs d"
    using Q o(3) clean_join_plain [OF dn, of "f_id f"] by simp_all
  then have qn: "q \<noteq> []" by (auto simp: path_parts_def)
  have "path_parts p = path_parts q @ [file_base (op_name out)]" "is_abs p = is_abs q"
    using resolve_Inr [OF qn, of "file_base (op_name out)" p] o(4) clean_join_plain [OF qn, of "file_base (op_name out)"]
    by simp_all
  then show ?thesis using P d q o(1) by simp
qed

lemma archive_paths_length: "archive_paths stat d i fs = Some ps \<Longrightarrow> length ps = length fs"
  by (induction fs arbitrary: ps) (auto split: sum.splits if_splits)

subsection \<open>Properties\<close>

text \<open>C40: The header of an attachment cannot be broken out of, whatever the stored name: the quoted part is not empty and holds
  printable ASCII without quote, backslash, semicolon and comma, and the extended part holds only unreserved characters and
  percent signs and reads back as exactly the original bytes.\<close>

theorem content_disposition_safe:
  "\<exists>ascii. content_disposition name = ''attachment; filename='' @ [CHR 0x22] @ ascii @ [CHR 0x22] @ ''; filename*=UTF-8''
        @ [CHR 0x27, CHR 0x27] @ url_encode_path name
    \<and> ascii \<noteq> [] \<and> list_all header_safe ascii
    \<and> list_all (\<lambda>c. unreserved_byte c \<or> c = CHR ''%'') (url_encode_path name)
    \<and> percent_decode (url_encode_path name) = Some name"
proof -
  define ascii where "ascii = (if ascii_name name = [] then ''download'' else ascii_name name)"
  have "list_all header_safe ascii" using ascii_name_safe [of name] unfolding ascii_def by (simp add: header_safe_def)
  then show ?thesis
    using quoted_safe [of ascii] url_encode_chars [of name] url_round_trip [of name]
    by (intro exI [of _ ascii]) (simp add: content_disposition_def Let_def ascii_def)
qed

text \<open>C12: A download serves only a completed output of the job, from that file's own directory below the job's output directory,
  as an opaque attachment, and holds a lease on the job while it does; every other request is answered
  404 and leaves the manager as it was.\<close>

theorem download_serves_completed_output:
  assumes "download_file a env i fid s = (r, s')" and "wa_root a \<noteq> []"
  shows "case r of
      None \<Rightarrow> s' = s
    | Some (path, headers) \<Rightarrow> leased i s' \<and> validate_id i = None \<and> validate_file_id fid = None
        \<and> (\<exists>m f out. load_job (se_read env) i s = Inr m \<and> file_by_id m fid = Some f
             \<and> f_state f = FileCompleted \<and> f_output f = Some out
             \<and> path_parts path = path_parts (wa_root a) @ [''jobs'', i, ''output'', fid, file_base (op_name out)]
             \<and> map_of headers ''Content-Disposition'' = Some (content_disposition (op_name out))
             \<and> map_of headers ''X-Content-Type-Options'' = Some ''nosniff'')"
proof (cases "validate_id i \<noteq> None \<or> validate_file_id fid \<noteq> None")
  case True
  then show ?thesis using assms(1) by (auto simp: download_file_def)
next
  case v: False
  obtain x s1 where l: "lease_job (se_lease env) i s = (x, s1)" by fastforce
  show ?thesis
  proof (cases x)
    case (Some e)
    then show ?thesis using assms(1) v l lease_job_cases [OF l] by (auto simp: download_file_def)
  next
    case None
    then have s1: "s1 = acquire_lease i s" using lease_job_cases [OF l] by simp
    show ?thesis
    proof (cases r)
      case r: None
      then show ?thesis using assms(1) v l None s1
        by (auto simp: download_file_def Let_def split: sum.splits option.splits if_splits)
    next
      case r: (Some ph)
      obtain path headers where ph: "ph = (path, headers)" by fastforce
      obtain m f out bytes where d: "load_job (se_read env) i s = Inr m" "file_by_id m fid = Some f"
          "f_state f = FileCompleted" "f_output f = Some out" "output_path (wa_root a) i f = Inr path"
          "headers = attachment_headers (op_mime_type out) (op_name out) @ [(''Content-Length'', itoa bytes)]" "s' = s1"
        using assms(1) v l None s1 r ph
        by (auto simp: download_file_def Let_def split: sum.splits option.splits if_splits)
      have "f_id f = fid" using d(2) index_of_file_Some by (auto simp: file_by_id_def)
      then have "path_parts path = path_parts (wa_root a) @ [''jobs'', i, ''output'', fid, file_base (op_name out)]"
        using served_path_parts [OF assms(2) d(5)] d(4) by auto
      then show ?thesis using r ph d v s1 by (simp add: attachment_headers_def)
    qed
  qed
qed


subsection \<open>A finished job\<close>

definition finished_file :: job_file where
  "finished_file = sample_file\<lparr>f_state := FileCompleted,
     f_output := Some \<lparr>op_name = ''a-compatible.jpg'', op_size = 7, op_mime_type = ''image/jpeg''\<rparr>\<rparr>"

definition finished_manager :: mgr where
  "finished_manager = sample_manager\<lparr>g_disk := [''AAECAwQFBgcICQoLDA0ODw'' \<mapsto>
     empty_dir\<lparr>jd_manifest := Some (Document (sample_manifest\<lparr>m_state := JobCompleted, m_files := [finished_file]\<rparr>))\<rparr>]\<rparr>"

definition sample_app :: web_app where
  "sample_app = \<lparr>wa_base = [], wa_upper = (\<lambda>r. r), wa_root = ''/data'',
     wa_options = \<lparr>o_store = True, o_converter = True, o_max_processes = 1, o_max_files = 5, o_max_upload = 100,
       o_min_free = 0, o_ttl = 10, o_timeout = 10, o_queue_depth = 1\<rparr>, wa_min_free = 0\<rparr>"

definition regular_files :: serve_env where
  "regular_files = \<lparr>se_lease = None, se_read = None, se_stat = (\<lambda>_. Inr (True, 7))\<rparr>"

lemma finished_load: "load_job None ''AAECAwQFBgcICQoLDA0ODw'' finished_manager
    = Inr (sample_manifest\<lparr>m_state := JobCompleted, m_files := [finished_file]\<rparr>)"
  by (simp add: load_job_def store_load_def sample_id_valid finished_manager_def sample_manifest_def new_manifest_def)

lemma finished_file_simps [simp]:
  "f_id finished_file = ''f001''" "f_state finished_file = FileCompleted"
  "f_output finished_file = Some \<lparr>op_name = ''a-compatible.jpg'', op_size = 7, op_mime_type = ''image/jpeg''\<rparr>"
  by (simp_all add: finished_file_def sample_file_def)

lemma finished_path: "output_path ''/data'' ''AAECAwQFBgcICQoLDA0ODw'' finished_file
    = Inr ''/data/jobs/AAECAwQFBgcICQoLDA0ODw/output/f001/a-compatible.jpg''"
proof -
  have d: "output_dir_path ''/data'' ''AAECAwQFBgcICQoLDA0ODw'' = Inr ''/data/jobs/AAECAwQFBgcICQoLDA0ODw/output''"
    by (simp add: output_dir_path_def sub_dir_path_def job_dir_path_def sample_id_valid join_path_def
        clean_path_def path_parts_def is_abs_def has_prefix_def render_path_def)
  have b: "file_base ''a-compatible.jpg'' = ''a-compatible.jpg''"
    by code_simp
  have q: "resolve ''/data/jobs/AAECAwQFBgcICQoLDA0ODw/output'' ''f001'' = Inr ''/data/jobs/AAECAwQFBgcICQoLDA0ODw/output/f001''"
    by (simp add: resolve_Inr plain_name_def join_path_def clean_path_def path_parts_def is_abs_def has_prefix_def render_path_def)
  have p: "resolve ''/data/jobs/AAECAwQFBgcICQoLDA0ODw/output/f001'' ''a-compatible.jpg''
      = Inr ''/data/jobs/AAECAwQFBgcICQoLDA0ODw/output/f001/a-compatible.jpg''"
    by (simp add: resolve_Inr plain_name_def join_path_def clean_path_def path_parts_def is_abs_def has_prefix_def render_path_def)
  show ?thesis by (simp add: output_path_def d b q p)
qed

lemma finished_lease: "lease_job None ''AAECAwQFBgcICQoLDA0ODw'' finished_manager
    = (None, acquire_lease ''AAECAwQFBgcICQoLDA0ODw'' finished_manager)"
  by (simp add: lease_job_def finished_load)

theorem download_serves_completed_output_witness:
  "\<exists>headers s'. download_file sample_app regular_files ''AAECAwQFBgcICQoLDA0ODw'' ''f001'' finished_manager
      = (Some (''/data/jobs/AAECAwQFBgcICQoLDA0ODw/output/f001/a-compatible.jpg'', headers), s')
    \<and> leased ''AAECAwQFBgcICQoLDA0ODw'' s' \<and> map_of headers ''X-Content-Type-Options'' = Some ''nosniff''"
proof -
  have fid: "validate_file_id ''f001'' = None" by code_simp
  obtain headers s' where d: "download_file sample_app regular_files ''AAECAwQFBgcICQoLDA0ODw'' ''f001'' finished_manager
      = (Some (''/data/jobs/AAECAwQFBgcICQoLDA0ODw/output/f001/a-compatible.jpg'', headers), s')"
    by (simp add: download_file_def sample_id_valid fid sample_app_def regular_files_def finished_lease finished_load
        file_by_id_def finished_path)
  have root: "wa_root sample_app \<noteq> []" by (simp add: sample_app_def)
  note t = download_serves_completed_output [OF d root, unfolded option.case prod.case]
  show ?thesis
  proof (intro exI conjI)
    show "leased ''AAECAwQFBgcICQoLDA0ODw'' s'" using t by (rule conjunct1)
    show "map_of headers ''X-Content-Type-Options'' = Some ''nosniff''" using t by (elim conjE exE)
  qed (rule d)
qed


end
