(* ===== verification/Web_Deadline.thy ===== *)
theory Web_Deadline
  imports Web_View
begin

text \<open>
  Bounding a stalled transfer, \<open>internal/web/deadline.go\<close>: the request body with its idle window and its
  throughput floor, the response writer with its idle window, and the unwrapping of writers.
  The clock and what the connection answers are part of each event.
\<close>

subsection \<open>Policy and errors\<close>

record deadline_policy =
  dp_read_stall :: int
  dp_write_stall :: int
  dp_min_rate :: int

definition is_timeout :: "err \<Rightarrow> bool" where
  "is_timeout e \<longleftrightarrow> errors_is e OsErrDeadlineExceeded \<or> errors_as as_net_timeout e = Some True"

text \<open>\<open>stallError\<close> is an error of the network interface that reports itself as a timeout.\<close>

definition stall_error :: err where
  "stall_error = NetError True"

subsection \<open>The request body\<close>

text \<open>\<open>db_deadline\<close> is the read deadline of the connection, once one was set; \<open>db_stalled\<close> the report.\<close>

record deadline_body =
  db_started :: time
  db_unsupported :: bool
  db_read :: int
  db_stalled :: bool
  db_deadline :: "time option"

definition new_body :: "time \<Rightarrow> deadline_body" where
  "new_body now = \<lparr>db_started = now, db_unsupported = False, db_read = 0, db_stalled = False, db_deadline = None\<rparr>"

text \<open>
  One read: the clock before it, the answer of setting the deadline, the bytes and error of the
  inner read, and the clock after it.
\<close>

record read_event =
  rd_now :: time
  rd_set :: "err option"
  rd_count :: int
  rd_error :: "err option"
  rd_after :: time

definition body_touch :: "deadline_policy \<Rightarrow> time \<Rightarrow> err option \<Rightarrow> deadline_body \<Rightarrow> deadline_body" where
  "body_touch p now set_error b =
    (if db_unsupported b then b
     else case set_error of
       Some e \<Rightarrow> b\<lparr>db_unsupported := True\<rparr>
     | None \<Rightarrow> b\<lparr>db_deadline := Some (now + dp_read_stall p)\<rparr>)"

text \<open>\<open>read >= elapsed * rate\<close> in \<open>float64\<close>.\<close>

definition rate_kept :: "deadline_policy \<Rightarrow> int \<Rightarrow> int \<Rightarrow> bool" where
  "rate_kept p bytes elapsed \<longleftrightarrow>
    (let needed = float_times (in_units elapsed one_second) (float_of_int (dp_min_rate p))
     in needed \<noteq> NaN \<and> \<not> float_less (float_of_int bytes) needed)"

definition check_rate :: "deadline_policy \<Rightarrow> time \<Rightarrow> deadline_body \<Rightarrow> err option" where
  "check_rate p now b =
    (if dp_min_rate p \<le> 0 then None
     else let elapsed = time_sub now (db_started b)
       in if elapsed \<le> dp_read_stall p then None
          else if rate_kept p (db_read b) elapsed then None
          else Some stall_error)"

definition body_read :: "deadline_policy \<Rightarrow> read_event \<Rightarrow> deadline_body \<Rightarrow> (int \<times> err option) \<times> deadline_body" where
  "body_read p ev b =
    (let b1 = body_touch p (rd_now ev) (rd_set ev) b;
         b2 = b1\<lparr>db_read := db_read b1 + rd_count ev\<rparr>
     in case rd_error ev of
       Some e \<Rightarrow> ((rd_count ev, Some e), if is_timeout e then b2\<lparr>db_stalled := True\<rparr> else b2)
     | None \<Rightarrow> (case check_rate p (rd_after ev) b2 of
         Some e \<Rightarrow> ((rd_count ev, Some e), b2\<lparr>db_stalled := True\<rparr>)
       | None \<Rightarrow> ((rd_count ev, None), b2)))"

text \<open>A request's reads, one after the other.\<close>

fun body_reads :: "deadline_policy \<Rightarrow> read_event list \<Rightarrow> deadline_body \<Rightarrow> (int \<times> err option) list \<times> deadline_body" where
  "body_reads p [] b = ([], b)"
| "body_reads p (ev # evs) b =
    (case body_read p ev b of (r, b1) \<Rightarrow> case body_reads p evs b1 of (rs, b2) \<Rightarrow> (r # rs, b2))"

subsection \<open>The response writer\<close>

record deadline_writer =
  dw_unsupported :: bool
  dw_deadline :: "time option"

definition writer_touch :: "deadline_policy \<Rightarrow> time \<Rightarrow> err option \<Rightarrow> deadline_writer \<Rightarrow> deadline_writer" where
  "writer_touch p now set_error w =
    (if dw_unsupported w then w
     else case set_error of
       Some e \<Rightarrow> w\<lparr>dw_unsupported := True\<rparr>
     | None \<Rightarrow> w\<lparr>dw_deadline := Some (now + dp_write_stall p)\<rparr>)"

definition writer_finish :: "deadline_policy \<Rightarrow> time \<Rightarrow> err option \<Rightarrow> deadline_writer \<Rightarrow> deadline_writer" where
  "writer_finish p now set_error w =
    (if dw_unsupported w then w
     else if set_error = None then w\<lparr>dw_deadline := Some (now + dp_write_stall p)\<rparr> else w)"

text \<open>
  What \<open>wrap\<close> installs around one request: the tracked body and the tracked writer. The write
  deadline an earlier request left on the connection is cleared first, so a new writer has none.
\<close>

definition new_writer :: deadline_writer where
  "new_writer = \<lparr>dw_unsupported = False, dw_deadline = None\<rparr>"

definition wrap_request :: "deadline_policy \<Rightarrow> bool \<Rightarrow> time \<Rightarrow> deadline_body option \<times> deadline_writer option" where
  "wrap_request p has_body now =
    (if dp_read_stall p \<le> 0 \<and> dp_write_stall p \<le> 0 then (None, None)
     else (if 0 < dp_read_stall p \<and> has_body then Some (new_body now) else None,
           if dp_write_stall p \<le> 0 then None else Some new_writer))"

definition request_stalled :: "deadline_body option \<Rightarrow> bool" where
  "request_stalled b \<longleftrightarrow> (case b of None \<Rightarrow> False | Some b \<Rightarrow> db_stalled b)"

text \<open>\<open>baseWriter\<close>: a writer is the server's own or wraps another one.\<close>

datatype 'w http_writer = ServerWriter 'w | WrappedWriter "'w http_writer"

fun base_writer :: "'w http_writer \<Rightarrow> 'w" where
  "base_writer (ServerWriter w) = w"
| "base_writer (WrappedWriter w) = base_writer w"

subsection \<open>Lemmas\<close>

lemma stall_error_timeout [simp]: "is_timeout stall_error"
  by (simp add: is_timeout_def stall_error_def errors_as_head)

lemma check_rate_timeout: "check_rate p now b = Some e \<Longrightarrow> is_timeout e"
  by (auto simp: check_rate_def Let_def split: if_splits)

lemma body_touch_simps [simp]:
  "db_started (body_touch p now x b) = db_started b" "db_read (body_touch p now x b) = db_read b"
  "db_stalled (body_touch p now x b) = db_stalled b"
  by (auto simp: body_touch_def split: option.splits)

text \<open>What one read leaves behind.\<close>

lemma body_touch_deadline:
  "db_unsupported (body_touch p now x b) \<or> db_deadline (body_touch p now x b) = Some (now + dp_read_stall p)"
  by (cases x) (simp_all add: body_touch_def)

lemma body_read_effect:
  assumes "body_read p ev b = ((n, x), b')"
  shows "n = rd_count ev \<and> db_read b' = db_read b + n \<and> db_started b' = db_started b
    \<and> (db_stalled b' \<longleftrightarrow> db_stalled b \<or> (\<exists>e. x = Some e \<and> is_timeout e))
    \<and> (db_unsupported b' \<or> db_deadline b' = Some (rd_now ev + dp_read_stall p))
    \<and> (x = None \<longrightarrow> check_rate p (rd_after ev) b' = None)"
proof -
  define b1 where "b1 = body_touch p (rd_now ev) (rd_set ev) b"
  define b2 where "b2 = b1\<lparr>db_read := db_read b1 + rd_count ev\<rparr>"
  have b2: "db_read b2 = db_read b + rd_count ev" "db_started b2 = db_started b" "db_stalled b2 = db_stalled b"
      "db_unsupported b2 \<or> db_deadline b2 = Some (rd_now ev + dp_read_stall p)"
    using body_touch_deadline by (simp_all add: b2_def b1_def)
  have eq: "body_read p ev b =
    (case rd_error ev of
       Some e \<Rightarrow> ((rd_count ev, Some e), if is_timeout e then b2\<lparr>db_stalled := True\<rparr> else b2)
     | None \<Rightarrow> (case check_rate p (rd_after ev) b2 of
         Some e \<Rightarrow> ((rd_count ev, Some e), b2\<lparr>db_stalled := True\<rparr>)
       | None \<Rightarrow> ((rd_count ev, None), b2)))"
    by (simp only: body_read_def Let_def b1_def b2_def)
  show ?thesis
  proof (cases "rd_error ev")
    case (Some e)
    then have "n = rd_count ev" "x = Some e" "b' = (if is_timeout e then b2\<lparr>db_stalled := True\<rparr> else b2)"
      using assms by (simp_all add: eq)
    then show ?thesis using b2 by (cases "is_timeout e") simp_all
  next
    case None
    show ?thesis
    proof (cases "check_rate p (rd_after ev) b2")
      case c: None
      then have "n = rd_count ev" "x = None" "b' = b2"
        using assms None by (simp_all add: eq)
      then show ?thesis using b2 c by simp
    next
      case (Some e)
      then have "n = rd_count ev" "x = Some e" "b' = b2\<lparr>db_stalled := True\<rparr>"
        using assms None by (simp_all add: eq)
      then show ?thesis using b2 check_rate_timeout [OF Some] by simp
    qed
  qed
qed

definition timed_out :: "int \<times> err option \<Rightarrow> bool" where
  "timed_out r \<longleftrightarrow> (case snd r of None \<Rightarrow> False | Some e \<Rightarrow> is_timeout e)"

lemma body_reads_effect:
  "body_reads p evs b = (rs, b') \<Longrightarrow>
    db_read b' = db_read b + sum_list (map fst rs) \<and> db_started b' = db_started b
    \<and> (db_stalled b' \<longleftrightarrow> db_stalled b \<or> list_ex timed_out rs) \<and> map fst rs = map rd_count evs"
proof (induction evs arbitrary: b rs)
  case (Cons ev evs)
  obtain n x b1 where r: "body_read p ev b = ((n, x), b1)" by (metis prod.collapse)
  obtain rs' where rs: "body_reads p evs b1 = (rs', b')" "rs = (n, x) # rs'"
    using Cons.prems r by (auto split: prod.splits)
  show ?case using Cons.IH [OF rs(1)] body_read_effect [OF r] rs(2) by (auto simp: timed_out_def split: option.splits)
qed simp

lemma body_reads_snoc:
  "body_reads p (evs @ [ev]) b =
    (case body_reads p evs b of (rs, b1) \<Rightarrow> case body_read p ev b1 of (r, b2) \<Rightarrow> (rs @ [r], b2))"
  by (induction evs arbitrary: b) (auto split: prod.splits)

subsection \<open>Properties\<close>

text \<open>C18: No upload can hold its connection by trickling: after every read that succeeded, the connection's deadline is one idle window
  after the start of that read (if the connection supports deadlines), and once the upload is older than the window it has
  delivered at least the required rate on average. The stall report is set exactly when some read ended in a timeout,
  the one of the throughput floor included.\<close>

theorem upload_reads_are_bounded:
  assumes "body_reads p (evs @ [ev]) (new_body start) = (rs, b)"
  shows "(db_stalled b \<longleftrightarrow> list_ex timed_out rs)
    \<and> db_read b = sum_list (map rd_count (evs @ [ev]))
    \<and> (db_unsupported b \<or> db_deadline b = Some (rd_now ev + dp_read_stall p))
    \<and> (snd (last rs) = None \<longrightarrow> dp_min_rate p \<le> 0 \<or> time_sub (rd_after ev) start \<le> dp_read_stall p
         \<or> rate_kept p (sum_list (map rd_count (evs @ [ev]))) (time_sub (rd_after ev) start))"
proof -
  obtain rs1 b1 where r1: "body_reads p evs (new_body start) = (rs1, b1)" by fastforce
  obtain n x where r: "body_read p ev b1 = ((n, x), b)" "rs = rs1 @ [(n, x)]"
    using assms r1 by (auto simp: body_reads_snoc split: prod.splits)
  have all: "db_read b = sum_list (map fst rs) \<and> db_started b = start \<and> (db_stalled b \<longleftrightarrow> list_ex timed_out rs)
      \<and> map fst rs = map rd_count (evs @ [ev])"
    using body_reads_effect [OF assms] by (simp add: new_body_def)
  then have s: "db_read b = sum_list (map rd_count (evs @ [ev]))" "db_started b = start"
      "db_stalled b \<longleftrightarrow> list_ex timed_out rs" by (metis, blast, blast)
  have "snd (last rs) = None \<Longrightarrow> check_rate p (rd_after ev) b = None" using body_read_effect [OF r(1)] r(2) by simp
  then have "snd (last rs) = None \<Longrightarrow> dp_min_rate p \<le> 0 \<or> time_sub (rd_after ev) start \<le> dp_read_stall p
         \<or> rate_kept p (sum_list (map rd_count (evs @ [ev]))) (time_sub (rd_after ev) start)"
    by (auto simp: check_rate_def Let_def s split: if_splits)
  then show ?thesis using body_read_effect [OF r(1)] s by blast
qed

theorem upload_reads_are_bounded_witness:
  "\<exists>rs b. body_reads \<lparr>dp_read_stall = 10, dp_write_stall = 10, dp_min_rate = 0\<rparr>
      [\<lparr>rd_now = 5, rd_set = None, rd_count = 3, rd_error = None, rd_after = 6\<rparr>,
       \<lparr>rd_now = 7, rd_set = None, rd_count = 0, rd_error = Some (Sentinel OsErrDeadlineExceeded), rd_after = 17\<rparr>]
      (new_body 5) = (rs, b)
    \<and> db_stalled b \<and> db_deadline b = Some 17 \<and> db_read b = 3"
proof -
  let ?p = "\<lparr>dp_read_stall = 10, dp_write_stall = 10, dp_min_rate = 0\<rparr>"
  let ?e1 = "\<lparr>rd_now = 5, rd_set = None, rd_count = 3, rd_error = None, rd_after = 6\<rparr>"
  let ?e2 = "\<lparr>rd_now = 7, rd_set = None, rd_count = 0, rd_error = Some (Sentinel OsErrDeadlineExceeded), rd_after = 17\<rparr>"
  obtain rs b where r: "body_reads ?p ([?e1] @ [?e2]) (new_body 5) = (rs, b)" by fastforce
  have "\<not> db_unsupported b" "list_ex timed_out rs"
    using r by (auto simp: body_read_def body_touch_def check_rate_def new_body_def timed_out_def is_timeout_def)
  then show ?thesis using upload_reads_are_bounded [OF r] r by auto
qed

end
