(* ===== verification/Spec2Isabelle.thy ===== *)
theory Spec2Isabelle
  imports Profiles File_Names Store Uploads Worker_Progress Local_Engines Web_Handlers Web_Deadline
begin

text \<open>
  Filetwist: a self-hosted image, audio and video converter written in Go. A browser uploads files to
  the web layer, the job manager stores them in a directory per job and starts the conversion
  the user picks, and an engine runs libvips or FFmpeg, checks the result and publishes it for
  download. The development models the Go code under \<open>src/internal\<close>, one theory per
  package or file.

  The parts and where they are modelled.

  \<^item> The language and its library. \<open>Prelude\<close> (runs of a relation, the locale
    \<open>invariant_system\<close>), \<open>Go_Strings\<close>, \<open>Go_Paths\<close>, \<open>Go_Numbers\<close>, \<open>Go_Text\<close>,
    \<open>Float64\<close> (IEEE doubles with one rounding for each operation), \<open>Go_Net\<close> (host, port, address and
    prefix), \<open>Go_Errors\<close> (error values as a tree, \<open>errors.Is\<close> and \<open>errors.As\<close>). A Go
    string is a list of bytes, an error is a value of \<open>err\<close>, and a function that can fail returns
    \<open>err + 'a\<close>. 64-bit integers are integers whose range is checked or wrapped where the code
    depends on it; the bit sets of the image package are machine words.
  \<^item> Profiles (\<open>profiles/profiles.go\<close>): theory \<open>Profiles\<close>; its locale \<open>profile_registry\<close>
    states what callers use of the table.
  \<^item> Job storage (\<open>jobs/storage\<close>): \<open>Manifest\<close> (states, identifiers), \<open>File_Names\<close> with the
    locale \<open>name_allocator\<close>, \<open>Store\<close> (the directory tree of a job as a record, every system
    call of a save with its possible failure) with the locale \<open>manifest_store\<close>.
  \<^item> The job manager (\<open>jobs/manager.go\<close>, \<open>logging.go\<close>, \<open>remove.go\<close>, \<open>upload.go\<close>).
    \<open>Transitions\<close> has the changes of one manifest, \<open>Manager\<close> the state of the manager
    and one function for each section of code that runs under a lock, \<open>Remove_File\<close> the removal with the
    disk after every write. \<open>Manager_Safety\<close> is the step relation \<open>mstep\<close> that interleaves
    these sections in any order with any outcome of the system, and its invariant, an
    interpretation of \<open>invariant_system\<close>. \<open>Uploads\<close> models the receipt of a multipart body and
    shows that \<open>Accept\<close> is a run of \<open>mstep\<close>; \<open>Worker_Progress\<close> shows that a worker
    ends the job it takes.
  \<^item> Running programs (\<open>runner\<close>, \<open>probe\<close>): \<open>Runner\<close> and \<open>Capability_Probe\<close>. A program is a
    function on the world, an argument of every model that runs one; \<open>File_Tree\<close> has the
    part of the world the code writes itself.
  \<^item> Audio and video (\<open>media\<close>): \<open>Media_Probe\<close> (reading ffprobe, stream selection, acceleration
    policy), \<open>Media_Plan\<close> (the command line and the contract of the output), \<open>Media_Validate\<close> (the check
    of the output, MP4 boxes, progress), \<open>Media_Convert\<close>, \<open>Media_VAAPI\<close>.
  \<^item> Images (\<open>imageconv\<close>): \<open>Image_Header\<close>, \<open>Image_Capability\<close>, \<open>Image_Plan\<close>,
    \<open>Image_Convert\<close>.
  \<^item> The conversion service (\<open>conversion\<close>): \<open>Conversion_Types\<close>, \<open>Conversion_Rules\<close> (error
    classification, which operations fit), \<open>Conversion_Report\<close>, \<open>Conversion_Service\<close>. The service
    calls two engines through an interface: \<open>Conversion_Contract\<close> states it as the locale
    \<open>engine_contract\<close> and proves the service against it, and \<open>Local_Engines\<close> interprets it
    with the engines of \<open>local.go\<close>, that is, with the models of the two packages above.
  \<^item> The fixture corpus (\<open>corpus\<close>): \<open>Corpus\<close>.
  \<^item> Configuration (\<open>config\<close>): \<open>Config\<close>.
  \<^item> The web layer (\<open>web\<close>): \<open>Web_Access\<close> (client address, diagnostics policy, URLs),
    \<open>Web_View\<close> (what a page shows and offers), \<open>Web_Handlers\<close> (the handlers over the operations of the
    manager, downloads and archives), \<open>Web_Deadline\<close> (stalled transfers).

  What is shown, by group. Jobs: an ended job never changes, a leased job is never removed, counters and
  reservations agree with what is held, every stored manifest is well formed, file states only move
  up, a worker brings every job to its end. Disk: a save is all or nothing, a removal is crash
  safe, a path never leaves its directory. Uploads: they refine the step relation, stay
  inside their reservation and give it back. Conversions: an output is published only after validation,
  nothing is ever replaced, the whole service changes no path but its output, command
  lines name one local input, images lose their private metadata. Web: what a page offers the
  manager accepts, a download serves completed outputs only, headers and archive names cannot be
  broken out of, diagnostics need a provable loopback client. Configuration: what loads is valid.

  Bounds and fuel. Recursion is structural or has a measure. \<open>unique_loop\<close> is a partial function whose
  return is proved for every finite set of names. \<open>run_worker\<close> has a number of sections as
  fuel; \<open>worker_finishes_job\<close> proves that \<open>5 n + 9\<close> suffice for \<open>n\<close> files. Waiting for a lease is
  a list of the events the wait saw.

  Not modelled, with the reason. JSON decoding and encoding, ffprobe, ffmpeg and vips, system calls,
  \<open>url.Parse\<close>, the table of MIME types and the tables of Unicode are arguments or their outcomes are:
  they are not code of this repository. The Go scheduler is present only through the interleaving of
  locked sections; \<open>RecoverInterrupted\<close> runs before the server listens and is not a step of
  \<open>mstep\<close>. Context cancellation and timeouts appear as outcomes. HTML templates, the router, static
  assets, the diagnostics payload and the two executables only assemble the modelled parts and the
  standard library.
\<close>

end
